(* ===== verification/C_Prelude.thy ===== *)
theory C_Prelude
  imports Main "HOL-Library.Word"
begin

text \<open>
  The vocabulary the components share: the widths of C integers, the byte order macros of
  \<^verbatim>\<open><netinet/in.h>\<close>, the part of \<^verbatim>\<open><string.h>\<close> and \<^verbatim>\<open><stdio.h>\<close> that the programs
  use on decimal numbers (the conversions \<^verbatim>\<open>%d\<close> and \<^verbatim>\<open>%u\<close> of printf, scanf and
  atoi), and the generic lemmas on loops that fill or scan an array by index.
  Nothing here models a file of the repository; these are the language and its library.
\<close>

unbundle bit_operations_syntax

type_synonym u8 = "8 word"
type_synonym u16 = "16 word"
type_synonym u32 = "32 word"
type_synonym bytes = "u8 list"

named_theorems fold_loop \<open>closed forms of for-loops over an index range\<close>

section \<open>Byte order\<close>

text \<open>
  \<^verbatim>\<open>htonl\<close>, \<^verbatim>\<open>ntohl\<close>, \<^verbatim>\<open>htons\<close> and \<^verbatim>\<open>ntohs\<close> on a little-endian host: a swap of
  the bytes of the word.
\<close>

definition htonl :: "u32 \<Rightarrow> u32" where
  "htonl x = (push_bit 24 x OR push_bit 8 (x AND 0xFF00)) OR
             ((drop_bit 8 x AND 0xFF00) OR drop_bit 24 x)"

definition ntohl :: "u32 \<Rightarrow> u32" where
  "ntohl x = htonl x"

definition htons :: "u16 \<Rightarrow> u16" where
  "htons x = push_bit 8 x OR drop_bit 8 x"

definition ntohs :: "u16 \<Rightarrow> u16" where
  "ntohs x = htons x"

lemma FF00_mask: "(0xFF00 :: u32) = push_bit 8 (mask 8)"
  by (simp add: mask_eq_exp_minus_1 push_bit_eq_mult)

lemma bit_htonl: "bit (htonl x) n \<longleftrightarrow>
   (if n < 8 then bit x (n + 24)
    else if n < 16 then bit x (n + 8)
    else if n < 24 then bit x (n - 8)
    else if n < 32 then bit x (n - 24) else False)"
proof -
  have "\<not> bit x m" if "32 \<le> m" for m
    using that bit_imp_le_length [of x m] by auto
  then show ?thesis
    unfolding htonl_def FF00_mask
    by (auto simp: bit_simps add.commute)
qed

lemma htonl_htonl [simp]: "htonl (htonl x) = x"
  by (rule bit_word_eqI) (auto simp: bit_htonl)

lemma ntohl_htonl [simp]: "ntohl (htonl x) = x"
  by (simp add: ntohl_def)

lemma htonl_ntohl [simp]: "htonl (ntohl x) = x"
  by (simp add: ntohl_def)

lemma htonl_eq_iff [simp]: "htonl x = htonl y \<longleftrightarrow> x = y"
  by (metis htonl_htonl)

lemma htons_htons [simp]: "htons (htons x) = x"
  by (rule bit_word_eqI) (auto simp: htons_def bit_simps dest: bit_imp_le_length)

lemma ntohs_htons [simp]: "ntohs (htons x) = x"
  by (simp add: ntohs_def)

text \<open>A 32-bit integer as it lies in memory, least significant byte first, and back.\<close>

definition int_bytes :: "u32 \<Rightarrow> bytes" where
  "int_bytes x = [ucast x, ucast (drop_bit 8 x), ucast (drop_bit 16 x), ucast (drop_bit 24 x)]"

definition bytes_int :: "bytes \<Rightarrow> u32" where
  "bytes_int b = ucast (b ! 0) OR push_bit 8 (ucast (b ! 1)) OR
                 push_bit 16 (ucast (b ! 2)) OR push_bit 24 (ucast (b ! 3))"

lemma length_int_bytes [simp]: "length (int_bytes x) = 4"
  by (simp add: int_bytes_def)

lemma bytes_int_int_bytes: "bytes_int (int_bytes x @ rest) = x"
proof (rule bit_word_eqI)
  fix n assume "n < LENGTH(32)"
  then consider "n < 8" | "8 \<le> n" "n < 16" | "16 \<le> n" "n < 24" | "24 \<le> n" "n < 32" by fastforce
  then show "bit (bytes_int (int_bytes x @ rest)) n = bit x n"
    by cases (auto simp: bytes_int_def int_bytes_def bit_simps)
qed

lemma bytes_int_int_bytes_alone [simp]: "bytes_int (int_bytes x) = x"
  using bytes_int_int_bytes [of x "[]"] by simp

lemma int_bytes_htonl: "int_bytes (htonl x) = rev (int_bytes x)"
  by (auto simp: int_bytes_def bit_htonl bit_simps add.commute intro!: bit_word_eqI)

lemma sint_of_int_u32: "- (2 ^ 31) \<le> i \<Longrightarrow> i < 2 ^ 31 \<Longrightarrow> sint (of_int i :: u32) = i"
  by (simp add: signed_of_int signed_take_bit_int_eq_self)

lemma uint_of_int_u8: "0 \<le> i \<Longrightarrow> i \<le> 255 \<Longrightarrow> uint (of_int i :: u8) = i"
  by (simp add: unsigned_of_int take_bit_int_eq_self)

section \<open>Loops over an array\<close>

text \<open>\<^verbatim>\<open>for (i = a; i < b; i++) arr[i] = f(i);\<close>\<close>

lemma fold_update_length [simp]: "length (fold (\<lambda>i xs. xs[i := f i]) is arr) = length arr"
  by (induction "is" arbitrary: arr) auto

lemma fold_update_nth [fold_loop]:
  "k < length arr \<Longrightarrow>
   fold (\<lambda>i xs. xs[i := f i]) [a..<b] arr ! k = (if a \<le> k \<and> k < b then f k else arr ! k)"
  by (induction b) (auto simp: less_Suc_eq nth_list_update_neq)

text \<open>A counter that a loop raises wherever the test holds.\<close>

lemma fold_count [fold_loop]:
  "fold (\<lambda>i c. if P i then c + (1::int) else c) xs c = c + int (length (filter P xs))"
  by (induction xs arbitrary: c) auto

text \<open>
  A loop that carries a second variable along, \<^verbatim>\<open>c = step(c)\<close> at the end of every turn:
  where the values of \<open>c\<close> are known as \<open>g 0, g 1, \<dots>\<close>, it is a loop over the index alone.
\<close>

lemma fold_pair_loop:
  assumes "\<And>k. k < n \<Longrightarrow> step (g k) = g (Suc k)"
  shows "fold (\<lambda>i (a, c). (h i c a, step c)) [m..<m + n] (a, g 0) =
         (fold (\<lambda>i a. h i (g (i - m)) a) [m..<m + n] a, g n)"
  using assms
proof (induction n)
  case (Suc n)
  have "[m..<m + Suc n] = [m..<m + n] @ [m + n]" by simp
  with Suc show ?case by (simp del: upt_Suc)
qed simp

lemma length_filter_single:
  assumes "j \<in> set xs" and "distinct xs" and "\<And>i. i \<in> set xs \<Longrightarrow> P i \<longleftrightarrow> i = j"
  shows "length (filter P xs) = 1"
proof -
  have "filter P xs = filter (\<lambda>i. i = j) xs"
    using assms(3) by (intro filter_cong) auto
  also have "\<dots> = [j]"
    using assms(1,2) by (induction xs) (auto simp: filter_empty_conv)
  finally show ?thesis by simp
qed

section \<open>Decimal numbers in strings\<close>

definition digit_char :: "nat \<Rightarrow> char" where
  "digit_char d = char_of (48 + d)"

definition is_digit :: "char \<Rightarrow> bool" where
  "is_digit c \<longleftrightarrow> 48 \<le> (of_char c :: nat) \<and> (of_char c :: nat) \<le> 57"

definition digit_val :: "char \<Rightarrow> nat" where
  "digit_val c = of_char c - 48"

text \<open>\<^verbatim>\<open>%u\<close> and \<^verbatim>\<open>%d\<close> of printf.\<close>

fun show_nat :: "nat \<Rightarrow> string" where
  "show_nat n = (if n < 10 then [digit_char n]
                 else show_nat (n div 10) @ [digit_char (n mod 10)])"

declare show_nat.simps [simp del]

definition show_int :: "int \<Rightarrow> string" where
  "show_int i = (if i < 0 then CHR ''-'' # show_nat (nat (- i)) else show_nat (nat i))"

text \<open>
  \<^verbatim>\<open>%d\<close> of scanf: white space is skipped, a sign is optional, then as many digits as there
  are. \<open>None\<close> is a conversion that fails, which leaves the variable as it was.
\<close>

definition is_space :: "char \<Rightarrow> bool" where
  "is_space c \<longleftrightarrow> c = CHR '' '' \<or> (9 \<le> (of_char c :: nat) \<and> (of_char c :: nat) \<le> 13)"

fun scan_digits :: "nat \<Rightarrow> string \<Rightarrow> nat \<times> string" where
  "scan_digits n [] = (n, [])"
| "scan_digits n (c # cs) =
     (if is_digit c then scan_digits (10 * n + digit_val c) cs else (n, c # cs))"

definition scan_nat :: "string \<Rightarrow> (nat \<times> string) option" where
  "scan_nat s = (case s of [] \<Rightarrow> None
                 | c # cs \<Rightarrow> if is_digit c then Some (scan_digits 0 s) else None)"

definition scan_int :: "string \<Rightarrow> (int \<times> string) option" where
  "scan_int s0 =
     (let s = dropWhile is_space s0 in
      case s of [] \<Rightarrow> None
      | c # cs \<Rightarrow>
          if c = CHR ''-'' then map_option (\<lambda>(n, r). (- int n, r)) (scan_nat cs)
          else if c = CHR ''+'' then map_option (\<lambda>(n, r). (int n, r)) (scan_nat cs)
          else map_option (\<lambda>(n, r). (int n, r)) (scan_nat s))"

definition atoi :: "string \<Rightarrow> int" where
  "atoi s = (case scan_int s of None \<Rightarrow> 0 | Some (i, _) \<Rightarrow> i)"

text \<open>\<^verbatim>\<open>strchr\<close>: the rest of the string from the first occurrence on, \<open>None\<close> for NULL.\<close>

definition strchr :: "string \<Rightarrow> char \<Rightarrow> string option" where
  "strchr s c = (case dropWhile (\<lambda>x. x \<noteq> c) s of [] \<Rightarrow> None | r \<Rightarrow> Some r)"

definition no_digit_head :: "string \<Rightarrow> bool" where
  "no_digit_head s \<longleftrightarrow> (case s of [] \<Rightarrow> True | c # _ \<Rightarrow> \<not> is_digit c)"

lemma no_digit_head_simps [simp]:
  "no_digit_head []" "no_digit_head (c # cs) \<longleftrightarrow> \<not> is_digit c"
  by (simp_all add: no_digit_head_def)

lemma digit_char_props [simp]:
  assumes "d < 10"
  shows "is_digit (digit_char d)" and "digit_val (digit_char d) = d"
  using assms by (simp_all add: is_digit_def digit_val_def digit_char_def of_char_of take_bit_eq_mod)

lemma is_digit_space [simp]: "is_digit c \<Longrightarrow> \<not> is_space c"
  by (auto simp: is_digit_def is_space_def)

lemma is_digit_sign [simp]: "\<not> is_digit CHR ''-''" "\<not> is_digit CHR ''+''" "\<not> is_digit CHR '' ''"
  by (simp_all add: is_digit_def)

lemma show_nat_digits: "\<forall>c \<in> set (show_nat n). is_digit c"
proof (induction n rule: show_nat.induct)
  case (1 n)
  then show ?case
    by (subst show_nat.simps) auto
qed

lemma show_nat_nonempty [simp]: "show_nat n \<noteq> []"
  by (subst show_nat.simps) simp

lemma scan_digits_append:
  "\<forall>c \<in> set ds. is_digit c \<Longrightarrow>
   scan_digits n (ds @ r) = scan_digits (fst (scan_digits n ds)) r"
  by (induction ds arbitrary: n) auto

lemma fst_scan_digits_snoc:
  assumes "\<forall>c \<in> set ds. is_digit c" and "is_digit d"
  shows "fst (scan_digits n (ds @ [d])) = 10 * fst (scan_digits n ds) + digit_val d"
  using assms by (simp add: scan_digits_append)

lemma fst_scan_digits_show_nat: "fst (scan_digits 0 (show_nat n)) = n"
proof (induction n rule: show_nat.induct)
  case (1 n)
  show ?case
  proof (cases "n < 10")
    case True
    then show ?thesis by (subst show_nat.simps) simp
  next
    case False
    then have "show_nat n = show_nat (n div 10) @ [digit_char (n mod 10)]"
      by (subst show_nat.simps) simp
    with 1 False show ?thesis
      by (simp add: fst_scan_digits_snoc show_nat_digits)
  qed
qed

lemma scan_digits_stop: "no_digit_head r \<Longrightarrow> scan_digits n r = (n, r)"
  by (cases r) auto

text \<open>Reading back what printf wrote.\<close>

lemma scan_nat_show_nat:
  assumes "no_digit_head r"
  shows "scan_nat (show_nat n @ r) = Some (n, r)"
proof -
  obtain c cs where cs: "show_nat n = c # cs"
    using show_nat_nonempty [of n] by (cases "show_nat n") auto
  have "is_digit c"
    using show_nat_digits [of n] cs by simp
  moreover have "scan_digits 0 (show_nat n @ r) = (n, r)"
    by (simp add: scan_digits_append show_nat_digits fst_scan_digits_show_nat
        scan_digits_stop [OF assms])
  ultimately show ?thesis
    by (simp add: scan_nat_def cs)
qed

lemma show_nat_Cons: obtains c cs where "show_nat n = c # cs" and "is_digit c"
  using show_nat_digits [of n] show_nat_nonempty [of n] by (cases "show_nat n") auto

lemma scan_int_show_int [simp]:
  assumes "no_digit_head r"
  shows "scan_int (show_int i @ r) = Some (i, r)"
proof (cases "i < 0")
  case True
  then show ?thesis
    using scan_nat_show_nat [OF assms, of "nat (- i)"]
    by (simp add: scan_int_def show_int_def is_space_def)
next
  case False
  obtain c cs where cs: "show_nat (nat i) = c # cs" "is_digit c"
    by (rule show_nat_Cons)
  then have "c \<noteq> CHR ''-''" "c \<noteq> CHR ''+''"
    by (auto simp: is_digit_def)
  then show ?thesis
    using scan_nat_show_nat [OF assms, of "nat i"] cs False
    by (simp add: scan_int_def show_int_def)
qed

lemma scan_int_space [simp]: "is_space c \<Longrightarrow> scan_int (c # s) = scan_int s"
  by (simp add: scan_int_def)

lemma is_space_blank [simp]: "is_space CHR '' ''"
  by (simp add: is_space_def)

lemma atoi_show_int [simp]: "atoi (show_int i) = i"
  using scan_int_show_int [of "[]" i] by (simp add: atoi_def)

lemma show_int_inj [simp]: "show_int i = show_int j \<longleftrightarrow> i = j"
  by (metis atoi_show_int)

lemma show_int_chars: "c \<in> set (show_int i) \<Longrightarrow> is_digit c \<or> c = CHR ''-''"
  using show_nat_digits by (auto simp: show_int_def split: if_splits)

text \<open>How many characters a number takes.\<close>

lemma length_show_nat: "n < 10 ^ k \<Longrightarrow> 0 < k \<Longrightarrow> length (show_nat n) \<le> k"
proof (induction n arbitrary: k rule: show_nat.induct)
  case (1 n)
  show ?case
  proof (cases "n < 10")
    case True
    with 1 show ?thesis by (subst show_nat.simps) simp
  next
    case False
    then obtain m where k: "k = Suc m" "0 < m"
      using "1.prems" by (cases k; cases "k - 1") auto
    with "1.prems" have "n div 10 < 10 ^ m" by auto
    with "1.IH" False k have "length (show_nat (n div 10)) \<le> m" by simp
    with False k show ?thesis by (subst show_nat.simps) simp
  qed
qed

lemma length_show_int_nat: "0 \<le> i \<Longrightarrow> i < 10 ^ k \<Longrightarrow> 0 < k \<Longrightarrow> length (show_int i) \<le> k"
proof -
  assume i: "0 \<le> i" "i < 10 ^ k" "0 < k"
  then have "nat i < 10 ^ k"
    by (metis nat_int nat_less_eq_zless of_nat_numeral of_nat_power)
  with i show ?thesis using length_show_nat [of "nat i" k] by (simp add: show_int_def)
qed

end
