(* ===== verification/Tipc_Types.thy ===== *)
theory Tipc_Types
  imports C_Prelude
begin

text \<open>
  The TIPC socket interface as \<^verbatim>\<open>src/tipclog/tipc.h\<close> declares it: network addresses
  \<^verbatim>\<open><zone.cluster.node>\<close> packed into 32 bits, socket addresses, subscriptions and events.

  The union of \<^verbatim>\<open>struct sockaddr_tipc\<close> is kept as the three 32-bit words it occupies, so
  that a field written through one member and read through another has the value it has in
  C: \<^verbatim>\<open>addr.id = (ref, node)\<close>, \<^verbatim>\<open>addr.nameseq = (type, lower, upper)\<close> and
  \<^verbatim>\<open>addr.name = ((type, instance), domain)\<close> all start at word 0.
\<close>

section \<open>Constants of the interface\<close>

abbreviation (input) AF_TIPC :: "'a::numeral" where "AF_TIPC \<equiv> 30"
abbreviation (input) SOL_TIPC :: "'a::numeral" where "SOL_TIPC \<equiv> 271"

abbreviation (input) TIPC_CFG_SRV :: "'a::zero" where "TIPC_CFG_SRV \<equiv> 0"
abbreviation (input) TIPC_TOP_SRV :: "'a::one" where "TIPC_TOP_SRV \<equiv> 1"
abbreviation (input) TIPC_LINK_STATE :: "'a::numeral" where "TIPC_LINK_STATE \<equiv> 2"

abbreviation (input) TIPC_ZONE_SCOPE :: "'a::one" where "TIPC_ZONE_SCOPE \<equiv> 1"
abbreviation (input) TIPC_CLUSTER_SCOPE :: "'a::numeral" where "TIPC_CLUSTER_SCOPE \<equiv> 2"
abbreviation (input) TIPC_NODE_SCOPE :: "'a::numeral" where "TIPC_NODE_SCOPE \<equiv> 3"

abbreviation (input) TIPC_LOW_IMPORTANCE :: "'a::zero" where "TIPC_LOW_IMPORTANCE \<equiv> 0"
abbreviation (input) TIPC_CRITICAL_IMPORTANCE :: "'a::numeral" where
  "TIPC_CRITICAL_IMPORTANCE \<equiv> 3"

abbreviation (input) TIPC_ERR_NO_PORT :: "'a::numeral" where "TIPC_ERR_NO_PORT \<equiv> 2"

abbreviation (input) TIPC_SUB_PORTS :: "'a::one" where "TIPC_SUB_PORTS \<equiv> 1"
abbreviation (input) TIPC_SUB_SERVICE :: "'a::numeral" where "TIPC_SUB_SERVICE \<equiv> 2"
abbreviation (input) TIPC_WAIT_FOREVER :: u32 where "TIPC_WAIT_FOREVER \<equiv> NOT 0"

abbreviation (input) TIPC_PUBLISHED :: "'a::one" where "TIPC_PUBLISHED \<equiv> 1"
abbreviation (input) TIPC_WITHDRAWN :: "'a::numeral" where "TIPC_WITHDRAWN \<equiv> 2"
abbreviation (input) TIPC_SUBSCR_TIMEOUT :: "'a::numeral" where "TIPC_SUBSCR_TIMEOUT \<equiv> 3"

abbreviation (input) TIPC_ADDR_NAMESEQ :: "'a::one" where "TIPC_ADDR_NAMESEQ \<equiv> 1"
abbreviation (input) TIPC_ADDR_MCAST :: "'a::one" where "TIPC_ADDR_MCAST \<equiv> 1"
abbreviation (input) TIPC_ADDR_NAME :: "'a::numeral" where "TIPC_ADDR_NAME \<equiv> 2"
abbreviation (input) TIPC_ADDR_ID :: "'a::numeral" where "TIPC_ADDR_ID \<equiv> 3"

abbreviation (input) TIPC_ERRINFO :: "'a::one" where "TIPC_ERRINFO \<equiv> 1"
abbreviation (input) TIPC_RETDATA :: "'a::numeral" where "TIPC_RETDATA \<equiv> 2"
abbreviation (input) TIPC_DESTNAME :: "'a::numeral" where "TIPC_DESTNAME \<equiv> 3"

abbreviation (input) TIPC_IMPORTANCE :: int where "TIPC_IMPORTANCE \<equiv> 127"
abbreviation (input) TIPC_SRC_DROPPABLE :: int where "TIPC_SRC_DROPPABLE \<equiv> 128"
abbreviation (input) TIPC_DEST_DROPPABLE :: int where "TIPC_DEST_DROPPABLE \<equiv> 129"
abbreviation (input) TIPC_CONN_TIMEOUT :: int where "TIPC_CONN_TIMEOUT \<equiv> 130"

text \<open>Socket types of \<^verbatim>\<open><sys/socket.h>\<close> on Linux.\<close>

abbreviation (input) SOCK_STREAM :: int where "SOCK_STREAM \<equiv> 1"
abbreviation (input) SOCK_DGRAM :: int where "SOCK_DGRAM \<equiv> 2"
abbreviation (input) SOCK_RDM :: int where "SOCK_RDM \<equiv> 4"
abbreviation (input) SOCK_SEQPACKET :: int where "SOCK_SEQPACKET \<equiv> 5"

section \<open>Network addresses\<close>

definition tipc_addr :: "u32 \<Rightarrow> u32 \<Rightarrow> u32 \<Rightarrow> u32" where
  "tipc_addr zone cluster node = (push_bit 24 zone OR push_bit 12 cluster) OR node"

definition tipc_zone :: "u32 \<Rightarrow> u32" where
  "tipc_zone addr = drop_bit 24 addr"

definition tipc_cluster :: "u32 \<Rightarrow> u32" where
  "tipc_cluster addr = drop_bit 12 addr AND 0xfff"

definition tipc_node :: "u32 \<Rightarrow> u32" where
  "tipc_node addr = addr AND 0xfff"

lemma fff_mask: "(0xfff :: u32) = mask 12"
  by (simp add: mask_eq_exp_minus_1)

lemma bit_u32_bound: "bit (x :: u32) n \<Longrightarrow> n < 32"
  using bit_imp_le_length [of x n] by simp

lemma not_bit_if_small:
  assumes "unat (x :: u32) < 2 ^ k" and "k \<le> n"
  shows "\<not> bit x n"
proof -
  have "unat x < 2 ^ n"
    using assms by (meson one_le_numeral order_less_le_trans power_increasing)
  then have "\<not> bit (unat x) n"
    by (simp add: bit_iff_odd)
  then show ?thesis
    using bit_u32_bound [of x n] by (auto simp: bit_unsigned_iff)
qed

lemmas addr_bits = tipc_addr_def tipc_zone_def tipc_cluster_def tipc_node_def fff_mask bit_simps

lemma tipc_zone_bound: "unat (tipc_zone a) < 256"
proof -
  have "unat a < 2 ^ 32" using unsigned_less [of a, where ?'a = nat] by simp
  then show ?thesis
    by (simp add: tipc_zone_def drop_bit_eq_div unat_div less_mult_imp_div_less)
qed

lemma unat_and_fff: "unat ((x :: u32) AND 0xfff) < 4096"
proof -
  have "x AND 0xfff \<le> 0xfff" by (rule word_and_le1)
  then show ?thesis by (simp add: word_le_nat_alt)
qed

lemma tipc_cluster_bound: "unat (tipc_cluster a) < 4096"
  by (simp add: tipc_cluster_def unat_and_fff)

lemma tipc_node_bound: "unat (tipc_node a) < 4096"
  by (simp add: tipc_node_def unat_and_fff)

text \<open>Every 32-bit address is put together again from its three parts.\<close>

lemma tipc_addr_parts: "tipc_addr (tipc_zone a) (tipc_cluster a) (tipc_node a) = a"
proof (rule bit_word_eqI)
  fix n :: nat
  assume "n < LENGTH(32)"
  then show "bit (tipc_addr (tipc_zone a) (tipc_cluster a) (tipc_node a)) n = bit a n"
    by (cases "n < 12"; cases "n < 24") (auto simp: addr_bits)
qed

lemma tipc_addr_select:
  assumes "unat z < 256" and "unat c < 4096" and "unat n < 4096"
  shows "tipc_zone (tipc_addr z c n) = z"
    and "tipc_cluster (tipc_addr z c n) = c"
    and "tipc_node (tipc_addr z c n) = n"
proof -
  have z: "\<And>k. bit z k \<Longrightarrow> k < 8" and c: "\<And>k. bit c k \<Longrightarrow> k < 12"
    and n: "\<And>k. bit n k \<Longrightarrow> k < 12"
    using assms not_bit_if_small [of z 8] not_bit_if_small [of c 12] not_bit_if_small [of n 12]
    by (auto simp: not_le [symmetric])
  show "tipc_zone (tipc_addr z c n) = z"
    by (rule bit_word_eqI) (auto simp: addr_bits dest: z c n)
  show "tipc_cluster (tipc_addr z c n) = c"
    by (rule bit_word_eqI) (auto simp: addr_bits dest: z c n)
  show "tipc_node (tipc_addr z c n) = n"
    by (rule bit_word_eqI) (auto simp: addr_bits dest: z c n)
qed

section \<open>Socket addresses, subscriptions and events\<close>

record sockaddr_tipc =
  sa_family :: u16
  sa_addrtype :: u8
  sa_scope :: u8
  sa_w0 :: u32
  sa_w1 :: u32
  sa_w2 :: u32

text \<open>The members of the union, by the words they occupy.\<close>

abbreviation (input) id_ref :: "sockaddr_tipc \<Rightarrow> u32" where "id_ref a \<equiv> sa_w0 a"
abbreviation (input) id_node :: "sockaddr_tipc \<Rightarrow> u32" where "id_node a \<equiv> sa_w1 a"
abbreviation (input) nameseq_type :: "sockaddr_tipc \<Rightarrow> u32" where "nameseq_type a \<equiv> sa_w0 a"
abbreviation (input) nameseq_lower :: "sockaddr_tipc \<Rightarrow> u32" where "nameseq_lower a \<equiv> sa_w1 a"
abbreviation (input) nameseq_upper :: "sockaddr_tipc \<Rightarrow> u32" where "nameseq_upper a \<equiv> sa_w2 a"
abbreviation (input) name_type :: "sockaddr_tipc \<Rightarrow> u32" where "name_type a \<equiv> sa_w0 a"
abbreviation (input) name_instance :: "sockaddr_tipc \<Rightarrow> u32" where "name_instance a \<equiv> sa_w1 a"
abbreviation (input) name_domain :: "sockaddr_tipc \<Rightarrow> u32" where "name_domain a \<equiv> sa_w2 a"

record tipc_name_seq =
  seq_type :: u32
  seq_lower :: u32
  seq_upper :: u32

record tipc_portid =
  port_ref :: u32
  port_node :: u32

record tipc_subscr =
  sub_seq :: tipc_name_seq
  sub_timeout :: u32
  sub_filter :: u32
  sub_handle :: bytes

record tipc_event =
  ev_event :: u32
  ev_found_lower :: u32
  ev_found_upper :: u32
  ev_port :: tipc_portid
  ev_s :: tipc_subscr

text \<open>The sizes of the two messages exchanged with the topology server, in bytes.\<close>

abbreviation (input) sizeof_subscr :: int where "sizeof_subscr \<equiv> 28"
abbreviation (input) sizeof_event :: int where "sizeof_event \<equiv> 48"

text \<open>
  C1. A TIPC network address is nothing but its zone, cluster and node: packing the three
  fields extracted from any 32-bit address gives the address back, and extracting from a
  packed address gives the fields back whenever they fit their 8, 12 and 12 bits.
\<close>

theorem tipc_addr_roundtrip:
  "tipc_addr (tipc_zone a) (tipc_cluster a) (tipc_node a) = a \<and>
   (unat z < 256 \<and> unat c < 4096 \<and> unat n < 4096 \<longrightarrow>
      tipc_zone (tipc_addr z c n) = z \<and> tipc_cluster (tipc_addr z c n) = c \<and>
      tipc_node (tipc_addr z c n) = n)"
  by (simp add: tipc_addr_parts tipc_addr_select)

theorem tipc_addr_roundtrip_witness:
  "tipc_addr 1 1 10 = 0x0100100A \<and>
   tipc_zone (tipc_addr 1 1 10) = 1 \<and> tipc_cluster (tipc_addr 1 1 10) = 1 \<and>
   tipc_node (tipc_addr 1 1 10) = 10"
  using tipc_addr_roundtrip [of 0 1 1 10] by (simp add: tipc_addr_def push_bit_eq_mult)

end
