(* ===== verification/Sys.thy ===== *)
theory Sys
  imports Tipc_Types
begin

text \<open>
  Processes and their system calls. The kernel is not part of the repository: it is a
  parameter of every program, the list of the replies it will give, one per call that has a
  result. A program is a function from the world (the replies still to come, the calls made
  so far) to an outcome and the next world. A process that makes a call for which no reply
  is left waits in that call: the outcome \<open>Blocked\<close>. Quantifying over the replies is
  quantifying over the behaviour of the kernel and of every peer, failures included.

  \<open>Exit\<close> is \<^verbatim>\<open>exit(n)\<close>, \<open>Fault\<close> is undefined behaviour (an access outside an array, a call
  through a null pointer, a null pointer printed as a string, a division by zero), which a model must not turn into a value.

  The second part is a small program logic: \<open>emits\<close> says which observable calls a program
  makes on every run that returns, \<open>answers\<close> says that a program returns on given replies.
\<close>

section \<open>System calls and replies\<close>

datatype call =
    C_socket int int int
  | C_bind int sockaddr_tipc
  | C_listen int int
  | C_accept int
  | C_connect int sockaddr_tipc
  | C_send int bytes int
  | C_sendto int bytes int sockaddr_tipc
  | C_send_subscr int tipc_subscr
  | C_recv int int int
  | C_recvfrom int int int
  | C_recvmsg int int
  | C_recv_event int
  | C_setsockopt int int int
  | C_getsockopt int int
  | C_getsockname int
  | C_fcntl int int int
  | C_ioctl int u32 u32
  | C_select "int list"
  | C_poll "int list" int
  | C_close int
  | C_shutdown int
  | C_sleep int
  | C_gettimeofday
  | C_rand
  | C_fork
  | C_malloc int
  | C_read int int
  | C_write int bytes
  | C_sendmsg int "sockaddr_tipc option" "bytes list"
  | C_group_join int u32 u32 u8
  | C_group_leave int
  | C_socketpair
  | C_getpid
  | C_wait
  | C_waitpid
  | C_sched_yield
  | C_signal int
  | C_alarm int
  | C_connect_in int u32 u16
  | C_bind_in int u32 u16
  | C_ifconf int
  | C_ifaddr int nat
  | C_daemon string
  | C_print string

text \<open>
  An ancillary data object of a received message (\<^verbatim>\<open>struct cmsghdr\<close> with its data), the
  data as 32-bit words and, for returned user data, as bytes.
\<close>

record cmsg =
  cmsg_type :: int
  cmsg_words :: "u32 list"
  cmsg_bytes :: bytes

record reply =
  r_ret :: int
  r_errno :: int
  r_data :: bytes
  r_addr :: sockaddr_tipc
  r_event :: tipc_event
  r_val :: int
  r_anc :: "cmsg list"
  r_ready :: "int list"
  r_hup :: "int list"

text \<open>
  Beside the kernel's replies and the calls made, the world holds what uninitialised local
  variables contain and the global variables of the test suite, \<^verbatim>\<open>importance\<close> of the client,
  \<^verbatim>\<open>client_in_same_cluster\<close> and \<^verbatim>\<open>rcvbuf\<close> (null or the buffer) of the server, and
  \<^verbatim>\<open>own_node\<close> of the C binding.
\<close>

record world =
  replies :: "reply list"
  calls :: "call list"
  stk_addr :: sockaddr_tipc
  stk_subscr :: tipc_subscr
  stk_bytes :: bytes
  g_importance :: int
  g_same_cluster :: bool
  g_rcvbuf :: "bytes option"
  g_own_node :: u32

datatype fault = Out_of_bounds | Null_call | Null_string | Div_by_zero | Uninit

datatype 'a outcome = Ret 'a | Exit int | Fault fault | Blocked

type_synonym 'a prog = "world \<Rightarrow> 'a outcome \<times> world"

section \<open>Programs\<close>

definition ret :: "'a \<Rightarrow> 'a prog" where
  "ret x w = (Ret x, w)"

definition and_then :: "'a prog \<Rightarrow> ('a \<Rightarrow> 'b prog) \<Rightarrow> 'b prog" where
  "and_then m f w =
     (case m w of
        (Ret x, w') \<Rightarrow> f x w'
      | (Exit n, w') \<Rightarrow> (Exit n, w')
      | (Fault e, w') \<Rightarrow> (Fault e, w')
      | (Blocked, w') \<Rightarrow> (Blocked, w'))"

definition exit_prog :: "int \<Rightarrow> 'a prog" where
  "exit_prog n w = (Exit n, w)"

definition fault :: "fault \<Rightarrow> 'a prog" where
  "fault e w = (Fault e, w)"

text \<open>A call with a reply, and a call whose result the program ignores and cannot wait for.\<close>

definition sys :: "call \<Rightarrow> reply prog" where
  "sys c w =
     (case replies w of
        [] \<Rightarrow> (Blocked, w\<lparr>calls := calls w @ [c]\<rparr>)
      | r # rs \<Rightarrow> (Ret r, w\<lparr>replies := rs, calls := calls w @ [c]\<rparr>))"

definition emit :: "call \<Rightarrow> unit prog" where
  "emit c w = (Ret (), w\<lparr>calls := calls w @ [c]\<rparr>)"

text \<open>The value of a local variable before its first assignment.\<close>

definition uninit_addr :: "sockaddr_tipc prog" where
  "uninit_addr w = (Ret (stk_addr w), w)"

definition uninit_subscr :: "tipc_subscr prog" where
  "uninit_subscr w = (Ret (stk_subscr w), w)"

definition uninit_bytes :: "nat \<Rightarrow> bytes prog" where
  "uninit_bytes n w = (Ret (take n (stk_bytes w @ replicate n 0)), w)"

text \<open>Reading and assigning a global variable.\<close>

definition get_var :: "(world \<Rightarrow> 'a) \<Rightarrow> 'a prog" where
  "get_var f w = (Ret (f w), w)"

definition set_var :: "(world \<Rightarrow> world) \<Rightarrow> unit prog" where
  "set_var f w = (Ret (), f w)"

text \<open>A loop that does nothing for ever, \<^verbatim>\<open>while (1);\<close>\<close>

definition spin :: "'a prog" where
  "spin w = (Blocked, w)"

definition only_if :: "bool \<Rightarrow> unit prog \<Rightarrow> unit prog" where
  "only_if b m = (if b then m else ret ())"

text \<open>A sequence of statements, and a for-loop over the values of its index.\<close>

fun block :: "unit prog list \<Rightarrow> unit prog" where
  "block [] = ret ()"
| "block (m # ms) = and_then m (\<lambda>_. block ms)"

fun for_each :: "'i list \<Rightarrow> ('i \<Rightarrow> unit prog) \<Rightarrow> unit prog" where
  "for_each [] f = ret ()"
| "for_each (i # is) f = and_then (f i) (\<lambda>_. for_each is f)"

text \<open>A for-loop that carries a variable along, and one that fills an array.\<close>

fun for_state :: "'i list \<Rightarrow> ('i \<Rightarrow> 's \<Rightarrow> 's prog) \<Rightarrow> 's \<Rightarrow> 's prog" where
  "for_state [] f s = ret s"
| "for_state (i # is) f s = and_then (f i s) (for_state is f)"

fun collect :: "'i list \<Rightarrow> ('i \<Rightarrow> 'a prog) \<Rightarrow> 'a list prog" where
  "collect [] f = ret []"
| "collect (i # is) f = and_then (f i) (\<lambda>x. and_then (collect is f) (\<lambda>xs. ret (x # xs)))"

text \<open>\<^verbatim>\<open>do { m } while (--n > 0)\<close>, returning the last value of \<^verbatim>\<open>n\<close>.\<close>

function do_while_down :: "unit prog \<Rightarrow> int \<Rightarrow> int prog" where
  "do_while_down m n =
     and_then m (\<lambda>_. if n - 1 > 0 then do_while_down m (n - 1) else ret (n - 1))"
  by pat_completeness auto
termination by (relation "measure (\<lambda>(_, n). nat n)") auto

declare do_while_down.simps [simp del]

text \<open>
  A loop that may run for ever: the body returns \<open>Inl\<close> the next state to go on, or \<open>Inr\<close>
  the result to stop. Every turn of such a loop in these programs waits for a reply, so a
  turn more than there are replies cannot happen; \<open>loop_unfold\<close> below makes this precise.
\<close>

fun loop_fuel :: "nat \<Rightarrow> ('s \<Rightarrow> ('s + 'r) prog) \<Rightarrow> 's \<Rightarrow> 'r prog" where
  "loop_fuel 0 body s w = (Blocked, w)"
| "loop_fuel (Suc n) body s w =
     and_then (body s) (\<lambda>r. case r of Inl s' \<Rightarrow> loop_fuel n body s' | Inr x \<Rightarrow> ret x) w"

definition loop :: "('s \<Rightarrow> ('s + 'r) prog) \<Rightarrow> 's \<Rightarrow> 'r prog" where
  "loop body s w = loop_fuel (Suc (length (replies w))) body s w"

section \<open>Buffers\<close>

text \<open>
  \<^verbatim>\<open>malloc\<close> fails with a null pointer or gives a block of the requested size with arbitrary
  content.

  A receiving call may fill as many bytes as it asks for, and no more. So it is a fault to make one
  that asks for more bytes than its buffer holds, or for a negative number, which the call takes
  as a huge one: \<open>receive\<close> is a receiving call with its buffer. Within that bound
  \<open>recv_into\<close> overwrites the beginning of the buffer with the bytes that arrived.
\<close>

definition malloc :: "int \<Rightarrow> bytes option prog" where
  "malloc n = and_then (sys (C_malloc n)) (\<lambda>r.
     ret (if r_ret r = 0 then None
          else Some (take (nat n) (r_data r @ replicate (nat n) 0))))"

fun asked :: "call \<Rightarrow> int" where
  "asked (C_recv _ n _) = n"
| "asked (C_recvfrom _ n _) = n"
| "asked (C_recvmsg _ n) = n"
| "asked (C_read _ n) = n"
| "asked _ = 0"

definition receive :: "call \<Rightarrow> bytes \<Rightarrow> reply prog" where
  "receive c buf = (if 0 \<le> asked c \<and> asked c \<le> int (length buf) then sys c else fault Out_of_bounds)"

definition recv_into :: "bytes \<Rightarrow> reply \<Rightarrow> bytes" where
  "recv_into buf r = (let d = take (nat (r_ret r)) (r_data r)
                      in take (length buf) d @ drop (length d) buf)"

lemma receive_within [simp]: "0 \<le> asked c \<Longrightarrow> asked c \<le> int (length buf) \<Longrightarrow> receive c buf = sys c"
  by (simp add: receive_def)

lemma receive_beyond: "asked c > int (length buf) \<Longrightarrow> receive c buf = fault Out_of_bounds"
  by (simp add: receive_def)

lemma length_recv_into [simp]: "length (recv_into buf r) = length buf"
  by (simp add: recv_into_def Let_def)

text \<open>\<^verbatim>\<open>memcpy(&buf[i], bs, n)\<close> for a block that lies within the buffer.\<close>

definition overwrite :: "bytes \<Rightarrow> nat \<Rightarrow> bytes \<Rightarrow> bytes" where
  "overwrite buf i bs = take i buf @ bs @ drop (i + length bs) buf"

lemma length_overwrite [simp]: "i + length bs \<le> length buf \<Longrightarrow> length (overwrite buf i bs) = length buf"
  by (simp add: overwrite_def)

lemma take_overwrite:
  "i \<le> length buf \<Longrightarrow> take (i + length bs) (overwrite buf i bs) = take i buf @ bs"
  by (simp add: overwrite_def)

text \<open>A string literal as it lies in memory, and \<^verbatim>\<open>strcmp\<close> with a literal.\<close>

definition str_bytes :: "string \<Rightarrow> bytes" where
  "str_bytes s = map of_char s @ [0]"

definition streq :: "string \<Rightarrow> bytes \<Rightarrow> bool" where
  "streq s buf \<longleftrightarrow> take (Suc (length s)) buf = str_bytes s"

text \<open>
  The string in a character array, \<open>None\<close> if it has no terminator: the functions of
  \<^verbatim>\<open><string.h>\<close> would run past the array.
\<close>

definition c_string :: "bytes \<Rightarrow> string option" where
  "c_string b = (if 0 \<in> set b then Some (map (\<lambda>x. char_of (unat x)) (takeWhile (\<lambda>x. x \<noteq> 0) b))
                 else None)"

text \<open>Reading word \<open>i\<close> of an ancillary data object; a word the kernel did not write is a fault.\<close>

definition cmsg_word :: "cmsg \<Rightarrow> nat \<Rightarrow> int prog" where
  "cmsg_word anc i = (if i < length (cmsg_words anc) then ret (sint (cmsg_words anc ! i))
                      else fault Uninit)"

text \<open>Division of C ints: towards zero, undefined for the divisor 0.\<close>

definition c_div :: "int \<Rightarrow> int \<Rightarrow> int prog" where
  "c_div a b = (if b = 0 then fault Div_by_zero else ret (sgn a * sgn b * (\<bar>a\<bar> div \<bar>b\<bar>)))"

text \<open>Division of 64-bit unsigned integers, and the reply of \<^verbatim>\<open>gettimeofday\<close> as seconds and microseconds.\<close>

definition u64_div :: "64 word \<Rightarrow> 64 word \<Rightarrow> 64 word prog" where
  "u64_div a b = (if b = 0 then fault Div_by_zero else ret (a div b))"

definition time_of :: "reply \<Rightarrow> int \<times> int" where
  "time_of r = (r_val r, r_ret r)"

lemma char_of_u8 [simp]: "char_of (unat (of_char c :: u8)) = c"
proof -
  have "(of_char c :: u8) = of_nat (of_char c)" by (simp add: of_nat_of_char)
  then have "unat (of_char c :: u8) = of_char c"
    using nat_of_char_less_256 [of c] by (simp only: unsigned_of_nat) (simp add: take_bit_nat_eq_self)
  then show ?thesis by simp
qed

lemma c_string_str_bytes:
  assumes "CHR 0x00 \<notin> set s"
  shows "c_string (str_bytes s @ rest) = Some s"
proof -
  have nz: "(of_char c :: u8) \<noteq> 0" if "c \<noteq> CHR 0x00" for c
  proof
    assume "(of_char c :: u8) = 0"
    then have "c = char_of (0 :: nat)" using char_of_u8 [of c] by simp
    with that show False by (simp add: char_of_def)
  qed
  have "takeWhile (\<lambda>x. x \<noteq> 0) (map of_char s @ 0 # rest) = (map of_char s :: bytes)"
    using assms by (induction s) (auto simp: nz)
  then show ?thesis by (simp add: c_string_def str_bytes_def comp_def)
qed

abbreviation (input) MSG_WAITALL :: int where "MSG_WAITALL \<equiv> 0x100"
abbreviation (input) MSG_DONTWAIT :: int where "MSG_DONTWAIT \<equiv> 0x40"
abbreviation (input) MSG_PEEK :: int where "MSG_PEEK \<equiv> 2"
abbreviation (input) ETIMEDOUT :: int where "ETIMEDOUT \<equiv> 110"
abbreviation (input) EAGAIN :: int where "EAGAIN \<equiv> 11"

section \<open>Laws of programs\<close>

lemma ret_and_then [simp]: "and_then (ret x) f = f x"
  by (simp add: and_then_def ret_def fun_eq_iff)

lemma and_then_ret [simp]: "and_then m ret = m"
  by (auto simp: and_then_def ret_def fun_eq_iff split: prod.splits outcome.splits)

lemma and_then_assoc:
  "and_then (and_then m f) g = and_then m (\<lambda>x. and_then (f x) g)"
  by (auto simp: and_then_def fun_eq_iff split: prod.splits outcome.splits)

lemma and_then_if: "and_then (if b then m else n) f = (if b then and_then m f else and_then n f)"
  by simp

lemma exit_and_then [simp]: "and_then (exit_prog n) f = exit_prog n"
  by (simp add: and_then_def exit_prog_def fun_eq_iff)

lemma fault_and_then [simp]: "and_then (fault e) f = fault e"
  by (simp add: and_then_def fault_def fun_eq_iff)

lemma and_then_Ret_iff:
  "and_then m f w = (Ret y, w'') \<longleftrightarrow> (\<exists>x w'. m w = (Ret x, w') \<and> f x w' = (Ret y, w''))"
  by (auto simp: and_then_def split: prod.splits outcome.splits)

lemma only_if_simps [simp]: "only_if True m = m" "only_if False m = ret ()"
  by (simp_all add: only_if_def)

lemma for_each_append:
  "for_each (is @ js) f = and_then (for_each is f) (\<lambda>_. for_each js f)"
  by (induction "is") (auto simp: and_then_assoc)

section \<open>Every turn of a loop waits for a reply\<close>

text \<open>
  No call ever gives a reply back; a program that waits uses one up; the body of a loop
  uses one up at least in every turn after which the loop goes on.
\<close>

definition waits :: "'a prog \<Rightarrow> bool" where
  "waits m \<longleftrightarrow> (\<forall>w x w'. m w = (Ret x, w') \<longrightarrow> length (replies w') < length (replies w))"

definition turns :: "('s + 'r) prog \<Rightarrow> bool" where
  "turns m \<longleftrightarrow> (\<forall>w s w'. m w = (Ret (Inl s), w') \<longrightarrow> length (replies w') < length (replies w))"

definition frugal :: "'a prog \<Rightarrow> bool" where
  "frugal m \<longleftrightarrow> (\<forall>w x w'. m w = (Ret x, w') \<longrightarrow> length (replies w') \<le> length (replies w))"

named_theorems waits_intros \<open>how programs use up replies\<close>

lemma waits_sys [waits_intros]: "waits (sys c)"
  by (auto simp: waits_def sys_def split: list.splits)

lemma frugal_sys [waits_intros]: "frugal (sys c)"
  by (auto simp: frugal_def sys_def split: list.splits)

lemma frugal_basic [waits_intros]:
  "frugal (ret x)" "frugal (exit_prog n)" "frugal (fault e)" "frugal (emit c)"
  "frugal uninit_addr" "frugal uninit_subscr" "frugal (uninit_bytes k)"
  by (auto simp: frugal_def ret_def exit_prog_def fault_def emit_def uninit_addr_def
      uninit_subscr_def uninit_bytes_def)

lemma frugal_vars [waits_intros]:
  "frugal (get_var g)" "(\<And>w. replies (f w) = replies w) \<Longrightarrow> frugal (set_var f)"
  by (auto simp: frugal_def get_var_def set_var_def)

lemma waits_halt [waits_intros]: "waits (exit_prog n)" "waits (fault e)"
  by (auto simp: waits_def exit_prog_def fault_def)

lemma frugal_and_then [waits_intros]:
  assumes "frugal m" and "\<And>x. frugal (f x)"
  shows "frugal (and_then m f)"
  using assms unfolding frugal_def and_then_Ret_iff by (meson le_trans)

lemma frugal_if [waits_intros]: "frugal m \<Longrightarrow> frugal n \<Longrightarrow> frugal (if b then m else n)"
  by simp

lemma waits_if [waits_intros]: "waits m \<Longrightarrow> waits n \<Longrightarrow> waits (if b then m else n)"
  by simp

lemma frugal_only_if [waits_intros]: "frugal m \<Longrightarrow> frugal (only_if b m)"
  by (simp add: only_if_def waits_intros)

lemma waits_and_then_first:
  assumes "waits m" and "\<And>x. frugal (f x)"
  shows "waits (and_then m f)"
  using assms unfolding waits_def frugal_def and_then_Ret_iff by (meson order.strict_trans1)

lemma waits_sys_and_then [waits_intros]: "(\<And>x. frugal (f x)) \<Longrightarrow> waits (and_then (sys c) f)"
  by (rule waits_and_then_first [OF waits_sys])

lemma turns_waits: "waits m \<Longrightarrow> turns m"
  by (auto simp: waits_def turns_def)

lemma turns_basic [waits_intros]:
  "turns (ret (Inr x))" "turns (exit_prog n)" "turns (fault e)"
  by (auto simp: turns_def ret_def exit_prog_def fault_def)

lemma turns_if [waits_intros]: "turns m \<Longrightarrow> turns n \<Longrightarrow> turns (if b then m else n)"
  by simp

lemma turns_sys_and_then [waits_intros]: "(\<And>x. frugal (f x)) \<Longrightarrow> turns (and_then (sys c) f)"
  by (rule turns_waits) (rule waits_sys_and_then)

lemma receive_waits [waits_intros]:
  "waits (receive c buf)" "frugal (receive c buf)"
  "(\<And>x. frugal (f x)) \<Longrightarrow> waits (and_then (receive c buf) f)"
  "(\<And>x. frugal (g x)) \<Longrightarrow> turns (and_then (receive c buf) g)"
  unfolding receive_def by (auto intro!: waits_intros)

lemma turns_and_then:
  assumes "frugal m" and "\<And>x. turns (f x)"
  shows "turns (and_then m f)"
  using assms unfolding turns_def frugal_def and_then_Ret_iff by (meson order.strict_trans2)

lemma frugal_for_state [waits_intros]:
  "(\<And>i s. frugal (f i s)) \<Longrightarrow> frugal (for_state is f s)"
  by (induction "is" arbitrary: s) (simp_all add: waits_intros)

lemma frugal_block [waits_intros]: "(\<And>m. m \<in> set ms \<Longrightarrow> frugal m) \<Longrightarrow> frugal (block ms)"
  by (induction ms) (simp_all add: waits_intros)

lemma frugal_for_each [waits_intros]: "(\<And>i. frugal (f i)) \<Longrightarrow> frugal (for_each is f)"
  by (induction "is") (simp_all add: waits_intros)

lemma frugal_malloc [waits_intros]: "frugal (malloc n)"
  unfolding malloc_def by (intro waits_intros)

lemma loop_fuel_enough:
  assumes "\<And>s. turns (body s)" and "length (replies w) < n" and "length (replies w) < k"
  shows "loop_fuel n body s w = loop_fuel k body s w"
  using assms(2,3)
proof (induction n arbitrary: k s w)
  case (Suc n)
  then obtain k' where k: "k = Suc k'" by (cases k) auto
  show ?case
  proof (cases "body s w")
    case (Pair out w')
    show ?thesis
    proof (cases out)
      case (Ret r)
      have "loop_fuel n body t w' = loop_fuel k' body t w'" if "r = Inl t" for t
      proof -
        have "length (replies w') < length (replies w)"
          using assms(1) [of s] Pair Ret that by (auto simp: turns_def)
        then show ?thesis
          using Suc.prems k by (intro Suc.IH) simp_all
      qed
      with Pair Ret k show ?thesis by (auto simp: and_then_def split: sum.splits)
    qed (use Pair k in \<open>simp_all add: and_then_def\<close>)
  qed
qed simp

text \<open>
  A loop whose body waits is the endless loop of the source: unfolding it once gives the
  body followed by the same loop, so the bound on the number of turns is never met.
\<close>

theorem loop_unfold:
  assumes "\<And>s. turns (body s)"
  shows "loop body s = and_then (body s) (\<lambda>r. case r of Inl s' \<Rightarrow> loop body s' | Inr x \<Rightarrow> ret x)"
proof
  fix w
  show "loop body s w =
    and_then (body s) (\<lambda>r. case r of Inl s' \<Rightarrow> loop body s' | Inr x \<Rightarrow> ret x) w"
  proof (cases "body s w")
    case (Pair out w')
    show ?thesis
    proof (cases out)
      case (Ret r)
      have "loop_fuel (length (replies w)) body t w' = loop body t w'" if "r = Inl t" for t
      proof -
        have "length (replies w') < length (replies w)"
          using assms [of s] Pair Ret that by (auto simp: turns_def)
        then show ?thesis
          unfolding loop_def by (intro loop_fuel_enough assms) auto
      qed
      with Pair Ret show ?thesis by (auto simp: loop_def and_then_def split: sum.splits)
    qed (use Pair in \<open>simp_all add: loop_def and_then_def\<close>)
  qed
qed

lemma frugal_loop:
  assumes "\<And>s. frugal (body s)"
  shows "frugal (loop body s)"
proof -
  have "length (replies w') \<le> length (replies w)" if "loop_fuel n body s w = (Ret x, w')" for n s w x w'
    using that
  proof (induction n arbitrary: s w)
    case (Suc n)
    then obtain r w1 where r: "body s w = (Ret r, w1)"
      and nx: "(case r of Inl s' \<Rightarrow> loop_fuel n body s' | Inr x \<Rightarrow> ret x) w1 = (Ret x, w')"
      by (auto simp: and_then_Ret_iff)
    have "length (replies w1) \<le> length (replies w)" using assms r by (auto simp: frugal_def)
    with nx show ?case by (cases r) (auto simp: ret_def dest: Suc.IH)
  qed simp
  then show ?thesis unfolding frugal_def loop_def by blast
qed

section \<open>What a program does on the runs that return\<close>

text \<open>
  An observer picks the calls of interest. \<open>emits obs m es\<close>: on every run of \<open>m\<close> that
  returns, the observed calls are \<open>es\<close>, in this order, whatever the kernel replied.
\<close>

definition seen :: "(call \<Rightarrow> 'e list) \<Rightarrow> world \<Rightarrow> 'e list" where
  "seen obs w = concat (map obs (calls w))"

definition emits :: "(call \<Rightarrow> 'e list) \<Rightarrow> 'a prog \<Rightarrow> 'e list \<Rightarrow> bool" where
  "emits obs m es \<longleftrightarrow> (\<forall>w x w'. m w = (Ret x, w') \<longrightarrow> seen obs w' = seen obs w @ es)"

named_theorems emits_intros \<open>the observed calls of programs\<close>

lemma emitsD: "emits obs m es \<Longrightarrow> m w = (Ret x, w') \<Longrightarrow> seen obs w' = seen obs w @ es"
  by (auto simp: emits_def)

lemma emits_ret: "emits obs (ret x) []"
  by (simp add: emits_def ret_def)

lemma emits_halt: "emits obs (exit_prog n) es" "emits obs (fault e) es"
  by (simp_all add: emits_def exit_prog_def fault_def)

lemma emits_sys: "obs c = es \<Longrightarrow> emits obs (sys c) es"
  by (auto simp: emits_def sys_def seen_def split: list.splits)

lemma emits_receive: "obs c = es \<Longrightarrow> emits obs (receive c buf) es"
  by (simp add: receive_def emits_sys emits_halt)

lemma emits_emit: "obs c = es \<Longrightarrow> emits obs (emit c) es"
  by (auto simp: emits_def emit_def seen_def)

lemma emits_uninit:
  "emits obs uninit_addr []" "emits obs uninit_subscr []" "emits obs (uninit_bytes n) []"
  by (simp_all add: emits_def uninit_addr_def uninit_subscr_def uninit_bytes_def)

lemma emits_vars:
  "emits obs (get_var g) []" "(\<And>w. calls (f w) = calls w) \<Longrightarrow> emits obs (set_var f) []"
  by (simp_all add: emits_def get_var_def set_var_def seen_def)

lemma emits_filter:
  assumes "emits obs m es"
  shows "emits (\<lambda>c. filter P (obs c)) m (filter P es)"
proof -
  have "seen (\<lambda>c. filter P (obs c)) w = filter P (seen obs w)" for w
    by (simp add: seen_def filter_concat comp_def)
  with assms show ?thesis by (simp add: emits_def)
qed

lemma emits_and_then:
  assumes "emits obs m es" and "\<And>x. emits obs (f x) fs"
  shows "emits obs (and_then m f) (es @ fs)"
  using assms unfolding emits_def and_then_Ret_iff by fastforce

lemma emits_quiet_then:
  assumes "emits obs m []" and "\<And>x. emits obs (f x) fs"
  shows "emits obs (and_then m f) fs"
  using emits_and_then [OF assms] by simp

lemma emits_then_quiet:
  assumes "emits obs m es" and "\<And>x. emits obs (f x) []"
  shows "emits obs (and_then m f) es"
  using emits_and_then [OF assms] by simp

lemma emits_if: "emits obs m es \<Longrightarrow> emits obs n es \<Longrightarrow> emits obs (if b then m else n) es"
  by simp

lemma emits_only_if: "emits obs m [] \<Longrightarrow> emits obs (only_if b m) []"
  by (simp add: only_if_def emits_ret)

lemma emits_block_Nil: "emits obs (block []) []"
  by (simp add: emits_ret)

lemma emits_block_Cons:
  "emits obs m es \<Longrightarrow> emits obs (block ms) fs \<Longrightarrow> emits obs (block (m # ms)) (es @ fs)"
  by (simp add: emits_and_then)

lemma emits_block_quiet:
  "emits obs m [] \<Longrightarrow> emits obs (block ms) [] \<Longrightarrow> emits obs (block (m # ms)) []"
  by (simp add: emits_quiet_then)

lemma emits_for_each:
  "(\<And>i. i \<in> set is \<Longrightarrow> emits obs (f i) (g i)) \<Longrightarrow>
   emits obs (for_each is f) (concat (map g is))"
  by (induction "is") (simp_all add: emits_ret emits_and_then)

lemma emits_for_each_quiet:
  "(\<And>i. i \<in> set is \<Longrightarrow> emits obs (f i) []) \<Longrightarrow> emits obs (for_each is f) []"
  by (induction "is") (simp_all add: emits_ret emits_quiet_then)

lemma emits_for_state:
  "(\<And>i s. i \<in> set is \<Longrightarrow> emits obs (f i s) (g i)) \<Longrightarrow>
   emits obs (for_state is f s) (concat (map g is))"
  by (induction "is" arbitrary: s) (simp_all add: emits_ret emits_and_then)

lemma emits_for_state_quiet:
  "(\<And>i s. i \<in> set is \<Longrightarrow> emits obs (f i s) []) \<Longrightarrow> emits obs (for_state is f s) []"
  by (induction "is" arbitrary: s) (simp_all add: emits_ret emits_quiet_then)

lemma emits_collect_quiet:
  "(\<And>i. i \<in> set is \<Longrightarrow> emits obs (f i) []) \<Longrightarrow> emits obs (collect is f) []"
  by (induction "is") (auto intro!: emits_ret emits_quiet_then)

lemma emits_malloc: "obs (C_malloc n) = [] \<Longrightarrow> emits obs (malloc n) []"
  unfolding malloc_def by (auto intro!: emits_quiet_then emits_ret emits_sys)

lemma malloc_Ret: "malloc n w = (Ret (Some buf), w') \<Longrightarrow> length buf = nat n"
  by (auto simp: malloc_def and_then_Ret_iff ret_def split: if_splits)

lemma emits_malloc_then:
  assumes "obs (C_malloc n) = []" and "emits obs (f None) es"
    and "\<And>buf. length buf = nat n \<Longrightarrow> emits obs (f (Some buf)) es"
  shows "emits obs (and_then (malloc n) f) es"
  unfolding emits_def and_then_Ret_iff
proof (intro allI impI, elim exE conjE)
  fix w x w' v w1
  assume v: "malloc n w = (Ret v, w1)" and f: "f v w1 = (Ret x, w')"
  have "seen obs w1 = seen obs w"
    using emitsD [OF emits_malloc v] assms(1) by simp
  moreover have "emits obs (f v) es"
    using v assms(2,3) malloc_Ret [of n w] by (cases v) auto
  then have "seen obs w' = seen obs w1 @ es"
    using f by (rule emitsD)
  ultimately show "seen obs w' = seen obs w @ es" by simp
qed

lemma emits_case_option:
  "emits obs m es \<Longrightarrow> (\<And>x. emits obs (f x) es) \<Longrightarrow>
   emits obs (case v of None \<Rightarrow> m | Some x \<Rightarrow> f x) es"
  by (cases v) simp_all

lemma emits_case_list:
  "emits obs m es \<Longrightarrow> (\<And>x xs. emits obs (f x xs) es) \<Longrightarrow>
   emits obs (case v of [] \<Rightarrow> m | x # xs \<Rightarrow> f x xs) es"
  by (cases v) simp_all

lemma emits_case_prod:
  "(\<And>a b. emits obs (f a b) es) \<Longrightarrow> emits obs (case v of (a, b) \<Rightarrow> f a b) es"
  by (cases v) simp

text \<open>
  A proof computes the list of observed calls by these rules first and compares it with the
  one that was asked for last.
\<close>

lemma emits_by: "emits obs m es \<Longrightarrow> es = es' \<Longrightarrow> emits obs m es'"
  by simp

lemmas emits_structure =
  emits_ret emits_halt emits_uninit emits_vars emits_sys emits_receive emits_emit emits_and_then emits_if
  emits_only_if emits_block_Nil emits_block_Cons emits_case_option emits_case_prod emits_case_list

lemma emits_loop_fuel_quiet:
  assumes "\<And>s. emits obs (body s) []"
  shows "loop_fuel n body s w = (Ret x, w') \<Longrightarrow> seen obs w' = seen obs w"
proof (induction n arbitrary: s w)
  case (Suc n)
  then obtain r w1 where r: "body s w = (Ret r, w1)"
    and nx: "(case r of Inl s' \<Rightarrow> loop_fuel n body s' | Inr x \<Rightarrow> ret x) w1 = (Ret x, w')"
    by (auto simp: and_then_Ret_iff)
  have "seen obs w1 = seen obs w" using emitsD [OF assms r] by simp
  with nx show ?case by (cases r) (auto simp: ret_def dest: Suc.IH)
qed simp

lemma emits_loop_quiet:
  assumes "\<And>s. emits obs (body s) []"
  shows "emits obs (loop body s) []"
proof -
  have "seen obs w' = seen obs w" if "loop body s w = (Ret x, w')" for w x w'
    using that unfolding loop_def by (rule emits_loop_fuel_quiet [OF assms])
  then show ?thesis by (simp add: emits_def)
qed

text \<open>The same for a program of which nothing is observed.\<close>

lemmas quiet_structure =
  emits_ret emits_halt emits_uninit emits_vars emits_sys emits_receive emits_emit emits_quiet_then emits_if
  emits_only_if emits_block_Nil emits_block_quiet emits_case_option emits_case_prod emits_case_list
  emits_for_each_quiet emits_for_state_quiet emits_collect_quiet emits_malloc emits_loop_quiet

section \<open>Calls that a program never makes\<close>

text \<open>
  \<open>avoids P m\<close>: no run of \<open>m\<close>, however it ends, makes a call that satisfies \<open>P\<close>. A loop avoids
  what its turns avoid in the states that it can reach.
\<close>

definition avoids :: "(call \<Rightarrow> bool) \<Rightarrow> 'a prog \<Rightarrow> bool" where
  "avoids P m \<longleftrightarrow> (\<forall>w. filter P (calls (snd (m w))) = filter P (calls w))"

named_theorems avoids_intros \<open>calls that programs never make\<close>

lemma avoidsD: "avoids P m \<Longrightarrow> filter P (calls (snd (m w))) = filter P (calls w)"
  by (simp add: avoids_def)

lemma avoids_basic [avoids_intros]:
  "avoids P (ret x)" "avoids P (exit_prog n)" "avoids P (fault e)" "\<not> P c \<Longrightarrow> avoids P (sys c)"
  "\<not> P c \<Longrightarrow> avoids P (emit c)" "avoids P uninit_addr" "avoids P uninit_subscr" "avoids P (uninit_bytes k)"
  "avoids P (get_var g)"
  by (auto simp: avoids_def ret_def exit_prog_def fault_def sys_def emit_def uninit_addr_def uninit_subscr_def
      uninit_bytes_def get_var_def split: list.splits)

lemma avoids_receive [avoids_intros]: "\<not> P c \<Longrightarrow> avoids P (receive c buf)"
  by (simp add: receive_def avoids_basic)

lemma avoids_bind:
  assumes "avoids P m" and "\<And>w x w'. m w = (Ret x, w') \<Longrightarrow> avoids P (f x)"
  shows "avoids P (and_then m f)"
  unfolding avoids_def
proof
  fix w
  obtain out w' where run: "m w = (out, w')" by (cases "m w")
  with avoidsD [OF assms(1), of w] have "filter P (calls w') = filter P (calls w)" by simp
  with run assms(2) [of w _ w'] show "filter P (calls (snd (and_then m f w))) = filter P (calls w)"
    by (cases out) (simp_all add: and_then_def avoids_def)
qed

lemma avoids_and_then [avoids_intros]:
  "avoids P m \<Longrightarrow> (\<And>x. avoids P (f x)) \<Longrightarrow> avoids P (and_then m f)"
  by (rule avoids_bind)

lemma avoids_if [avoids_intros]:
  "(b \<Longrightarrow> avoids P m) \<Longrightarrow> (\<not> b \<Longrightarrow> avoids P n) \<Longrightarrow> avoids P (if b then m else n)"
  by simp

lemma avoids_case [avoids_intros]:
  "avoids P m \<Longrightarrow> (\<And>x. avoids P (f x)) \<Longrightarrow> avoids P (case v of None \<Rightarrow> m | Some x \<Rightarrow> f x)"
  "(\<And>a b. avoids P (g a b)) \<Longrightarrow> avoids P (case u of (a, b) \<Rightarrow> g a b)"
  by (cases v; simp) (cases u; simp)

lemma avoids_loop:
  assumes "\<And>s. I s \<Longrightarrow> avoids P (body s)"
    and "\<And>s w s' w'. I s \<Longrightarrow> body s w = (Ret (Inl s'), w') \<Longrightarrow> I s'" and "I s"
  shows "avoids P (loop body s)"
proof -
  have "filter P (calls (snd (loop_fuel n body s w))) = filter P (calls w)" if "I s" for n s w
    using that
  proof (induction n arbitrary: s w)
    case (Suc n)
    obtain out w' where run: "body s w = (out, w')" by (cases "body s w")
    with avoidsD [OF assms(1), of s w] Suc.prems have w': "filter P (calls w') = filter P (calls w)" by simp
    show ?case
    proof (cases "\<exists>s'. out = Ret (Inl s')")
      case True
      then obtain s' where "out = Ret (Inl s')" by blast
      with run w' Suc.IH [of s' w'] assms(2) [OF Suc.prems] show ?thesis by (simp add: and_then_def)
    next
      case False
      with run w' show ?thesis
        by (auto simp: and_then_def ret_def split: outcome.splits sum.splits)
    qed
  qed simp
  with assms(3) show ?thesis by (simp add: avoids_def loop_def del: loop_fuel.simps)
qed

lemma avoids_for_each [avoids_intros]: "(\<And>i. avoids P (f i)) \<Longrightarrow> avoids P (for_each is f)"
  by (induction "is") (simp_all add: avoids_intros)

lemma avoids_loop_any: "(\<And>s. avoids P (body s)) \<Longrightarrow> avoids P (loop body s)"
  by (rule avoids_loop [where I = "\<lambda>_. True"]) simp_all

section \<open>Programs that return\<close>

text \<open>
  \<open>answers m rs x\<close>: given the replies \<open>rs\<close>, whatever comes after them, \<open>m\<close> returns \<open>x\<close>
  having used up exactly \<open>rs\<close>.
\<close>

definition answers :: "'a prog \<Rightarrow> reply list \<Rightarrow> 'a \<Rightarrow> bool" where
  "answers m rs x \<longleftrightarrow>
     (\<forall>w rest. replies w = rs @ rest \<longrightarrow> (\<exists>w'. m w = (Ret x, w') \<and> replies w' = rest))"

lemma answers_ret: "answers (ret x) [] x"
  by (simp add: answers_def ret_def)

lemma answers_sys: "answers (sys c) [r] r"
  by (simp add: answers_def sys_def)

lemma answers_receive: "0 \<le> asked c \<Longrightarrow> asked c \<le> int (length buf) \<Longrightarrow> answers (receive c buf) [r] r"
  by (simp add: answers_sys)

lemma answers_emit: "answers (emit c) [] ()"
  by (simp add: answers_def emit_def)

lemma answers_and_then:
  assumes "answers m rs x" and "answers (f x) rs' y"
  shows "answers (and_then m f) (rs @ rs') y"
  unfolding answers_def
proof (intro allI impI)
  fix w :: world and rest
  assume "replies w = (rs @ rs') @ rest"
  then obtain w1 where w1: "m w = (Ret x, w1)" "replies w1 = rs' @ rest"
    using assms(1) by (auto simp: answers_def)
  then obtain w2 where "f x w1 = (Ret y, w2)" "replies w2 = rest"
    using assms(2) by (auto simp: answers_def)
  with w1 show "\<exists>w'. and_then m f w = (Ret y, w') \<and> replies w' = rest"
    by (simp add: and_then_def)
qed

lemma answers_sys_then: "answers (f r) rs y \<Longrightarrow> answers (and_then (sys c) f) (r # rs) y"
  using answers_and_then [OF answers_sys, of f r rs y c] by simp

lemma answers_receive_then:
  "0 \<le> asked c \<Longrightarrow> asked c \<le> int (length buf) \<Longrightarrow> answers (f r) rs y \<Longrightarrow>
   answers (and_then (receive c buf) f) (r # rs) y"
  by (simp add: answers_sys_then)

lemma answers_emit_then: "answers (f ()) rs y \<Longrightarrow> answers (and_then (emit c) f) rs y"
  using answers_and_then [OF answers_emit, of f rs y c] by simp

lemma answers_uninit_then:
  "(\<And>a. answers (f a) rs y) \<Longrightarrow> answers (and_then uninit_addr f) rs y"
  "(\<And>a. answers (g a) rs y) \<Longrightarrow> answers (and_then uninit_subscr g) rs y"
  "(\<And>b. length b = n \<Longrightarrow> answers (h b) rs y) \<Longrightarrow> answers (and_then (uninit_bytes n) h) rs y"
  by (auto simp: answers_def and_then_def uninit_addr_def uninit_subscr_def uninit_bytes_def)

lemma answers_get_var_then:
  "(\<And>v. answers (f v) rs y) \<Longrightarrow> answers (and_then (get_var g) f) rs y"
  by (auto simp: answers_def and_then_def get_var_def)

lemma answers_set_var:
  "(\<And>w. replies (f w) = replies w) \<Longrightarrow> answers (set_var f) [] ()"
  by (auto simp: answers_def set_var_def)

lemma answers_block_Cons:
  "answers m rs () \<Longrightarrow> answers (block ms) rs' () \<Longrightarrow> answers (block (m # ms)) (rs @ rs') ()"
  using answers_and_then by fastforce

lemma answers_for_each:
  "(\<And>i. i \<in> set is \<Longrightarrow> answers (f i) (g i) ()) \<Longrightarrow>
   answers (for_each is f) (concat (map g is)) ()"
  by (induction "is") (simp_all add: answers_ret answers_and_then)

section \<open>Concrete replies\<close>

text \<open>A message that was received, a call that returned \<open>n\<close>, and a world that gives these replies.\<close>

definition msg_reply :: "bytes \<Rightarrow> reply" where
  "msg_reply d = \<lparr>r_ret = int (length d), r_errno = 0, r_data = d,
     r_addr = \<lparr>sa_family = 0, sa_addrtype = 0, sa_scope = 0, sa_w0 = 0, sa_w1 = 0, sa_w2 = 0\<rparr>,
     r_event = \<lparr>ev_event = 0, ev_found_lower = 0, ev_found_upper = 0,
        ev_port = \<lparr>port_ref = 0, port_node = 0\<rparr>,
        ev_s = \<lparr>sub_seq = \<lparr>seq_type = 0, seq_lower = 0, seq_upper = 0\<rparr>, sub_timeout = 0,
                sub_filter = 0, sub_handle = []\<rparr>\<rparr>,
     r_val = 0, r_anc = [], r_ready = [], r_hup = []\<rparr>"

definition world_of :: "reply list \<Rightarrow> world" where
  "world_of rs = \<lparr>replies = rs, calls = [], stk_addr = r_addr (msg_reply []),
     stk_subscr = ev_s (r_event (msg_reply [])), stk_bytes = [],
     g_importance = 0, g_same_cluster = True, g_rcvbuf = None, g_own_node = 0\<rparr>"

lemma msg_reply_simps [simp]:
  "r_ret (msg_reply d) = int (length d)" "r_data (msg_reply d) = d"
  by (simp_all add: msg_reply_def)

definition ok :: "int \<Rightarrow> reply" where
  "ok n = (msg_reply [])\<lparr>r_ret := n\<rparr>"

lemma ok_simps [simp]: "r_ret (ok n) = n"
  by (simp add: ok_def)

lemma answers_if: "\<not> b \<Longrightarrow> answers n rs x \<Longrightarrow> answers (if b then m else n) rs x"
  by simp

lemma answers_block_Nil: "answers (block []) [] ()"
  by (simp add: answers_ret)

lemma answers_only_if: "answers m rs () \<Longrightarrow> b \<Longrightarrow> answers (only_if b m) rs ()"
  "\<not> b \<Longrightarrow> answers (only_if b m) [] ()"
  by (simp_all add: answers_ret)

lemma answers_malloc:
  "(\<And>buf. length buf = nat n \<Longrightarrow> answers (f (Some buf)) rs y) \<Longrightarrow>
   answers (and_then (malloc n) f) (ok 1 # rs) y"
  unfolding malloc_def and_then_assoc
  by (rule answers_sys_then) simp

section \<open>Running a program\<close>

text \<open>Equations that run a program on a world whose next reply is known.\<close>

named_theorems run \<open>running programs\<close>

lemma run_sys [run]:
  "replies w = r # rs \<Longrightarrow> and_then (sys c) f w = f r (w\<lparr>replies := rs, calls := calls w @ [c]\<rparr>)"
  "replies w = r # rs \<Longrightarrow> sys c w = (Ret r, w\<lparr>replies := rs, calls := calls w @ [c]\<rparr>)"
  by (simp_all add: and_then_def sys_def)

lemma run_steps [run]:
  "and_then (ret x) f w = f x w"
  "and_then (emit c) g w = g () (w\<lparr>calls := calls w @ [c]\<rparr>)"
  "and_then (get_var v) f' w = f' (v w) w"
  "and_then (set_var u) g' w = g' () (u w)"
  "and_then uninit_addr h w = h (stk_addr w) w"
  "and_then uninit_subscr k w = k (stk_subscr w) w"
  "and_then (fault e) f'' w = (Fault e, w)"
  "and_then (exit_prog n) f3 w = (Exit n, w)"
  "ret x w = (Ret x, w)" "fault e w = (Fault e, w)" "exit_prog n w = (Exit n, w)"
  "get_var v w = (Ret (v w), w)" "emit c w = (Ret (), w\<lparr>calls := calls w @ [c]\<rparr>)"
  "set_var u w = (Ret (), u w)"
  by (simp_all add: and_then_def ret_def emit_def get_var_def set_var_def uninit_addr_def
      uninit_subscr_def fault_def exit_prog_def)

lemma run_uninit_bytes [run]:
  "and_then (uninit_bytes n) f w = f (take n (stk_bytes w @ replicate n 0)) w"
  by (simp add: and_then_def uninit_bytes_def)

text \<open>A call that is never answered.\<close>

lemma run_blocked [run]:
  "replies w = [] \<Longrightarrow> and_then (sys c) f w = (Blocked, w\<lparr>calls := calls w @ [c]\<rparr>)"
  by (simp add: and_then_def sys_def)

text \<open>The same after \<open>ret\<close>, \<open>fault\<close> and \<open>exit_prog\<close> have been unfolded to pairs.\<close>

lemma run_Pair [run]:
  "and_then (Pair (Ret x)) f w = f x w"
  "and_then (Pair (Fault e)) f w = (Fault e, w)"
  "and_then (Pair (Exit n)) f w = (Exit n, w)"
  by (simp_all add: and_then_def)

lemma run_if [run]:
  "and_then (if b then m else m') f w = (if b then and_then m f w else and_then m' f w)"
  "(if b then p else p') w = (if b then p w else p' w)"
  by simp_all

lemma run_assoc [run]: "and_then (and_then m g) f w = and_then m (\<lambda>x. and_then (g x) f) w"
  by (simp add: and_then_assoc)

lemmas answers_structure = answers_uninit_then answers_get_var_then answers_if answers_ret
  answers_set_var answers_only_if answers_block_Nil answers_block_Cons answers_and_then
  answers_for_each

end
