(* ===== verification/Ts_Vector.thy ===== *)
theory Ts_Vector
  imports Sys
begin

text \<open>
  The test vectors of the portable TIPC test suite: \<^verbatim>\<open>makeArray\<close> and \<^verbatim>\<open>checkArray\<close> of
  \<^verbatim>\<open>src/ptts/tipc_ts_common.c\<close>. A vector of seven bytes or more has a header (its size in
  four bytes, least significant first, the first and last value of the data pattern, an
  exclusive-or checksum) followed by the repeating pattern; a shorter one counts up from 0.

  \<open>int\<close> is the C \<^verbatim>\<open>int\<close>; sizes stay below \<open>2 ^ 31\<close>, so nothing overflows, and the one place
  where bits are shifted into an \<^verbatim>\<open>int\<close> (the size read back by \<^verbatim>\<open>checkArray\<close>) is done on 32
  bits and read as a signed number.
\<close>

section \<open>The two operations\<close>

definition makeArray :: "bytes \<Rightarrow> int \<Rightarrow> int \<Rightarrow> int \<Rightarrow> bytes" where
  "makeArray theArray sz start0 stop0 =
     (let start = (if start0 < 0 \<or> start0 > 255 \<or> start0 > stop0 then 0 else start0);
          stop = (if stop0 < 0 \<or> stop0 > 255 then 255 else stop0)
      in if sz < 7 then fold (\<lambda>i a. a[i := of_nat i]) [0..<nat sz] theArray
      else
        let (a, _) = fold (\<lambda>i (a, curNum). (a[i := of_int (curNum AND 0xFF)], drop_bit 8 curNum))
                       [0..<0 + 4] (theArray, sz);
            a = a[4 := of_int start];
            a = a[5 := of_int stop];
            errCheck = fold (\<lambda>i e. e XOR a ! i) [0..<6] 0;
            a = a[6 := errCheck XOR 0xFF];
            (a, _) = fold (\<lambda>i (a, curNum).
                         (a[i := of_int curNum], if curNum + 1 > stop then start else curNum + 1))
                       [7..<nat sz] (a, start)
        in a)"

definition checkArray :: "bytes \<Rightarrow> int \<Rightarrow> int" where
  "checkArray theArray arraySize =
     (if arraySize < 7 then
        fold (\<lambda>i errCount. if uint (theArray ! i) \<noteq> int i then errCount + 1 else errCount)
          [0..<nat arraySize] 0
      else
        let errCheck = fold (\<lambda>i e. e XOR theArray ! i) [0..<6] 0;
            errCheck = errCheck XOR 0xFF
        in if (errCheck XOR theArray ! 6) AND 0xFF \<noteq> 0 then 1
        else
          let theSize = sint (fold (\<lambda>i s. push_bit 8 s OR ucast (theArray ! i)) [3, 2, 1, 0] (0 :: u32))
          in if theSize \<noteq> arraySize then 1
          else
            let start = uint (theArray ! 4);
                stop = uint (theArray ! 5)
            in fst (fold (\<lambda>i (errCount, curNum).
                   (if curNum \<noteq> uint (theArray ! i) then errCount + 1 else errCount,
                    if curNum + 1 > stop then start else curNum + 1))
                 [7..<nat theSize] (0, start)))"

section \<open>The data pattern\<close>

definition pattern :: "int \<Rightarrow> int \<Rightarrow> nat \<Rightarrow> int" where
  "pattern start stop k = start + int (k mod nat (stop - start + 1))"

lemma pattern_0: "pattern start stop 0 = start"
  by (simp add: pattern_def)

lemma pattern_mod_less: "start \<le> stop \<Longrightarrow> int (k mod nat (stop - start + 1)) < stop - start + 1"
proof -
  assume "start \<le> stop"
  then have "k mod nat (stop - start + 1) < nat (stop - start + 1)" by simp
  then show ?thesis by (simp only: zless_nat_eq_int_zless)
qed

lemma pattern_Suc:
  assumes "start \<le> stop"
  shows "(if pattern start stop k + 1 > stop then start else pattern start stop k + 1) =
         pattern start stop (Suc k)"
  using pattern_mod_less [OF assms, of k]
  unfolding pattern_def mod_Suc by auto

lemma pattern_bounds: "start \<le> stop \<Longrightarrow> start \<le> pattern start stop k \<and> pattern start stop k \<le> stop"
  using pattern_mod_less [of start stop k] by (simp add: pattern_def)

lemma pattern_loop:
  assumes "start \<le> stop" and "m \<le> n"
  shows "fold (\<lambda>i (a, c). (h i c a, if stop \<le> c then start else c + 1)) [m..<n] (a, start) =
         (fold (\<lambda>i a. h i (pattern start stop (i - m)) a) [m..<n] a, pattern start stop (n - m))"
  using fold_pair_loop [of "n - m" "\<lambda>c. if stop \<le> c then start else c + 1"
      "pattern start stop" h m a] pattern_Suc [OF assms(1)] assms(2)
  by (simp add: pattern_0)

text \<open>The bounds the code uses after it has checked its arguments.\<close>

definition vec_start :: "int \<Rightarrow> int \<Rightarrow> int" where
  "vec_start start stop = (if start < 0 \<or> start > 255 \<or> start > stop then 0 else start)"

definition vec_stop :: "int \<Rightarrow> int" where
  "vec_stop stop = (if stop < 0 \<or> stop > 255 then 255 else stop)"

lemma vec_bounds:
  "0 \<le> vec_start start stop \<and> vec_start start stop \<le> vec_stop stop \<and> vec_stop stop \<le> 255"
  by (auto simp: vec_start_def vec_stop_def)

lemma vec_start_le: "vec_start start stop \<le> vec_stop stop"
  using vec_bounds by blast

section \<open>The bytes of a vector\<close>

definition size_byte :: "int \<Rightarrow> nat \<Rightarrow> u8" where
  "size_byte sz k = of_int (drop_bit (8 * k) sz AND 0xFF)"

definition header_sum :: "bytes \<Rightarrow> u8" where
  "header_sum a = fold (\<lambda>i e. e XOR a ! i) [0..<6] 0"

lemma header_sum_eq:
  "header_sum a = a ! 0 XOR (a ! 1 XOR (a ! 2 XOR (a ! 3 XOR (a ! 4 XOR a ! 5))))"
  by (simp add: header_sum_def upt_rec xor.assoc numeral_nat)

lemma makeArray_long:
  assumes "7 \<le> sz"
  shows "makeArray arr sz start stop =
    (let s = vec_start start stop; e = vec_stop stop;
         h = (fold (\<lambda>i a. a[i := size_byte sz i]) [0..<4] arr)[4 := of_int s, 5 := of_int e]
     in fold (\<lambda>i a. a[i := of_int (pattern s e (i - 7))]) [7..<nat sz]
          (h[6 := header_sum h XOR 0xFF]))"
proof -
  have szb: "fold (\<lambda>i (a, curNum). (a[i := of_int (curNum AND 0xFF)], drop_bit 8 curNum))
      [0..<0 + 4] (arr, sz) =
    (fold (\<lambda>i a. a[i := size_byte sz i]) [0..<4] arr, drop_bit 32 sz)"
    using fold_pair_loop [of 4 "drop_bit 8" "\<lambda>k. drop_bit (8 * k) sz"
        "\<lambda>i c a. a[i := of_int (c AND 0xFF)]" 0 arr]
    by (simp add: size_byte_def)
  show ?thesis
    unfolding makeArray_def vec_start_def [symmetric] vec_stop_def [symmetric] Let_def szb
    using assms by (simp add: pattern_loop [OF vec_start_le] header_sum_def)
qed

lemma length_makeArray [simp]: "length (makeArray arr sz start stop) = length arr"
proof (cases "sz < 7")
  case True
  then show ?thesis by (simp add: makeArray_def Let_def)
next
  case False
  then show ?thesis by (simp add: makeArray_long Let_def)
qed

lemma makeArray_short_nth:
  "sz < 7 \<Longrightarrow> k < nat sz \<Longrightarrow> nat sz \<le> length arr \<Longrightarrow> makeArray arr sz start stop ! k = of_nat k"
  by (simp add: makeArray_def Let_def fold_update_nth)

lemma makeArray_nth:
  assumes "7 \<le> sz" and "nat sz \<le> length arr"
  shows "k < 4 \<Longrightarrow> makeArray arr sz start stop ! k = size_byte sz k"
    and "makeArray arr sz start stop ! 4 = of_int (vec_start start stop)"
    and "makeArray arr sz start stop ! 5 = of_int (vec_stop stop)"
    and "makeArray arr sz start stop ! 6 = header_sum (makeArray arr sz start stop) XOR 0xFF"
    and "7 \<le> k \<Longrightarrow> k < nat sz \<Longrightarrow>
         makeArray arr sz start stop ! k = of_int (pattern (vec_start start stop) (vec_stop stop) (k - 7))"
proof -
  have len: "7 \<le> length arr" "arr \<noteq> []" using assms by auto
  then show "k < 4 \<Longrightarrow> makeArray arr sz start stop ! k = size_byte sz k"
    and "makeArray arr sz start stop ! 4 = of_int (vec_start start stop)"
    and "makeArray arr sz start stop ! 5 = of_int (vec_stop stop)"
    and "7 \<le> k \<Longrightarrow> k < nat sz \<Longrightarrow>
         makeArray arr sz start stop ! k = of_int (pattern (vec_start start stop) (vec_stop stop) (k - 7))"
    using assms by (simp_all add: makeArray_long Let_def fold_update_nth)
  show "makeArray arr sz start stop ! 6 = header_sum (makeArray arr sz start stop) XOR 0xFF"
    using assms len by (simp add: makeArray_long Let_def fold_update_nth header_sum_eq)
qed

definition size_word :: "bytes \<Rightarrow> u32" where
  "size_word a = fold (\<lambda>i s. push_bit 8 s OR ucast (a ! i)) [3, 2, 1, 0] 0"

lemma FF_mask_int: "(0xFF :: int) = mask 8"
  by (simp add: mask_eq_exp_minus_1)

lemma bit_size_byte: "bit (size_byte sz k) n \<longleftrightarrow> n < 8 \<and> bit sz (8 * k + n)"
  by (auto simp: size_byte_def FF_mask_int bit_simps)

lemma size_word_bytes:
  assumes "\<And>k. k < 4 \<Longrightarrow> a ! k = size_byte sz k"
  shows "size_word a = of_int sz"
proof (rule bit_word_eqI)
  fix n :: nat
  assume n: "n < LENGTH(32)"
  have a: "a ! 0 = size_byte sz 0" "a ! Suc 0 = size_byte sz 1" "a ! 2 = size_byte sz 2"
    "a ! 3 = size_byte sz 3" using assms by simp_all
  have "bit (size_word a) n \<longleftrightarrow>
      (n < 8 \<and> bit (a ! 0) n) \<or> (8 \<le> n \<and> bit (a ! Suc 0) (n - 8)) \<or>
      (16 \<le> n \<and> bit (a ! 2) (n - 16)) \<or> (24 \<le> n \<and> bit (a ! 3) (n - 24))"
    using n by (auto simp: size_word_def bit_or_iff bit_push_bit_iff bit_unsigned_iff
        dest: bit_imp_le_length)
  also have "\<dots> \<longleftrightarrow> bit sz n"
    unfolding a bit_size_byte using n by (cases "n < 16"; cases "n < 24") auto
  finally show "bit (size_word a) n = bit (of_int sz :: u32) n"
    using n by (simp add: bit_of_int_iff)
qed

section \<open>What the check computes\<close>

lemma checkArray_short:
  "sz < 7 \<Longrightarrow> checkArray a sz = int (length (filter (\<lambda>i. uint (a ! i) \<noteq> int i) [0..<nat sz]))"
  by (simp add: checkArray_def fold_count)

text \<open>A header is accepted when its checksum is right and it holds the size of the message.\<close>

definition header_ok :: "bytes \<Rightarrow> int \<Rightarrow> bool" where
  "header_ok a sz \<longleftrightarrow> a ! 6 = header_sum a XOR 0xFF \<and> sint (size_word a) = sz"

lemma and_FF_u8 [simp]: "(x :: u8) AND 0xFF = x"
proof -
  have "(0xFF :: u8) = NOT 0" by simp
  then show ?thesis by (simp only: and.right_neutral bit.compl_zero)
qed

lemma xor_eq_0_iff_u8: "(x :: u8) XOR y = 0 \<longleftrightarrow> x = y"
proof
  assume z: "x XOR y = 0"
  have "x = (x XOR y) XOR y" by (simp add: xor.assoc)
  with z show "x = y" by simp
qed simp

lemma xor_right_cancel_u8: "(x :: u8) XOR z = y XOR z \<longleftrightarrow> x = y"
proof
  assume eq: "x XOR z = y XOR z"
  have "x = (x XOR z) XOR z" by (simp add: xor.assoc)
  also have "\<dots> = y" by (simp add: eq xor.assoc)
  finally show "x = y" .
qed simp

lemma checkArray_bad_header: "7 \<le> sz \<Longrightarrow> \<not> header_ok a sz \<Longrightarrow> checkArray a sz = 1"
  unfolding checkArray_def header_sum_def [symmetric] size_word_def [symmetric] Let_def
  by (auto simp: header_ok_def xor_eq_0_iff_u8)

lemma checkArray_data:
  assumes "7 \<le> sz" and "header_ok a sz" and "uint (a ! 4) \<le> uint (a ! 5)"
  shows "checkArray a sz =
    int (length (filter (\<lambda>i. pattern (uint (a ! 4)) (uint (a ! 5)) (i - 7) \<noteq> uint (a ! i)) [7..<nat sz]))"
  unfolding checkArray_def header_sum_def [symmetric] size_word_def [symmetric] Let_def
  using assms by (simp add: header_ok_def pattern_loop fold_count)

section \<open>Vectors are accepted, and no single wrong byte is\<close>

lemma header_ok_makeArray:
  assumes "7 \<le> sz" and "sz < 2 ^ 31" and "nat sz \<le> length arr"
  shows "header_ok (makeArray arr sz start stop) sz"
  unfolding header_ok_def
  using size_word_bytes [OF makeArray_nth(1) [OF assms(1,3)], of start stop]
  using assms makeArray_nth(4) [OF assms(1,3)]
  by (simp add: sint_of_int_u32)

lemma makeArray_bounds_bytes:
  assumes "7 \<le> sz" and "nat sz \<le> length arr"
  shows "uint (makeArray arr sz start stop ! 4) = vec_start start stop"
    and "uint (makeArray arr sz start stop ! 5) = vec_stop stop"
  using vec_bounds [of start stop] by (simp_all add: makeArray_nth [OF assms] uint_of_int_u8)

lemma makeArray_data_byte:
  assumes "7 \<le> sz" and "nat sz \<le> length arr" and "7 \<le> k" and "k < nat sz"
  shows "uint (makeArray arr sz start stop ! k) =
         pattern (vec_start start stop) (vec_stop stop) (k - 7)"
  using pattern_bounds [OF vec_start_le, of start stop "k - 7"] vec_bounds [of start stop]
  by (simp add: makeArray_nth(5) [OF assms] uint_of_int_u8)

lemma checkArray_valid:
  assumes "sz < 2 ^ 31" and "nat sz \<le> length arr"
  shows "checkArray (makeArray arr sz start stop) sz = 0"
proof (cases "sz < 7")
  case True
  then show ?thesis
    using assms by (auto simp: checkArray_short makeArray_short_nth filter_empty_conv unsigned_of_nat
        take_bit_nat_eq_self)
next
  case False
  then have "7 \<le> sz" by simp
  then show ?thesis
    using assms vec_bounds [of start stop]
    by (simp add: checkArray_data header_ok_makeArray makeArray_bounds_bytes makeArray_data_byte
        filter_empty_conv)
qed

lemma header_sum_update:
  assumes "i < 6" and "6 \<le> length a" and "b \<noteq> a ! i"
  shows "header_sum (a[i := b]) \<noteq> header_sum a"
proof -
  have ne: "a \<noteq> []" using assms(2) by auto
  have "header_sum (a[i := b]) XOR header_sum a = b XOR a ! i"
  proof -
    consider "i = 0" | "i = 1" | "i = 2" | "i = 3" | "i = 4" | "i = 5" using assms(1) by linarith
    then show ?thesis
      using assms(2) ne by cases (simp_all add: header_sum_eq ac_simps)
  qed
  then show ?thesis
    using assms(3) by (metis xor_eq_0_iff_u8)
qed

lemma checkArray_corrupt_header:
  assumes "7 \<le> sz" and "sz < 2 ^ 31" and "nat sz \<le> length arr" and "i < 7"
    and "b \<noteq> makeArray arr sz start stop ! i"
  shows "checkArray ((makeArray arr sz start stop)[i := b]) sz = 1"
proof (rule checkArray_bad_header [OF assms(1)])
  let ?a = "makeArray arr sz start stop"
  have len: "7 \<le> length ?a" using assms by simp
  have ok: "?a ! 6 = header_sum ?a XOR 0xFF"
    using header_ok_makeArray [OF assms(1-3)] by (simp add: header_ok_def)
  show "\<not> header_ok (?a[i := b]) sz"
  proof (cases "i = 6")
    case True
    then have "header_sum (?a[i := b]) = header_sum ?a" by (simp add: header_sum_eq)
    then show ?thesis using True assms(5) ok len by (simp add: header_ok_def)
  next
    case False
    then have "header_sum (?a[i := b]) \<noteq> header_sum ?a"
      using assms(4,5) len by (intro header_sum_update) simp_all
    then have "header_sum (?a[i := b]) XOR 0xFF \<noteq> header_sum ?a XOR 0xFF"
      by (simp add: xor_right_cancel_u8)
    then show ?thesis using False ok by (simp add: header_ok_def)
  qed
qed

lemma checkArray_corrupt_data:
  assumes "7 \<le> sz" and "sz < 2 ^ 31" and "nat sz \<le> length arr" and "7 \<le> i" and "i < nat sz"
    and "b \<noteq> makeArray arr sz start stop ! i"
  shows "checkArray ((makeArray arr sz start stop)[i := b]) sz = 1"
proof -
  let ?a = "makeArray arr sz start stop"
  have "header_ok (?a[i := b]) sz"
    using header_ok_makeArray [OF assms(1-3), of start stop] assms(4)
    by (simp add: header_ok_def header_sum_eq size_word_def)
  moreover have "uint (?a[i := b] ! 4) \<le> uint (?a[i := b] ! 5)"
    using assms(4) vec_bounds [of start stop] by (simp add: makeArray_bounds_bytes [OF assms(1,3)])
  ultimately have "checkArray (?a[i := b]) sz = int (length (filter (\<lambda>k.
      pattern (vec_start start stop) (vec_stop stop) (k - 7) \<noteq> uint (?a[i := b] ! k)) [7..<nat sz]))"
    using assms(1,4) by (simp add: checkArray_data makeArray_bounds_bytes [OF assms(1,3)])
  also have "length (filter (\<lambda>k.
      pattern (vec_start start stop) (vec_stop stop) (k - 7) \<noteq> uint (?a[i := b] ! k)) [7..<nat sz]) = 1"
  proof (rule length_filter_single [where j = i])
    fix k assume "k \<in> set [7..<nat sz]"
    then show "(pattern (vec_start start stop) (vec_stop stop) (k - 7) \<noteq> uint (?a[i := b] ! k)) = (k = i)"
      using assms makeArray_data_byte [OF assms(1,3), of k start stop]
      by (cases "k = i") (auto simp: word_uint_eq_iff)
  qed (use assms in simp_all)
  finally show ?thesis by simp
qed

lemma checkArray_corrupt_short:
  assumes "sz < 7" and "nat sz \<le> length arr" and "i < nat sz" and "b \<noteq> makeArray arr sz start stop ! i"
  shows "checkArray ((makeArray arr sz start stop)[i := b]) sz = 1"
proof -
  have "length (filter (\<lambda>k. uint ((makeArray arr sz start stop)[i := b] ! k) \<noteq> int k) [0..<nat sz]) = 1"
  proof (rule length_filter_single [where j = i])
    fix k assume "k \<in> set [0..<nat sz]"
    then show "(uint ((makeArray arr sz start stop)[i := b] ! k) \<noteq> int k) = (k = i)"
      using assms makeArray_short_nth [OF assms(1) _ assms(2), of k]
      by (cases "k = i") (auto simp: unsigned_of_nat take_bit_nat_eq_self word_uint_eq_iff)
  qed (use assms in simp_all)
  then show ?thesis using assms(1) by (simp add: checkArray_short)
qed

text \<open>
  C2. Every vector that makeArray writes, for any size below 2 GiB, any start and end
  argument (valid or not) and any previous content of the buffer, is accepted by checkArray
  without an error.
\<close>

theorem checkArray_makeArray:
  assumes "sz < 2 ^ 31" and "nat sz \<le> length arr"
  shows "checkArray (makeArray arr sz start stop) sz = 0"
  using assms by (rule checkArray_valid)

theorem checkArray_makeArray_witness:
  "checkArray (makeArray (replicate 100 7) 100 0 255) 100 = 0"
  using checkArray_makeArray [of 100 "replicate 100 7" 0 255] by simp

text \<open>
  C3. No single wrong byte in a vector goes unnoticed: whichever byte of the message is
  replaced by a different value, in the header, the checksum or the data, checkArray
  reports exactly one error.
\<close>

theorem checkArray_detects_corruption:
  assumes "sz < 2 ^ 31" and "nat sz \<le> length arr" and "i < nat sz"
    and "b \<noteq> makeArray arr sz start stop ! i"
  shows "checkArray ((makeArray arr sz start stop)[i := b]) sz = 1"
proof (cases "sz < 7")
  case True
  then show ?thesis using assms by (intro checkArray_corrupt_short)
next
  case False
  then show ?thesis
    using assms checkArray_corrupt_header [of sz arr i b start stop]
      checkArray_corrupt_data [of sz arr i b start stop] by (cases "i < 7") auto
qed

theorem checkArray_detects_corruption_witness:
  "checkArray ((makeArray (replicate 8 0) 8 3 9)[7 := 4]) 8 = 1"
proof (rule checkArray_detects_corruption)
  have "uint (makeArray (replicate 8 0) 8 3 9 ! 7) = 3"
    by (simp add: makeArray_data_byte vec_start_def vec_stop_def pattern_def)
  then show "4 \<noteq> makeArray (replicate 8 0) 8 3 9 ! 7" by auto
qed simp_all

end
