(* ===== verification/Ts_Common.thy ===== *)
theory Ts_Common
  imports Ts_Vector
begin

text \<open>
  The routines that the client and the server of the test suite share,
  \<^verbatim>\<open>src/ptts/tipc_ts_common.c\<close>, with the constants of \<^verbatim>\<open>src/ptts/tipc_ts.h\<close>: wrappers of
  the socket calls that end the process on an error, the loops that send and receive test
  vectors, the synchronisation signals by which client and server wait for each other, the
  socket option test and the sendto/recvfrom test.

  The messages printed under the verbosity macros \<^verbatim>\<open>info\<close>, \<^verbatim>\<open>dbg1\<close> and \<^verbatim>\<open>dbg2\<close>, and the
  value of errno that \<^verbatim>\<open>failTest\<close> appends to its message, are left out.
\<close>

section \<open>Constants and the table of tests\<close>

abbreviation (input) TS_KILL_SERVER :: int where "TS_KILL_SERVER \<equiv> -1"
abbreviation (input) TS_INVALID_TEST :: int where "TS_INVALID_TEST \<equiv> -2"
abbreviation (input) TS_MSGINC :: int where "TS_MSGINC \<equiv> 600"
abbreviation (input) TS_ANCBUFSZ :: int where "TS_ANCBUFSZ \<equiv> 2048"
abbreviation (input) TS_SCOPE :: "'a::one" where "TS_SCOPE \<equiv> TIPC_ZONE_SCOPE"
abbreviation (input) TS_SYNCRO_TYPE :: "'a::numeral" where "TS_SYNCRO_TYPE \<equiv> 73"
abbreviation (input) TS_TEST_TYPE :: "'a::numeral" where "TS_TEST_TYPE \<equiv> 72"
abbreviation (input) TS_TEST_INST :: "'a::numeral" where "TS_TEST_INST \<equiv> 1000"
abbreviation (input) TS_LOWER :: int where "TS_LOWER \<equiv> 900"
abbreviation (input) TS_UPPER :: int where "TS_UPPER \<equiv> 1100"
abbreviation (input) TS_BBUF_SIZE :: int where "TS_BBUF_SIZE \<equiv> 75000"
abbreviation (input) TS_BBUF_DATA :: u8 where "TS_BBUF_DATA \<equiv> 0x1A"
abbreviation (input) TS_SYNC_ID_1 :: int where "TS_SYNC_ID_1 \<equiv> 1"
abbreviation (input) TS_SYNC_ID_2 :: int where "TS_SYNC_ID_2 \<equiv> 2"
abbreviation (input) TS_SYNC_ID_3 :: int where "TS_SYNC_ID_3 \<equiv> 3"
abbreviation (input) TS_SYNC_ID_4 :: int where "TS_SYNC_ID_4 \<equiv> 4"
abbreviation (input) TS_SYNC_WAITING_FOR_TEST_ID :: int where "TS_SYNC_WAITING_FOR_TEST_ID \<equiv> 99"
abbreviation (input) TS_SYNC_FINISHED_TEST_ID :: int where "TS_SYNC_FINISHED_TEST_ID \<equiv> 100"
abbreviation (input) TS_NUMTIMES :: int where "TS_NUMTIMES \<equiv> 1"
abbreviation (input) TS_FIRST_SANITY_TEST :: int where "TS_FIRST_SANITY_TEST \<equiv> 1"
abbreviation (input) TS_FIRST_STRESS_TEST :: int where "TS_FIRST_STRESS_TEST \<equiv> 1000"

text \<open>\<^verbatim>\<open>enum TS_NUM\<close>, as compiled with \<^verbatim>\<open>DO_BLAST\<close> 0: the values are used as plain integers.\<close>

abbreviation (input) ts_doAllTests :: int where "ts_doAllTests \<equiv> 0"
abbreviation (input) ts_dgram :: int where "ts_dgram \<equiv> 1"
abbreviation (input) ts_rdm :: int where "ts_rdm \<equiv> 2"
abbreviation (input) ts_conn_stream :: int where "ts_conn_stream \<equiv> 3"
abbreviation (input) ts_conn_seqpacket :: int where "ts_conn_seqpacket \<equiv> 4"
abbreviation (input) ts_shutdown_stream :: int where "ts_shutdown_stream \<equiv> 5"
abbreviation (input) ts_shutdown_seqpacket :: int where "ts_shutdown_seqpacket \<equiv> 6"
abbreviation (input) ts_messageLimits :: int where "ts_messageLimits \<equiv> 7"
abbreviation (input) ts_importance :: int where "ts_importance \<equiv> 8"
abbreviation (input) ts_socketOptions :: int where "ts_socketOptions \<equiv> 9"
abbreviation (input) ts_connection_anc :: int where "ts_connection_anc \<equiv> 10"
abbreviation (input) ts_connectionless_anc :: int where "ts_connectionless_anc \<equiv> 11"
abbreviation (input) ts_multicast :: int where "ts_multicast \<equiv> 12"
abbreviation (input) ts_stream :: int where "ts_stream \<equiv> 13"
abbreviation (input) ts_bigStream :: int where "ts_bigStream \<equiv> 14"
abbreviation (input) ts_sendto :: int where "ts_sendto \<equiv> 15"
abbreviation (input) ts_lastSanityTest :: int where "ts_lastSanityTest \<equiv> 16"
abbreviation (input) ts_stress_rdm :: int where "ts_stress_rdm \<equiv> 1000"
abbreviation (input) ts_lastStressTest :: int where "ts_lastStressTest \<equiv> 1001"

definition TS_NUMBER_OF_TESTS :: int where
  "TS_NUMBER_OF_TESTS = ts_lastSanityTest + (ts_lastStressTest - TS_FIRST_STRESS_TEST)"

definition nameList :: "(int \<times> string) list" where
  "nameList =
    [(ts_doAllTests, ''do all sanity''),
     (ts_dgram, ''connectionless (SOCK_DGRAM)''),
     (ts_rdm, ''connectionless (SOCK_RDM)''),
     (ts_conn_stream, ''connection (SOCK_STREAM)''),
     (ts_conn_seqpacket, ''connection (SOCK_SEQPACKET)''),
     (ts_shutdown_stream, ''connection shutdown (SOCK_STREAM)''),
     (ts_shutdown_seqpacket, ''connection shutdown (SOCK_SEQPACKET)''),
     (ts_messageLimits, ''message size limits (SOCK_RDM)''),
     (ts_importance, ''TIPC_IMPORTANCE''),
     (ts_socketOptions, ''socket options''),
     (ts_connection_anc, ''Connection Ancillary Data (SOCK_SEQPACKET)''),
     (ts_connectionless_anc, ''Connectionless Ancillary Data (SOCK_RDM)''),
     (ts_multicast, ''Multicast (RDM)''),
     (ts_stream, ''fragmented message (SOCK_STREAM)''),
     (ts_bigStream, ''message > 66000 bytes (SOCK_STREAM)''),
     (ts_sendto, ''sendto - recvfrom (SOCK_RDM)''),
     (ts_lastSanityTest, []),
     (ts_stress_rdm, ''continuous SOCK_RDM''),
     (ts_lastStressTest, [])]"

definition testName :: "int \<Rightarrow> string" where
  "testName test = (case find (\<lambda>e. fst e = test) nameList of
                      Some e \<Rightarrow> snd e
                    | None \<Rightarrow> [])"

section \<open>Failing\<close>

definition failTest :: "string option \<Rightarrow> 'a prog" where
  "failTest reason =
     (let reason = (case reason of None \<Rightarrow> ''no reason for failure given'' | Some r \<Rightarrow> r)
      in and_then (emit (C_print (''TEST FAILED '' @ reason))) (\<lambda>_. exit_prog 1))"

abbreviation (input) err :: "string \<Rightarrow> 'a prog" where
  "err reason \<equiv> failTest (Some reason)"

section \<open>Socket calls that must succeed\<close>

definition acceptSocketTIPC :: "int \<Rightarrow> int prog" where
  "acceptSocketTIPC sockfd_L =
     and_then (sys (C_accept sockfd_L)) (\<lambda>r.
       if r_ret r < 0 then err ''accept() error'' else ret (r_ret r))"

definition listenSocketTIPC :: "int \<Rightarrow> unit prog" where
  "listenSocketTIPC sockfd_S =
     and_then (sys (C_listen sockfd_S 5)) (\<lambda>r.
       if r_ret r < 0 then err ''listen() error'' else ret ())"

definition createSocketTIPC :: "int \<Rightarrow> int prog" where
  "createSocketTIPC type =
     and_then (sys (C_socket AF_TIPC type 0)) (\<lambda>r.
       if r_ret r < 0 then err ''socket() error'' else ret (r_ret r))"

definition bindSocketTIPC :: "int \<Rightarrow> sockaddr_tipc \<Rightarrow> unit prog" where
  "bindSocketTIPC sockfd_S addr =
     and_then (sys (C_bind sockfd_S addr)) (\<lambda>r.
       if r_ret r < 0 then err ''bind() error'' else ret ())"

definition connectSocketTIPC :: "int \<Rightarrow> sockaddr_tipc \<Rightarrow> unit prog" where
  "connectSocketTIPC sockfd_C addr =
     and_then (sys (C_connect sockfd_C addr)) (\<lambda>r.
       if r_ret r < 0 then err ''connect() error'' else ret ())"

definition closeSocketTIPC :: "int \<Rightarrow> unit prog" where
  "closeSocketTIPC sockfd_C =
     and_then (sys (C_close sockfd_C)) (\<lambda>r.
       if r_ret r < 0 then err ''close() error'' else ret ())"

definition setOption :: "int \<Rightarrow> int \<Rightarrow> int \<Rightarrow> unit prog" where
  "setOption sockfd opt value =
     and_then (sys (C_setsockopt sockfd opt value)) (\<lambda>r.
       if r_ret r \<noteq> 0
       then err (''unable to set option '' @ show_int opt @ '' to '' @ show_int value)
       else ret ())"

definition getOption :: "int \<Rightarrow> int \<Rightarrow> int prog" where
  "getOption sockfd opt =
     and_then (sys (C_getsockopt sockfd opt)) (\<lambda>r.
       if r_ret r \<noteq> 0 then err (''unable to get option '' @ show_int opt) else ret (r_val r))"

definition get_portid :: "int \<Rightarrow> u32 prog" where
  "get_portid sd =
     and_then (sys (C_getsockname sd)) (\<lambda>r.
       if r_ret r < 0 then err ''Failed to get sock address'' else ret (id_ref (r_addr r)))"

definition anc_data_type :: "int \<Rightarrow> string" where
  "anc_data_type type =
     (if type = TIPC_DESTNAME then ''TIPC_DESTNAME''
      else if type = TIPC_ERRINFO then ''TIPC_ERRINFO''
      else if type = TIPC_RETDATA then ''TIPC_RETDATA''
      else ''UNKNOWN!!'')"

section \<open>Addresses\<close>

definition setServerAddr :: "sockaddr_tipc \<Rightarrow> sockaddr_tipc" where
  "setServerAddr addr =
     addr\<lparr>sa_family := AF_TIPC, sa_addrtype := TIPC_ADDR_NAME, sa_scope := TIPC_ZONE_SCOPE,
          sa_w0 := TS_TEST_TYPE, sa_w1 := TS_TEST_INST, sa_w2 := 0\<rparr>"

definition setServerAddrTo ::
  "sockaddr_tipc \<Rightarrow> int \<Rightarrow> int \<Rightarrow> int \<Rightarrow> int \<Rightarrow> sockaddr_tipc prog" where
  "setServerAddrTo addr infoType info1 info2 info3 =
     (let addr = addr\<lparr>sa_family := AF_TIPC, sa_scope := TIPC_ZONE_SCOPE,
                      sa_addrtype := of_int infoType\<rparr>
      in if infoType = TIPC_ADDR_NAME then
           ret (addr\<lparr>sa_w0 := of_int info1, sa_w1 := of_int info2, sa_w2 := of_int info3\<rparr>)
         else if infoType = TIPC_ADDR_NAMESEQ then
           ret (addr\<lparr>sa_w0 := of_int info1, sa_w1 := of_int info2, sa_w2 := of_int info3\<rparr>)
         else if infoType = TIPC_ADDR_ID then
           ret (addr\<lparr>sa_w1 := of_int info1, sa_w0 := of_int info2\<rparr>)
         else err ''Invalid address type used in test'')"

section \<open>Sending and receiving test vectors\<close>

definition sendtoSocketBuffTIPC ::
  "int \<Rightarrow> sockaddr_tipc \<Rightarrow> bytes \<Rightarrow> int \<Rightarrow> int \<Rightarrow> int \<Rightarrow> unit prog" where
  "sendtoSocketBuffTIPC sockfd addr msgArea numTimes msgSize sendErrorTarget =
     (if numTimes = 0 \<or> msgSize = 0 then ret ()
      else and_then
        (for_state [0..<nat numTimes] (\<lambda>i sendErrorCount.
           and_then (sys (C_sendto sockfd (take (nat msgSize) msgArea) 0 addr)) (\<lambda>r.
             ret (if r_ret r \<noteq> msgSize then sendErrorCount + 1 else sendErrorCount))) (0 :: int))
        (\<lambda>sendErrorCount.
           if sendErrorTarget \<ge> 0 \<and> sendErrorCount \<noteq> sendErrorTarget
           then err (''sendto() errors '' @ show_int sendErrorCount @ '' expected '' @
                     show_int sendErrorTarget @ '' Message Size = '' @ show_int msgSize)
           else ret ()))"

definition sendtoSocketTIPC ::
  "int \<Rightarrow> sockaddr_tipc \<Rightarrow> int \<Rightarrow> int \<Rightarrow> int \<Rightarrow> unit prog" where
  "sendtoSocketTIPC sockfd addr numTimes msgSize sendErrorTarget =
     (if numTimes = 0 \<or> msgSize = 0 then ret ()
      else and_then (malloc msgSize) (\<lambda>msgArea.
        case msgArea of
          None \<Rightarrow> err ''unable to allocate send buffer''
        | Some msgArea \<Rightarrow>
            sendtoSocketBuffTIPC sockfd addr (makeArray msgArea msgSize 0 255) numTimes msgSize
              sendErrorTarget))"

definition sendSocketBuffTIPC :: "int \<Rightarrow> bytes \<Rightarrow> int \<Rightarrow> int \<Rightarrow> int \<Rightarrow> unit prog" where
  "sendSocketBuffTIPC sockfd msgArea numTimes msgSize sendErrorTarget =
     (if numTimes = 0 \<or> msgSize = 0 then ret ()
      else and_then
        (for_state [0..<nat numTimes] (\<lambda>i sendErrorCount.
           and_then (sys (C_send sockfd (take (nat msgSize) msgArea) 0)) (\<lambda>r.
             let sendErrorCount = (if r_ret r \<noteq> msgSize then sendErrorCount + 1 else sendErrorCount)
             in if sendErrorTarget \<ge> 0 \<and> sendErrorCount \<noteq> sendErrorTarget
                then err ''unexpected number of send() errors''
                else ret sendErrorCount)) (0 :: int))
        (\<lambda>_. ret ()))"

definition sendSocketTIPC :: "int \<Rightarrow> int \<Rightarrow> int \<Rightarrow> int \<Rightarrow> unit prog" where
  "sendSocketTIPC sockfd numTimes msgSize sendErrorTarget =
     (if numTimes = 0 \<or> msgSize = 0 then ret ()
      else and_then (malloc msgSize) (\<lambda>msgArea.
        case msgArea of
          None \<Rightarrow> err ''unable to allocate send buffer''
        | Some msgArea \<Rightarrow>
            sendSocketBuffTIPC sockfd (makeArray msgArea msgSize 0 255) numTimes msgSize
              sendErrorTarget))"

text \<open>
  One turn of the receive loop. The state is \<^verbatim>\<open>numTimes\<close>, the two error counters and the
  buffer; \<open>Inr\<close> leaves the loop with the counters.
\<close>

definition recvSocketTIPC_turn ::
  "int \<Rightarrow> int \<Rightarrow> int \<Rightarrow> int \<times> int \<times> int \<times> bytes \<Rightarrow>
     ((int \<times> int \<times> int \<times> bytes) + (int \<times> int)) prog" where
  "recvSocketTIPC_turn sockfd maxSize checkErrorTarget =
     (\<lambda>(numTimes, recvErrorCount, checkErrorCount, msgArea).
       if numTimes < 0 \<or> numTimes \<noteq> 0 then
         (let numTimes = (if numTimes < 0 then numTimes else numTimes - 1)
          in and_then (receive (C_recv sockfd maxSize MSG_WAITALL) msgArea) (\<lambda>r.
               let res = r_ret r; msgArea = recv_into msgArea r
               in if res = 0 then
                    (if numTimes < 0 then ret (Inr (recvErrorCount, checkErrorCount))
                     else err ''recv() returned unexpected disconnect'')
                  else if res < 0 then
                    ret (Inl (numTimes, recvErrorCount + 1, checkErrorCount + 1, msgArea))
                  else if checkErrorTarget \<ge> 0 \<and> checkArray msgArea res \<noteq> 0 then
                    ret (Inl (numTimes, recvErrorCount, checkErrorCount + 1, msgArea))
                  else ret (Inl (numTimes, recvErrorCount, checkErrorCount, msgArea))))
       else ret (Inr (recvErrorCount, checkErrorCount)))"

definition recvSocketTIPC :: "int \<Rightarrow> int \<Rightarrow> int \<Rightarrow> int \<Rightarrow> int \<Rightarrow> unit prog" where
  "recvSocketTIPC sockfd numTimes maxSize recvErrorTarget checkErrorTarget =
     (if numTimes = 0 \<or> maxSize = 0 then ret ()
      else and_then (malloc maxSize) (\<lambda>msgArea.
        case msgArea of
          None \<Rightarrow> err ''unable to allocate receive buffer''
        | Some msgArea \<Rightarrow>
            and_then (loop (recvSocketTIPC_turn sockfd maxSize checkErrorTarget)
                        (numTimes, 0, 0, msgArea))
              (\<lambda>(recvErrorCount, checkErrorCount).
                 if recvErrorTarget \<ge> 0 \<and> recvErrorCount \<noteq> recvErrorTarget then
                   err ''unexpected number of recv() errors''
                 else if checkErrorTarget \<ge> 0 \<and> checkErrorCount \<noteq> checkErrorTarget then
                   err ''unexpected number of corrupted messages received''
                 else ret ())))"

section \<open>Synchronisation between client and server\<close>

text \<open>
  A signal is a name \<^verbatim>\<open>{TS_SYNCRO_TYPE, sigInstance}\<close>: its sender publishes the name and waits
  for a one-byte message to it; its receiver subscribes for the name, sends the message and
  waits for the name to be withdrawn again.
\<close>

definition sendSyncTIPC :: "int \<Rightarrow> unit prog" where
  "sendSyncTIPC sigInstance =
     and_then uninit_addr (\<lambda>addr.
     and_then (setServerAddrTo addr TIPC_ADDR_NAME TS_SYNCRO_TYPE sigInstance 0) (\<lambda>addr.
     and_then (createSocketTIPC SOCK_RDM) (\<lambda>sockfd_R.
     and_then (bindSocketTIPC sockfd_R addr) (\<lambda>_.
     and_then (sys (C_recv sockfd_R 1 0)) (\<lambda>r.
       if r_ret r \<noteq> 1 then err ''synchronization signal not acknowledged''
       else closeSocketTIPC sockfd_R)))))"

definition subscribe_to :: "tipc_subscr \<Rightarrow> int \<Rightarrow> int \<Rightarrow> tipc_subscr" where
  "subscribe_to subscr type instance =
     subscr\<lparr>sub_seq := \<lparr>seq_type = htonl (of_int type), seq_lower = htonl (of_int instance),
                        seq_upper = htonl (of_int instance)\<rparr>,
            sub_timeout := htonl TIPC_WAIT_FOREVER,
            sub_filter := htonl TIPC_SUB_SERVICE\<rparr>"

definition recvSyncTIPC :: "int \<Rightarrow> unit prog" where
  "recvSyncTIPC sigInstance =
     and_then (createSocketTIPC SOCK_SEQPACKET) (\<lambda>sockfd_S.
     and_then uninit_addr (\<lambda>addr.
     and_then (setServerAddrTo addr TIPC_ADDR_NAME TIPC_TOP_SRV TIPC_TOP_SRV 0) (\<lambda>addr.
     and_then (connectSocketTIPC sockfd_S addr) (\<lambda>_.
     and_then uninit_subscr (\<lambda>subscr.
     let subscr = subscribe_to subscr TS_SYNCRO_TYPE sigInstance in
     and_then (sys (C_send_subscr sockfd_S subscr)) (\<lambda>r.
     if r_ret r \<noteq> sizeof_subscr then err ''Failed to send subscription'' else
     and_then (sys (C_recv_event sockfd_S)) (\<lambda>r.
     if r_ret r \<noteq> sizeof_event then err ''Failed to receive event'' else
     if ev_event (r_event r) \<noteq> htonl TIPC_PUBLISHED then err ''Signal %d not detected'' else
     and_then (createSocketTIPC SOCK_RDM) (\<lambda>sockfd_R.
     and_then (setOption sockfd_R TIPC_IMPORTANCE TIPC_CRITICAL_IMPORTANCE) (\<lambda>_.
     and_then (setServerAddrTo addr TIPC_ADDR_NAME TS_SYNCRO_TYPE sigInstance 0) (\<lambda>addr.
     and_then (sys (C_sendto sockfd_R [ucast (seq_type (sub_seq subscr))] 0 addr)) (\<lambda>r.
     if r_ret r \<noteq> 1 then err ''can't acknowledge synchronization signal'' else
     and_then (closeSocketTIPC sockfd_R) (\<lambda>_.
     and_then (sys (C_recv_event sockfd_S)) (\<lambda>r.
     if r_ret r \<noteq> sizeof_event then err ''Failed to receive event'' else
     if ev_event (r_event r) \<noteq> htonl TIPC_WITHDRAWN then err ''Signal %d not detected'' else
     closeSocketTIPC sockfd_S)))))))))))))"

definition getServerAddr :: "sockaddr_tipc \<Rightarrow> sockaddr_tipc prog" where
  "getServerAddr addr =
     and_then (createSocketTIPC SOCK_SEQPACKET) (\<lambda>sockfd_X.
     and_then uninit_addr (\<lambda>topsrv_addr.
     and_then (setServerAddrTo topsrv_addr TIPC_ADDR_NAME TIPC_TOP_SRV TIPC_TOP_SRV 0) (\<lambda>topsrv_addr.
     and_then (connectSocketTIPC sockfd_X topsrv_addr) (\<lambda>_.
     and_then uninit_subscr (\<lambda>subscr.
     let subscr = subscribe_to subscr TS_TEST_TYPE TS_TEST_INST in
     and_then (sys (C_send_subscr sockfd_X subscr)) (\<lambda>r.
     if r_ret r \<noteq> sizeof_subscr then err ''Failed to send subscription'' else
     and_then (sys (C_recv_event sockfd_X)) (\<lambda>r.
     if r_ret r \<noteq> sizeof_event then err ''Failed to receive event'' else
     if ev_event (r_event r) \<noteq> htonl TIPC_PUBLISHED then err ''Signal %d not detected'' else
     and_then (closeSocketTIPC sockfd_X) (\<lambda>_.
     setServerAddrTo addr TIPC_ADDR_ID
       (sint (ntohl (port_node (ev_port (r_event r)))))
       (sint (ntohl (port_ref (ev_port (r_event r))))) 0))))))))"

section \<open>The socket option test\<close>

definition typeString :: "int \<Rightarrow> string" where
  "typeString a_type =
     (if a_type = 0 then ''SOCK_STREAM'' else if a_type = 1 then ''SOCK_SEQPACKET''
      else if a_type = 2 then ''SOCK_RDM'' else if a_type = 3 then ''SOCK_DGRAM'' else [])"

definition socket_type :: "nat \<Rightarrow> int" where
  "socket_type ii = [SOCK_STREAM, SOCK_SEQPACKET, SOCK_RDM, SOCK_DGRAM] ! ii"

text \<open>Reading an option of one of the four sockets and comparing it with what is expected.\<close>

definition expect_option :: "int \<Rightarrow> int \<Rightarrow> int \<Rightarrow> string \<Rightarrow> unit prog" where
  "expect_option so opt expected failString =
     and_then (getOption so opt) (\<lambda>n_opt. if n_opt \<noteq> expected then err failString else ret ())"

text \<open>A connection to a name nobody listens on runs into the timeout that was set.\<close>

definition option_timeouts :: "int list \<Rightarrow> sockaddr_tipc \<Rightarrow> unit prog" where
  "option_timeouts so saddr =
     for_each [0..<2] (\<lambda>ii.
       and_then (createSocketTIPC (socket_type ii)) (\<lambda>sol.
       and_then (bindSocketTIPC sol saddr) (\<lambda>_.
       and_then (setOption (so ! ii) TIPC_CONN_TIMEOUT 300) (\<lambda>_.
       and_then (sys (C_connect (so ! ii) saddr)) (\<lambda>r.
       if r_ret r = 0
       then err (''FAILED : connect didn't return error on '' @ typeString (int ii))
       else if r_errno r \<noteq> ETIMEDOUT then err ''FAILED : didn't time out''
       else closeSocketTIPC sol)))))"

definition common_test_socketOptions :: "unit prog" where
  "common_test_socketOptions =
     and_then (collect [0..<4] (\<lambda>ii. createSocketTIPC (socket_type ii))) (\<lambda>so.
     and_then uninit_addr (\<lambda>saddr.
     let saddr = setServerAddr saddr in block
      [for_each [0..<4] (\<lambda>ii.
         expect_option (so ! ii) TIPC_IMPORTANCE TIPC_LOW_IMPORTANCE
           (''FAILED : wrong default TIPC_IMPORTANCE for socket type '' @ typeString (int ii))),
       for_each [0..<4] (\<lambda>ii.
         expect_option (so ! ii) TIPC_SRC_DROPPABLE (if ii < 3 then 0 else 1)
           (''FAILED : wrong default SRC_DROPPABLE for socket type '' @ typeString (int ii))),
       for_each [0..<4] (\<lambda>ii.
         expect_option (so ! ii) TIPC_DEST_DROPPABLE (if ii < 2 then 0 else 1)
           (''FAILED : wrong default DEST_DROPPABLE for socket type '' @ typeString (int ii))),
       for_each [0..<4] (\<lambda>ii.
         expect_option (so ! ii) TIPC_CONN_TIMEOUT 8000
           (''FAILED : wrong default TIPC_CONN_TIMEOUT for socket type '' @ typeString (int ii))),
       for_each [0..<4] (\<lambda>ii. for_each [TIPC_LOW_IMPORTANCE..TIPC_CRITICAL_IMPORTANCE - 1] (\<lambda>jj. block
         [setOption (so ! ii) TIPC_IMPORTANCE jj,
          expect_option (so ! ii) TIPC_IMPORTANCE jj
            (''FAILED : wrong TIPC_IMPORTANCE for socket type '' @ typeString (int ii))])),
       for_each [0..<4] (\<lambda>ii. only_if (socket_type ii \<noteq> SOCK_STREAM) (for_each [0..1] (\<lambda>jj. block
         [setOption (so ! ii) TIPC_SRC_DROPPABLE jj,
          expect_option (so ! ii) TIPC_SRC_DROPPABLE jj
            (''FAILED : wrong TIPC_SRC_DROPPABLE for socket type '' @ typeString (int ii))]))),
       for_each [0..<4] (\<lambda>ii. for_each [0..1] (\<lambda>jj. block
         [setOption (so ! ii) TIPC_DEST_DROPPABLE jj,
          expect_option (so ! ii) TIPC_DEST_DROPPABLE jj
            (''FAILED : wrong TIPC_DEST_DROPPABLE for socket type '' @ typeString (int ii))])),
       for_each [0..<4] (\<lambda>ii. block
         [setOption (so ! ii) TIPC_CONN_TIMEOUT 200,
          expect_option (so ! ii) TIPC_CONN_TIMEOUT 200
            (''FAILED : wrong TIPC_CONN_TIMEOUT for socket type '' @ typeString (int ii))]),
       option_timeouts so saddr,
       for_each [0..<4] (\<lambda>ii. closeSocketTIPC (so ! ii))]))"

section \<open>The sendto/recvfrom test\<close>

abbreviation (input) THE_STRING :: string where "THE_STRING \<equiv> ''recvfrom''"
abbreviation (input) MAX_STR :: int where "MAX_STR \<equiv> 10"

definition common_test_recvfrom :: "int \<Rightarrow> unit prog" where
  "common_test_recvfrom syncId =
     and_then uninit_addr (\<lambda>addr.
     let addr = setServerAddr addr in
     and_then (createSocketTIPC SOCK_RDM) (\<lambda>so.
     and_then (bindSocketTIPC so addr) (\<lambda>_.
     and_then (sendSyncTIPC syncId) (\<lambda>_.
     and_then (uninit_bytes 10) (\<lambda>buffer.
     and_then (receive (C_recvfrom so MAX_STR 0) buffer) (\<lambda>r.
     let buffer = recv_into buffer r; len = r_ret r in
     if int (length THE_STRING) + 1 \<noteq> len then
       err (''common_test_recvfrom(): error receiving, size = '' @ show_int len)
     else if \<not> streq THE_STRING buffer then
       err ''common_test_recvfrom(): string mismatch''
     else closeSocketTIPC so))))))"

definition common_test_sendto :: "int \<Rightarrow> unit prog" where
  "common_test_sendto syncId =
     and_then uninit_addr (\<lambda>addr.
     let addr = setServerAddr addr in
     and_then (createSocketTIPC SOCK_RDM) (\<lambda>so.
     and_then (recvSyncTIPC syncId) (\<lambda>_.
     and_then (sys (C_sendto so (str_bytes THE_STRING) 0 addr)) (\<lambda>r.
     if int (length THE_STRING) + 1 \<noteq> r_ret r then
       err (''common_test_sendto(): error sending, size = '' @ show_int (r_ret r))
     else closeSocketTIPC so))))"

section \<open>What client and server can observe of each other\<close>

text \<open>
  The steps of a test at the level of its protocol: a synchronisation signal is raised or
  awaited, a message of some length is sent, a message of at most some length is received,
  the connection is shut down.
\<close>

datatype ts_event = Signal int | Await int | Msg int | Rcv int | Shut

definition is_sync_name :: "sockaddr_tipc \<Rightarrow> bool" where
  "is_sync_name a \<longleftrightarrow> sa_addrtype a = TIPC_ADDR_NAME \<and> name_type a = TS_SYNCRO_TYPE"

fun obs_ts :: "call \<Rightarrow> ts_event list" where
  "obs_ts (C_bind fd a) = (if is_sync_name a then [Signal (uint (name_instance a))] else [])"
| "obs_ts (C_sendto fd d fl a) =
     (if is_sync_name a then [Await (uint (name_instance a))] else [Msg (int (length d))])"
| "obs_ts (C_send fd d fl) = [Msg (int (length d))]"
| "obs_ts (C_recv fd n fl) = (if fl = MSG_WAITALL then [Rcv n] else [])"
| "obs_ts (C_recvfrom fd n fl) = [Rcv n]"
| "obs_ts (C_shutdown fd) = [Shut]"
| "obs_ts _ = []"

lemma emits_failTest [emits_intros]: "emits obs (failTest r) es"
  by (simp add: emits_def failTest_def and_then_def emit_def exit_prog_def split: option.splits)

text \<open>The synchronisation signals alone.\<close>

fun is_sync :: "ts_event \<Rightarrow> bool" where
  "is_sync (Signal i) \<longleftrightarrow> True"
| "is_sync (Await i) \<longleftrightarrow> True"
| "is_sync _ \<longleftrightarrow> False"

definition obs_sync :: "call \<Rightarrow> ts_event list" where
  "obs_sync c = filter is_sync (obs_ts c)"

lemma obs_sync_simps [simp]:
  "obs_sync (C_bind fd a) = (if is_sync_name a then [Signal (uint (name_instance a))] else [])"
  "obs_sync (C_sendto fd d fl a) = (if is_sync_name a then [Await (uint (name_instance a))] else [])"
  by (simp_all add: obs_sync_def)

text \<open>
  An observer of this suite sees nothing of the calls that open, connect, configure and
  close sockets, and sees a signal or the answer to it by the name that is used; what it
  makes of data is left open.
\<close>

locale ts_observer =
  fixes obs :: "call \<Rightarrow> ts_event list"
  assumes quiet [simp]:
      "obs (C_socket a b c) = []" "obs (C_listen a b) = []" "obs (C_accept a) = []"
      "obs (C_connect a addr) = []" "obs (C_send_subscr a sub) = []" "obs (C_recv_event a) = []"
      "obs (C_setsockopt a b c) = []" "obs (C_getsockopt a b) = []" "obs (C_getsockname a) = []"
      "obs (C_close a) = []" "obs (C_malloc b) = []" "obs (C_print msg) = []"
      "obs (C_sleep a) = []" "obs C_gettimeofday = []" "obs (C_recvmsg a b) = []"
      "obs (C_select fds) = []" "obs (C_recv a b 0) = []"
    and signal: "obs (C_bind a addr) =
      (if is_sync_name addr then [Signal (uint (name_instance addr))] else [])"
    and answer: "is_sync_name addr \<Longrightarrow>
      obs (C_sendto a d fl addr) = [Await (uint (name_instance addr))]"
begin

lemma wrappers:
  "emits obs (acceptSocketTIPC fd) []"
  "emits obs (listenSocketTIPC fd) []"
  "emits obs (createSocketTIPC t) []"
  "emits obs (connectSocketTIPC fd a) []"
  "emits obs (closeSocketTIPC fd) []"
  "emits obs (setOption fd opt v) []"
  "emits obs (getOption fd opt) []"
  "emits obs (get_portid fd) []"
  unfolding acceptSocketTIPC_def listenSocketTIPC_def createSocketTIPC_def connectSocketTIPC_def
    closeSocketTIPC_def setOption_def getOption_def get_portid_def
  by (rule emits_by, (rule emits_structure emits_intros | simp; fail)+)+

lemma bindSocket: "obs (C_bind fd a) = es \<Longrightarrow> emits obs (bindSocketTIPC fd a) es"
  unfolding bindSocketTIPC_def
  by (rule emits_by, (rule emits_structure emits_intros | simp; fail)+)

end

lemma setServerAddrTo_cases [simp]:
  "setServerAddrTo a TIPC_ADDR_NAME i1 i2 i3 = ret (a\<lparr>sa_family := AF_TIPC, sa_scope := 1,
     sa_addrtype := 2, sa_w0 := of_int i1, sa_w1 := of_int i2, sa_w2 := of_int i3\<rparr>)"
  "setServerAddrTo a TIPC_ADDR_NAMESEQ i1 i2 i3 = ret (a\<lparr>sa_family := AF_TIPC, sa_scope := 1,
     sa_addrtype := 1, sa_w0 := of_int i1, sa_w1 := of_int i2, sa_w2 := of_int i3\<rparr>)"
  "setServerAddrTo a TIPC_ADDR_ID i1 i2 i3 = ret (a\<lparr>sa_family := AF_TIPC, sa_scope := 1,
     sa_addrtype := 3, sa_w1 := of_int i1, sa_w0 := of_int i2\<rparr>)"
  by (simp_all add: setServerAddrTo_def)

lemma not_sync_server [simp]: "\<not> is_sync_name (setServerAddr a)"
  by (simp add: is_sync_name_def setServerAddr_def)

lemma uint_sync: "0 \<le> i \<Longrightarrow> i < 2 ^ 32 \<Longrightarrow> uint (of_int i :: u32) = i"
  by (simp add: unsigned_of_int take_bit_int_eq_self)

context ts_observer
begin

lemma sendSync:
  assumes "0 \<le> i" and "i < 2 ^ 32"
  shows "emits obs (sendSyncTIPC i) [Signal i]"
  unfolding sendSyncTIPC_def setServerAddrTo_cases ret_and_then
  by (rule emits_by, (rule emits_structure emits_intros wrappers bindSocket
      | simp add: signal is_sync_name_def uint_sync [OF assms]; fail)+)

lemma recvSync:
  assumes "0 \<le> i" and "i < 2 ^ 32"
  shows "emits obs (recvSyncTIPC i) [Await i]"
  unfolding recvSyncTIPC_def Let_def setServerAddrTo_cases ret_and_then
  by (rule emits_by, (rule emits_structure emits_intros wrappers
      | simp add: answer is_sync_name_def uint_sync [OF assms]; fail)+)

lemma getServer: "emits obs (getServerAddr a) []"
  unfolding getServerAddr_def Let_def setServerAddrTo_cases ret_and_then
  by (rule emits_by, (rule emits_structure emits_intros wrappers | simp; fail)+)

lemma socketOptions: "emits obs common_test_socketOptions []"
proof -
  have [emits_intros]: "emits obs (expect_option so opt n s) []" for so opt n s
    unfolding expect_option_def
    by (rule emits_by, (rule emits_structure emits_intros wrappers | simp; fail)+)
  show ?thesis
    unfolding common_test_socketOptions_def option_timeouts_def Let_def
    by (rule quiet_structure emits_intros wrappers bindSocket | simp add: signal; fail)+
qed

end

interpretation ts: ts_observer obs_ts
  by unfold_locales simp_all

interpretation sync: ts_observer obs_sync
  by unfold_locales (simp_all add: obs_sync_def)

lemmas [emits_intros] = ts.wrappers ts.bindSocket ts.getServer ts.socketOptions
  sync.wrappers sync.bindSocket sync.getServer sync.socketOptions

lemma concat_map_const: "concat (map (\<lambda>_. [x]) xs) = replicate (length xs) x"
  by (induction xs) auto

lemma emits_sendtoSocketBuffTIPC:
  assumes "\<not> is_sync_name a" and "0 < sz" and "nat sz \<le> length buf"
  shows "emits obs_ts (sendtoSocketBuffTIPC fd a buf n sz t) (replicate (nat n) (Msg sz))"
proof -
  have "emits obs_ts (for_state [0..<nat n] (\<lambda>i sendErrorCount.
      and_then (sys (C_sendto fd (take (nat sz) buf) 0 a)) (\<lambda>r.
        ret (if r_ret r \<noteq> sz then sendErrorCount + 1 else sendErrorCount))) (0 :: int))
      (concat (map (\<lambda>_. [Msg sz]) [0..<nat n]))"
    by (rule emits_for_state, rule emits_then_quiet, rule emits_sys)
      (use assms in \<open>simp_all add: emits_ret\<close>)
  then show ?thesis
    unfolding sendtoSocketBuffTIPC_def concat_map_const
    using assms(2) by (auto intro!: emits_ret emits_then_quiet emits_failTest)
qed

lemma emits_sendtoSocketTIPC:
  assumes "\<not> is_sync_name a" and "0 < sz"
  shows "emits obs_ts (sendtoSocketTIPC fd a n sz t) (replicate (nat n) (Msg sz))"
  unfolding sendtoSocketTIPC_def
  using assms by (auto intro!: emits_ret emits_malloc_then emits_failTest emits_sendtoSocketBuffTIPC)

lemma emits_sendSocketBuffTIPC:
  assumes "0 < sz" and "nat sz \<le> length buf"
  shows "emits obs_ts (sendSocketBuffTIPC fd buf n sz t) (replicate (nat n) (Msg sz))"
proof -
  have "emits obs_ts (for_state [0..<nat n] (\<lambda>i sendErrorCount.
      and_then (sys (C_send fd (take (nat sz) buf) 0)) (\<lambda>r.
        let sendErrorCount = (if r_ret r \<noteq> sz then sendErrorCount + 1 else sendErrorCount)
        in if t \<ge> 0 \<and> sendErrorCount \<noteq> t
           then err ''unexpected number of send() errors''
           else ret sendErrorCount)) (0 :: int))
      (concat (map (\<lambda>_. [Msg sz]) [0..<nat n]))"
    unfolding Let_def
    by (rule emits_for_state, rule emits_then_quiet, rule emits_sys)
      (use assms in \<open>simp_all add: emits_ret emits_failTest\<close>)
  then show ?thesis
    unfolding sendSocketBuffTIPC_def concat_map_const
    using assms(1) by (auto intro!: emits_ret emits_then_quiet emits_failTest)
qed

lemma emits_sendSocketTIPC:
  assumes "0 \<le> sz" and "sz = 0 \<longrightarrow> n = 0"
  shows "emits obs_ts (sendSocketTIPC fd n sz t) (replicate (nat n) (Msg sz))"
  unfolding sendSocketTIPC_def
  using assms by (auto intro!: emits_ret emits_malloc_then emits_failTest emits_sendSocketBuffTIPC)

lemma frugal_failTest [waits_intros]: "frugal (failTest r)"
  unfolding failTest_def Let_def by (intro waits_intros)

lemma turns_recv: "turns (recvSocketTIPC_turn fd sz t s)"
  unfolding recvSocketTIPC_turn_def Let_def
  by (cases s) (simp only: prod.case, intro waits_intros)

lemma recv_loop_unfold:
  "loop (recvSocketTIPC_turn fd sz t) s =
   and_then (recvSocketTIPC_turn fd sz t s)
     (\<lambda>r. case r of Inl s' \<Rightarrow> loop (recvSocketTIPC_turn fd sz t) s' | Inr x \<Rightarrow> ret x)"
  by (rule loop_unfold) (rule turns_recv)

lemma failTest_and_then [simp]: "and_then (failTest r) f = failTest r"
  by (simp add: failTest_def Let_def and_then_assoc)

lemma recv_loop_0: "loop (recvSocketTIPC_turn fd sz t) (0, re, ce, buf) = ret (re, ce)"
  by (subst recv_loop_unfold) (simp add: recvSocketTIPC_turn_def)

lemma recv_loop_Suc:
  "loop (recvSocketTIPC_turn fd sz t) (int (Suc n), re, ce, buf) =
   and_then (receive (C_recv fd sz MSG_WAITALL) buf) (\<lambda>r.
     if r_ret r = 0 then err ''recv() returned unexpected disconnect''
     else loop (recvSocketTIPC_turn fd sz t)
       (int n, if r_ret r < 0 then re + 1 else re,
        if r_ret r < 0 \<or> t \<ge> 0 \<and> checkArray (recv_into buf r) (r_ret r) \<noteq> 0 then ce + 1 else ce,
        recv_into buf r))"
proof -
  have "recvSocketTIPC_turn fd sz t (int (Suc n), re, ce, buf) =
    and_then (receive (C_recv fd sz MSG_WAITALL) buf) (\<lambda>r.
      if r_ret r = 0 then err ''recv() returned unexpected disconnect''
      else ret (Inl (int n, if r_ret r < 0 then re + 1 else re,
        if r_ret r < 0 \<or> t \<ge> 0 \<and> checkArray (recv_into buf r) (r_ret r) \<noteq> 0 then ce + 1 else ce,
        recv_into buf r)))"
    by (auto simp: recvSocketTIPC_turn_def Let_def intro!: arg_cong [where f = "and_then _"])
  then show ?thesis
    by (subst recv_loop_unfold) (simp only: and_then_assoc and_then_if failTest_and_then
        ret_and_then sum.case)
qed

lemma emits_recv_loop:
  "emits obs_ts (loop (recvSocketTIPC_turn fd sz t) (int n, re, ce, buf)) (replicate n (Rcv sz))"
proof (induction n arbitrary: re ce buf)
  case 0
  then show ?case by (simp add: recv_loop_0 emits_ret)
next
  case (Suc n)
  have "replicate (Suc n) (Rcv sz) = [Rcv sz] @ replicate n (Rcv sz)" by simp
  then show ?case
    unfolding recv_loop_Suc
    by (auto simp only: intro!: emits_and_then [where es = "[Rcv sz]"] emits_receive emits_failTest
        emits_if Suc.IH) simp
qed

lemma emits_recvSocketTIPC:
  assumes "0 \<le> n" and "sz = 0 \<longrightarrow> n = 0"
  shows "emits obs_ts (recvSocketTIPC fd n sz t1 t2) (replicate (nat n) (Rcv sz))"
proof -
  have "emits obs_ts (loop (recvSocketTIPC_turn fd sz t2) (n, 0, 0, buf)) (replicate (nat n) (Rcv sz))"
    for buf using emits_recv_loop [of fd sz t2 "nat n"] assms(1) by simp
  then have "emits obs_ts (and_then (loop (recvSocketTIPC_turn fd sz t2) (n, 0, 0, buf))
      (\<lambda>(re, ce). if t1 \<ge> 0 \<and> re \<noteq> t1 then err ''unexpected number of recv() errors''
        else if t2 \<ge> 0 \<and> ce \<noteq> t2 then err ''unexpected number of corrupted messages received''
        else ret ())) (replicate (nat n) (Rcv sz))" for buf
    by (rule emits_then_quiet) (auto intro!: emits_ret emits_failTest)
  then show ?thesis
    unfolding recvSocketTIPC_def
    using assms by (auto intro!: emits_ret emits_malloc_then emits_failTest)
qed

section \<open>Observing signals only\<close>

locale signal_observer = ts_observer +
  assumes no_data [simp]:
      "obs (C_send a d fl) = []" "obs (C_recv a n fl) = []" "obs (C_recvfrom a n fl) = []"
      "obs (C_shutdown a) = []"
    and no_datagram: "\<not> is_sync_name addr \<Longrightarrow> obs (C_sendto a d fl addr) = []"
begin

lemma data_loops:
  "emits obs (sendSocketBuffTIPC fd buf n sz t) []"
  "emits obs (sendSocketTIPC fd n sz t) []"
  "emits obs (recvSocketTIPC_turn fd sz t st) []"
  "emits obs (recvSocketTIPC fd n sz t t') []"
  unfolding sendSocketBuffTIPC_def sendSocketTIPC_def recvSocketTIPC_def recvSocketTIPC_turn_def
    Let_def
  by (rule quiet_structure emits_intros | simp; fail)+

lemma datagram_loops:
  assumes "\<not> is_sync_name a"
  shows "emits obs (sendtoSocketBuffTIPC fd a buf n sz t) []"
    and "emits obs (sendtoSocketTIPC fd a n sz t) []"
  unfolding sendtoSocketBuffTIPC_def sendtoSocketTIPC_def
  by (rule quiet_structure emits_intros | simp add: no_datagram [OF assms]; fail)+

lemma recvfrom_test:
  assumes "0 \<le> i" and "i < 2 ^ 32"
  shows "emits obs (common_test_recvfrom i) [Signal i]"
  unfolding common_test_recvfrom_def Let_def
  by (rule emits_by, (rule emits_structure emits_intros wrappers bindSocket sendSync [OF assms]
      | simp add: signal; fail)+)

lemma sendto_test:
  assumes "0 \<le> i" and "i < 2 ^ 32"
  shows "emits obs (common_test_sendto i) [Await i]"
  unfolding common_test_sendto_def Let_def
  by (rule emits_by, (rule emits_structure emits_intros wrappers recvSync [OF assms]
      | simp add: no_datagram; fail)+)

end

interpretation sync: signal_observer obs_sync
  by unfold_locales (simp_all add: obs_sync_def)

section \<open>The verdict of the receive loop\<close>

text \<open>
  What the kernel promises of a receive call that did not report a disconnect: it failed,
  or it delivered as many bytes as it says, no more than the buffer holds.
\<close>

definition delivered :: "int \<Rightarrow> reply \<Rightarrow> bool" where
  "delivered maxSize r \<longleftrightarrow> r_ret r \<noteq> 0 \<and>
     (0 < r_ret r \<longrightarrow> r_ret r \<le> maxSize \<and> int (length (r_data r)) = r_ret r)"

definition corrupt :: "reply \<Rightarrow> bool" where
  "corrupt r \<longleftrightarrow> r_ret r < 0 \<or> checkArray (r_data r) (r_ret r) \<noteq> 0"

lemma checkArray_cong:
  assumes "\<And>i. i < nat sz \<Longrightarrow> a ! i = b ! i"
  shows "checkArray a sz = checkArray b sz"
proof (cases "sz < 7")
  case True
  have "filter (\<lambda>i. uint (a ! i) \<noteq> int i) [0..<nat sz] = filter (\<lambda>i. uint (b ! i) \<noteq> int i) [0..<nat sz]"
    using assms by (intro filter_cong) auto
  with True show ?thesis by (simp add: checkArray_short)
next
  case False
  then have hd: "a ! i = b ! i" if "i < 7" for i using assms that by simp
  have hs: "a ! 4 = b ! 4" "a ! 5 = b ! 5" "a ! 6 = b ! 6" by (simp_all add: hd)
  have "header_sum a = header_sum b" by (simp add: header_sum_eq hd)
  moreover have "size_word a = size_word b" by (simp add: size_word_def hd)
  moreover have "fold (\<lambda>i (e, c). (if c \<noteq> uint (a ! i) then e + 1 else e,
        if stop < c + 1 then start else c + 1)) [7..<nat sz] s =
      fold (\<lambda>i (e, c). (if c \<noteq> uint (b ! i) then e + 1 else e,
        if stop < c + 1 then start else c + 1)) [7..<nat sz] s"
    for start stop :: int and s :: "int \<times> int"
    using assms by (intro fold_cong refl) auto
  ultimately show ?thesis
    unfolding checkArray_def header_sum_def [symmetric] size_word_def [symmetric] Let_def hs
    using False by simp
qed

lemma recv_into_delivered:
  assumes "delivered sz r" and "0 < r_ret r" and "length buf = nat sz"
  shows "checkArray (recv_into buf r) (r_ret r) = checkArray (r_data r) (r_ret r)"
proof (rule checkArray_cong)
  fix i assume "i < nat (r_ret r)"
  with assms show "recv_into buf r ! i = r_data r ! i"
    by (auto simp: delivered_def recv_into_def Let_def nth_append)
qed

lemma answers_recv_loop:
  assumes "\<forall>r \<in> set rs. delivered sz r" and "length buf = nat sz" and "0 \<le> t" and "0 \<le> sz"
  shows "answers (loop (recvSocketTIPC_turn fd sz t) (int (length rs), re, ce, buf)) rs
           (re + int (length (filter (\<lambda>r. r_ret r < 0) rs)), ce + int (length (filter corrupt rs)))"
  using assms(1,2)
proof (induction rs arbitrary: re ce buf)
  case Nil
  then show ?case by (simp add: recv_loop_0 answers_ret)
next
  case (Cons r rs)
  let ?re = "if r_ret r < 0 then re + 1 else re"
  let ?ce = "if corrupt r then ce + 1 else ce"
  have d: "delivered sz r" and ne: "r_ret r \<noteq> 0" using Cons.prems by (auto simp: delivered_def)
  have ce: "(if r_ret r < 0 \<or> t \<ge> 0 \<and> checkArray (recv_into buf r) (r_ret r) \<noteq> 0 then ce + 1 else ce) = ?ce"
    using recv_into_delivered [OF d _ Cons.prems(2)] assms(3) ne by (auto simp: corrupt_def)
  have "answers (loop (recvSocketTIPC_turn fd sz t) (int (length rs), ?re, ?ce, recv_into buf r)) rs
          (?re + int (length (filter (\<lambda>r. r_ret r < 0) rs)), ?ce + int (length (filter corrupt rs)))"
    using Cons.prems by (intro Cons.IH) simp_all
  then show ?case
    unfolding list.size recv_loop_Suc add_Suc_right add_0_right
    using ne ce Cons.prems(2) assms(4)
    by (intro answers_receive_then) (simp_all add: algebra_simps split: if_splits)
qed

text \<open>
  C4. The receive loop of the test suite is an exact judge. Given as many delivered
  messages as it waits for, recvSocketTIPC with both error targets 0 returns if every one
  of them is an intact test vector, and ends the process with status 1 if any receive call
  failed or any message is corrupted; it never blocks and never passes a bad message.
\<close>

theorem recvSocketTIPC_verdict:
  assumes "replies w = mal # rs @ rest" and "r_ret mal \<noteq> 0"
    and "\<forall>r \<in> set rs. delivered maxSize r" and "rs \<noteq> []" and "0 < maxSize"
  shows "fst (recvSocketTIPC fd (int (length rs)) maxSize 0 0 w) =
         (if \<exists>r \<in> set rs. corrupt r then Exit 1 else Ret ())"
proof -
  obtain buf w1 where w1: "malloc maxSize w = (Ret (Some buf), w1)" "replies w1 = rs @ rest"
    using assms(1,2) by (auto simp: malloc_def and_then_def sys_def ret_def)
  have len: "length buf = nat maxSize" by (rule malloc_Ret [OF w1(1)])
  let ?re = "int (length (filter (\<lambda>r. r_ret r < 0) rs))" and ?ce = "int (length (filter corrupt rs))"
  obtain w2 where w2: "loop (recvSocketTIPC_turn fd maxSize 0) (int (length rs), 0, 0, buf) w1 =
      (Ret (?re, ?ce), w2)"
    using answers_recv_loop [OF assms(3) len, of 0 fd 0 0] w1(2) assms(5) by (auto simp: answers_def)
  have "?re \<noteq> 0 \<or> ?ce \<noteq> 0 \<longleftrightarrow> (\<exists>r \<in> set rs. corrupt r)"
    by (auto simp: filter_empty_conv corrupt_def)
  then show ?thesis
    unfolding recvSocketTIPC_def
    using assms(4,5) w1(1) w2
    by (auto simp: and_then_def ret_def failTest_def Let_def emit_def exit_prog_def)
qed

theorem recvSocketTIPC_verdict_witness:
  "fst (recvSocketTIPC 4 1 8 0 0
     (world_of [msg_reply [1], msg_reply (makeArray (replicate 8 0) 8 0 255)])) = Ret () \<and>
   fst (recvSocketTIPC 4 1 8 0 0 (world_of [msg_reply [1], msg_reply [0, 1, 7]])) = Exit 1"
proof
  let ?v = "makeArray (replicate 8 0) 8 0 255"
  have "\<not> corrupt (msg_reply ?v)"
    using checkArray_valid [of 8 "replicate 8 0" 0 255] by (simp add: corrupt_def)
  then show "fst (recvSocketTIPC 4 1 8 0 0 (world_of [msg_reply [1], msg_reply ?v])) = Ret ()"
    using recvSocketTIPC_verdict [of "world_of [msg_reply [1], msg_reply ?v]" "msg_reply [1]"
        "[msg_reply ?v]" "[]" 8 4]
    by (simp add: world_of_def delivered_def)
  have "corrupt (msg_reply [0, 1, 7])"
    by (simp add: corrupt_def checkArray_short upt_rec)
  then show "fst (recvSocketTIPC 4 1 8 0 0 (world_of [msg_reply [1], msg_reply [0, 1, 7]])) = Exit 1"
    using recvSocketTIPC_verdict [of "world_of [msg_reply [1], msg_reply [0, 1, 7]]" "msg_reply [1]"
        "[msg_reply [0, 1, 7]]" "[]" 8 4]
    by (simp add: world_of_def delivered_def)
qed

end
