(* ===== verification/Ts_Client.thy ===== *)
theory Ts_Client
  imports Ts_Common
begin

text \<open>
  The client of the test suite, \<^verbatim>\<open>src/ptts/tipc_ts_client.c\<close> with \<^verbatim>\<open>main\<close> of
  \<^verbatim>\<open>src/ptts/tipc_ts_client_linux.c\<close> and the helpers of \<^verbatim>\<open>src/ptts/tipc_ts_adapt.h\<close>: one
  definition per test routine, the table of tests, the selection of tests by number. The
  second part derives, for each test, the sequence of protocol events of the client.
\<close>

section \<open>Connectionless tests\<close>

definition client_SendConnectionless :: "int \<Rightarrow> int \<Rightarrow> int \<Rightarrow> unit prog" where
  "client_SendConnectionless socketType numRequests msgSize =
     and_then (recvSyncTIPC TS_SYNC_ID_1) (\<lambda>_.
     and_then uninit_addr (\<lambda>addr.
     let addr = setServerAddr addr in
     and_then (createSocketTIPC socketType) (\<lambda>sockfd_C.
     and_then (get_var g_importance) (\<lambda>importance.
     and_then (setOption sockfd_C TIPC_IMPORTANCE importance) (\<lambda>_.
     and_then (sendtoSocketTIPC sockfd_C addr numRequests msgSize 0) (\<lambda>_.
     and_then (closeSocketTIPC sockfd_C) (\<lambda>_.
     sendSyncTIPC TS_SYNC_ID_2)))))))"

definition client_test_connectionless :: "int \<Rightarrow> unit prog" where
  "client_test_connectionless sockType = block
     [client_SendConnectionless sockType 10 100,
      client_SendConnectionless sockType 10 1000,
      only_if (sockType = SOCK_RDM) (block
        [client_SendConnectionless sockType 100 100,
         client_SendConnectionless sockType 100 1000])]"

definition client_stress_connectionless :: "int \<Rightarrow> unit prog" where
  "client_stress_connectionless sockType =
     loop (\<lambda>_. and_then (client_test_connectionless sockType) (\<lambda>_. ret (Inl ()))) ()"

section \<open>Blaster tests\<close>

text \<open>
  \<^verbatim>\<open>gettimeofday\<close> reports the seconds in \<open>r_val\<close> and the microseconds in \<open>r_ret\<close>; the
  time stamp is the sum in milliseconds, cut to an unsigned int.
\<close>

definition getTimeStamp :: "u32 prog" where
  "getTimeStamp = and_then (sys C_gettimeofday) (\<lambda>r.
     ret (of_int (r_val r * 1000 + (r_ret r + 500) div 1000)))"

definition taskDelay :: "int \<Rightarrow> unit prog" where
  "taskDelay x = emit (C_sleep x)"

definition killme :: "int \<Rightarrow> 'a prog" where
  "killme exit_code = exit_prog exit_code"

abbreviation (input) TS_BLAST_REPS :: int where "TS_BLAST_REPS \<equiv> 100000"

text \<open>
  The throughput that \<^verbatim>\<open>reportBlast\<close> prints, in the 32-bit arithmetic of the code. The
  number of packets it was given is not used.
\<close>

definition blast_rate :: "int \<Rightarrow> u32 \<Rightarrow> u32" where
  "blast_rate packetSize elapsedTime =
     (let divisor = (if elapsedTime = 0 then 1 else elapsedTime);
          rate = of_int (packetSize * TS_BLAST_REPS) :: u32
      in if rate \<le> 536870 then (rate * 8000) div divisor else (rate div divisor) * 8000)"

definition reportBlast :: "int \<Rightarrow> int \<Rightarrow> u32 \<Rightarrow> unit prog" where
  "reportBlast numPackets packetSize elapsedTime =
     emit (C_print (''Sent '' @ show_int TS_BLAST_REPS @ '' packets of size '' @
       show_int packetSize @ '' in '' @ show_int (sint elapsedTime) @ '' ms ('' @
       show_int (uint (blast_rate packetSize elapsedTime)) @ '' bit/s)''))"

definition client_blast_connectionless :: "int \<Rightarrow> int \<Rightarrow> int \<Rightarrow> unit prog" where
  "client_blast_connectionless sockType numPackets packetSize =
     and_then (recvSyncTIPC TS_SYNC_ID_1) (\<lambda>_.
     and_then uninit_addr (\<lambda>addr.
     and_then (getServerAddr addr) (\<lambda>addr.
     and_then (createSocketTIPC sockType) (\<lambda>sockfd_C.
     and_then (sendSyncTIPC TS_SYNC_ID_3) (\<lambda>_.
     and_then getTimeStamp (\<lambda>startTime.
     and_then (sendtoSocketTIPC sockfd_C addr numPackets packetSize 0) (\<lambda>_.
     and_then getTimeStamp (\<lambda>endTime.
     and_then (closeSocketTIPC sockfd_C) (\<lambda>_.
     and_then (taskDelay 50) (\<lambda>_.
     and_then (sendSyncTIPC TS_SYNC_ID_2) (\<lambda>_.
     reportBlast numPackets packetSize (endTime - startTime))))))))))))"

definition client_blast_connection :: "int \<Rightarrow> int \<Rightarrow> int \<Rightarrow> unit prog" where
  "client_blast_connection sockType numPackets packetSize =
     and_then (recvSyncTIPC TS_SYNC_ID_1) (\<lambda>_.
     and_then uninit_addr (\<lambda>addr.
     let addr = setServerAddr addr in
     and_then (createSocketTIPC sockType) (\<lambda>sockfd_C.
     and_then (connectSocketTIPC sockfd_C addr) (\<lambda>_.
     and_then (sendSyncTIPC TS_SYNC_ID_3) (\<lambda>_.
     and_then getTimeStamp (\<lambda>startTime.
     and_then (sendSocketTIPC sockfd_C numPackets packetSize 0) (\<lambda>_.
     and_then getTimeStamp (\<lambda>endTime.
     and_then (closeSocketTIPC sockfd_C) (\<lambda>_.
     and_then (sendSyncTIPC TS_SYNC_ID_2) (\<lambda>_.
     reportBlast numPackets packetSize (endTime - startTime)))))))))))"

definition cblastSize :: "int list" where
  "cblastSize = [1, 32, 64, 100, 128, 256, 512, 1000, 1024, 1280, 1450, 2048, 8192, 10000, 0]"

text \<open>The loops over the table stop at its entry 0.\<close>

definition client_blast_rdm :: "unit prog" where
  "client_blast_rdm = for_each (takeWhile (\<lambda>s. s \<noteq> 0) cblastSize)
     (\<lambda>s. client_blast_connectionless SOCK_RDM TS_BLAST_REPS s)"

definition client_blast_seqpacket :: "unit prog" where
  "client_blast_seqpacket = for_each (takeWhile (\<lambda>s. s \<noteq> 0) cblastSize)
     (\<lambda>s. client_blast_connection SOCK_SEQPACKET TS_BLAST_REPS s)"

definition client_blast_stream :: "unit prog" where
  "client_blast_stream = for_each (takeWhile (\<lambda>s. s \<noteq> 0) cblastSize)
     (\<lambda>s. client_blast_connection SOCK_STREAM TS_BLAST_REPS s)"

section \<open>Message sizes\<close>

text \<open>The step of the loop over the message sizes, and the sizes the loop goes through.\<close>

definition next_msize :: "int \<Rightarrow> int" where
  "next_msize msize =
     (if msize + TS_MSGINC > 66000 \<and> msize \<noteq> 66000 then 66000 else msize + TS_MSGINC)"

function msizes :: "int \<Rightarrow> int list" where
  "msizes msize = (if msize \<le> 66000 then msize # msizes (next_msize msize) else [])"
  by pat_completeness auto
termination
  by (relation "measure (\<lambda>m. nat (66601 - m))") (auto simp: next_msize_def)

declare msizes.simps [simp del]

definition client_test_messageLimits :: "unit prog" where
  "client_test_messageLimits = for_each (msizes 1) (\<lambda>msize. client_SendConnectionless SOCK_RDM 1 msize)"

section \<open>Multicast\<close>

text \<open>
  The buffer that \<^verbatim>\<open>client_mcast\<close> sends, a test vector behind the number of the message.
  The code does not check the result of malloc: writing to the null pointer is a fault.
\<close>

definition mcast_message :: "bytes \<Rightarrow> int \<Rightarrow> int \<Rightarrow> bytes" where
  "mcast_message buf msgsize i =
     overwrite (take 4 buf @ makeArray (drop 4 buf) (msgsize - 4) 0 (msgsize - 4))
       0 (int_bytes (of_int i))"

definition client_mcast :: "int \<Rightarrow> int \<Rightarrow> int \<Rightarrow> int \<Rightarrow> int \<Rightarrow> int \<Rightarrow> unit prog" where
  "client_mcast sd lower upper msgsize burstsize subtest =
     and_then (malloc msgsize) (\<lambda>buf.
     and_then (sendSyncTIPC TS_SYNC_ID_3) (\<lambda>_.
     and_then uninit_addr (\<lambda>server_addr.
     and_then (setServerAddrTo server_addr TIPC_ADDR_MCAST TS_TEST_TYPE lower upper) (\<lambda>server_addr.
     case buf of
       None \<Rightarrow> fault Out_of_bounds
     | Some buf \<Rightarrow>
         and_then (for_each [0..<nat burstsize] (\<lambda>i.
           and_then (sys (C_sendto sd (mcast_message buf msgsize (int i)) 0 server_addr)) (\<lambda>r.
           if r_ret r \<noteq> msgsize then err ''Client: Failed to send'' else ret ())))
         (\<lambda>_. recvSyncTIPC TS_SYNC_ID_4)))))"

definition client_test_multicast :: "unit prog" where
  "client_test_multicast =
     and_then (createSocketTIPC SOCK_RDM) (\<lambda>sd. block
       [recvSyncTIPC TS_SYNC_ID_1,
        client_mcast sd 99 100 100 1 1,
        client_mcast sd 150 250 100 1 2,
        client_mcast sd 200 399 100 1 3,
        client_mcast sd 0 399 100 1 4,
        client_mcast sd 200 399 100 200 5,
        client_mcast sd 200 399 1000 200 6,
        client_mcast sd 200 399 66000 40 7,
        sendSyncTIPC TS_SYNC_ID_2])"

section \<open>Connection tests\<close>

definition client_SendConnection :: "int \<Rightarrow> int \<Rightarrow> int \<Rightarrow> int \<Rightarrow> int \<Rightarrow> unit prog" where
  "client_SendConnection socketType numMessages messageSize numReplies maxReplySize =
     and_then (recvSyncTIPC TS_SYNC_ID_1) (\<lambda>_.
     and_then uninit_addr (\<lambda>addr.
     let addr = setServerAddr addr in
     and_then (createSocketTIPC socketType) (\<lambda>sockfd_C.
     and_then (get_var g_importance) (\<lambda>importance.
     and_then (setOption sockfd_C TIPC_IMPORTANCE importance) (\<lambda>_.
     and_then (connectSocketTIPC sockfd_C addr) (\<lambda>_.
     and_then (sendSocketTIPC sockfd_C numMessages messageSize 0) (\<lambda>_.
     and_then (recvSocketTIPC sockfd_C numReplies maxReplySize 0 0) (\<lambda>_.
     and_then (closeSocketTIPC sockfd_C) (\<lambda>_.
     sendSyncTIPC TS_SYNC_ID_2)))))))))"

definition client_test_connection :: "int \<Rightarrow> unit prog" where
  "client_test_connection sockType = block
     [client_SendConnection sockType 10 100 10 100,
      client_SendConnection sockType 100 1000 0 0,
      client_SendConnection sockType 0 0 50 123]"

definition client_SendConnectionShutdown :: "int \<Rightarrow> int \<Rightarrow> int \<Rightarrow> unit prog" where
  "client_SendConnectionShutdown socketType numRequests requestSize =
     and_then (recvSyncTIPC TS_SYNC_ID_1) (\<lambda>_.
     and_then uninit_addr (\<lambda>addr.
     let addr = setServerAddr addr in
     and_then (createSocketTIPC socketType) (\<lambda>sockfd_C.
     and_then (get_var g_importance) (\<lambda>importance.
     and_then (setOption sockfd_C TIPC_IMPORTANCE importance) (\<lambda>_.
     and_then (connectSocketTIPC sockfd_C addr) (\<lambda>_.
     and_then (sendSocketTIPC sockfd_C numRequests requestSize 0) (\<lambda>_.
     and_then (sys (C_shutdown sockfd_C)) (\<lambda>r.
     if r_ret r \<noteq> 0 then err ''unable to shutdown send buffer'' else
     and_then (closeSocketTIPC sockfd_C) (\<lambda>_.
     sendSyncTIPC TS_SYNC_ID_2)))))))))"

definition client_test_connection_shutdown :: "int \<Rightarrow> unit prog" where
  "client_test_connection_shutdown sockType = block
     [client_SendConnectionShutdown sockType 10 100,
      client_SendConnectionShutdown sockType 100 1000,
      client_SendConnectionShutdown sockType 500 1000]"

text \<open>The importance test runs the others at every level; the level is the global variable.\<close>

definition client_test_importance :: "unit prog" where
  "client_test_importance =
     and_then (get_var g_importance) (\<lambda>localImportance. block
       [for_each [TIPC_LOW_IMPORTANCE..TIPC_CRITICAL_IMPORTANCE] (\<lambda>importance. block
          [set_var (g_importance_update (\<lambda>_. importance)),
           client_test_connectionless SOCK_DGRAM,
           client_test_connectionless SOCK_RDM,
           client_test_connection SOCK_STREAM,
           client_test_connection SOCK_SEQPACKET,
           client_test_connection_shutdown SOCK_STREAM,
           client_test_connection_shutdown SOCK_SEQPACKET]),
        set_var (g_importance_update (\<lambda>_. localImportance))])"

section \<open>Ancillary data\<close>

definition bad_anc_type :: "cmsg \<Rightarrow> string" where
  "bad_anc_type anc = ''bad anc data type = '' @ show_int (cmsg_type anc) @ '' = '' @
     anc_data_type (cmsg_type anc)"

text \<open>
  The checks on the data returned with a rejected message, common to both tests: an error
  record (code and length) followed by the message itself.
\<close>

definition check_returned :: "cmsg list \<Rightarrow> int \<Rightarrow> string \<Rightarrow> unit prog" where
  "check_returned ancs msgSize expected =
     (case ancs of
        [] \<Rightarrow> err ''FAILED (client) anc is NULL''
      | anc # others \<Rightarrow>
          if cmsg_type anc \<noteq> TIPC_ERRINFO then err (bad_anc_type anc) else
          and_then (cmsg_word anc 0) (\<lambda>anc_data0.
          and_then (cmsg_word anc 1) (\<lambda>anc_data1.
          if anc_data1 \<noteq> msgSize then err (''bad return size '' @ show_int anc_data1)
          else if anc_data0 \<noteq> TIPC_ERR_NO_PORT then err (''bad return code '' @ show_int anc_data0)
          else case others of
            [] \<Rightarrow> err ''no returned msg...?''
          | returned # _ \<Rightarrow>
              if \<not> streq expected (cmsg_bytes returned) then err ''wrong returned message''
              else ret ())))"

definition client_anc_turn ::
  "int \<Rightarrow> bytes \<times> int \<Rightarrow> ((bytes \<times> int) + (reply \<times> int)) prog" where
  "client_anc_turn soc = (\<lambda>(buf, msgSize).
     and_then (receive (C_recvmsg soc TS_ANCBUFSZ) buf) (\<lambda>r.
     let buf = recv_into buf r in
     if r_ret r \<le> 0 then ret (Inr (r, msgSize))
     else if streq ''ONE'' buf then
       (let buf = overwrite buf 0 (str_bytes ''END'') in
        and_then (sendSocketBuffTIPC soc buf 1 4 0) (\<lambda>_. ret (Inl (buf, 4))))
     else if r_anc r \<noteq> [] \<and> cmsg_type (hd (r_anc r)) \<noteq> TIPC_DESTNAME then
       err (''anc not null, anc data type = '' @ show_int (cmsg_type (hd (r_anc r))) @ '' ='' @
            anc_data_type (cmsg_type (hd (r_anc r))))
     else
       (let buf = overwrite buf 0 (str_bytes ''TWO'') in
        and_then (sendSocketBuffTIPC soc buf 1 4 0) (\<lambda>_. ret (Inl (buf, msgSize))))))"

definition client_test_anc_connection :: "unit prog" where
  "client_test_anc_connection =
     and_then uninit_addr (\<lambda>saddr.
     let saddr = setServerAddr saddr in
     and_then (recvSyncTIPC TS_SYNC_ID_1) (\<lambda>_.
     and_then (createSocketTIPC SOCK_SEQPACKET) (\<lambda>soc.
     and_then (connectSocketTIPC soc saddr) (\<lambda>_.
     and_then (sendSocketBuffTIPC soc (str_bytes ''ALPHA'') 1 6 0) (\<lambda>_.
     and_then (uninit_bytes (nat TS_ANCBUFSZ)) (\<lambda>buf.
     and_then (loop (client_anc_turn soc) (overwrite buf 0 [0], 1)) (\<lambda>(r, msgSize).
     if r_ret r \<noteq> 0 then err ''FAILED (client) wrong size'' else
     and_then (check_returned (r_anc r) msgSize ''TWO'') (\<lambda>_.
     and_then (closeSocketTIPC soc) (\<lambda>_.
     sendSyncTIPC TS_SYNC_ID_2)))))))))"

definition client_test_anc_connectionless :: "unit prog" where
  "client_test_anc_connectionless =
     and_then uninit_addr (\<lambda>saddr.
     let saddr = setServerAddr saddr in
     and_then (recvSyncTIPC TS_SYNC_ID_1) (\<lambda>_.
     and_then (createSocketTIPC SOCK_RDM) (\<lambda>soc.
     and_then (setOption soc TIPC_DEST_DROPPABLE 0) (\<lambda>_.
     and_then (sendtoSocketBuffTIPC soc saddr (str_bytes ''ALPHA'') 1 6 0) (\<lambda>_.
     let msgSize = int (length (str_bytes ''OMEGA'')) in
     and_then (sendtoSocketBuffTIPC soc saddr (str_bytes ''OMEGA'') 1 msgSize 0) (\<lambda>_.
     and_then (sendSyncTIPC TS_SYNC_ID_2) (\<lambda>_.
     and_then (sys (C_recvmsg soc TS_ANCBUFSZ)) (\<lambda>r.
     if r_ret r \<noteq> 0 then err ''recvmsg'' else
     and_then (check_returned (r_anc r) msgSize ''OMEGA'') (\<lambda>_.
     and_then (closeSocketTIPC soc) (\<lambda>_.
     sendSyncTIPC TS_SYNC_ID_3))))))))))"

section \<open>Socket options, streams, sendto\<close>

definition client_test_socketOptions :: "unit prog" where
  "client_test_socketOptions = block
     [common_test_socketOptions, sendSyncTIPC TS_SYNC_ID_1, recvSyncTIPC TS_SYNC_ID_2]"

abbreviation (input) BUF_SIZE :: nat where "BUF_SIZE \<equiv> 2000"
abbreviation (input) MSG_SIZE :: nat where "MSG_SIZE \<equiv> 80"

text \<open>The sizes and counters of this test are never negative: they are natural numbers here.\<close>

definition next_rec_size :: "nat \<Rightarrow> nat" where
  "next_rec_size rec_size =
     (let rec_size = (rec_size + 147) AND 0xFF in if rec_size = 0 then 1 else rec_size)"

text \<open>The four length bytes, most significant first, and the content of a record.\<close>

definition stream_record :: "nat \<Rightarrow> bytes" where
  "stream_record rec_size =
     (let sz = of_nat rec_size :: u32
      in [ucast (drop_bit 24 sz), ucast (drop_bit 16 sz AND 0xFF),
          ucast (drop_bit 8 sz AND 0xFF), ucast (sz AND 0xFF)] @
         replicate rec_size (of_nat rec_size))"

text \<open>The loop that fills the buffer; it returns \<^verbatim>\<open>tot_size\<close>, \<^verbatim>\<open>num_recs\<close> and the buffer.\<close>

function stream_fill :: "nat \<Rightarrow> nat \<Rightarrow> nat \<Rightarrow> bytes \<Rightarrow> nat \<times> nat \<times> bytes" where
  "stream_fill tot_size rec_size num_recs buf =
     (if tot_size + 4 + rec_size \<le> BUF_SIZE
      then stream_fill (tot_size + (4 + rec_size)) (next_rec_size rec_size) (num_recs + 1)
             (overwrite buf tot_size (stream_record rec_size))
      else (tot_size, num_recs, buf))"
  by pat_completeness auto
termination
  by (relation "measure (\<lambda>(tot_size, _, _, _). 2001 - tot_size)") auto

declare stream_fill.simps [simp del]

text \<open>The messages of at most 80 bytes that carry the buffer, by offset and size.\<close>

function fragments :: "nat \<Rightarrow> nat \<Rightarrow> (nat \<times> nat) list" where
  "fragments sent_size tot_size =
     (if sent_size < tot_size
      then let msg_size = (if sent_size + MSG_SIZE \<le> tot_size then MSG_SIZE
                           else tot_size - sent_size)
           in (sent_size, msg_size) # fragments (sent_size + msg_size) tot_size
      else [])"
  by pat_completeness auto
termination
  by (relation "measure (\<lambda>(sent_size, tot_size). tot_size - sent_size)") (auto simp: Let_def)

declare fragments.simps [simp del]

definition client_test_stream :: "unit prog" where
  "client_test_stream =
     and_then uninit_addr (\<lambda>server_addr.
     let server_addr = setServerAddr server_addr in
     and_then (recvSyncTIPC TS_SYNC_ID_1) (\<lambda>_.
     and_then (createSocketTIPC SOCK_STREAM) (\<lambda>sd.
     and_then (connectSocketTIPC sd server_addr) (\<lambda>_.
     and_then (uninit_bytes BUF_SIZE) (\<lambda>buf.
     let (tot_size, num_recs, buf) = stream_fill 0 1 0 buf in
     and_then (for_each (fragments 0 tot_size) (\<lambda>(sent_size, msg_size).
       sendSocketBuffTIPC sd (drop sent_size buf) 1 (int msg_size) 0)) (\<lambda>_.
     and_then (sys (C_recv sd (int num_recs) MSG_WAITALL)) (\<lambda>r.
     if r_ret r \<noteq> int num_recs then err ''Client: acknowledge error 1'' else
     and_then (sys (C_recv sd 1 MSG_DONTWAIT)) (\<lambda>r.
     if r_ret r \<ge> 0 then err ''Client: acknowledge error 2'' else
     and_then (sys (C_shutdown sd)) (\<lambda>_.
     and_then (closeSocketTIPC sd) (\<lambda>_.
     sendSyncTIPC TS_SYNC_ID_2))))))))))"

definition client_test_bigStream :: "unit prog" where
  "client_test_bigStream =
     and_then uninit_addr (\<lambda>server_addr.
     let server_addr = setServerAddr server_addr; buf = replicate (nat TS_BBUF_SIZE) TS_BBUF_DATA in
     and_then (recvSyncTIPC TS_SYNC_ID_1) (\<lambda>_.
     and_then (createSocketTIPC SOCK_STREAM) (\<lambda>sd.
     and_then (connectSocketTIPC sd server_addr) (\<lambda>_.
     and_then (sendSocketBuffTIPC sd buf 1 TS_BBUF_SIZE 0) (\<lambda>_.
     and_then (recvSyncTIPC TS_SYNC_ID_2) (\<lambda>_.
     and_then (sendSocketBuffTIPC sd buf 1 TS_BBUF_SIZE 0) (\<lambda>_.
     and_then (sys (C_shutdown sd)) (\<lambda>_.
     and_then (closeSocketTIPC sd) (\<lambda>_.
     sendSyncTIPC TS_SYNC_ID_3)))))))))"

definition client_test_sendto :: "unit prog" where
  "client_test_sendto = block
     [common_test_sendto TS_SYNC_ID_1, recvSyncTIPC TS_SYNC_ID_2,
      common_test_recvfrom TS_SYNC_ID_3, sendSyncTIPC TS_SYNC_ID_4]"

section \<open>The table of tests and the test driver\<close>

definition sendTIPCTest :: "int \<Rightarrow> unit prog" where
  "sendTIPCTest test =
     and_then (recvSyncTIPC TS_SYNC_WAITING_FOR_TEST_ID) (\<lambda>_.
     and_then uninit_addr (\<lambda>addr.
     let addr = setServerAddr addr in
     and_then (createSocketTIPC SOCK_RDM) (\<lambda>sockfd_C.
     let testbuf = int_bytes (htonl (of_int test)); msgSize = 4 in
     and_then (sys (C_sendto sockfd_C testbuf 0 addr)) (\<lambda>r.
     if r_ret r \<noteq> msgSize then err ''unexpected sendto() error sending Server test number'' else
     and_then (closeSocketTIPC sockfd_C) (\<lambda>_.
     only_if (test > 0) (sendSyncTIPC TS_SYNC_FINISHED_TEST_ID))))))"

definition client_test_dgram :: "unit prog" where
  "client_test_dgram = client_test_connectionless SOCK_DGRAM"

definition client_test_rdm :: "unit prog" where
  "client_test_rdm = client_test_connectionless SOCK_RDM"

definition client_test_conn_stream :: "unit prog" where
  "client_test_conn_stream = client_test_connection SOCK_STREAM"

definition client_test_conn_seqpacket :: "unit prog" where
  "client_test_conn_seqpacket = client_test_connection SOCK_SEQPACKET"

definition client_test_shutdown_stream :: "unit prog" where
  "client_test_shutdown_stream = client_test_connection_shutdown SOCK_STREAM"

definition client_test_shutdown_seqpacket :: "unit prog" where
  "client_test_shutdown_seqpacket = client_test_connection_shutdown SOCK_SEQPACKET"

definition client_stress_rdm :: "unit prog" where
  "client_stress_rdm = client_stress_connectionless SOCK_RDM"

definition clientList :: "(int \<times> unit prog option) list" where
  "clientList =
    [(ts_doAllTests, None),
     (ts_dgram, Some client_test_dgram),
     (ts_rdm, Some client_test_rdm),
     (ts_conn_stream, Some client_test_conn_stream),
     (ts_conn_seqpacket, Some client_test_conn_seqpacket),
     (ts_shutdown_stream, Some client_test_shutdown_stream),
     (ts_shutdown_seqpacket, Some client_test_shutdown_seqpacket),
     (ts_messageLimits, Some client_test_messageLimits),
     (ts_importance, Some client_test_importance),
     (ts_socketOptions, Some client_test_socketOptions),
     (ts_connection_anc, Some client_test_anc_connection),
     (ts_connectionless_anc, Some client_test_anc_connectionless),
     (ts_multicast, Some client_test_multicast),
     (ts_stream, Some client_test_stream),
     (ts_bigStream, Some client_test_bigStream),
     (ts_sendto, Some client_test_sendto),
     (ts_lastSanityTest, None),
     (ts_stress_rdm, Some client_stress_rdm),
     (ts_lastStressTest, None)]"

definition pad4 :: "string \<Rightarrow> string" where
  "pad4 s = replicate (4 - length s) CHR '' '' @ s"

definition tipcTestSuiteHelp :: "unit prog" where
  "tipcTestSuiteHelp = block
     [emit (C_print '' tipcTC:    Supported Testcases''),
      emit (C_print ''            Sanity Tests''),
      for_each [0..TS_NUMBER_OF_TESTS] (\<lambda>counter. block
        [only_if (counter < ts_lastSanityTest)
           (emit (C_print (''            '' @ pad4 (show_int (fst (nameList ! nat counter))) @ '' '' @
              snd (nameList ! nat counter) @ '' tests''))),
         only_if (counter = ts_lastSanityTest) (emit (C_print ''            Stress Tests'')),
         only_if (counter \<ge> ts_lastSanityTest + 1)
           (emit (C_print (''            '' @ pad4 (show_int (fst (nameList ! nat counter))) @ '' '' @
              snd (nameList ! nat counter) @ '' test '')))])]"

text \<open>Calling an entry of a table; the entries without a routine are null pointers.\<close>

definition call_test :: "unit prog option \<Rightarrow> unit prog" where
  "call_test t = (case t of None \<Rightarrow> fault Null_call | Some m \<Rightarrow> m)"

definition tipcTestClientX :: "int \<Rightarrow> unit prog" where
  "tipcTestClientX test =
     (if test < TS_FIRST_SANITY_TEST \<or> test \<ge> ts_lastStressTest \<or>
         test \<ge> ts_lastSanityTest \<and> test < TS_FIRST_STRESS_TEST
      then and_then tipcTestSuiteHelp (\<lambda>_. killme 1)
      else
        and_then (emit (C_print (''Test # '' @ show_int test))) (\<lambda>_.
        and_then (sendTIPCTest test) (\<lambda>_.
        and_then (for_state [0..TS_NUMBER_OF_TESTS] (\<lambda>testIndex ntimes.
          if fst (clientList ! nat testIndex) = test
          then do_while_down (block
            [emit (C_print (''TIPC '' @ testName test @ '' test...STARTED!'')),
             call_test (snd (clientList ! nat testIndex)),
             emit (C_print (''TIPC '' @ testName test @ '' test...PASSED!''))]) ntimes
          else ret ntimes) TS_NUMTIMES) (\<lambda>_. ret ()))))"

definition tipcTestClient :: "int \<Rightarrow> unit prog" where
  "tipcTestClient test =
     (if test = TS_KILL_SERVER
      then block [emit (C_print ''Shutting down server''), sendTIPCTest TS_KILL_SERVER]
      else if test \<ge> ts_lastSanityTest \<and> test < TS_FIRST_STRESS_TEST \<or>
              test \<ge> ts_lastStressTest \<or> test < 0
      then and_then tipcTestSuiteHelp (\<lambda>_. killme 1)
      else
        let (test, lastTestNum) = (if test = 0 then (1, ts_lastSanityTest - 1) else (test, test))
        in block [set_var (g_importance_update (\<lambda>_. TIPC_LOW_IMPORTANCE)),
                  for_each [test..lastTestNum] tipcTestClientX])"

text \<open>
  \<^verbatim>\<open>main\<close>: \<open>opts\<close> are the option characters that \<^verbatim>\<open>getopt_long_only\<close> returns one after
  the other (anything but v, k, h is its error value), \<open>args\<close> the remaining arguments.
\<close>

fun client_options :: "string \<Rightarrow> bool \<Rightarrow> bool prog" where
  "client_options [] killServers = ret killServers"
| "client_options (c # cs) killServers =
     (if c = CHR ''v'' then client_options cs killServers
      else if c = CHR ''k'' then client_options cs True
      else and_then (emit (C_print ''Usage: %s [-v -k] <test>'')) (\<lambda>_.
           and_then tipcTestSuiteHelp (\<lambda>_.
           exit_prog (if c = CHR ''h'' then 0 else 1))))"

definition client_main :: "string \<Rightarrow> string list \<Rightarrow> unit prog" where
  "client_main opts args =
     and_then (client_options opts False) (\<lambda>killServers. block
       [for_each args (\<lambda>arg.
          let test = atoi arg in
          if test < 0 then and_then tipcTestSuiteHelp (\<lambda>_. exit_prog 1) else tipcTestClient test),
        only_if killServers (tipcTestClient TS_KILL_SERVER),
        emit (C_print ''TIPC test suite finished''),
        exit_prog 0])"

end
