(* ===== verification/Ts_Server.thy ===== *)
theory Ts_Server
  imports Ts_Client
begin

text \<open>
  The server of the test suite, \<^verbatim>\<open>src/ptts/tipc_ts_server.c\<close> with \<^verbatim>\<open>main\<close> of
  \<^verbatim>\<open>src/ptts/tipc_ts_server_linux.c\<close>: one definition per test routine, the table of tests,
  the loop that takes test numbers from a client.
\<close>

section \<open>Connectionless tests\<close>

definition server_receiveConnectionless :: "int \<Rightarrow> int \<Rightarrow> int \<Rightarrow> unit prog" where
  "server_receiveConnectionless socketType numRequests maxRequestSize =
     and_then uninit_addr (\<lambda>addr.
     let addr = setServerAddr addr in
     and_then (createSocketTIPC socketType) (\<lambda>sockfd_S. block
       [bindSocketTIPC sockfd_S addr,
        sendSyncTIPC TS_SYNC_ID_1,
        recvSocketTIPC sockfd_S numRequests maxRequestSize 0 0,
        closeSocketTIPC sockfd_S,
        recvSyncTIPC TS_SYNC_ID_2]))"

definition server_test_connectionless :: "int \<Rightarrow> unit prog" where
  "server_test_connectionless sockType = block
     [server_receiveConnectionless sockType 10 100,
      server_receiveConnectionless sockType 10 1000,
      only_if (sockType = SOCK_RDM) (block
        [server_receiveConnectionless sockType 100 100,
         server_receiveConnectionless sockType 100 1000])]"

definition server_stress_connectionless :: "int \<Rightarrow> unit prog" where
  "server_stress_connectionless sockType =
     loop (\<lambda>_. and_then (block
       [server_receiveConnectionless sockType 10 100,
        server_receiveConnectionless sockType 10 1000,
        only_if (sockType = SOCK_RDM) (block
          [server_receiveConnectionless sockType 100 100,
           server_receiveConnectionless sockType 100 1000])]) (\<lambda>_. ret (Inl ()))) ()"

definition server_test_messageLimits :: "unit prog" where
  "server_test_messageLimits =
     for_each (msizes 1) (\<lambda>msize. server_receiveConnectionless SOCK_RDM 1 msize)"

section \<open>Blaster tests\<close>

abbreviation (input) TS_BLAST_SREPS :: int where "TS_BLAST_SREPS \<equiv> 100000"

definition server_blast_connectionless :: "int \<Rightarrow> int \<Rightarrow> int \<Rightarrow> unit prog" where
  "server_blast_connectionless sockType numPackets packetSize =
     and_then uninit_addr (\<lambda>addr.
     let addr = setServerAddr addr in
     and_then (createSocketTIPC sockType) (\<lambda>sockfd_S. block
       [bindSocketTIPC sockfd_S addr,
        sendSyncTIPC TS_SYNC_ID_1,
        recvSyncTIPC TS_SYNC_ID_3,
        recvSocketTIPC sockfd_S numPackets packetSize 0 (-1),
        closeSocketTIPC sockfd_S,
        recvSyncTIPC TS_SYNC_ID_2]))"

definition server_blast_connection :: "int \<Rightarrow> int \<Rightarrow> int \<Rightarrow> unit prog" where
  "server_blast_connection sockType numPackets packetSize =
     and_then uninit_addr (\<lambda>addr.
     let addr = setServerAddr addr in
     and_then (createSocketTIPC sockType) (\<lambda>sockfd_L.
     and_then (listenSocketTIPC sockfd_L) (\<lambda>_.
     and_then (bindSocketTIPC sockfd_L addr) (\<lambda>_.
     and_then (sendSyncTIPC TS_SYNC_ID_1) (\<lambda>_.
     and_then (acceptSocketTIPC sockfd_L) (\<lambda>sockfd_A. block
       [closeSocketTIPC sockfd_L,
        recvSyncTIPC TS_SYNC_ID_3,
        recvSocketTIPC sockfd_A numPackets packetSize 0 (-1),
        closeSocketTIPC sockfd_A,
        recvSyncTIPC TS_SYNC_ID_2]))))))"

definition sblastSize :: "int list" where
  "sblastSize = [1, 32, 64, 100, 128, 256, 512, 1000, 1024, 1280, 1450, 2048, 8192, 10000, 0]"

definition server_blast_rdm :: "unit prog" where
  "server_blast_rdm = for_each (takeWhile (\<lambda>s. s \<noteq> 0) sblastSize)
     (\<lambda>s. server_blast_connectionless SOCK_RDM TS_BLAST_SREPS s)"

definition server_blast_seqpacket :: "unit prog" where
  "server_blast_seqpacket = for_each (takeWhile (\<lambda>s. s \<noteq> 0) sblastSize)
     (\<lambda>s. server_blast_connection SOCK_SEQPACKET TS_BLAST_SREPS s)"

definition server_blast_stream :: "unit prog" where
  "server_blast_stream = for_each (takeWhile (\<lambda>s. s \<noteq> 0) sblastSize)
     (\<lambda>s. server_blast_connection SOCK_STREAM TS_BLAST_SREPS s)"

section \<open>Connection tests\<close>

definition server_receiveConnection ::
  "int \<Rightarrow> int \<Rightarrow> int \<Rightarrow> int \<Rightarrow> int \<Rightarrow> int \<Rightarrow> unit prog" where
  "server_receiveConnection socketType numConns numRequests maxRequestSize numReplies replySize =
     and_then uninit_addr (\<lambda>addr.
     let addr = setServerAddr addr in
     and_then (createSocketTIPC socketType) (\<lambda>sockfd_L. block
       [listenSocketTIPC sockfd_L,
        bindSocketTIPC sockfd_L addr,
        sendSyncTIPC TS_SYNC_ID_1,
        for_each [0..<nat numConns] (\<lambda>i.
          and_then (acceptSocketTIPC sockfd_L) (\<lambda>sockfd_A. block
            [recvSocketTIPC sockfd_A numRequests maxRequestSize 0 0,
             sendSocketTIPC sockfd_A numReplies replySize 0,
             closeSocketTIPC sockfd_A])),
        closeSocketTIPC sockfd_L,
        recvSyncTIPC TS_SYNC_ID_2]))"

definition server_test_connection :: "int \<Rightarrow> unit prog" where
  "server_test_connection sockType = block
     [server_receiveConnection sockType 1 10 100 10 100,
      server_receiveConnection sockType 1 100 1000 0 0,
      server_receiveConnection sockType 1 0 0 50 123]"

text \<open>
  The byte that the second receive call would deliver goes into the loop counter, but then
  the test fails; at the end of the connection the counter is unchanged.
\<close>

definition server_receiveConnectionShutdown :: "int \<Rightarrow> int \<Rightarrow> int \<Rightarrow> int \<Rightarrow> unit prog" where
  "server_receiveConnectionShutdown socketType numConns numRequests maxRequestSize =
     and_then uninit_addr (\<lambda>addr.
     let addr = setServerAddr addr in
     and_then (createSocketTIPC socketType) (\<lambda>sockfd_L. block
       [listenSocketTIPC sockfd_L,
        bindSocketTIPC sockfd_L addr,
        sendSyncTIPC TS_SYNC_ID_1,
        for_each [0..<nat numConns] (\<lambda>i.
          and_then (acceptSocketTIPC sockfd_L) (\<lambda>sockfd_A.
          and_then (recvSocketTIPC sockfd_A numRequests maxRequestSize 0 0) (\<lambda>_.
          and_then (sys (C_recv sockfd_A 1 MSG_WAITALL)) (\<lambda>r.
          if r_ret r \<noteq> 0 then err ''failed to detect disconnect by client''
          else closeSocketTIPC sockfd_A)))),
        closeSocketTIPC sockfd_L,
        recvSyncTIPC TS_SYNC_ID_2]))"

definition server_test_connection_shutdown :: "int \<Rightarrow> unit prog" where
  "server_test_connection_shutdown sockType = block
     [server_receiveConnectionShutdown sockType 1 10 100,
      server_receiveConnectionShutdown sockType 1 100 1000,
      server_receiveConnectionShutdown sockType 1 500 1000]"

definition server_test_importance :: "unit prog" where
  "server_test_importance =
     for_each [TIPC_LOW_IMPORTANCE..TIPC_CRITICAL_IMPORTANCE] (\<lambda>importance. block
       [server_test_connectionless SOCK_DGRAM,
        server_test_connectionless SOCK_RDM,
        server_test_connection SOCK_STREAM,
        server_test_connection SOCK_SEQPACKET,
        server_test_connection_shutdown SOCK_STREAM,
        server_test_connection_shutdown SOCK_SEQPACKET])"

section \<open>Ancillary data\<close>

text \<open>The check of the destination name that came with a message, the same in both tests.\<close>

definition check_destname :: "cmsg list \<Rightarrow> unit prog" where
  "check_destname ancs =
     (case ancs of
        [] \<Rightarrow> err ''FAILED (server) anc is NULL''
      | anc # _ \<Rightarrow>
          if cmsg_type anc \<noteq> TIPC_DESTNAME then err (bad_anc_type anc) else
          and_then (cmsg_word anc 0) (\<lambda>anc_data0.
          and_then (cmsg_word anc 1) (\<lambda>anc_data1.
          and_then (cmsg_word anc 2) (\<lambda>anc_data2.
          if anc_data0 \<noteq> TS_TEST_TYPE then err ''wrong name''
          else if anc_data1 \<noteq> TS_TEST_INST then err ''wrong instance''
          else if anc_data2 \<noteq> TS_TEST_INST then err ''wrong instance''
          else ret ()))))"

definition server_test_anc_connection :: "unit prog" where
  "server_test_anc_connection =
     and_then uninit_addr (\<lambda>saddr.
     and_then (setServerAddrTo saddr TIPC_ADDR_NAMESEQ TS_TEST_TYPE TS_LOWER TS_UPPER) (\<lambda>saddr.
     let saddr = saddr\<lparr>sa_scope := TS_SCOPE\<rparr> in
     and_then (createSocketTIPC SOCK_SEQPACKET) (\<lambda>sol.
     and_then (listenSocketTIPC sol) (\<lambda>_.
     and_then (bindSocketTIPC sol saddr) (\<lambda>_.
     and_then (sendSyncTIPC TS_SYNC_ID_1) (\<lambda>_.
     and_then (acceptSocketTIPC sol) (\<lambda>sos.
     and_then (sys (C_recvmsg sos TS_ANCBUFSZ)) (\<lambda>r.
     if 0 > r_ret r then err ''FAILED (server) bad recvmsg return code'' else block
       [check_destname (r_anc r),
        for_each [0..<3] (\<lambda>ii::nat.
          and_then (sendSocketBuffTIPC sos (str_bytes ''ONE'') 1 4 0) (\<lambda>_.
          and_then (sys (C_recv sos TS_ANCBUFSZ 0)) (\<lambda>r.
          if 0 > r_ret r then err ''server_test_anc: (recv)'' else ret ()))),
        sendSocketBuffTIPC sos (str_bytes ''OMEGA'') 1 6 0,
        emit (C_sleep 1),
        closeSocketTIPC sos,
        closeSocketTIPC sol,
        recvSyncTIPC TS_SYNC_ID_2]))))))))"

definition server_test_anc_connectionless :: "unit prog" where
  "server_test_anc_connectionless =
     and_then uninit_addr (\<lambda>saddr.
     and_then (setServerAddrTo saddr TIPC_ADDR_NAMESEQ TS_TEST_TYPE TS_LOWER TS_UPPER) (\<lambda>saddr.
     let saddr = saddr\<lparr>sa_scope := TS_SCOPE\<rparr> in
     and_then (createSocketTIPC SOCK_RDM) (\<lambda>sos.
     and_then (bindSocketTIPC sos saddr) (\<lambda>_.
     and_then (sendSyncTIPC TS_SYNC_ID_1) (\<lambda>_.
     and_then (recvSyncTIPC TS_SYNC_ID_2) (\<lambda>_.
     and_then (sys (C_recvmsg sos TS_ANCBUFSZ)) (\<lambda>r.
     if 0 > r_ret r then err ''recvmsg'' else block
       [check_destname (r_anc r),
        emit (C_sleep 1),
        closeSocketTIPC sos,
        recvSyncTIPC TS_SYNC_ID_3])))))))"

section \<open>Multicast\<close>

definition server_bindMulticast :: "int \<Rightarrow> int \<Rightarrow> int \<Rightarrow> unit prog" where
  "server_bindMulticast lower upper sd =
     and_then uninit_addr (\<lambda>server_addr.
     and_then (setServerAddrTo server_addr TIPC_ADDR_NAMESEQ TS_TEST_TYPE lower upper) (\<lambda>server_addr.
     bindSocketTIPC sd (server_addr\<lparr>sa_scope := TS_SCOPE\<rparr>)))"

abbreviation (input) TIPC_MCAST_SUBTESTS :: nat where "TIPC_MCAST_SUBTESTS \<equiv> 7"
abbreviation (input) TIPC_MCAST_SOCKETS :: nat where "TIPC_MCAST_SOCKETS \<equiv> 5"

definition exp_num :: "nat list" where "exp_num = [3, 2, 2, 5, 2, 2, 2]"
definition expected_burst :: "nat list" where "expected_burst = [1, 1, 1, 1, 200, 200, 40]"
definition expected_szs :: "int list" where "expected_szs = [100, 100, 100, 100, 100, 1000, 66000]"
definition used_sks :: "nat list" where "used_sks = [3, 2, 2, 5, 2, 2, 2]"

text \<open>\<^verbatim>\<open>*(int * )buf\<close>: the first four bytes of the buffer as an integer.\<close>

definition read_int :: "bytes \<Rightarrow> int prog" where
  "read_int buf = (if length buf < 4 then fault Out_of_bounds else ret (sint (bytes_int buf)))"

text \<open>
  What is done with a socket that select reported: a message that is not the one awaited is
  left in its queue, the one awaited is received and checked. The state is \<^verbatim>\<open>msgcnt\<close>,
  \<^verbatim>\<open>sk_cnt\<close> and the buffer.
\<close>

definition server_mcast_socket ::
  "nat \<Rightarrow> nat \<Rightarrow> int \<Rightarrow> nat \<times> nat \<times> bytes \<Rightarrow> (nat \<times> nat \<times> bytes) prog" where
  "server_mcast_socket numSubTest msgno fd = (\<lambda>(msgcnt, sk_cnt, buf).
     and_then (receive (C_recvfrom fd (expected_szs ! numSubTest) MSG_PEEK) buf) (\<lambda>r.
     let buf = recv_into buf r in
     if r_ret r < 0 then err ''multicast message not received'' else
     and_then (read_int buf) (\<lambda>n.
     if int msgno \<noteq> n then ret (msgcnt, sk_cnt, buf) else
     and_then (receive (C_recvfrom fd (expected_szs ! numSubTest) 0) buf) (\<lambda>r.
     let buf = recv_into buf r; rc = r_ret r in
     if rc < 0 then err ''multicast message not received''
     else if rc \<noteq> expected_szs ! numSubTest then err ''multicast message wrong size''
     else if checkArray (drop 4 buf) (rc - 4) \<noteq> 0 then err ''received multicast msg corrupted''
     else if numSubTest < 4 then
       and_then (receive (C_recvfrom fd 8 MSG_DONTWAIT) buf) (\<lambda>r.
       if r_ret r \<ge> 0 then err ''second multicast message received''
       else ret (msgcnt + 1, sk_cnt + 1, buf))
     else ret (msgcnt + 1, sk_cnt + 1, buf)))))"

text \<open>A turn of the loop that waits for one message on all the sockets that should get it.\<close>

definition server_mcast_turn ::
  "int list \<Rightarrow> nat \<Rightarrow> nat \<Rightarrow> nat \<times> nat \<times> bytes \<Rightarrow> ((nat \<times> nat \<times> bytes) + (nat \<times> bytes)) prog" where
  "server_mcast_turn sd numSubTest msgno = (\<lambda>(msgcnt, sk_cnt, buf).
     if sk_cnt < exp_num ! numSubTest then
       and_then (sys (C_select sd)) (\<lambda>r.
       if r_ret r = 0 then
         and_then (emit (C_print (''Received on '' @ show_nat sk_cnt @ '' sockets in subtest '' @
           show_nat numSubTest @ '', expected '' @ show_nat (exp_num ! numSubTest))))
         (\<lambda>_. ret (Inr (msgcnt, buf)))
       else
         and_then (for_state [0..<TIPC_MCAST_SOCKETS] (\<lambda>i s.
           if sd ! i \<notin> set (r_ready r) then ret s
           else server_mcast_socket numSubTest msgno (sd ! i) s) (msgcnt, sk_cnt, buf))
         (\<lambda>s. ret (Inl s)))
     else ret (Inr (msgcnt, buf)))"

definition server_mcast :: "int list \<Rightarrow> nat \<Rightarrow> unit prog" where
  "server_mcast sd numSubTest =
     and_then (get_var g_rcvbuf) (\<lambda>rcvbuf.
     and_then (case rcvbuf of None \<Rightarrow> malloc 66000 | Some b \<Rightarrow> ret (Some b)) (\<lambda>rcvbuf.
     and_then (recvSyncTIPC TS_SYNC_ID_3) (\<lambda>_.
     and_then (get_var g_same_cluster) (\<lambda>client_in_same_cluster.
     and_then
       (if \<not> client_in_same_cluster then ret (0, 0, case rcvbuf of None \<Rightarrow> [] | Some b \<Rightarrow> b)
        else for_state [0..<expected_burst ! numSubTest] (\<lambda>msgno (_, msgcnt, buf).
          and_then (loop (server_mcast_turn sd numSubTest msgno) (msgcnt, 0, buf)) (\<lambda>(msgcnt, buf).
          ret (msgno + 1, msgcnt, buf))) (0, 0, case rcvbuf of None \<Rightarrow> [] | Some b \<Rightarrow> b))
       (\<lambda>(msgno, msgcnt, buf).
     and_then (set_var (g_rcvbuf_update (\<lambda>_. map_option (\<lambda>_. buf) rcvbuf))) (\<lambda>_.
     if msgcnt \<noteq> msgno * used_sks ! numSubTest
     then err ''Received wrong number of multicast messages''
     else sendSyncTIPC TS_SYNC_ID_4))))))"

definition server_test_multicast :: "unit prog" where
  "server_test_multicast =
     and_then (collect [0..<TIPC_MCAST_SOCKETS] (\<lambda>i. createSocketTIPC SOCK_RDM)) (\<lambda>sd. block
       [server_bindMulticast 0 99 (sd ! 0),
        server_bindMulticast 0 99 (sd ! 1),
        server_bindMulticast 100 199 (sd ! 2),
        server_bindMulticast 200 299 (sd ! 3),
        server_bindMulticast 200 299 (sd ! 3),
        server_bindMulticast 300 399 (sd ! 4),
        sendSyncTIPC TS_SYNC_ID_1,
        for_each [0..<TIPC_MCAST_SUBTESTS] (server_mcast sd),
        for_each [0..<TIPC_MCAST_SOCKETS] (\<lambda>i. closeSocketTIPC (sd ! i)),
        recvSyncTIPC TS_SYNC_ID_2])"

section \<open>Socket options, streams, sendto\<close>

definition server_test_socketOptions :: "unit prog" where
  "server_test_socketOptions = block
     [recvSyncTIPC TS_SYNC_ID_1, common_test_socketOptions, sendSyncTIPC TS_SYNC_ID_2]"

abbreviation (input) MAX_REC_SIZE :: nat where "MAX_REC_SIZE \<equiv> 256"

text \<open>
  One record: the length, the content, the acknowledgement. The length is used as it comes
  from the peer; content that does not fit into the buffer overruns it.
\<close>

definition server_stream_turn ::
  "int \<Rightarrow> nat \<times> bytes \<Rightarrow> ((nat \<times> bytes) + nat) prog" where
  "server_stream_turn peer_sd = (\<lambda>(num_recs, inbuf).
     and_then (receive (C_recv peer_sd 4 MSG_WAITALL) inbuf) (\<lambda>r.
     let inbuf = recv_into inbuf r in
     if r_ret r = 0 then ret (Inr num_recs)
     else if r_ret r < 0 then err ''Server: client terminated abnormally''
     else
       let rec_size = sint (ntohl (bytes_int inbuf)) in
       and_then (receive (C_recv peer_sd rec_size MSG_WAITALL) inbuf) (\<lambda>r.
       let inbuf = recv_into inbuf r; msg_size = r_ret r in
       if msg_size \<noteq> rec_size then
         err (''Server: receive error, got '' @ show_int msg_size @ '' bytes'')
       else if \<exists>k < nat msg_size. uint (inbuf ! k) \<noteq> rec_size then
         err ''Server: record content error''
       else
         and_then (sys (C_send peer_sd (map of_char ''X'') 0)) (\<lambda>r.
         if 0 \<ge> r_ret r then err ''Server: failed to send response''
         else ret (Inl (num_recs + 1, inbuf))))))"

definition server_test_stream :: "unit prog" where
  "server_test_stream =
     and_then (createSocketTIPC SOCK_STREAM) (\<lambda>listener_sd.
     and_then uninit_addr (\<lambda>server_addr.
     and_then (setServerAddrTo server_addr TIPC_ADDR_NAMESEQ TS_TEST_TYPE TS_TEST_INST TS_TEST_INST)
       (\<lambda>server_addr.
     let server_addr = server_addr\<lparr>sa_scope := TS_SCOPE\<rparr> in
     and_then (bindSocketTIPC listener_sd server_addr) (\<lambda>_.
     and_then (listenSocketTIPC listener_sd) (\<lambda>_.
     and_then (sendSyncTIPC TS_SYNC_ID_1) (\<lambda>_.
     and_then (acceptSocketTIPC listener_sd) (\<lambda>peer_sd.
     and_then (uninit_bytes MAX_REC_SIZE) (\<lambda>inbuf.
     and_then (loop (server_stream_turn peer_sd) (0, inbuf)) (\<lambda>_. block
       [closeSocketTIPC peer_sd,
        closeSocketTIPC listener_sd,
        recvSyncTIPC TS_SYNC_ID_2])))))))))"

definition do_receive_turn ::
  "int \<Rightarrow> int \<Rightarrow> int \<times> int \<times> bytes \<Rightarrow> ((int \<times> int \<times> bytes) + int) prog" where
  "do_receive_turn peer_sd recvFlag = (\<lambda>(buf_size, numRec, inbuf).
     and_then (receive (C_recv peer_sd buf_size recvFlag) inbuf) (\<lambda>r.
     let chunk_size = r_ret r; inbuf = recv_into inbuf r in
     if chunk_size = 0 then ret (Inr (- numRec))
     else if chunk_size < 0 \<or> chunk_size > buf_size then err ''recv failed ''
     else if inbuf ! 0 \<noteq> TS_BBUF_DATA \<or> inbuf ! nat (chunk_size - 1) \<noteq> TS_BBUF_DATA
     then err ''recv corruption ''
     else if buf_size - chunk_size > 0 then ret (Inl (buf_size - chunk_size, numRec + 1, inbuf))
     else ret (Inr (numRec + 1))))"

definition do_receive :: "int \<Rightarrow> int \<Rightarrow> int prog" where
  "do_receive peer_sd recvFlag =
     and_then (uninit_bytes (nat TS_BBUF_SIZE)) (\<lambda>inbuf.
     loop (do_receive_turn peer_sd recvFlag) (TS_BBUF_SIZE, 0, inbuf))"

definition server_test_bigStream :: "unit prog" where
  "server_test_bigStream =
     and_then (createSocketTIPC SOCK_STREAM) (\<lambda>listener_sd.
     and_then uninit_addr (\<lambda>server_addr.
     and_then (setServerAddrTo server_addr TIPC_ADDR_NAMESEQ TS_TEST_TYPE TS_TEST_INST TS_TEST_INST)
       (\<lambda>server_addr.
     let server_addr = server_addr\<lparr>sa_scope := TS_SCOPE\<rparr> in
     and_then (bindSocketTIPC listener_sd server_addr) (\<lambda>_.
     and_then (listenSocketTIPC listener_sd) (\<lambda>_.
     and_then (sendSyncTIPC TS_SYNC_ID_1) (\<lambda>_.
     and_then (acceptSocketTIPC listener_sd) (\<lambda>peer_sd.
     and_then (do_receive peer_sd 0) (\<lambda>numRec.
     if numRec \<le> 0 then err (''SubTest 1 returned '' @ show_int numRec) else
     and_then (sendSyncTIPC TS_SYNC_ID_2) (\<lambda>_.
     and_then (do_receive peer_sd MSG_WAITALL) (\<lambda>numRec.
     if numRec \<noteq> 1 then err (''SubTest 2 returned '' @ show_int numRec) else
     and_then (recvSyncTIPC TS_SYNC_ID_3) (\<lambda>_.
     and_then (do_receive peer_sd MSG_WAITALL) (\<lambda>numRec.
     if numRec \<noteq> 0 then err (''SubTest 3 returned '' @ show_int numRec) else block
       [closeSocketTIPC peer_sd,
        closeSocketTIPC listener_sd]))))))))))))"

definition server_test_sendto :: "unit prog" where
  "server_test_sendto = block
     [common_test_recvfrom TS_SYNC_ID_1, sendSyncTIPC TS_SYNC_ID_2,
      common_test_sendto TS_SYNC_ID_3, recvSyncTIPC TS_SYNC_ID_4]"

section \<open>The table of tests and the server loop\<close>

definition server_test_dgram :: "unit prog" where
  "server_test_dgram = server_test_connectionless SOCK_DGRAM"

definition server_test_rdm :: "unit prog" where
  "server_test_rdm = server_test_connectionless SOCK_RDM"

definition server_test_conn_stream :: "unit prog" where
  "server_test_conn_stream = server_test_connection SOCK_STREAM"

definition server_test_conn_seqpacket :: "unit prog" where
  "server_test_conn_seqpacket = server_test_connection SOCK_SEQPACKET"

definition server_test_shutdown_stream :: "unit prog" where
  "server_test_shutdown_stream = server_test_connection_shutdown SOCK_STREAM"

definition server_test_shutdown_seqpacket :: "unit prog" where
  "server_test_shutdown_seqpacket = server_test_connection_shutdown SOCK_SEQPACKET"

definition server_stress_rdm :: "unit prog" where
  "server_stress_rdm = server_stress_connectionless SOCK_RDM"

definition serverList :: "(int \<times> unit prog option) list" where
  "serverList =
    [(ts_doAllTests, None),
     (ts_dgram, Some server_test_dgram),
     (ts_rdm, Some server_test_rdm),
     (ts_conn_stream, Some server_test_conn_stream),
     (ts_conn_seqpacket, Some server_test_conn_seqpacket),
     (ts_shutdown_stream, Some server_test_shutdown_stream),
     (ts_shutdown_seqpacket, Some server_test_shutdown_seqpacket),
     (ts_messageLimits, Some server_test_messageLimits),
     (ts_importance, Some server_test_importance),
     (ts_socketOptions, Some server_test_socketOptions),
     (ts_connection_anc, Some server_test_anc_connection),
     (ts_connectionless_anc, Some server_test_anc_connectionless),
     (ts_multicast, Some server_test_multicast),
     (ts_stream, Some server_test_stream),
     (ts_bigStream, Some server_test_bigStream),
     (ts_sendto, Some server_test_sendto),
     (ts_lastSanityTest, None),
     (ts_stress_rdm, Some server_stress_rdm),
     (ts_lastStressTest, None)]"

text \<open>
  One turn of the server: take a test number, remember whether the client is in the same
  cluster, run the test. The state is what \<^verbatim>\<open>test\<close> and \<^verbatim>\<open>from\<close> hold from the turn before:
  a receive call that fails leaves both as they were.
\<close>

definition tipcTestServer_turn ::
  "sockaddr_tipc \<Rightarrow> u32 \<times> sockaddr_tipc \<Rightarrow> ((u32 \<times> sockaddr_tipc) + unit) prog" where
  "tipcTestServer_turn addr = (\<lambda>(test, from).
     and_then (createSocketTIPC SOCK_RDM) (\<lambda>sockfd_S.
     and_then (bindSocketTIPC sockfd_S addr) (\<lambda>_.
     and_then (sendSyncTIPC TS_SYNC_WAITING_FOR_TEST_ID) (\<lambda>_.
     and_then (receive (C_recvfrom sockfd_S 4 0) (int_bytes test)) (\<lambda>r.
     let test = bytes_int (recv_into (int_bytes test) r);
         test = (if r_ret r > 0 then sint (ntohl test) else TS_INVALID_TEST);
         from = (if r_ret r \<ge> 0 then r_addr r else from) in
     and_then (sys (C_getsockname sockfd_S)) (\<lambda>r.
     if r_ret r \<noteq> 0 then err ''getsockname() error'' else
     let domain = id_node (r_addr r); client_domain = id_node from in
     and_then (set_var (g_same_cluster_update (\<lambda>_.
       tipc_zone domain = tipc_zone client_domain \<and>
       tipc_cluster domain = tipc_cluster client_domain))) (\<lambda>_.
     and_then (closeSocketTIPC sockfd_S) (\<lambda>_.
     if test = TS_KILL_SERVER then ret (Inr ())
     else if test \<ge> ts_lastStressTest \<or> test \<ge> ts_lastSanityTest \<and> test < TS_FIRST_STRESS_TEST then
       and_then (emit (C_print (''TIPC Server: Invalid test number ('' @ show_int test @ '')'')))
         (\<lambda>_. killme 1)
     else
       and_then (recvSyncTIPC TS_SYNC_FINISHED_TEST_ID) (\<lambda>_.
       and_then (for_state [0..TS_NUMBER_OF_TESTS] (\<lambda>testIndex ntimes.
         if fst (serverList ! nat testIndex) = test
         then do_while_down (call_test (snd (serverList ! nat testIndex))) ntimes
         else ret ntimes) TS_NUMTIMES) (\<lambda>_. ret (Inl (of_int test, from)))))))))))) "

definition tipcTestServer :: "unit prog" where
  "tipcTestServer =
     and_then uninit_addr (\<lambda>addr.
     and_then uninit_addr (\<lambda>from.
     and_then (uninit_bytes 4) (\<lambda>test.
     and_then (loop (tipcTestServer_turn (setServerAddr addr)) (bytes_int test, from)) (\<lambda>_.
     emit (C_print ''TIPC Server: Client told us to quit'')))))"

fun server_options :: "string \<Rightarrow> unit prog" where
  "server_options [] = ret ()"
| "server_options (c # cs) =
     (if c = CHR ''v'' then server_options cs
      else and_then (emit (C_print ''Usage: %s [-v]'')) (\<lambda>_.
           exit_prog (if c = CHR ''h'' then 0 else 1)))"

definition server_main :: "string \<Rightarrow> unit prog" where
  "server_main opts = block [server_options opts, tipcTestServer, exit_prog 0]"

end
