(* ===== verification/Ts_Protocol.thy ===== *)
theory Ts_Protocol
  imports Ts_Server
begin

text \<open>
  Client and server of the test suite side by side. For each test the two sequences of
  protocol events are computed from the two programs and shown to fit together; a transition
  system of two processes that run such sequences shows that fitting sequences never
  deadlock.
\<close>

section \<open>Two processes and the messages between them\<close>

datatype packet = Data int | Eof

type_synonym pair_state = "ts_event list \<times> ts_event list \<times> packet list \<times> packet list"

text \<open>
  A signal is a rendezvous: its sender waits for the acknowledgement, its receiver for the
  withdrawal of the name. Data is queued; the end of the connection is queued behind it.
\<close>

inductive pair_step :: "pair_state \<Rightarrow> pair_state \<Rightarrow> bool" where
  signal_cs: "pair_step (Signal i # c, Await i # s, q, p) (c, s, q, p)"
| signal_sc: "pair_step (Await i # c, Signal i # s, q, p) (c, s, q, p)"
| send_cs: "pair_step (Msg n # c, s, q, p) (c, s, q @ [Data n], p)"
| send_sc: "pair_step (c, Msg n # s, q, p) (c, s, q, p @ [Data n])"
| recv_cs: "m \<le> n \<Longrightarrow> pair_step (c, Rcv n # s, Data m # q, p) (c, s, q, p)"
| recv_sc: "m \<le> n \<Longrightarrow> pair_step (Rcv n # c, s, q, Data m # p) (c, s, q, p)"
| shut_cs: "pair_step (Shut # c, s, q, p) (c, s, q @ [Eof], p)"
| shut_sc: "pair_step (c, Shut # s, q, p) (c, s, q, p @ [Eof])"
| eof_cs: "pair_step (c, Rcv n # s, Eof # q, p) (c, s, q, p)"
| eof_sc: "pair_step (Rcv n # c, s, q, Eof # p) (c, s, q, p)"

definition finished :: pair_state where
  "finished = ([], [], [], [])"

text \<open>Two events that fit: what one side does is what the other side waits for.\<close>

inductive fits :: "ts_event \<Rightarrow> ts_event \<Rightarrow> bool" where
  "fits (Signal i) (Await i)"
| "fits (Await i) (Signal i)"
| "fits (Msg n) (Rcv n)"
| "fits (Rcv n) (Msg n)"
| "fits Shut (Rcv n)"
| "fits (Rcv n) Shut"

inductive_simps fits_simps [simp]:
  "fits (Signal i) e" "fits (Await i) e" "fits (Msg n) e" "fits (Rcv n) e" "fits Shut e"
  "fits e (Signal i)" "fits e (Await i)" "fits e (Msg n)" "fits e Shut"

text \<open>
  What is queued, seen from its receiver: a receive call for each packet that it fits.
\<close>

fun takes :: "packet \<Rightarrow> ts_event \<Rightarrow> bool" where
  "takes (Data m) (Rcv n) \<longleftrightarrow> m \<le> n"
| "takes Eof (Rcv n) \<longleftrightarrow> True"
| "takes _ _ \<longleftrightarrow> False"

text \<open>The invariant: at most one side is ahead, by exactly what is queued.\<close>

fun ahead_c :: "ts_event list \<Rightarrow> ts_event list \<Rightarrow> packet list \<Rightarrow> bool" where
  "ahead_c c s [] \<longleftrightarrow> list_all2 fits c s"
| "ahead_c c [] (x # q) \<longleftrightarrow> False"
| "ahead_c c (e # s) (x # q) \<longleftrightarrow> takes x e \<and> ahead_c c s q"

fun ahead_s :: "ts_event list \<Rightarrow> ts_event list \<Rightarrow> packet list \<Rightarrow> bool" where
  "ahead_s c s [] \<longleftrightarrow> list_all2 fits c s"
| "ahead_s [] s (x # p) \<longleftrightarrow> False"
| "ahead_s (e # c) s (x # p) \<longleftrightarrow> takes x e \<and> ahead_s c s p"

definition in_step :: "pair_state \<Rightarrow> bool" where
  "in_step = (\<lambda>(c, s, q, p). p = [] \<and> ahead_c c s q \<or> q = [] \<and> ahead_s c s p)"

lemma takes_Rcv: "takes x e \<Longrightarrow> \<exists>n. e = Rcv n"
  by (cases "(x, e)" rule: takes.cases) auto

text \<open>Sending extends what one is ahead by.\<close>

lemma ahead_c_send:
  assumes "ahead_c (e # c) s q" and "\<And>f. fits e f \<Longrightarrow> takes x f"
  shows "ahead_c c s (q @ [x])"
  using assms(1)
proof (induction q arbitrary: s)
  case Nil
  with assms(2) show ?case by (auto simp: list_all2_Cons1)
next
  case (Cons y q)
  then show ?case by (cases s) auto
qed

lemma ahead_s_send:
  assumes "ahead_s c (e # s) p" and "\<And>f. fits f e \<Longrightarrow> takes x f"
  shows "ahead_s c s (p @ [x])"
  using assms(1)
proof (induction p arbitrary: c)
  case Nil
  with assms(2) show ?case by (auto simp: list_all2_Cons2)
next
  case (Cons y p)
  then show ?case by (cases c) auto
qed

text \<open>A side that is about to do anything but receive has received all there was.\<close>

lemma ahead_not_Rcv:
  assumes "\<And>n. e \<noteq> Rcv n"
  shows "ahead_c c (e # s) q \<longleftrightarrow> q = [] \<and> list_all2 fits c (e # s)"
    and "ahead_s (e # c) s p \<longleftrightarrow> p = [] \<and> list_all2 fits (e # c) s"
proof -
  show "ahead_c c (e # s) q \<longleftrightarrow> q = [] \<and> list_all2 fits c (e # s)"
    using assms by (cases q) (auto dest: takes_Rcv)
  show "ahead_s (e # c) s p \<longleftrightarrow> p = [] \<and> list_all2 fits (e # c) s"
    using assms by (cases p) (auto dest: takes_Rcv)
qed

lemma in_step_preserved:
  assumes "pair_step x y" and "in_step x"
  shows "in_step y"
  using assms
proof (induction rule: pair_step.induct)
  case (signal_cs i c s q p)
  then show ?case
    by (auto simp: in_step_def ahead_not_Rcv)
next
  case (signal_sc i c s q p)
  then show ?case
    by (auto simp: in_step_def ahead_not_Rcv)
next
  case (send_cs n c s q p)
  then have "p = [] \<and> ahead_c (Msg n # c) s q"
    by (auto simp: in_step_def ahead_not_Rcv)
  then show ?case by (auto simp: in_step_def intro!: ahead_c_send)
next
  case (send_sc c n s q p)
  then have "q = [] \<and> ahead_s c (Msg n # s) p"
    by (auto simp: in_step_def ahead_not_Rcv)
  then show ?case by (auto simp: in_step_def intro!: ahead_s_send)
next
  case (shut_cs c s q p)
  then have "p = [] \<and> ahead_c (Shut # c) s q"
    by (auto simp: in_step_def ahead_not_Rcv)
  then show ?case by (auto simp: in_step_def intro!: ahead_c_send)
next
  case (shut_sc c s q p)
  then have "q = [] \<and> ahead_s c (Shut # s) p"
    by (auto simp: in_step_def ahead_not_Rcv)
  then show ?case by (auto simp: in_step_def intro!: ahead_s_send)
qed (auto simp: in_step_def)

lemma in_step_progress:
  assumes "in_step x" and "x \<noteq> finished"
  shows "\<exists>y. pair_step x y"
proof -
  obtain c s q p where x: "x = (c, s, q, p)" by (cases x)
  show ?thesis
  proof (cases "q = [] \<and> p = []")
    case True
    with assms x have "list_all2 fits c s" "c \<noteq> []" by (auto simp: in_step_def finished_def)
    then obtain e c' f s' where cs: "c = e # c'" "s = f # s'" "fits e f"
      by (cases c) (auto simp: list_all2_Cons1)
    from cs(3) show ?thesis
      unfolding x cs(1,2) by cases (auto simp del: split_paired_Ex intro: pair_step.intros)
  next
    case False
    then show ?thesis
    proof (cases q)
      case Nil
      with False assms x obtain d p' e c' where "p = d # p'" "c = e # c'" "takes d e"
        by (cases p; cases c) (auto simp: in_step_def)
      then show ?thesis
        unfolding x by (cases d; cases e) (auto simp del: split_paired_Ex intro: pair_step.intros)
    next
      case (Cons d q')
      with assms x obtain e s' where "s = e # s'" "takes d e"
        by (cases s) (auto simp: in_step_def)
      then show ?thesis
        unfolding x Cons by (cases d; cases e) (auto simp del: split_paired_Ex intro: pair_step.intros)
    qed
  qed
qed

definition work :: "pair_state \<Rightarrow> nat" where
  "work = (\<lambda>(c, s, q, p). length c + length s)"

lemma work_decreases: "pair_step x y \<Longrightarrow> work y < work x"
  by (induction rule: pair_step.induct) (auto simp: work_def)

lemma in_step_finishes: "in_step x \<Longrightarrow> pair_step\<^sup>*\<^sup>* x finished"
proof (induction "work x" arbitrary: x rule: less_induct)
  case less
  show ?case
  proof (cases "x = finished")
    case False
    then obtain y where y: "pair_step x y" using in_step_progress less.prems by blast
    then have "pair_step\<^sup>*\<^sup>* y finished"
      using less work_decreases in_step_preserved by blast
    with y show ?thesis by (rule converse_rtranclp_into_rtranclp)
  qed simp
qed

lemma in_step_reachable: "pair_step\<^sup>*\<^sup>* x y \<Longrightarrow> in_step x \<Longrightarrow> in_step y"
  by (induction rule: rtranclp_induct) (auto intro: in_step_preserved)

lemma fits_in_step: "list_all2 fits c s \<Longrightarrow> in_step (c, s, [], [])"
  by (simp add: in_step_def)

text \<open>Two processes never get stuck if they can finish from every state they can be in.\<close>

definition never_stuck :: "ts_event list \<Rightarrow> ts_event list \<Rightarrow> bool" where
  "never_stuck c s \<longleftrightarrow>
     (\<forall>t. pair_step\<^sup>*\<^sup>* (c, s, [], []) t \<longrightarrow> pair_step\<^sup>*\<^sup>* t finished)"

lemma fits_never_stuck: "list_all2 fits c s \<Longrightarrow> never_stuck c s"
  unfolding never_stuck_def
  by (blast intro: in_step_finishes in_step_reachable fits_in_step)

section \<open>The signals of every test\<close>

definition swap :: "ts_event \<Rightarrow> ts_event" where
  "swap e = (case e of Signal i \<Rightarrow> Await i | Await i \<Rightarrow> Signal i | _ \<Rightarrow> e)"

lemma swap_simps [simp]: "swap (Signal i) = Await i" "swap (Await i) = Signal i"
  by (simp_all add: swap_def)

lemma fits_swap: "list_all is_sync es \<Longrightarrow> list_all2 fits es (map swap es)"
proof (induction es)
  case (Cons e es)
  then show ?case by (cases e) auto
qed simp

lemmas sync_ids = sync.sendSync sync.recvSync

lemmas sync_rules = emits_structure quiet_structure sync_ids sync.data_loops
  sync.datagram_loops not_sync_server

lemma sync_parts [emits_intros]:
  "emits obs_sync (client_SendConnectionless t n k) [Await 1, Signal 2]"
  "emits obs_sync (client_SendConnection t n k n' k') [Await 1, Signal 2]"
  "emits obs_sync (client_SendConnectionShutdown t n k) [Await 1, Signal 2]"
  "emits obs_sync (server_receiveConnectionless t n k) [Signal 1, Await 2]"
  "emits obs_sync (server_receiveConnection t m n k n' k') [Signal 1, Await 2]"
  "emits obs_sync (server_receiveConnectionShutdown t m n k) [Signal 1, Await 2]"
  unfolding client_SendConnectionless_def client_SendConnection_def
    client_SendConnectionShutdown_def server_receiveConnectionless_def
    server_receiveConnection_def server_receiveConnectionShutdown_def Let_def
  by ((rule emits_by, (rule sync_rules emits_intros | simp; fail)+)[1])+

lemma sync_anc_parts [emits_intros]:
  "emits obs_sync (check_returned ancs n m) []"
  "emits obs_sync (check_destname ancs) []"
  "emits obs_sync (client_anc_turn soc st) []"
  unfolding check_returned_def check_destname_def client_anc_turn_def cmsg_word_def Let_def
  by (((rule sync_rules emits_intros | simp; fail)+)[1])+

lemma sync_client_mcast [emits_intros]:
  "emits obs_sync (client_mcast sd l u k b number) [Signal 3, Await 4]"
  unfolding client_mcast_def setServerAddrTo_cases ret_and_then
  by (rule emits_by,
      (rule sync_rules emits_intros | simp add: is_sync_name_def sync.no_datagram; fail)+)

lemma sync_bindMulticast [emits_intros]: "emits obs_sync (server_bindMulticast l u fd) []"
  unfolding server_bindMulticast_def setServerAddrTo_cases ret_and_then
  by (rule quiet_structure emits_intros | simp add: is_sync_name_def; fail)+

lemma sync_mcast_socket [emits_intros]: "emits obs_sync (server_mcast_socket st m fd s) []"
  unfolding server_mcast_socket_def read_int_def Let_def
  by (rule quiet_structure emits_intros | simp; fail)+

lemma sync_mcast_turn [emits_intros]: "emits obs_sync (server_mcast_turn sds st m s) []"
  unfolding server_mcast_turn_def
  by (rule quiet_structure emits_intros | simp; fail)+

lemma sync_server_mcast [emits_intros]: "emits obs_sync (server_mcast sds st) [Await 3, Signal 4]"
  unfolding server_mcast_def
  by (rule emits_by, (rule emits_structure sync_ids emits_intros emits_malloc emits_for_state_quiet
      emits_quiet_then emits_loop_quiet | simp; fail)+)

lemma sync_stream_parts [emits_intros]:
  "emits obs_sync (server_stream_turn fd s) []"
  "emits obs_sync (do_receive_turn fd fl t) []"
  "emits obs_sync (do_receive fd fl) []"
  unfolding server_stream_turn_def do_receive_turn_def do_receive_def Let_def
  by (((rule quiet_structure sync_rules emits_intros | simp; fail)+)[1])+

lemma sync_tests_anc:
  "emits obs_sync client_test_anc_connection [Await 1, Signal 2]"
  "emits obs_sync server_test_anc_connection [Signal 1, Await 2]"
  "emits obs_sync client_test_anc_connectionless [Await 1, Signal 2, Signal 3]"
  "emits obs_sync server_test_anc_connectionless [Signal 1, Await 2, Await 3]"
  unfolding client_test_anc_connection_def server_test_anc_connection_def
    client_test_anc_connectionless_def server_test_anc_connectionless_def
    setServerAddrTo_cases ret_and_then Let_def
  by ((rule emits_by, (rule sync_rules emits_intros | simp add: is_sync_name_def; fail)+)[1])+

lemma sync_tests_stream:
  "emits obs_sync client_test_stream [Await 1, Signal 2]"
  "emits obs_sync server_test_stream [Signal 1, Await 2]"
  "emits obs_sync client_test_bigStream [Await 1, Await 2, Signal 3]"
  "emits obs_sync server_test_bigStream [Signal 1, Signal 2, Await 3]"
  unfolding client_test_stream_def server_test_stream_def
    client_test_bigStream_def server_test_bigStream_def
    setServerAddrTo_cases ret_and_then Let_def
  by ((rule emits_by, (rule sync_rules emits_intros | simp add: is_sync_name_def; fail)+)[1])+

lemma sync_tests_other:
  "emits obs_sync client_test_socketOptions [Signal 1, Await 2]"
  "emits obs_sync server_test_socketOptions [Await 1, Signal 2]"
  "emits obs_sync client_test_sendto [Await 1, Await 2, Signal 3, Signal 4]"
  "emits obs_sync server_test_sendto [Signal 1, Signal 2, Await 3, Await 4]"
  unfolding client_test_socketOptions_def server_test_socketOptions_def
    client_test_sendto_def server_test_sendto_def
  by ((rule emits_by, (rule sync_rules emits_intros sync.sendto_test sync.recvfrom_test
      | simp; fail)+)[1])+

lemma emits_for_each_const:
  "(\<And>i. i \<in> set xs \<Longrightarrow> emits obs (f i) es) \<Longrightarrow>
   emits obs (for_each xs f) (concat (replicate (length xs) es))"
  using emits_for_each [of xs obs f "\<lambda>_. es"] by (simp add: map_replicate_const)

lemmas sync_mcast_loop = emits_for_each_const [OF sync_server_mcast]

lemma sync_tests_mcast:
  "emits obs_sync client_test_multicast
     (Await 1 # concat (replicate 7 [Signal 3, Await 4]) @ [Signal 2])"
  "emits obs_sync server_test_multicast
     (Signal 1 # concat (replicate 7 [Await 3, Signal 4]) @ [Await 2])"
  unfolding client_test_multicast_def server_test_multicast_def
  by ((rule emits_by, (rule sync_mcast_loop sync_rules emits_intros
      | simp add: eval_nat_numeral; fail)+)[1])+

lemma emits_only_if_known:
  "\<not> b \<Longrightarrow> emits obs (only_if b m) []"
  "b \<Longrightarrow> emits obs m es \<Longrightarrow> emits obs (only_if b m) es"
  by (simp_all add: emits_ret)

text \<open>The tests built from the send and receive routines, and how often they run these.\<close>

lemma sync_tests_parts [emits_intros]:
  "emits obs_sync (client_test_connectionless SOCK_DGRAM) (concat (replicate 2 [Await 1, Signal 2]))"
  "emits obs_sync (client_test_connectionless SOCK_RDM) (concat (replicate 4 [Await 1, Signal 2]))"
  "emits obs_sync (client_test_connection t) (concat (replicate 3 [Await 1, Signal 2]))"
  "emits obs_sync (client_test_connection_shutdown t) (concat (replicate 3 [Await 1, Signal 2]))"
  "emits obs_sync (server_test_connectionless SOCK_DGRAM) (concat (replicate 2 [Signal 1, Await 2]))"
  "emits obs_sync (server_test_connectionless SOCK_RDM) (concat (replicate 4 [Signal 1, Await 2]))"
  "emits obs_sync (server_test_connection t) (concat (replicate 3 [Signal 1, Await 2]))"
  "emits obs_sync (server_test_connection_shutdown t) (concat (replicate 3 [Signal 1, Await 2]))"
  unfolding client_test_connectionless_def client_test_connection_def
    client_test_connection_shutdown_def server_test_connectionless_def server_test_connection_def
    server_test_connection_shutdown_def
  by ((rule emits_by, (rule emits_only_if_known emits_structure emits_intros | simp add: eval_nat_numeral; fail)+)[1])+

lemma sync_tests_long:
  "emits obs_sync client_test_messageLimits
     (concat (replicate (length (msizes 1)) [Await 1, Signal 2]))"
  "emits obs_sync server_test_messageLimits
     (concat (replicate (length (msizes 1)) [Signal 1, Await 2]))"
  "emits obs_sync client_test_importance (concat (replicate 4 (concat (replicate 18 [Await 1, Signal 2]))))"
  "emits obs_sync server_test_importance (concat (replicate 4 (concat (replicate 18 [Signal 1, Await 2]))))"
proof -
  show "emits obs_sync client_test_messageLimits
     (concat (replicate (length (msizes 1)) [Await 1, Signal 2]))"
    unfolding client_test_messageLimits_def
    by (rule emits_for_each_const) (rule emits_intros)
  show "emits obs_sync server_test_messageLimits
     (concat (replicate (length (msizes 1)) [Signal 1, Await 2]))"
    unfolding server_test_messageLimits_def
    by (rule emits_for_each_const) (rule emits_intros)
  have c: "emits obs_sync (block
          [set_var (g_importance_update (\<lambda>_. importance)),
           client_test_connectionless SOCK_DGRAM,
           client_test_connectionless SOCK_RDM,
           client_test_connection SOCK_STREAM,
           client_test_connection SOCK_SEQPACKET,
           client_test_connection_shutdown SOCK_STREAM,
           client_test_connection_shutdown SOCK_SEQPACKET])
        (concat (replicate 18 [Await 1, Signal 2]))" for importance
    by (rule emits_by, (rule emits_structure emits_intros | simp add: eval_nat_numeral; fail)+)
  show "emits obs_sync client_test_importance
      (concat (replicate 4 (concat (replicate 18 [Await 1, Signal 2]))))"
    unfolding client_test_importance_def
    by (rule emits_by, (rule emits_for_each_const [OF c] emits_structure | simp; fail)+)
  have "emits obs_sync (block
          [server_test_connectionless SOCK_DGRAM,
           server_test_connectionless SOCK_RDM,
           server_test_connection SOCK_STREAM,
           server_test_connection SOCK_SEQPACKET,
           server_test_connection_shutdown SOCK_STREAM,
           server_test_connection_shutdown SOCK_SEQPACKET])
        (concat (replicate 18 [Signal 1, Await 2]))"
    by (rule emits_by, (rule emits_structure emits_intros | simp add: eval_nat_numeral; fail)+)
  then show "emits obs_sync server_test_importance
      (concat (replicate 4 (concat (replicate 18 [Signal 1, Await 2]))))"
    unfolding server_test_importance_def
    by (rule emits_by [OF emits_for_each_const]) simp
qed

section \<open>The messages of the connectionless and connection tests\<close>

text \<open>What one run of the send routine and of its counterpart does, message by message.\<close>

definition sends :: "int \<Rightarrow> int \<Rightarrow> ts_event list" where
  "sends n k = [Await 1] @ replicate (nat n) (Msg k) @ [Signal 2]"

definition receives :: "int \<Rightarrow> int \<Rightarrow> ts_event list" where
  "receives n k = [Signal 1] @ replicate (nat n) (Rcv k) @ [Await 2]"

lemmas ts_rules = emits_structure emits_intros ts.sendSync ts.recvSync emits_sendtoSocketTIPC
  emits_sendSocketTIPC emits_recvSocketTIPC not_sync_server

lemma ts_parts [emits_intros]:
  "0 < k \<Longrightarrow> emits obs_ts (client_SendConnectionless t n k) (sends n k)"
  "0 < k \<Longrightarrow> 0 \<le> n \<Longrightarrow> emits obs_ts (server_receiveConnectionless t n k) (receives n k)"
  unfolding client_SendConnectionless_def server_receiveConnectionless_def Let_def
    sends_def receives_def
  by ((rule emits_by, (rule ts_rules | simp; fail)+)[1])+

lemma ts_connection [emits_intros]:
  assumes "0 \<le> n" "0 \<le> k" "k = 0 \<longrightarrow> n = 0" "0 \<le> n'" "0 \<le> k'" "k' = 0 \<longrightarrow> n' = 0"
  shows "emits obs_ts (client_SendConnection t n k n' k')
      ([Await 1] @ replicate (nat n) (Msg k) @ replicate (nat n') (Rcv k') @ [Signal 2])"
    and "emits obs_ts (server_receiveConnection t 1 n k n' k')
      ([Signal 1] @ replicate (nat n) (Rcv k) @ replicate (nat n') (Msg k') @ [Await 2])"
proof -
  show "emits obs_ts (client_SendConnection t n k n' k')
      ([Await 1] @ replicate (nat n) (Msg k) @ replicate (nat n') (Rcv k') @ [Signal 2])"
    unfolding client_SendConnection_def Let_def
    by (rule emits_by, (rule ts_rules | simp add: assms; fail)+)
  have one: "[0..<nat 1] = [0]" by simp
  show "emits obs_ts (server_receiveConnection t 1 n k n' k')
      ([Signal 1] @ replicate (nat n) (Rcv k) @ replicate (nat n') (Msg k') @ [Await 2])"
    unfolding server_receiveConnection_def Let_def one for_each.simps
    by (rule emits_by, (rule ts_rules | simp add: assms; fail)+)
qed

lemma ts_shutdown [emits_intros]:
  assumes "0 \<le> n" "0 < k"
  shows "emits obs_ts (client_SendConnectionShutdown t n k)
      ([Await 1] @ replicate (nat n) (Msg k) @ [Shut, Signal 2])"
    and "emits obs_ts (server_receiveConnectionShutdown t 1 n k)
      ([Signal 1] @ replicate (nat n) (Rcv k) @ [Rcv 1, Await 2])"
proof -
  show "emits obs_ts (client_SendConnectionShutdown t n k)
      ([Await 1] @ replicate (nat n) (Msg k) @ [Shut, Signal 2])"
    unfolding client_SendConnectionShutdown_def Let_def
    using assms by - (rule emits_by, (rule ts_rules | simp; fail)+)
  have one: "[0..<nat 1] = [0]" by simp
  show "emits obs_ts (server_receiveConnectionShutdown t 1 n k)
      ([Signal 1] @ replicate (nat n) (Rcv k) @ [Rcv 1, Await 2])"
    unfolding server_receiveConnectionShutdown_def Let_def one for_each.simps
    using assms by - (rule emits_by, (rule ts_rules | simp; fail)+)
qed

section \<open>Runs that pass\<close>

text \<open>
  Replies with which the routines of the suite return: calls that succeed, events that
  announce and withdraw a name, intact messages.
\<close>

definition name_event :: "u32 \<Rightarrow> reply" where
  "name_event e = (ok sizeof_event)\<lparr>r_event := (r_event (msg_reply []))\<lparr>ev_event := htonl e\<rparr>\<rparr>"

definition vector_reply :: "int \<Rightarrow> reply" where
  "vector_reply k = msg_reply (makeArray (replicate (nat k) 0) k 0 255)"

lemma name_event_simps [simp]:
  "r_ret (name_event e) = sizeof_event" "ev_event (r_event (name_event e)) = htonl e"
  by (simp_all add: name_event_def)

named_theorems answers_intros \<open>replies with which the routines of the suite return\<close>

lemma answers_wrappers [answers_intros]:
  "answers (acceptSocketTIPC fd) [ok 0] 0"
  "answers (listenSocketTIPC fd) [ok 0] ()"
  "answers (createSocketTIPC t) [ok 0] 0"
  "answers (bindSocketTIPC fd a) [ok 0] ()"
  "answers (connectSocketTIPC fd a) [ok 0] ()"
  "answers (closeSocketTIPC fd) [ok 0] ()"
  "answers (setOption fd opt v) [ok 0] ()"
  unfolding acceptSocketTIPC_def listenSocketTIPC_def createSocketTIPC_def bindSocketTIPC_def
    connectSocketTIPC_def closeSocketTIPC_def setOption_def
  by (rule answers_sys_then, simp add: answers_ret)+

lemma answers_sendSyncTIPC [answers_intros]:
  "answers (sendSyncTIPC i) [ok 0, ok 0, ok 1, ok 0] ()"
proof -
  have "answers (sendSyncTIPC i) ([ok 0] @ [ok 0] @ [ok 1] @ [ok 0]) ()"
    unfolding sendSyncTIPC_def setServerAddrTo_cases ret_and_then
    by (rule answers_structure answers_wrappers answers_sys | simp; fail)+
  then show ?thesis by simp
qed

lemma answers_recvSyncTIPC [answers_intros]:
  "answers (recvSyncTIPC i)
     [ok 0, ok 0, ok sizeof_subscr, name_event TIPC_PUBLISHED, ok 0, ok 0, ok 1, ok 0,
      name_event TIPC_WITHDRAWN, ok 0] ()"
proof -
  have "answers (recvSyncTIPC i)
     ([ok 0] @ [ok 0] @ [ok sizeof_subscr] @ [name_event TIPC_PUBLISHED] @ [ok 0] @ [ok 0] @ [ok 1] @
      [ok 0] @ [name_event TIPC_WITHDRAWN] @ [ok 0]) ()"
    unfolding recvSyncTIPC_def setServerAddrTo_cases ret_and_then Let_def
    by (rule answers_structure answers_wrappers answers_sys | simp; fail)+
  then show ?thesis by simp
qed

lemma answers_for_state:
  "(\<And>i. i \<in> set xs \<Longrightarrow> answers (f i st) [r] st) \<Longrightarrow>
   answers (for_state xs f st) (replicate (length xs) r) st"
proof (induction xs)
  case (Cons x xs)
  then show ?case using answers_and_then [of "f x st" "[r]" st "for_state xs f"] by simp
qed (simp add: answers_ret)

lemma answers_sendSocketTIPC [answers_intros]:
  assumes "n \<noteq> 0" and "k \<noteq> 0"
  shows "answers (sendSocketTIPC fd n k 0) (ok 1 # replicate (nat n) (ok k)) ()"
    and "answers (sendtoSocketTIPC fd a n k 0) (ok 1 # replicate (nat n) (ok k)) ()"
proof -
  let ?rs = "replicate (length [0..<nat n]) (ok k)"
  have "answers (sendSocketTIPC fd n k 0) (ok 1 # ?rs @ []) ()"
    unfolding sendSocketTIPC_def sendSocketBuffTIPC_def Let_def if_not_P [OF de_Morgan_disj [THEN iffD2, OF conjI, OF assms]]
    by (rule answers_malloc, unfold option.case, rule answers_and_then, rule answers_for_state,
        rule answers_sys_then, simp add: answers_ret, rule answers_ret)
  moreover have "answers (sendtoSocketTIPC fd a n k 0) (ok 1 # ?rs @ []) ()"
    unfolding sendtoSocketTIPC_def sendtoSocketBuffTIPC_def Let_def if_not_P [OF de_Morgan_disj [THEN iffD2, OF conjI, OF assms]]
    by (rule answers_malloc, unfold option.case, rule answers_and_then, rule answers_for_state,
        rule answers_sys_then, simp add: answers_ret, simp add: answers_ret)
  ultimately show "answers (sendSocketTIPC fd n k 0) (ok 1 # replicate (nat n) (ok k)) ()"
    and "answers (sendtoSocketTIPC fd a n k 0) (ok 1 # replicate (nat n) (ok k)) ()"
    by simp_all
qed

lemma answers_no_transfer [answers_intros]:
  "answers (sendSocketTIPC fd 0 k t) [] ()"
  "answers (recvSocketTIPC fd 0 k t t') [] ()"
  by (simp_all add: sendSocketTIPC_def recvSocketTIPC_def answers_ret)

lemma answers_recvSocketTIPC [answers_intros]:
  assumes "0 < n" and "0 < k" and "k < 2 ^ 31"
  shows "answers (recvSocketTIPC fd n k 0 0) (ok 1 # replicate (nat n) (vector_reply k)) ()"
proof -
  have ok: "delivered k (vector_reply k)" "\<not> corrupt (vector_reply k)"
    using assms checkArray_valid [of k "replicate (nat k) 0" 0 255]
    by (simp_all add: delivered_def corrupt_def vector_reply_def)
  have pos: "\<not> r_ret (vector_reply k) < 0" using ok(2) by (auto simp: corrupt_def)
  have "answers (loop (recvSocketTIPC_turn fd k 0) (n, 0, 0, buf)) (replicate (nat n) (vector_reply k)) (0, 0)"
    if "length buf = nat k" for buf
    using answers_recv_loop [of "replicate (nat n) (vector_reply k)" k buf 0 fd 0 0] assms ok pos that
    by (simp add: filter_replicate)
  then have "answers (and_then (loop (recvSocketTIPC_turn fd k 0) (n, 0, 0, buf))
      (\<lambda>(re, ce). if (0::int) \<ge> 0 \<and> re \<noteq> 0 then err ''unexpected number of recv() errors''
        else if (0::int) \<ge> 0 \<and> ce \<noteq> 0 then err ''unexpected number of corrupted messages received''
        else ret ())) (replicate (nat n) (vector_reply k) @ []) ()" if "length buf = nat k" for buf
    using that by (intro answers_and_then) (auto simp: answers_ret)
  then show ?thesis
    unfolding recvSocketTIPC_def
    using assms by (auto intro!: answers_malloc)
qed

section \<open>Tests that fit together\<close>

definition can_pass :: "unit prog \<Rightarrow> bool" where
  "can_pass m \<longleftrightarrow> (\<exists>rs. answers m rs ())"

text \<open>
  The client and the server routine of a test are matched if the event sequences they show,
  on every run that returns, fit event by event.
\<close>

definition matched :: "unit prog \<Rightarrow> unit prog \<Rightarrow> bool" where
  "matched c s \<longleftrightarrow> (\<exists>es fs. emits obs_ts c es \<and> emits obs_ts s fs \<and> list_all2 fits es fs)"

named_theorems matched_intros \<open>pairs of routines that fit together, and routines that can pass\<close>

lemma can_pass_block [matched_intros]:
  "can_pass (block [])"
  "can_pass m \<Longrightarrow> can_pass (block ms) \<Longrightarrow> can_pass (block (m # ms))"
  unfolding can_pass_def by (blast intro: answers_block_Nil, blast intro: answers_block_Cons)

lemma can_pass_for_each [matched_intros]:
  "(\<And>i. i \<in> set xs \<Longrightarrow> can_pass (f i)) \<Longrightarrow> can_pass (for_each xs f)"
  unfolding can_pass_def using answers_for_each [of xs f "\<lambda>i. SOME rs. answers (f i) rs ()"]
  by (meson someI)

lemma can_pass_set_var [matched_intros]: "can_pass (set_var (g_importance_update g))"
  unfolding can_pass_def by (rule exI, rule answers_set_var) simp

lemma matched_and_then:
  assumes "matched c s" and "matched c' s'"
  shows "matched (and_then c (\<lambda>_. c')) (and_then s (\<lambda>_. s'))"
  using assms unfolding matched_def by (metis emits_and_then list_all2_appendI)

lemma matched_ret: "matched (ret ()) (ret ())"
  unfolding matched_def by (rule exI [of _ "[]"], rule exI [of _ "[]"]) (simp add: emits_ret)

lemma matched_block [matched_intros]:
  "matched (block []) (block [])"
  "matched c s \<Longrightarrow> matched (block cs) (block ss) \<Longrightarrow> matched (block (c # cs)) (block (s # ss))"
  by (simp_all add: matched_and_then matched_ret)

lemma matched_for_each [matched_intros]:
  "(\<And>i. i \<in> set xs \<Longrightarrow> matched (f i) (g i)) \<Longrightarrow> matched (for_each xs f) (for_each xs g)"
  by (induction xs) (simp_all add: matched_and_then matched_ret)

lemma only_if_intros [matched_intros]:
  "(b \<Longrightarrow> matched m n) \<Longrightarrow> matched (only_if b m) (only_if b n)"
  "(b \<Longrightarrow> can_pass m) \<Longrightarrow> can_pass (only_if b m)"
  using can_pass_block(1) by (auto simp: only_if_def matched_ret)

lemma fits_replicate [simp]:
  "list_all2 fits (replicate n (Msg k)) (replicate n (Rcv k))"
  "list_all2 fits (replicate n (Rcv k)) (replicate n (Msg k))"
  by (simp_all add: list_all2_conv_all_nth)

lemma matched_connectionless [matched_intros]:
  assumes "0 < n" "0 < k"
  shows "matched (client_SendConnectionless t n k) (server_receiveConnectionless t' n k)"
  unfolding matched_def
  using ts_parts [OF assms(2), of t n] ts_parts(2) [OF assms(2), of n t'] assms
  by (intro exI [of _ "sends n k"] exI [of _ "receives n k"])
    (simp add: sends_def receives_def list_all2_appendI)

lemma matched_connection [matched_intros]:
  assumes "0 \<le> n" "0 \<le> k" "k = 0 \<longrightarrow> n = 0" "0 \<le> n'" "0 \<le> k'" "k' = 0 \<longrightarrow> n' = 0"
  shows "matched (client_SendConnection t n k n' k') (server_receiveConnection t' 1 n k n' k')"
  unfolding matched_def
  by (intro exI conjI, rule ts_connection [OF assms], rule ts_connection [OF assms])
    (simp add: list_all2_appendI)

lemma matched_shutdown [matched_intros]:
  assumes "0 \<le> n" "0 < k"
  shows "matched (client_SendConnectionShutdown t n k) (server_receiveConnectionShutdown t' 1 n k)"
  unfolding matched_def
  by (intro exI conjI, rule ts_shutdown [OF assms], rule ts_shutdown [OF assms])
    (simp add: list_all2_appendI)

lemma can_pass_connectionless [matched_intros]:
  assumes "0 < n" "0 < k" "k < 2 ^ 31"
  shows "can_pass (client_SendConnectionless t n k)"
    and "can_pass (server_receiveConnectionless t n k)"
proof -
  show "can_pass (client_SendConnectionless t n k)"
    unfolding client_SendConnectionless_def Let_def can_pass_def
    by (rule exI, (rule answers_intros answers_structure | use assms in simp; fail)+)
  show "can_pass (server_receiveConnectionless t n k)"
    unfolding server_receiveConnectionless_def Let_def can_pass_def
    by (rule exI, (rule answers_intros answers_structure | use assms in simp; fail)+)
qed

lemma can_pass_connection [matched_intros]:
  assumes "n = 0 \<or> 0 < n \<and> 0 < k" "k < 2 ^ 31" "n' = 0 \<or> 0 < n' \<and> 0 < k'" "k' < 2 ^ 31"
  shows "can_pass (client_SendConnection t n k n' k')"
    and "can_pass (server_receiveConnection t 1 n k n' k')"
proof -
  have send: "\<exists>rs. \<forall>fd. answers (sendSocketTIPC fd m l 0) rs ()"
    if "m = 0 \<or> 0 < m \<and> 0 < l" for m l
    using that answers_sendSocketTIPC(1) answers_no_transfer(1) by (metis less_irrefl)
  have recv: "\<exists>rs. \<forall>fd. answers (recvSocketTIPC fd m l 0 0) rs ()"
    if "m = 0 \<or> 0 < m \<and> 0 < l" "l < 2 ^ 31" for m l
    using that answers_recvSocketTIPC answers_no_transfer(2) by metis
  obtain s1 r1 s2 r2 where
    s: "\<And>fd. answers (sendSocketTIPC fd n k 0) s1 ()" "\<And>fd. answers (sendSocketTIPC fd n' k' 0) s2 ()"
    and r: "\<And>fd. answers (recvSocketTIPC fd n' k' 0 0) r1 ()" "\<And>fd. answers (recvSocketTIPC fd n k 0 0) r2 ()"
    using send [OF assms(1)] send [OF assms(3)] recv [OF assms(3,4)] recv [OF assms(1,2)] by blast
  show "can_pass (client_SendConnection t n k n' k')"
    unfolding client_SendConnection_def Let_def can_pass_def
    by (rule exI, (rule s r answers_wrappers answers_sendSyncTIPC answers_recvSyncTIPC
        answers_structure)+)
  have one: "[0..<nat 1] = [0]" by simp
  show "can_pass (server_receiveConnection t 1 n k n' k')"
    unfolding server_receiveConnection_def Let_def can_pass_def one for_each.simps
    by (rule exI, (rule s r answers_wrappers answers_sendSyncTIPC answers_recvSyncTIPC
        answers_structure)+)
qed

lemma can_pass_shutdown [matched_intros]:
  assumes "0 < n" "0 < k" "k < 2 ^ 31"
  shows "can_pass (client_SendConnectionShutdown t n k)"
    and "can_pass (server_receiveConnectionShutdown t 1 n k)"
proof -
  have ok0: "answers (sys c) [ok 0] (ok 0)" for c by (rule answers_sys)
  show "can_pass (client_SendConnectionShutdown t n k)"
    unfolding client_SendConnectionShutdown_def Let_def can_pass_def
    by (rule exI, (rule ok0 answers_intros answers_structure | use assms in simp; fail)+)
  have one: "[0..<nat 1] = [0]" by simp
  show "can_pass (server_receiveConnectionShutdown t 1 n k)"
    unfolding server_receiveConnectionShutdown_def Let_def can_pass_def one for_each.simps
    by (rule exI, (rule ok0 answers_intros answers_structure | use assms in simp; fail)+)
qed

lemma msizes_bounds: "1 \<le> m \<Longrightarrow> x \<in> set (msizes m) \<Longrightarrow> 0 < x \<and> x \<le> 66000"
proof (induction m rule: msizes.induct)
  case (1 m)
  have "1 \<le> next_msize m" using 1(2) by (simp add: next_msize_def)
  moreover have "m \<le> 66000 \<and> (x = m \<or> x \<in> set (msizes (next_msize m)))"
    using 1(3) by (subst (asm) msizes.simps) (auto split: if_splits)
  ultimately show ?case using 1(1,2) by auto
qed

text \<open>
  A test passes together: the sequences fit and never get stuck, and there are replies of
  the kernel with which the client routine returns, and replies with which the server
  routine does.
\<close>

definition passes_together :: "unit prog \<Rightarrow> unit prog \<Rightarrow> bool" where
  "passes_together c s \<longleftrightarrow>
     (\<exists>es fs. emits obs_ts c es \<and> emits obs_ts s fs \<and> list_all2 fits es fs \<and> never_stuck es fs) \<and>
     (\<exists>rs. answers c rs ()) \<and> (\<exists>rs. answers s rs ())"

lemma passes_together_iff: "passes_together c s \<longleftrightarrow> matched c s \<and> can_pass c \<and> can_pass s"
  unfolding passes_together_def matched_def can_pass_def using fits_never_stuck by blast

lemma connectionless_together:
  "passes_together (client_test_connectionless t) (server_test_connectionless t)"
  unfolding passes_together_iff client_test_connectionless_def server_test_connectionless_def
  by (rule conjI matched_intros | simp; fail)+

lemma connection_together:
  "passes_together (client_test_connection t) (server_test_connection t)"
  "passes_together (client_test_connection_shutdown t) (server_test_connection_shutdown t)"
  unfolding passes_together_iff client_test_connection_def server_test_connection_def
    client_test_connection_shutdown_def server_test_connection_shutdown_def
  by (((rule conjI matched_intros | simp; fail)+)[1])+

lemma messageLimits_together: "passes_together client_test_messageLimits server_test_messageLimits"
  unfolding passes_together_iff client_test_messageLimits_def server_test_messageLimits_def
  by (intro conjI matched_intros; drule msizes_bounds [of 1, simplified]; simp)

lemma importance_together: "passes_together client_test_importance server_test_importance"
proof -
  let ?c = "[client_test_connectionless SOCK_DGRAM, client_test_connectionless SOCK_RDM,
    client_test_connection SOCK_STREAM, client_test_connection SOCK_SEQPACKET,
    client_test_connection_shutdown SOCK_STREAM, client_test_connection_shutdown SOCK_SEQPACKET]"
  let ?s = "block [server_test_connectionless SOCK_DGRAM, server_test_connectionless SOCK_RDM,
    server_test_connection SOCK_STREAM, server_test_connection SOCK_SEQPACKET,
    server_test_connection_shutdown SOCK_STREAM, server_test_connection_shutdown SOCK_SEQPACKET]"
  let ?lev = "\<lambda>i. set_var (g_importance_update (\<lambda>_. i))"
  note tests = connectionless_together connection_together
  have m: "matched (block ?c) ?s" and p: "can_pass (block ?c)" "can_pass ?s"
    using tests unfolding passes_together_iff by (blast intro: matched_intros)+
  obtain es fs where e: "emits obs_ts (block ?c) es" "emits obs_ts ?s fs" "list_all2 fits es fs"
    using m unfolding matched_def by blast
  have ec: "emits obs_ts (block (?lev i # ?c)) es" for i
    using emits_block_Cons [OF emits_vars(2) e(1), of "g_importance_update (\<lambda>_. i)"] by simp
  have "emits obs_ts client_test_importance (concat (replicate 4 es))"
    unfolding client_test_importance_def
    by (rule emits_by, (rule emits_structure emits_for_each_const ec | simp; fail)+)
  moreover have "emits obs_ts server_test_importance (concat (replicate 4 fs))"
    unfolding server_test_importance_def
    by (rule emits_by [OF emits_for_each_const [OF e(2)]]) simp
  moreover have "list_all2 fits (concat (replicate 4 es)) (concat (replicate 4 fs))"
    using e(3) by (simp add: eval_nat_numeral list_all2_appendI)
  ultimately have "matched client_test_importance server_test_importance"
    unfolding matched_def by blast
  moreover have "can_pass server_test_importance"
    unfolding server_test_importance_def by (rule matched_intros) (rule p)
  moreover have "can_pass client_test_importance"
  proof -
    have "can_pass (for_each [0..3] (\<lambda>i. block (?lev i # ?c)))"
      by (rule can_pass_for_each, rule can_pass_block(2) [OF can_pass_set_var p(1)])
    then obtain rs where rs: "answers (for_each [0..3] (\<lambda>i. block (?lev i # ?c))) rs ()"
      unfolding can_pass_def by blast
    show ?thesis
      unfolding client_test_importance_def can_pass_def
      by (rule exI, (rule rs answers_get_var_then answers_block_Cons answers_block_Nil answers_set_var
          | simp; fail)+)
  qed
  ultimately show ?thesis by (simp add: passes_together_iff)
qed

section \<open>The tables of the client and of the server\<close>

definition in_lockstep :: "unit prog \<Rightarrow> unit prog \<Rightarrow> bool" where
  "in_lockstep c s \<longleftrightarrow>
     (\<exists>es. es \<noteq> [] \<and> emits obs_sync c es \<and> emits obs_sync s (map swap es) \<and>
           never_stuck es (map swap es))"

lemma in_lockstepI:
  assumes "emits obs_sync c es" and "emits obs_sync s fs" and "fs = map swap es"
    and "list_all is_sync es" and "es \<noteq> []"
  shows "in_lockstep c s"
  using assms fits_never_stuck fits_swap unfolding in_lockstep_def by blast

lemma list_all_concat_replicate [simp]:
  "list_all P (concat (replicate n es)) \<longleftrightarrow> n = 0 \<or> list_all P es"
  by (induction n) auto

lemma map_concat_replicate [simp]: "map f (concat (replicate n es)) = concat (replicate n (map f es))"
  by (simp add: map_concat map_replicate)

lemma length_msizes: "msizes 1 \<noteq> []"
  by (subst msizes.simps) simp

lemmas client_wrappers = client_test_dgram_def client_test_rdm_def client_test_conn_stream_def
  client_test_conn_seqpacket_def client_test_shutdown_stream_def client_test_shutdown_seqpacket_def

lemmas server_wrappers = server_test_dgram_def server_test_rdm_def server_test_conn_stream_def
  server_test_conn_seqpacket_def server_test_shutdown_stream_def server_test_shutdown_seqpacket_def

lemmas lockstep_tests =
  in_lockstepI [OF sync_tests_parts(1,5)] in_lockstepI [OF sync_tests_parts(2,6)]
  in_lockstepI [OF sync_tests_parts(3,7)] in_lockstepI [OF sync_tests_parts(4,8)]
  in_lockstepI [OF sync_tests_long(1,2)] in_lockstepI [OF sync_tests_long(3,4)]
  in_lockstepI [OF sync_tests_other(1,2)] in_lockstepI [OF sync_tests_other(3,4)]
  in_lockstepI [OF sync_tests_anc(1,2)] in_lockstepI [OF sync_tests_anc(3,4)]
  in_lockstepI [OF sync_tests_mcast] in_lockstepI [OF sync_tests_stream(1,2)]
  in_lockstepI [OF sync_tests_stream(3,4)]

text \<open>Two rows of the tables for the same test, with routines that are in a given relation.\<close>

fun same_test ::
  "(unit prog \<Rightarrow> unit prog \<Rightarrow> bool) \<Rightarrow> int \<times> unit prog option \<Rightarrow> int \<times> unit prog option \<Rightarrow> bool" where
  "same_test R (n, Some c) (m, Some s) \<longleftrightarrow> n = m \<and> R c s"
| "same_test R _ _ \<longleftrightarrow> False"

text \<open>
  C5. In every one of the fifteen sanity tests client and server synchronise in lockstep:
  the two tables have the tests in the same order, and whatever the kernel replies, on the
  runs that return the server awaits exactly the signals the client raises and raises those
  the client awaits, in the same order, so that the pair can finish from every state of its
  signalling.
\<close>

theorem sanity_tests_in_lockstep:
  "list_all2 (same_test in_lockstep) (take 15 (tl clientList)) (take 15 (tl serverList))"
  unfolding clientList_def serverList_def client_wrappers server_wrappers list.sel
    take_Cons_numeral
  by (simp add: lockstep_tests length_msizes)

text \<open>
  C6. In the first eight sanity tests (datagram, reliable datagram, connections, shutdown,
  message sizes, importance levels) client and server also exchange the same messages: for
  each message the client sends the server receives one with a buffer of that size and vice
  versa, a shutdown meets a receive call, so the pair never deadlocks; and the kernel can
  reply such that either side passes.
\<close>

theorem transfer_tests_pass_together:
  "list_all2 (same_test passes_together) (take 8 (tl clientList)) (take 8 (tl serverList))"
  unfolding clientList_def serverList_def client_wrappers server_wrappers list.sel
  by (simp add: connectionless_together connection_together messageLimits_together
      importance_together)

end
