(* ===== verification/Ts_Driver.thy ===== *)
theory Ts_Driver
  imports Ts_Protocol
begin

text \<open>
  The drivers of the test suite: how the client selects tests by number, how the server
  learns the number and what it runs. The results of this theory are equations between
  programs, so they hold for every behaviour of the kernel.
\<close>

section \<open>The three tables\<close>

lemmas table_defs = clientList_def serverList_def nameList_def TS_NUMBER_OF_TESTS_def

definition valid_test :: "int \<Rightarrow> bool" where
  "valid_test t \<longleftrightarrow> 1 \<le> t \<and> t \<le> 15 \<or> t = 1000"

definition test_index :: "int \<Rightarrow> nat" where
  "test_index t = (if t = 1000 then 17 else nat t)"

definition client_routine :: "int \<Rightarrow> unit prog" where
  "client_routine t = the (snd (clientList ! test_index t))"

definition server_routine :: "int \<Rightarrow> unit prog" where
  "server_routine t = the (snd (serverList ! test_index t))"

lemma valid_test_cases:
  "valid_test t \<longleftrightarrow> t \<in> set [1, 2, 3, 4, 5, 6, 7, 8, 9, 10, 11, 12, 13, 14, 15, 1000]"
  unfolding valid_test_def by simp presburger

lemma upto_18: "[0..TS_NUMBER_OF_TESTS] = [0, 1, 2, 3, 4, 5, 6, 7, 8, 9, 10, 11, 12, 13, 14, 15, 16, 17]"
  by (simp add: TS_NUMBER_OF_TESTS_def upto.simps)

lemma do_while_down_1: "do_while_down m 1 = and_then m (\<lambda>_. ret 0)"
  by (subst do_while_down.simps) simp

text \<open>The loop over a table runs the one matching row and nothing else.\<close>

lemma scan_tables:
  assumes "valid_test t"
  shows "for_state [0..TS_NUMBER_OF_TESTS] (\<lambda>i n.
           if fst (clientList ! nat i) = t then do_while_down (f (snd (clientList ! nat i))) n
           else ret n) 1 = and_then (f (Some (client_routine t))) (\<lambda>_. ret 0)"
    and "for_state [0..TS_NUMBER_OF_TESTS] (\<lambda>i n.
           if fst (serverList ! nat i) = t then do_while_down (f (snd (serverList ! nat i))) n
           else ret n) 1 = and_then (f (Some (server_routine t))) (\<lambda>_. ret 0)"
  using assms unfolding valid_test_cases upto_18
  by (auto simp: clientList_def serverList_def client_routine_def server_routine_def
      test_index_def do_while_down_1 and_then_assoc)

text \<open>
  The tables of the suite are in sync, as the comments at each of them demand: the same
  numbers in the same order in \<^verbatim>\<open>nameList\<close>, \<^verbatim>\<open>clientList\<close> and \<^verbatim>\<open>serverList\<close>, no number twice;
  the numbers that the drivers accept are exactly those of the rows with a routine, on both
  sides, and every one of them has a name and stands in the part of the table that is
  searched.
\<close>

lemma tables_in_sync:
  "map fst clientList = map fst nameList \<and> map fst serverList = map fst nameList \<and>
   distinct (map fst nameList) \<and>
   {t. valid_test t} = fst ` set (filter (\<lambda>e. snd e \<noteq> None) clientList) \<and>
   {t. valid_test t} = fst ` set (filter (\<lambda>e. snd e \<noteq> None) serverList) \<and>
   {t. valid_test t} = fst ` set (filter (\<lambda>e. snd e \<noteq> []) (tl nameList)) \<and>
   {t. valid_test t} \<subseteq> set (take (nat (TS_NUMBER_OF_TESTS + 1)) (map fst nameList))"
proof (intro conjI)
  have v: "{t. valid_test t} = set [1, 2, 3, 4, 5, 6, 7, 8, 9, 10, 11, 12, 13, 14, 15, 1000]"
    unfolding valid_test_cases by (rule Collect_mem_eq)
  show "{t. valid_test t} = fst ` set (filter (\<lambda>e. snd e \<noteq> None) clientList)"
    unfolding v clientList_def by simp
  show "{t. valid_test t} = fst ` set (filter (\<lambda>e. snd e \<noteq> None) serverList)"
    unfolding v serverList_def by simp
  show "{t. valid_test t} = fst ` set (filter (\<lambda>e. snd e \<noteq> []) (tl nameList))"
    unfolding v nameList_def by simp
  show "{t. valid_test t} \<subseteq> set (take (nat (TS_NUMBER_OF_TESTS + 1)) (map fst nameList))"
    unfolding v table_defs by simp
qed (simp_all add: table_defs)

section \<open>Which tests the client runs\<close>

definition announced :: "int \<Rightarrow> unit prog \<Rightarrow> unit prog" where
  "announced t m = block
     [emit (C_print (''TIPC '' @ testName t @ '' test...STARTED!'')),
      m,
      emit (C_print (''TIPC '' @ testName t @ '' test...PASSED!''))]"

lemma tipcTestClientX_valid:
  assumes "valid_test t"
  shows "tipcTestClientX t =
    block [emit (C_print (''Test # '' @ show_int t)), sendTIPCTest t, announced t (client_routine t)]"
proof -
  have "\<not> (t < 1 \<or> t \<ge> 1001 \<or> t \<ge> 16 \<and> t < 1000)"
    using assms by (auto simp: valid_test_def)
  then show ?thesis
    unfolding tipcTestClientX_def if_not_P [OF \<open>\<not> _\<close>]
    using scan_tables(1) [OF assms, of "\<lambda>m. block
        [emit (C_print (''TIPC '' @ testName t @ '' test...STARTED!'')), call_test m,
         emit (C_print (''TIPC '' @ testName t @ '' test...PASSED!''))]"]
    by (simp add: announced_def call_test_def and_then_assoc)
qed

lemma tipcTestClientX_invalid:
  "\<not> valid_test t \<Longrightarrow> tipcTestClientX t = and_then tipcTestSuiteHelp (\<lambda>_. exit_prog 1)"
  by (auto simp: tipcTestClientX_def valid_test_def killme_def)

lemma for_each_cong: "(\<And>i. i \<in> set xs \<Longrightarrow> f i = g i) \<Longrightarrow> for_each xs f = for_each xs g"
  by (induction xs) auto

definition run_test :: "int \<Rightarrow> unit prog" where
  "run_test t =
     block [emit (C_print (''Test # '' @ show_int t)), sendTIPCTest t, announced t (client_routine t)]"

text \<open>
  C7. Test selection of the client. A valid number runs this test: it is announced to the
  server, then the routine of its row runs once between the two messages. Number 0 runs the
  tests 1 to 15 in order and no stress test, -1 only tells the server to quit, and every
  other number prints the list of tests and ends the client with status 1, before the
  server has heard of it.
\<close>

theorem tipcTestClient_selects:
  "tipcTestClient t =
     (if t = -1 then block [emit (C_print ''Shutting down server''), sendTIPCTest (-1)]
      else if t = 0 then block [set_var (g_importance_update (\<lambda>_. 0)), for_each [1..15] run_test]
      else if valid_test t then block [set_var (g_importance_update (\<lambda>_. 0)), run_test t]
      else and_then tipcTestSuiteHelp (\<lambda>_. exit_prog 1))"
proof -
  have X: "tipcTestClientX i = run_test i" if "valid_test i" for i
    using tipcTestClientX_valid [OF that] by (simp add: run_test_def)
  have all: "for_each [1..15] tipcTestClientX = for_each [1..15] run_test"
    by (rule for_each_cong) (auto intro!: X simp: valid_test_def)
  have one: "for_each [t..t] tipcTestClientX = for_each [t] run_test" if "valid_test t"
    using X [OF that] by simp
  consider "t = -1" | "t = 0" | "valid_test t" "t \<noteq> -1" "t \<noteq> 0" | "\<not> valid_test t" "t \<noteq> -1" "t \<noteq> 0"
    by blast
  then show ?thesis
  proof cases
    case 3
    then have "\<not> (t \<ge> 16 \<and> t < 1000 \<or> t \<ge> 1001 \<or> t < 0)" by (auto simp: valid_test_def)
    with 3 one show ?thesis by (auto simp: tipcTestClient_def)
  next
    case 4
    then have "t \<ge> 16 \<and> t < 1000 \<or> t \<ge> 1001 \<or> t < 0" by (auto simp: valid_test_def)
    with 4 show ?thesis by (simp add: tipcTestClient_def killme_def)
  qed (use all in \<open>simp_all add: tipcTestClient_def\<close>)
qed

section \<open>What the server runs\<close>

text \<open>
  \<open>reaches m rs m'\<close>: given the replies \<open>rs\<close>, the program \<open>m\<close> comes to the point where \<open>m'\<close>
  is what remains to be done.
\<close>

definition reaches :: "'a prog \<Rightarrow> reply list \<Rightarrow> 'a prog \<Rightarrow> bool" where
  "reaches m rs m' \<longleftrightarrow>
     (\<forall>w rest. replies w = rs @ rest \<longrightarrow> (\<exists>w'. replies w' = rest \<and> m w = m' w'))"

lemma reaches_refl: "reaches m [] m"
  by (auto simp: reaches_def)

lemma reaches_answers:
  assumes "answers m rs x" and "reaches (f x) rs' m'"
  shows "reaches (and_then m f) (rs @ rs') m'"
  unfolding reaches_def
proof (intro allI impI)
  fix w :: world and rest
  assume "replies w = (rs @ rs') @ rest"
  then obtain w1 where w1: "m w = (Ret x, w1)" "replies w1 = rs' @ rest"
    using assms(1) by (auto simp: answers_def)
  then obtain w2 where "replies w2 = rest" "f x w1 = m' w2"
    using assms(2) by (auto simp: reaches_def)
  with w1(1) show "\<exists>w'. replies w' = rest \<and> and_then m f w = m' w'"
    by (auto simp: and_then_def)
qed

lemma reaches_sys: "reaches (f r) rs m \<Longrightarrow> reaches (and_then (sys c) f) ([r] @ rs) m"
  by (rule reaches_answers [where x = r]) (rule answers_sys)

lemma reaches_receive:
  "0 \<le> asked c \<Longrightarrow> asked c \<le> int (length buf) \<Longrightarrow> reaches (f r) rs m \<Longrightarrow>
   reaches (and_then (receive c buf) f) ([r] @ rs) m"
  by (simp only: receive_within reaches_sys)

lemma reaches_if: "\<not> b \<Longrightarrow> reaches n rs x \<Longrightarrow> reaches (if b then m else n) rs x"
  by simp

text \<open>The message with a test number, as the client sends it and as the server receives it.\<close>

definition number_message :: "int \<Rightarrow> bytes" where
  "number_message t = int_bytes (htonl (of_int t))"

definition number_reply :: "int \<Rightarrow> sockaddr_tipc \<Rightarrow> reply" where
  "number_reply t client = (msg_reply (number_message t))\<lparr>r_addr := client\<rparr>"

definition handshake :: "int \<Rightarrow> sockaddr_tipc \<Rightarrow> reply list" where
  "handshake t client =
     [ok 0] @ [ok 0] @ [ok 0, ok 0, ok 1, ok 0] @ [number_reply t client] @ [ok 0] @ [] @ [ok 0]"

lemma decode_number:
  assumes "- (2 ^ 31) \<le> t" and "t < 2 ^ 31"
  shows "sint (ntohl (bytes_int (recv_into (int_bytes old) (number_reply t client)))) = t"
proof -
  have "recv_into (int_bytes old) (number_reply t client) = number_message t"
    by (simp add: recv_into_def number_reply_def Let_def number_message_def)
  then show ?thesis
    using assms by (simp add: number_message_def sint_of_int_u32)
qed

text \<open>What remains to be done after the handshake.\<close>

definition dispatch :: "int \<Rightarrow> sockaddr_tipc \<Rightarrow> ((u32 \<times> sockaddr_tipc) + unit) prog" where
  "dispatch t client =
     (if t = -1 then ret (Inr ())
      else if t \<ge> 1001 \<or> t \<ge> 16 \<and> t < 1000 then
        and_then (emit (C_print (''TIPC Server: Invalid test number ('' @ show_int t @ '')'')))
          (\<lambda>_. killme 1)
      else
        and_then (recvSyncTIPC 100) (\<lambda>_.
        and_then (for_state [0..TS_NUMBER_OF_TESTS] (\<lambda>testIndex ntimes.
          if fst (serverList ! nat testIndex) = t
          then do_while_down (call_test (snd (serverList ! nat testIndex))) ntimes
          else ret ntimes) 1) (\<lambda>_. ret (Inl (of_int t, client)))))"

lemma server_handshake:
  assumes "- (2 ^ 31) \<le> t" and "t < 2 ^ 31"
  shows "reaches (tipcTestServer_turn addr (old, from)) (handshake t client) (dispatch t client)"
proof -
  have n: "0 < r_ret (number_reply t client)" "0 \<le> r_ret (number_reply t client)"
    "r_addr (number_reply t client) = client"
    by (simp_all add: number_reply_def number_message_def)
  have s: "answers (set_var (g_same_cluster_update g)) [] ()" for g
    by (rule answers_set_var) simp
  have "reaches (dispatch t client) [] (dispatch t client)" by (rule reaches_refl)
  then show ?thesis
    unfolding tipcTestServer_turn_def prod.case handshake_def Let_def dispatch_def
    by - (rule reaches_answers, rule answers_wrappers, rule reaches_answers, rule answers_wrappers,
      rule reaches_answers, rule answers_sendSyncTIPC, rule reaches_receive, simp, simp,
      simp only: n if_True decode_number [OF assms], rule reaches_sys, rule reaches_if, simp,
      rule reaches_answers, rule s, subst append_Nil2 [symmetric],
      rule reaches_answers, rule answers_wrappers)
qed

section \<open>The test number on the wire\<close>

fun obs_payload :: "call \<Rightarrow> bytes list" where
  "obs_payload (C_sendto fd d fl a) = (if is_sync_name a then [] else [d])"
| "obs_payload _ = []"

lemma payload_wrappers [emits_intros]:
  "emits obs_payload (createSocketTIPC t) []"
  "emits obs_payload (connectSocketTIPC fd a) []"
  "emits obs_payload (bindSocketTIPC fd a) []"
  "emits obs_payload (closeSocketTIPC fd) []"
  "emits obs_payload (setOption fd opt v) []"
  unfolding createSocketTIPC_def connectSocketTIPC_def bindSocketTIPC_def closeSocketTIPC_def
    setOption_def
  by (((rule quiet_structure emits_intros | simp; fail)+)[1])+

lemma payload_sync [emits_intros]:
  "emits obs_payload (sendSyncTIPC i) []" "emits obs_payload (recvSyncTIPC i) []"
  unfolding sendSyncTIPC_def recvSyncTIPC_def setServerAddrTo_cases ret_and_then Let_def
  by (((rule quiet_structure emits_intros | simp add: is_sync_name_def; fail)+)[1])+

lemma payload_number:
  "emits obs_payload (sendTIPCTest t) [number_message t]"
  unfolding sendTIPCTest_def Let_def number_message_def
  by (rule emits_by, (rule emits_structure emits_intros | simp; fail)+)

text \<open>What the server does with each number; small numbers are not checked.\<close>

lemma dispatch_quit: "dispatch (-1) client = ret (Inr ())"
  by (simp add: dispatch_def)

lemma dispatch_valid:
  assumes "valid_test t"
  shows "dispatch t client =
    and_then (recvSyncTIPC 100) (\<lambda>_. and_then (server_routine t) (\<lambda>_. ret (Inl (of_int t, client))))"
proof -
  have "\<not> (t \<ge> 1001 \<or> t \<ge> 16 \<and> t < 1000)" "t \<noteq> -1" using assms by (auto simp: valid_test_def)
  then show ?thesis
    unfolding dispatch_def if_not_P [OF \<open>\<not> (t \<ge> 1001 \<or> t \<ge> 16 \<and> t < 1000)\<close>] scan_tables(2) [OF assms, of call_test]
    by (simp add: call_test_def and_then_assoc)
qed

lemma dispatch_invalid:
  "0 < t \<Longrightarrow> \<not> valid_test t \<Longrightarrow> dispatch t client =
     and_then (emit (C_print (''TIPC Server: Invalid test number ('' @ show_int t @ '')''))) (\<lambda>_. exit_prog 1)"
  by (auto simp: dispatch_def valid_test_def killme_def)

lemma dispatch_0: "dispatch 0 client = and_then (recvSyncTIPC 100) (\<lambda>_. fault Null_call)"
  unfolding dispatch_def upto_18
  by (simp add: serverList_def do_while_down.simps [of _ 1] call_test_def)

lemma dispatch_negative:
  assumes "t < -1"
  shows "dispatch t client = and_then (recvSyncTIPC 100) (\<lambda>_. ret (Inl (of_int t, client)))"
  unfolding dispatch_def upto_18
  using assms by (simp add: serverList_def)

text \<open>
  C8. The test number survives the transport and is obeyed. Asked for test t, the client sends one
  datagram with the four bytes of t in network order. A server that receives these bytes in its
  handshake quits on -1, ends with status 1 on a number above the last sanity test that is no
  stress test, and on a valid number waits for the client's second signal, runs the routine of
  that row once and then takes the next number. It does not check small numbers: on 0 it
  calls, after the signal, the null pointer of the first row of its table, and on a number below
  -1 it runs no test at all.
\<close>

theorem tipcTestServer_dispatch:
  assumes "- (2 ^ 31) \<le> t" and "t < 2 ^ 31"
  shows "emits obs_payload (sendTIPCTest t) [number_message t] \<and>
    r_data (number_reply t client) = number_message t \<and> number_reply t client \<in> set (handshake t client) \<and>
    reaches (tipcTestServer_turn addr (old, from)) (handshake t client)
    (if t = -1 then ret (Inr ())
     else if t < -1 then and_then (recvSyncTIPC 100) (\<lambda>_. ret (Inl (of_int t, client)))
     else if t = 0 then and_then (recvSyncTIPC 100) (\<lambda>_. fault Null_call)
     else if valid_test t then
       and_then (recvSyncTIPC 100) (\<lambda>_. and_then (server_routine t) (\<lambda>_. ret (Inl (of_int t, client))))
     else and_then (emit (C_print (''TIPC Server: Invalid test number ('' @ show_int t @ '')'')))
       (\<lambda>_. exit_prog 1))"
  using server_handshake [OF assms, of addr old "from" client] payload_number [of t] dispatch_quit [of client]
    dispatch_0 [of client] dispatch_negative [of t client] dispatch_valid [of t client] dispatch_invalid [of t client]
  by (auto simp: number_reply_def handshake_def)

theorem tipcTestServer_dispatch_witness:
  "reaches (tipcTestServer_turn (r_addr (ok 0)) (0, r_addr (ok 0))) (handshake 13 (r_addr (ok 0)))
     (and_then (recvSyncTIPC 100)
       (\<lambda>_. and_then (server_routine 13) (\<lambda>_. ret (Inl (13, r_addr (ok 0)))))) \<and>
   reaches (tipcTestServer_turn (r_addr (ok 0)) (0, r_addr (ok 0))) (handshake 0 (r_addr (ok 0)))
     (and_then (recvSyncTIPC 100) (\<lambda>_. fault Null_call))"
  using tipcTestServer_dispatch [of 13 "r_addr (ok 0)" "r_addr (ok 0)" 0 "r_addr (ok 0)"]
    tipcTestServer_dispatch [of 0 "r_addr (ok 0)" "r_addr (ok 0)" 0 "r_addr (ok 0)"]
  by (simp add: valid_test_def)

end
