(* ===== verification/Ts_Data.thy ===== *)
theory Ts_Data
  imports Ts_Protocol
begin

text \<open>
  The data the tests exchange: the sizes of the message size test, the records of the stream
  test from the client's buffer through 80-byte messages to the server's parser, the receive
  routine of the big stream test, the messages of the multicast test, the rate that the
  blaster tests report. The locale \<^verbatim>\<open>record_server\<close> states what a server of length-prefixed
  records does with a sequence of them; it is interpreted on the parser of the suite here and
  on the one of the stream demo in its own theory.
\<close>

section \<open>Message sizes\<close>

lemma msizes_above: "66000 < m \<Longrightarrow> msizes m = []"
  by (subst msizes.simps) simp

lemma msizes_step: "m \<le> 66000 \<Longrightarrow> msizes m = m # msizes (next_msize m)"
  by (subst msizes.simps) simp

text \<open>
  C9. From every size up to the limit the loop over the message sizes ends; it goes up in steps
  of 600 and includes 66000 exactly once, at the end, as the comment in the code asks. The test
  itself, which starts with 1, goes through 111 sizes.
\<close>

theorem msizes_reach_limit:
  assumes "m \<le> 66000"
  shows "msizes m = map (\<lambda>i. m + 600 * int i) [0..<nat ((66599 - m) div 600)] @ [66000] \<and> length (msizes 1) = 111"
proof -
  have sizes: "m \<le> 66000 \<Longrightarrow> msizes m = map (\<lambda>i. m + 600 * int i) [0..<nat ((66599 - m) div 600)] @ [66000]" for m
  proof (induction m rule: msizes.induct)
    case (1 m)
    consider "m = 66000" | "m < 66000" "66000 < m + 600" | "m + 600 \<le> 66000" using 1(2) by linarith
    then show ?case
    proof cases
      case 1
      then show ?thesis by (simp add: msizes_step msizes_above next_msize_def)
    next
      case 2
      then have "(66599 - m) div 600 = 1" by simp
      with 2 show ?thesis by (simp add: msizes_step msizes_above next_msize_def)
    next
      case 3
      define n where "n = nat ((66599 - (m + 600)) div 600)"
      have "nat ((66599 - m) div 600) = Suc n" using 3 by (simp add: n_def)
      moreover have "msizes (m + 600) = map (\<lambda>i. m + 600 + 600 * int i) [0..<n] @ [66000]"
        using 1 3 by (simp add: next_msize_def n_def)
      ultimately show ?thesis
        using 3 by (simp add: msizes_step next_msize_def upt_conv_Cons map_Suc_upt [symmetric] comp_def algebra_simps
            del: upt_Suc)
    qed
  qed
  with assms sizes [of 1] show ?thesis by simp
qed

theorem msizes_reach_limit_witness:
  "msizes 65401 = [65401, 66000] \<and> length (msizes 1) = 111"
  using msizes_reach_limit [of 65401] by simp

section \<open>The records of the stream test\<close>

lemma next_rec_size_bounds: "0 < next_rec_size r \<and> next_rec_size r \<le> 255"
proof -
  have "(r + 147) AND 0xFF = (r + 147) mod 256"
    using take_bit_eq_mask [of 8 "r + 147"] by (simp add: mask_eq_exp_minus_1 take_bit_eq_mod)
  moreover have "(r + 147) mod 256 < 256" by simp
  ultimately show ?thesis unfolding next_rec_size_def Let_def by auto
qed

text \<open>The sizes of the records that fit.\<close>

function rec_sizes :: "nat \<Rightarrow> nat \<Rightarrow> nat list" where
  "rec_sizes tot r = (if tot + 4 + r \<le> 2000 then r # rec_sizes (tot + (4 + r)) (next_rec_size r) else [])"
  by pat_completeness auto
termination by (relation "measure (\<lambda>(tot, _). 2001 - tot)") auto

declare rec_sizes.simps [simp del]

lemma length_stream_record [simp]: "length (stream_record r) = 4 + r"
  by (simp add: stream_record_def Let_def)

lemma rec_sizes_bounds: "0 < r \<Longrightarrow> r \<le> 255 \<Longrightarrow> k \<in> set (rec_sizes tot r) \<Longrightarrow> 0 < k \<and> k \<le> 255"
proof (induction tot r rule: rec_sizes.induct)
  case (1 tot r)
  from 1(4) have "tot + 4 + r \<le> 2000 \<and> (k = r \<or> k \<in> set (rec_sizes (tot + (4 + r)) (next_rec_size r)))"
    by (subst (asm) rec_sizes.simps) (auto split: if_splits)
  with 1(1-3) next_rec_size_bounds [of r] show ?case by auto
qed

lemma stream_fill_spec:
  assumes "length buf = 2000" and "tot \<le> 2000"
  shows "\<exists>tot' buf'. stream_fill tot r n buf = (tot', n + length (rec_sizes tot r), buf') \<and>
    length buf' = 2000 \<and> tot' \<le> 2000 \<and>
    take tot' buf' = take tot buf @ concat (map stream_record (rec_sizes tot r))"
  using assms
proof (induction tot r n buf rule: stream_fill.induct)
  case (1 tot r n buf)
  show ?case
  proof (cases "tot + 4 + r \<le> 2000")
    case True
    let ?buf = "overwrite buf tot (stream_record r)"
    have "length ?buf = 2000" using True "1.prems" by simp
    moreover have "take (tot + (4 + r)) ?buf = take tot buf @ stream_record r"
      using take_overwrite [of tot buf "stream_record r"] "1.prems" by simp
    ultimately show ?thesis
      using "1.IH" [OF True] True
      by (subst stream_fill.simps, subst (1 2) rec_sizes.simps) auto
  next
    case False
    then show ?thesis
      using "1.prems" by (subst stream_fill.simps, subst (1 2) rec_sizes.simps) auto
  qed
qed

lemma fragments_cover:
  "sent \<le> tot \<Longrightarrow> tot \<le> length buf \<Longrightarrow>
   concat (map (\<lambda>(off, n). take n (drop off buf)) (fragments sent tot)) = drop sent (take tot buf) \<and>
   (\<forall>(off, n) \<in> set (fragments sent tot). 0 < n \<and> n \<le> 80 \<and> off + n \<le> tot)"
proof (induction sent tot rule: fragments.induct)
  case (1 sent tot)
  show ?case
  proof (cases "sent < tot")
    case True
    let ?n = "if sent + 80 \<le> tot then 80 else tot - sent"
    have "drop sent (take tot buf) = take ?n (drop sent buf) @ drop (sent + ?n) (take tot buf)"
      using True "1.prems"
      by (auto simp: drop_take take_drop [symmetric] intro!: nth_equalityI simp: nth_append)
    then show ?thesis
      using "1.IH" [OF True refl] True "1.prems"
      by (subst (1 2) fragments.simps) (auto simp: Let_def)
  next
    case False
    with "1.prems" show ?thesis by (subst (1 2) fragments.simps) simp
  qed
qed

text \<open>
  What the kernel gives to the holder of a stream socket: \<^verbatim>\<open>recv(.., n, MSG_WAITALL)\<close> takes the
  next \<open>n\<close> bytes of the stream, wherever the sender's message boundaries were, fewer only if the
  stream ends before, and so 0 when it is used up. \<open>served fd bs cs rs\<close> goes through the calls \<open>cs\<close>
  that a program made with the replies \<open>rs\<close> that it got: it is what is left of the stream \<open>bs\<close>, or
  \<open>None\<close> if one of the replies is not the one that the stream determines for its call. A call
  without \<^verbatim>\<open>MSG_WAITALL\<close> has no determined reply. What is sent on the socket succeeds.
\<close>

fun served :: "int \<Rightarrow> bytes \<Rightarrow> call list \<Rightarrow> reply list \<Rightarrow> bytes option" where
  "served fd bs [] rs = (if rs = [] then Some bs else None)"
| "served fd bs (C_print _ # cs) rs = served fd bs cs rs"
| "served fd bs (C_recv s n fl # cs) (r # rs) =
     (if s = fd \<and> 0 \<le> n \<and> fl = MSG_WAITALL \<and> r = msg_reply (take (nat n) bs)
      then served fd (drop (nat n) bs) cs rs else None)"
| "served fd bs (C_send s d fl # cs) (r # rs) =
     (if s = fd \<and> r_ret r = int (length d) then served fd bs cs rs else None)"
| "served fd bs (c # cs) rs = None"

lemma served_append: "served fd bs cs rs = Some bs' \<Longrightarrow> served fd bs (cs @ cs') (rs @ rs') = served fd bs' cs' rs'"
  by (induction fd bs cs rs rule: served.induct) (auto split: if_splits)

lemma ok_0: "ok 0 = msg_reply []"
  by (simp add: ok_def msg_reply_def)

text \<open>The replies that a server of records which asks for the right numbers of bytes gets.\<close>

function deliver :: "bytes \<Rightarrow> reply list" where
  "deliver bs =
     (if length bs < 4 then [ok 0]
      else let n = unat (ntohl (bytes_int bs))
           in msg_reply (take 4 bs) # msg_reply (take n (drop 4 bs)) # ok 1 # deliver (drop (4 + n) bs))"
  by pat_completeness auto
termination by (relation "measure length") auto

declare deliver.simps [simp del]

lemma stream_record_header:
  "stream_record k = int_bytes (htonl (of_nat k)) @ replicate k (of_nat k)"
proof -
  have "ucast (x AND 0xFF) = (ucast x :: u8)" for x :: u32
  proof -
    have m: "(0xFF :: u32) = mask 8" by (simp add: mask_eq_exp_minus_1)
    show ?thesis unfolding m by (intro bit_word_eqI) (auto simp: bit_simps)
  qed
  then show ?thesis
    unfolding int_bytes_htonl by (simp add: stream_record_def int_bytes_def Let_def)
qed

lemma record_replies:
  assumes "0 < k" and "k \<le> 255"
  shows "deliver (stream_record k @ bs) =
    [msg_reply (int_bytes (htonl (of_nat k))), msg_reply (replicate k (of_nat k)), ok 1] @ deliver bs"
proof -
  have "unat (of_nat k :: u32) = k"
    using assms by (simp add: unsigned_of_nat take_bit_nat_eq_self)
  then show ?thesis
    by (subst deliver.simps) (simp add: stream_record_header bytes_int_int_bytes)
qed

lemma frugal_server_stream_turn: "turns (server_stream_turn fd s)"
  unfolding server_stream_turn_def Let_def
  by (cases s) (simp only: prod.case, intro waits_intros)

text \<open>What the two receive calls for a record leave in the buffer, one after the other.\<close>

lemma record_received:
  assumes "length inbuf = 256" and "0 < k" and "k \<le> 255"
  defines "b \<equiv> recv_into inbuf (msg_reply (int_bytes (htonl (of_nat k))))"
  shows "sint (ntohl (bytes_int b)) = int k"
    and "\<not> (\<exists>i < k. uint (recv_into b (msg_reply (replicate k (of_nat k))) ! i) \<noteq> int k)"
    and "length (recv_into b (msg_reply (replicate k (of_nat k)))) = 256"
proof -
  have b: "b = int_bytes (htonl (of_nat k)) @ drop 4 inbuf"
    using assms by (simp add: recv_into_def)
  show "sint (ntohl (bytes_int b)) = int k"
    using assms(1-3) sint_of_int_u32 [of "int k"] by (simp add: b bytes_int_int_bytes)
  have "recv_into b (msg_reply (replicate k (of_nat k))) = replicate k (of_nat k) @ drop k b"
    using assms by (simp add: recv_into_def)
  moreover have "uint (of_nat k :: u8) = int k"
    using assms uint_of_int_u8 [of "int k"] by simp
  ultimately show "\<not> (\<exists>i < k. uint (recv_into b (msg_reply (replicate k (of_nat k))) ! i) \<noteq> int k)"
    by (simp add: nth_append)
  show "length (recv_into b (msg_reply (replicate k (of_nat k)))) = 256"
    using assms by simp
qed

fun acknowledges :: "call \<Rightarrow> bool" where
  "acknowledges (C_send fd d f) \<longleftrightarrow> True"
| "acknowledges _ \<longleftrightarrow> False"

text \<open>Between two worlds \<open>m\<close> acknowledgements, and nothing else, were sent.\<close>

definition acks :: "int \<Rightarrow> nat \<Rightarrow> world \<Rightarrow> world \<Rightarrow> bool" where
  "acks fd m w w' \<longleftrightarrow> filter acknowledges (calls w') =
     filter acknowledges (calls w) @ replicate m (C_send fd (map of_char ''X'') 0)"

text \<open>
  Between two worlds the stream \<open>bs\<close> was read up to \<open>bs'\<close>: every reply that was used up is what the
  stream gives to the call that was made.
\<close>

definition streams :: "int \<Rightarrow> bytes \<Rightarrow> bytes \<Rightarrow> world \<Rightarrow> world \<Rightarrow> bool" where
  "streams fd bs bs' w w' \<longleftrightarrow> (\<exists>cs rs. calls w' = calls w @ cs \<and> replies w = rs @ replies w' \<and>
     served fd bs cs rs = Some bs')"

lemma streams_trans: "streams fd bs bs' w w1 \<Longrightarrow> streams fd bs' bs'' w1 w2 \<Longrightarrow> streams fd bs bs'' w w2"
  unfolding streams_def by (metis append_assoc served_append)

lemma streamsI: "calls w' = calls w @ cs \<Longrightarrow> replies w = rs @ replies w' \<Longrightarrow> served fd bs cs rs = Some bs' \<Longrightarrow>
   streams fd bs bs' w w'"
  unfolding streams_def by blast

lemma acks_add: "acks fd m w w1 \<Longrightarrow> acks fd m' w1 w2 \<Longrightarrow> acks fd (m + m') w w2"
  by (simp add: acks_def replicate_add)

text \<open>
  The interface of a server that takes records from a stream until the stream ends: the server of
  the test suite's stream test, and the one of the stream demo.
\<close>

locale record_server =
  fixes turn :: "int \<Rightarrow> 'n::semiring_1 \<times> bytes \<Rightarrow> (('n \<times> bytes) + 'r) prog" and final :: "'n \<Rightarrow> 'r outcome"
  assumes waits: "turns (turn fd s)"
    and takes_record: "length inbuf = 256 \<Longrightarrow> 0 < k \<Longrightarrow> k \<le> 255 \<Longrightarrow>
      replies w = [msg_reply (int_bytes (htonl (of_nat k))), msg_reply (replicate k (of_nat k)), ok 1] @ rs \<Longrightarrow>
      \<exists>inbuf' w'. turn fd (n, inbuf) w = (Ret (Inl (n + 1, inbuf')), w') \<and> length inbuf' = 256 \<and>
        replies w' = rs \<and> acks fd 1 w w' \<and> streams fd (stream_record k @ bs) bs w w'"
    and at_end: "length inbuf = 256 \<Longrightarrow> replies w = ok 0 # rs \<Longrightarrow>
      \<exists>w'. turn fd (n, inbuf) w = (map_outcome Inr (final n), w') \<and> replies w' = rs \<and> acks fd 0 w w' \<and>
        streams fd [] [] w w'"
begin

lemma loop_end: "turn fd s w = (map_outcome Inr x, w') \<Longrightarrow> loop (turn fd) s w = (x, w')"
  by (subst loop_unfold [OF waits], cases x) (simp_all add: and_then_def ret_def)

lemma loop_record: "turn fd s w = (Ret (Inl s'), w') \<Longrightarrow> loop (turn fd) s w = loop (turn fd) s' w'"
  by (subst loop_unfold [OF waits]) (simp add: and_then_def)

lemma all_records:
  "length inbuf = 256 \<Longrightarrow> \<forall>k \<in> set ks. 0 < k \<and> k \<le> 255 \<Longrightarrow>
   replies w = deliver (concat (map stream_record ks)) @ rs \<Longrightarrow>
   \<exists>w'. loop (turn fd) (n, inbuf) w = (final (n + of_nat (length ks)), w') \<and> replies w' = rs \<and>
     acks fd (length ks) w w' \<and> streams fd (concat (map stream_record ks)) [] w w'"
proof (induction ks arbitrary: n inbuf w)
  case Nil
  then have "replies w = ok 0 # rs" by (simp add: deliver.simps)
  with at_end [OF Nil(1) this, of fd n] show ?case by (auto dest: loop_end)
next
  case (Cons k ks)
  then have k: "0 < k" "k \<le> 255" by simp_all
  then have "replies w = [msg_reply (int_bytes (htonl (of_nat k))), msg_reply (replicate k (of_nat k)), ok 1] @
      deliver (concat (map stream_record ks)) @ rs"
    using Cons.prems(3) by (simp add: record_replies [OF k])
  from takes_record [OF Cons.prems(1) k this, of fd n "concat (map stream_record ks)"] obtain inbuf' w1 where
    w1: "loop (turn fd) (n, inbuf) w = loop (turn fd) (n + 1, inbuf') w1" "length inbuf' = 256"
      "replies w1 = deliver (concat (map stream_record ks)) @ rs" "acks fd 1 w w1"
      "streams fd (concat (map stream_record (k # ks))) (concat (map stream_record ks)) w w1"
    by (auto dest: loop_record)
  from Cons.IH [OF w1(2) _ w1(3), of "n + 1"] Cons.prems(2) obtain w' where
    "loop (turn fd) (n + 1, inbuf') w1 = (final (n + 1 + of_nat (length ks)), w')" "replies w' = rs"
      "acks fd (length ks) w1 w'" "streams fd (concat (map stream_record ks)) [] w1 w'" by auto
  with w1(1) acks_add [OF w1(4)] streams_trans [OF w1(5)] show ?case by (auto simp: add.assoc)
qed

text \<open>
  So there are replies with which the server takes all the records, and these replies are what a
  stream socket that holds the records gives to the calls that the server makes.
\<close>

lemma serves_stream:
  assumes "length inbuf = 256" and "\<forall>k \<in> set ks. 0 < k \<and> k \<le> 255"
  shows "\<exists>ds. \<forall>v rs. replies v = ds @ rs \<longrightarrow>
    (\<exists>v' cs. loop (turn fd) (n, inbuf) v = (final (n + of_nat (length ks)), v') \<and> replies v' = rs \<and>
       calls v' = calls v @ cs \<and> served fd (concat (map stream_record ks)) cs ds = Some [] \<and>
       filter acknowledges cs = replicate (length ks) (C_send fd (map of_char ''X'') 0))"
proof (rule exI, intro allI impI)
  fix v :: world and rs
  assume "replies v = deliver (concat (map stream_record ks)) @ rs"
  from all_records [OF assms this, of fd n] this show "\<exists>v' cs.
      loop (turn fd) (n, inbuf) v = (final (n + of_nat (length ks)), v') \<and> replies v' = rs \<and>
      calls v' = calls v @ cs \<and> served fd (concat (map stream_record ks)) cs (deliver (concat (map stream_record ks))) = Some [] \<and>
      filter acknowledges cs = replicate (length ks) (C_send fd (map of_char ''X'') 0)"
    by (auto simp: streams_def acks_def)
qed

end

interpretation suite: record_server server_stream_turn Ret
proof
  show "turns (server_stream_turn fd s)" for fd s by (rule frugal_server_stream_turn)
next
  fix inbuf bs :: bytes and k rs fd n and w :: world
  assume a: "length inbuf = 256" "0 < k" "k \<le> 255"
    "replies w = [msg_reply (int_bytes (htonl (of_nat k))), msg_reply (replicate k (of_nat k)), ok 1] @ rs"
  let ?cs = "[C_recv fd 4 MSG_WAITALL, C_recv fd (int k) MSG_WAITALL, C_send fd (map of_char ''X'') 0]"
  let ?w = "w\<lparr>replies := rs, calls := calls w @ ?cs\<rparr>"
  have "\<exists>inbuf'. server_stream_turn fd (n, inbuf) w = (Ret (Inl (n + 1, inbuf')), ?w) \<and> length inbuf' = 256"
    using a record_received [OF a(1-3)] by (auto simp: server_stream_turn_def run Let_def)
  moreover have "streams fd (stream_record k @ bs) bs w ?w"
    using a(4) by (intro streamsI [where cs = ?cs]) (auto simp: stream_record_header)
  ultimately show "\<exists>inbuf' w'. server_stream_turn fd (n, inbuf) w = (Ret (Inl (n + 1, inbuf')), w') \<and>
      length inbuf' = 256 \<and> replies w' = rs \<and> acks fd 1 w w' \<and> streams fd (stream_record k @ bs) bs w w'"
    by (auto simp: acks_def)
next
  fix w :: world and rs fd n and inbuf :: bytes
  assume "length inbuf = 256" "replies w = ok 0 # rs"
  then show "\<exists>w'. server_stream_turn fd (n, inbuf) w = (map_outcome Inr (Ret n), w') \<and> replies w' = rs \<and>
      acks fd 0 w w' \<and> streams fd [] [] w w'"
    by (auto simp: server_stream_turn_def run Let_def acks_def ok_0 intro!: streamsI [where rs = "[msg_reply []]"])
qed

text \<open>
  C10. The stream test works end to end. Whatever the client's buffer held before, the
  messages of at most 80 bytes into which it cuts its records put together are the records.
  A server that reads this byte stream, in pieces of its own, finds every record intact,
  acknowledges each of them and stops at the end of the stream: it counts as many records as
  the client built, and so sends as many acknowledgements as the client waits for. The replies
  of this run are what a stream socket that holds these bytes gives to the calls that the
  server makes: each call takes as many bytes as it asks for, and at the end nothing is left.
\<close>

theorem stream_test_roundtrip:
  assumes "length buf = 2000" and "length inbuf = 256"
    and "stream_fill 0 1 0 buf = (tot, num, buf')"
    and "stream = concat (map (\<lambda>(off, n). take n (drop off buf')) (fragments 0 tot))"
  shows "(\<forall>(off, n) \<in> set (fragments 0 tot). 0 < n \<and> n \<le> 80 \<and> off + n \<le> 2000) \<and>
    (\<exists>ds. \<forall>v rs. replies v = ds @ rs \<longrightarrow>
      (\<exists>v' cs. loop (server_stream_turn fd) (0, inbuf) v = (Ret num, v') \<and> replies v' = rs \<and>
         calls v' = calls v @ cs \<and> served fd stream cs ds = Some [] \<and>
         filter acknowledges cs = replicate num (C_send fd (map of_char ''X'') 0)))"
proof -
  let ?ks = "rec_sizes 0 1"
  have f: "num = length ?ks" "length buf' = 2000" "tot \<le> 2000"
    "take tot buf' = concat (map stream_record ?ks)"
    using stream_fill_spec [of buf 0 1 0] assms by auto
  have c: "stream = concat (map stream_record ?ks)"
    "\<forall>(off, n) \<in> set (fragments 0 tot). 0 < n \<and> n \<le> 80 \<and> off + n \<le> tot"
    using fragments_cover [of 0 tot buf'] f assms(4) by auto
  have "\<forall>k \<in> set ?ks. 0 < k \<and> k \<le> 255" using rec_sizes_bounds [of 1] by auto
  from suite.serves_stream [OF assms(2) this, of fd 0, folded c(1) f(1)] c(2) f(3) show ?thesis
    by (intro conjI) (auto simp: case_prod_beta dest!: bspec)
qed

theorem stream_test_roundtrip_witness:
  "\<exists>tot num buf' ds v'. stream_fill 0 1 0 (replicate 2000 7) = (tot, num, buf') \<and>
    loop (server_stream_turn 4) (0, replicate 256 9) (world_of ds) = (Ret num, v') \<and>
    served 4 (concat (map (\<lambda>(off, n). take n (drop off buf')) (fragments 0 tot))) (calls v') ds = Some []"
proof -
  obtain tot num buf' where "stream_fill 0 1 0 (replicate 2000 7) = (tot, num, buf')"
    by (cases "stream_fill 0 1 0 (replicate 2000 7)")
  note fill = this
  let ?stream = "concat (map (\<lambda>(off, n). take n (drop off buf')) (fragments 0 tot))"
  from stream_test_roundtrip [OF _ _ fill refl, of "replicate 256 9" 4] obtain ds where
    "\<forall>v rs. replies v = ds @ rs \<longrightarrow> (\<exists>v' cs. loop (server_stream_turn 4) (0, replicate 256 9) v = (Ret num, v') \<and>
       replies v' = rs \<and> calls v' = calls v @ cs \<and> served 4 ?stream cs ds = Some [])"
    by (simp only: length_replicate) blast
  then have "replies (world_of ds) = ds @ [] \<longrightarrow> (\<exists>v' cs. loop (server_stream_turn 4) (0, replicate 256 9) (world_of ds) =
       (Ret num, v') \<and> calls v' = calls (world_of ds) @ cs \<and> served 4 ?stream cs ds = Some [])"
    by blast
  then have "\<exists>v'. loop (server_stream_turn 4) (0, replicate 256 9) (world_of ds) = (Ret num, v') \<and>
       served 4 ?stream (calls v') ds = Some []"
    by (auto simp: world_of_def)
  with fill show ?thesis by blast
qed

section \<open>The big stream\<close>

lemma turns_do_receive: "turns (do_receive_turn fd fl s)"
  unfolding do_receive_turn_def Let_def
  by (cases s) (simp only: prod.case, intro waits_intros)

lemmas do_receive_unfold = loop_unfold [OF turns_do_receive]

definition chunk_ok :: "bytes \<Rightarrow> bool" where
  "chunk_ok d \<longleftrightarrow> d \<noteq> [] \<and> hd d = TS_BBUF_DATA \<and> last d = TS_BBUF_DATA"

lemma do_receive_step:
  assumes "chunk_ok d" and "int (length d) \<le> sz" and "length inbuf = 75000" and "sz \<le> 75000"
  shows "answers (do_receive_turn fd fl (sz, n, inbuf)) [msg_reply d]
    (if sz - int (length d) > 0 then Inl (sz - int (length d), n + 1, recv_into inbuf (msg_reply d))
     else Inr (n + 1))"
proof -
  have "recv_into inbuf (msg_reply d) = d @ drop (length d) inbuf"
    using assms by (simp add: recv_into_def)
  moreover have "(d @ drop (length d) inbuf) ! 0 = TS_BBUF_DATA"
    using assms(1) by (auto simp: chunk_ok_def nth_append hd_conv_nth)
  moreover have "(d @ drop (length d) inbuf) ! nat (int (length d) - 1) = TS_BBUF_DATA"
  proof -
    have "nat (int (length d) - 1) = length d - 1" by simp
    then show ?thesis
      using assms(1) by (auto simp: chunk_ok_def nth_append last_conv_nth)
  qed
  moreover have "0 < length d" using assms(1) by (simp add: chunk_ok_def)
  ultimately show ?thesis
    unfolding do_receive_turn_def prod.case Let_def
    using assms(2-4) by (intro answers_receive_then) (auto simp: answers_ret)
qed

abbreviation (input) total :: "bytes list \<Rightarrow> int" where
  "total ds \<equiv> int (sum_list (map length ds))"

lemma do_receive_loop_all:
  assumes "\<forall>d \<in> set ds. chunk_ok d" and "length inbuf = 75000" and "total ds = sz"
    and "0 < sz" and "sz \<le> 75000"
  shows "answers (loop (do_receive_turn fd fl) (sz, n, inbuf)) (map msg_reply ds) (n + int (length ds))"
  using assms
proof (induction ds arbitrary: sz n inbuf)
  case (Cons d ds)
  let ?st = "(sz - int (length d), n + 1, recv_into inbuf (msg_reply d))"
  have step: "answers (do_receive_turn fd fl (sz, n, inbuf)) [msg_reply d]
      (if sz - int (length d) > 0 then Inl ?st else Inr (n + 1))"
    using Cons.prems by (intro do_receive_step) auto
  have "answers (case if sz - int (length d) > 0 then Inl ?st else Inr (n + 1) of
      Inl st \<Rightarrow> loop (do_receive_turn fd fl) st | Inr x \<Rightarrow> ret x) (map msg_reply ds) (n + int (length (d # ds)))"
  proof (cases ds)
    case Nil
    with Cons.prems show ?thesis by (simp add: answers_ret)
  next
    case (Cons e es)
    then have "0 < total ds"
      using Cons.prems(1) by (cases e) (auto simp: chunk_ok_def)
    then show ?thesis
      using Cons.prems Cons.IH [of "recv_into inbuf (msg_reply d)" "sz - int (length d)" "n + 1"]
      by (simp add: algebra_simps)
  qed
  then have "answers (loop (do_receive_turn fd fl) (sz, n, inbuf)) ([msg_reply d] @ map msg_reply ds)
      (n + int (length (d # ds)))"
    by (subst do_receive_unfold) (rule answers_and_then [OF step])
  then show ?case by simp
qed simp

lemma do_receive_loop_partial:
  assumes "\<forall>d \<in> set ds. chunk_ok d" and "length inbuf = 75000" and "total ds < sz" and "sz \<le> 75000"
  shows "answers (loop (do_receive_turn fd fl) (sz, n, inbuf)) (map msg_reply ds @ [ok 0])
    (- (n + int (length ds)))"
  using assms
proof (induction ds arbitrary: sz n inbuf)
  case Nil
  have "answers (do_receive_turn fd fl (sz, n, inbuf)) [ok 0] (Inr (- n))"
    unfolding do_receive_turn_def prod.case Let_def
    using Nil by (intro answers_receive_then) (simp_all add: answers_ret)
  then have "answers (loop (do_receive_turn fd fl) (sz, n, inbuf)) ([ok 0] @ []) (- n)"
    by (subst do_receive_unfold) (rule answers_and_then, auto simp: answers_ret)
  then show ?case by simp
next
  case (Cons d ds)
  let ?st = "(sz - int (length d), n + 1, recv_into inbuf (msg_reply d))"
  have step: "answers (do_receive_turn fd fl (sz, n, inbuf)) [msg_reply d] (Inl ?st)"
    using Cons.prems do_receive_step [of d sz inbuf fd fl n] by auto
  have "answers (loop (do_receive_turn fd fl) ?st) (map msg_reply ds @ [ok 0])
      (- (n + int (length (d # ds))))"
    using Cons.prems Cons.IH [of "recv_into inbuf (msg_reply d)" "sz - int (length d)" "n + 1"]
    by (simp add: algebra_simps)
  then have "answers (loop (do_receive_turn fd fl) (sz, n, inbuf))
      ([msg_reply d] @ map msg_reply ds @ [ok 0]) (- (n + int (length (d # ds))))"
    by (subst do_receive_unfold) (rule answers_and_then [OF step], simp)
  then show ?case by simp
qed

text \<open>
  C11. \<^verbatim>\<open>do_receive\<close> returns what its comment says, however the kernel cuts the stream into
  chunks: the number of receive calls when the 75000 bytes arrived, 0 when the connection
  ended before any data, and minus the number of calls when it ended after a part of it. In
  particular its loop terminates.
\<close>

theorem do_receive_result:
  assumes "\<forall>d \<in> set ds. chunk_ok d" and "total ds \<le> TS_BBUF_SIZE"
  shows "answers (do_receive fd fl)
    (if total ds = TS_BBUF_SIZE then map msg_reply ds else map msg_reply ds @ [ok 0])
    (if total ds = TS_BBUF_SIZE then int (length ds) else - int (length ds))"
  unfolding do_receive_def
  by (rule answers_uninit_then(3))
    (use assms do_receive_loop_all [of ds _ 75000 fd fl 0] do_receive_loop_partial [of ds _ 75000 fd fl 0]
     in auto)

theorem do_receive_result_witness:
  "answers (do_receive 4 0) [msg_reply (replicate 70000 TS_BBUF_DATA), msg_reply (replicate 5000 TS_BBUF_DATA)] 2 \<and>
   answers (do_receive 4 0) [ok 0] 0 \<and>
   answers (do_receive 4 0) [msg_reply (replicate 70000 TS_BBUF_DATA), ok 0] (-1)"
  using do_receive_result [of "[replicate 70000 TS_BBUF_DATA, replicate 5000 TS_BBUF_DATA]" 4 0]
    do_receive_result [of "[]" 4 0] do_receive_result [of "[replicate 70000 TS_BBUF_DATA]" 4 0]
  by (simp add: chunk_ok_def)

section \<open>The messages of the multicast test\<close>

lemma mcast_message_parts:
  assumes "4 \<le> k" and "k < 2 ^ 31" and "length buf = nat k"
  shows "length (mcast_message buf k i) = nat k"
    and "bytes_int (mcast_message buf k i) = of_int i"
    and "checkArray (drop 4 (mcast_message buf k i)) (k - 4) = 0"
proof -
  have m: "mcast_message buf k i = int_bytes (of_int i) @ makeArray (drop 4 buf) (k - 4) 0 (k - 4)"
    using assms by (simp add: mcast_message_def overwrite_def)
  show "length (mcast_message buf k i) = nat k" using assms by (simp add: m)
  show "bytes_int (mcast_message buf k i) = of_int i" by (simp add: m bytes_int_int_bytes)
  show "checkArray (drop 4 (mcast_message buf k i)) (k - 4) = 0"
    using assms checkArray_valid [of "k - 4" "drop 4 buf" 0 "k - 4"] by (simp add: m)
qed

text \<open>Such a message in the buffer of the server.\<close>

lemma mcast_message_in_buffer:
  assumes "4 \<le> k" and "k < 2 ^ 31" and "length buf = nat k" and "k \<le> int (length rcvbuf)" and "i < 2 ^ 31"
  defines "b \<equiv> recv_into rcvbuf (msg_reply (mcast_message buf k (int i)))"
  shows "recv_into b (msg_reply (mcast_message buf k (int i))) = b" "4 \<le> length b"
    "sint (bytes_int b) = int i" "checkArray (drop 4 b) (k - 4) = 0"
proof -
  let ?m = "mcast_message buf k (int i)"
  note parts = mcast_message_parts [OF assms(1-3), of "int i"]
  have into: "recv_into c (msg_reply ?m) = ?m @ drop (nat k) c" if "k \<le> int (length c)" for c
    using that parts(1) assms(1) by (simp add: recv_into_def)
  show "recv_into b (msg_reply ?m) = b"
    using into [of rcvbuf] into [of b] assms(1,4) parts(1) by (simp add: b_def drop_append)
  show "4 \<le> length b" using assms(1,4) by (simp add: b_def)
  have m4: "4 \<le> length ?m" using parts(1) assms(1) by simp
  have b: "b = ?m @ drop (nat k) rcvbuf" using into [OF assms(4)] by (simp add: b_def)
  have "bytes_int b = bytes_int ?m" using m4 by (auto simp: b bytes_int_def nth_append)
  then show "sint (bytes_int b) = int i" using parts(2) sint_of_int_u32 [of "int i"] assms(5) by simp
  have "checkArray (drop 4 b) (k - 4) = checkArray (drop 4 ?m) (k - 4)"
    using m4 parts(1) by (intro checkArray_cong) (auto simp: b nth_append)
  with parts(3) show "checkArray (drop 4 b) (k - 4) = 0" by simp
qed

text \<open>
  What the kernel gives to the holder of a socket whose queue has the messages \<open>q\<close>: a receiving
  call gets the beginning of the first message, as many bytes as it asks for, and takes the
  message off the queue unless it only looks at it with \<^verbatim>\<open>MSG_PEEK\<close>; with \<^verbatim>\<open>MSG_DONTWAIT\<close> it fails if
  there is none. \<open>queued fd q cs rs\<close> is the queue after the calls \<open>cs\<close> with the replies \<open>rs\<close>, or
  \<open>None\<close> if a reply is not the one that the queue determines for its call.
\<close>

fun queued :: "int \<Rightarrow> bytes list \<Rightarrow> call list \<Rightarrow> reply list \<Rightarrow> bytes list option" where
  "queued fd q [] rs = (if rs = [] then Some q else None)"
| "queued fd [] (C_recvfrom s n fl # cs) (r # rs) =
     (if s = fd \<and> fl = MSG_DONTWAIT \<and> r_ret r < 0 then queued fd [] cs rs else None)"
| "queued fd (m # q) (C_recvfrom s n fl # cs) (r # rs) =
     (if s = fd \<and> 0 \<le> n \<and> r = msg_reply (take (nat n) m)
      then queued fd (if fl = MSG_PEEK then m # q else q) cs rs else None)"
| "queued fd q (c # cs) rs = None"

lemma expected_size: "st < 7 \<Longrightarrow> expected_szs ! st \<in> {100, 1000, 66000}"
  using less_Suc_eq_0_disj by (fastforce simp: expected_szs_def nth_Cons' numeral_eq_Suc)

text \<open>
  C12. A multicast message that the client built (whatever its buffer held), first in the queue of
  a socket, is taken by the server when it waits for that message: the number is read back, the
  size and the content are accepted, the message is taken off the queue and the counters go up
  by one. When the server waits for another one, the message is only looked at and stays in the
  queue. In the subtests with one message the server also looks for a second one; here there is
  none. The replies are those that the queue gives to the calls that the server makes.
\<close>

theorem mcast_message_accepted:
  assumes "st < 7" and "expected_szs ! st = k" and "length buf = nat k" and "length rcvbuf = 66000"
    and "i < 2 ^ 31" and "msgno < 2 ^ 31" and "m = mcast_message buf k (int i)" and "st < 4 \<longrightarrow> q = []"
  shows "\<exists>rcvbuf' ds. length rcvbuf' = 66000 \<and> (\<forall>v rs. replies v = ds @ rs \<longrightarrow>
    (\<exists>v' cs. server_mcast_socket st msgno fd (msgcnt, sk_cnt, rcvbuf) v =
       (Ret (if i = msgno then (msgcnt + 1, sk_cnt + 1, rcvbuf') else (msgcnt, sk_cnt, rcvbuf')), v') \<and>
       replies v' = rs \<and> calls v' = calls v @ cs \<and>
       queued fd (m # q) cs ds = Some (if i = msgno then q else m # q)))"
proof -
  have k: "k \<in> {100, 1000, 66000}" using expected_size [OF assms(1)] assms(2) by simp
  then have bounds: "4 \<le> k" "k < 2 ^ 31" "k \<le> int (length rcvbuf)" using assms(4) by auto
  define b where "b = recv_into rcvbuf (msg_reply m)"
  note in_buf = mcast_message_in_buffer [OF bounds(1,2) assms(3) bounds(3) assms(5), folded assms(7), folded b_def]
  have len: "length m = nat k" using mcast_message_parts(1) [OF bounds(1,2) assms(3)] assms(7) by simp
  have b: "length b = 66000" using assms(4) by (simp add: b_def)
  let ?ds = "if i = msgno then [msg_reply m, msg_reply m] @ (if st < 4 then [ok (-1)] else []) else [msg_reply m]"
  let ?cs = "[C_recvfrom fd k MSG_PEEK] @
    (if i = msgno then [C_recvfrom fd k 0] @ (if st < 4 then [C_recvfrom fd 8 MSG_DONTWAIT] else []) else [])"
  have "\<exists>v'. server_mcast_socket st msgno fd (msgcnt, sk_cnt, rcvbuf) v =
       (Ret (if i = msgno then (msgcnt + 1, sk_cnt + 1, b) else (msgcnt, sk_cnt, b)), v') \<and>
       replies v' = rs \<and> calls v' = calls v @ ?cs" if "replies v = ?ds @ rs" for v rs
    using that in_buf len bounds assms(2,4) b
    by (auto simp: server_mcast_socket_def run Let_def read_int_def b_def [symmetric] split: if_splits)
  moreover have "queued fd (m # q) ?cs ?ds = Some (if i = msgno then q else m # q)"
    using len bounds(1) assms(8) by simp
  ultimately show ?thesis using b by blast
qed

theorem mcast_message_accepted_witness:
  "\<exists>rcvbuf' ds v'. server_mcast_socket 4 3 9 (0, 0, replicate 66000 0) (world_of ds) = (Ret (0, 0, rcvbuf'), v') \<and>
     queued 9 [mcast_message (replicate 100 1) 100 2] (calls v') ds = Some [mcast_message (replicate 100 1) 100 2]"
proof -
  let ?m = "mcast_message (replicate 100 1) 100 2"
  from mcast_message_accepted [of 4 100 "replicate 100 1" "replicate 66000 0" 2 3 ?m "[]" 9 0 0]
  obtain rcvbuf' ds where "\<forall>v rs. replies v = ds @ rs \<longrightarrow>
    (\<exists>v' cs. server_mcast_socket 4 3 9 (0, 0, replicate 66000 0) v = (Ret (0, 0, rcvbuf'), v') \<and>
       replies v' = rs \<and> calls v' = calls v @ cs \<and> queued 9 [?m] cs ds = Some [?m])"
    by (auto simp: expected_szs_def)
  then have "replies (world_of ds) = ds @ [] \<longrightarrow>
    (\<exists>v' cs. server_mcast_socket 4 3 9 (0, 0, replicate 66000 0) (world_of ds) = (Ret (0, 0, rcvbuf'), v') \<and>
       replies v' = [] \<and> calls v' = calls (world_of ds) @ cs \<and> queued 9 [?m] cs ds = Some [?m])" by blast
  then show ?thesis by (auto simp: world_of_def)
qed

section \<open>The reported rate\<close>

lemma uint_divisor: "uint (if t = 0 then 1 else t :: u32) = max 1 (uint t)"
proof (cases "t = 0")
  case False
  then have "uint t \<noteq> 0" by (simp add: uint_0_iff)
  then have "1 \<le> uint t" using uint_ge_0 [of t] by linarith
  with False show ?thesis by simp
qed simp

lemma uint_mult_small: "uint a * c < 2 ^ 32 \<Longrightarrow> 0 \<le> c \<Longrightarrow> uint (a * of_int c :: u32) = uint a * c"
  by (simp add: uint_word_ariths take_bit_int_eq_self unsigned_of_int take_bit_eq_mod mod_mult_right_eq)

lemma blast_rate_wraps: "uint (blast_rate 10000 100) = 80000000000 mod 2 ^ 32"
  by (simp add: blast_rate_def Let_def)

text \<open>
  C13. The rate that the blaster tests report, in bits per second, is exact up to the
  rounding of the one division as long as it fits into 32 bits: for small amounts of data
  the multiplication comes first, for large ones the division; the intermediate products
  then do not overflow either. Above 4.29 Gbit/s the result wraps around, although the comment
  in \<^verbatim>\<open>reportBlast\<close> says that its order of operations avoids overflow: at the largest packet
  size of the test, 80 Gbit/s are reported as 2.69 Gbit/s.
\<close>

theorem blast_rate_exact:
  assumes "0 \<le> packetSize" and "packetSize \<le> 21474"
    and "packetSize * 100000 div max 1 (uint t) \<le> 536870"
  shows "uint (blast_rate packetSize t) =
    (if packetSize * 100000 \<le> 536870 then packetSize * 100000 * 8000 div max 1 (uint t)
     else packetSize * 100000 div max 1 (uint t) * 8000) \<and>
    uint (blast_rate 10000 100) = 80000000000 mod 2 ^ 32"
proof (rule conjI [OF _ blast_rate_wraps])
  let ?d = "if t = 0 then 1 else t" and ?r = "of_int (packetSize * 100000) :: u32"
  have r: "uint ?r = packetSize * 100000"
    using assms(1,2) by (intro uint_sync) simp_all
  have le: "?r \<le> 536870 \<longleftrightarrow> packetSize * 100000 \<le> 536870"
    unfolding word_le_def r by simp
  have q: "uint (?r div ?d) = packetSize * 100000 div max 1 (uint t)"
    unfolding uint_div_distrib r uint_divisor ..
  show "uint (blast_rate packetSize t) =
    (if packetSize * 100000 \<le> 536870 then packetSize * 100000 * 8000 div max 1 (uint t)
     else packetSize * 100000 div max 1 (uint t) * 8000)"
  proof (cases "packetSize * 100000 \<le> 536870")
    case True
    then have "uint (?r * of_int 8000) = packetSize * 100000 * 8000"
      using assms(1) r by (subst uint_mult_small) simp_all
    then have "uint (?r * 8000 div ?d) = packetSize * 100000 * 8000 div max 1 (uint t)"
      unfolding uint_div_distrib uint_divisor by simp
    with True le show ?thesis by (simp add: blast_rate_def Let_def)
  next
    case False
    have "uint (?r div ?d * of_int 8000) = packetSize * 100000 div max 1 (uint t) * 8000"
      using assms(3) q by (subst uint_mult_small) simp_all
    with False le show ?thesis by (simp add: blast_rate_def Let_def)
  qed
qed

theorem blast_rate_exact_witness:
  "uint (blast_rate 5 100) = 40000000 \<and> uint (blast_rate 10000 2000) = 4000000000"
  using blast_rate_exact [of 5 100] blast_rate_exact [of 10000 2000] by simp

end
