(* ===== verification/Inv_Store.thy ===== *)
theory Inv_Store
  imports Sys
begin

text \<open>
  The store of the inventory simulation, \<^verbatim>\<open>src/demos/inventory_sim/inventory_sim.c\<close>: the
  static variables of the logging task as a record, what \<^verbatim>\<open>logTransaction\<close> makes of a
  transaction message, and the states the store goes through. The text of a transaction is
  written by one process and parsed by another; the round trips are proved here.

  The counters are C ints; they are integers here, so the results hold as long as no counter
  reaches \<open>2^31\<close>.
\<close>

section \<open>Constants and state\<close>

abbreviation (input) TIPC_INV_SIM_TYPE :: "'a::numeral" where "TIPC_INV_SIM_TYPE \<equiv> 75"
abbreviation (input) MSG_SIZE_MAX :: nat where "MSG_SIZE_MAX \<equiv> 50"
abbreviation (input) DEMO_ITEM_ID_MIN :: int where "DEMO_ITEM_ID_MIN \<equiv> 1"
abbreviation (input) DEMO_ITEM_ID_MAX :: int where "DEMO_ITEM_ID_MAX \<equiv> 10"
abbreviation (input) NUM_DEMO_ITEMS :: nat where "NUM_DEMO_ITEMS \<equiv> 10"
abbreviation (input) TRANSACTION_CONTENT_SIZE :: nat where "TRANSACTION_CONTENT_SIZE \<equiv> 100"

datatype sim_state = STORE_OPEN | STORE_CLOSING | STORE_CLOSED | STORE_EMPTY

abbreviation (input) SIM_DONE :: int where "SIM_DONE \<equiv> -4"
abbreviation (input) SIM_KILL :: int where "SIM_KILL \<equiv> -3"
abbreviation (input) SIM_ERROR :: int where "SIM_ERROR \<equiv> -2"
abbreviation (input) SIM_WARN :: int where "SIM_WARN \<equiv> -1"
abbreviation (input) SIM_INFO :: int where "SIM_INFO \<equiv> 0"
abbreviation (input) SIM_ITEM_IN :: int where "SIM_ITEM_IN \<equiv> 1"
abbreviation (input) SIM_ITEM_OUT :: int where "SIM_ITEM_OUT \<equiv> 2"
abbreviation (input) SIM_CUST_IN :: int where "SIM_CUST_IN \<equiv> 3"
abbreviation (input) SIM_CUST_OUT :: int where "SIM_CUST_OUT \<equiv> 4"

record store =
  simState :: sim_state
  simErrors :: int
  simWarnings :: int
  itemCount :: "int list"
  itemsInStore :: int
  itemsSold :: "int list"
  customerCount :: "int list"
  customersInStore :: int
  customerTotal :: int
  customerSales :: int
  customerExits :: int
  customerRetries :: int

text \<open>The store as \<^verbatim>\<open>simLogTask\<close> sets it up.\<close>

definition new_store :: store where
  "new_store = \<lparr>simState = STORE_OPEN, simErrors = 0, simWarnings = 0,
     itemCount = replicate NUM_DEMO_ITEMS 0, itemsInStore = 0,
     itemsSold = replicate NUM_DEMO_ITEMS 0, customerCount = replicate NUM_DEMO_ITEMS 0,
     customersInStore = 0, customerTotal = 0, customerSales = 0, customerExits = 0,
     customerRetries = 0\<rparr>"

section \<open>Processing a transaction\<close>

text \<open>\<^verbatim>\<open>sscanf\<close> with a format of \<open>n\<close> integers: the integers that could be converted.\<close>

fun scan_ints :: "nat \<Rightarrow> string \<Rightarrow> int list" where
  "scan_ints 0 s = []"
| "scan_ints (Suc n) s = (case scan_int s of None \<Rightarrow> [] | Some (i, r) \<Rightarrow> i # scan_ints n r)"

declare scan_ints.simps [simp del]

text \<open>Changing an entry of one of the arrays that are indexed by the item number.\<close>

definition bump :: "int list \<Rightarrow> int \<Rightarrow> int \<Rightarrow> fault + int list" where
  "bump xs itemID d =
     (if DEMO_ITEM_ID_MIN \<le> itemID \<and> itemID - DEMO_ITEM_ID_MIN < int NUM_DEMO_ITEMS
      then Inr (xs[nat (itemID - DEMO_ITEM_ID_MIN) := xs ! nat (itemID - DEMO_ITEM_ID_MIN) + d])
      else Inl Out_of_bounds)"

definition scanned :: "nat \<Rightarrow> int list \<Rightarrow> fault + int" where
  "scanned k xs = (if k < length xs then Inr (xs ! k) else Inl Uninit)"

definition and_if :: "'e + 'a \<Rightarrow> ('a \<Rightarrow> 'e + 'b) \<Rightarrow> 'e + 'b" where
  "and_if m f = (case m of Inl e \<Rightarrow> Inl e | Inr x \<Rightarrow> f x)"

lemma and_if_simps [simp]: "and_if (Inr x) f = f x" "and_if (Inl e) f = Inl e"
  by (simp_all add: and_if_def)

lemma and_if_Inr: "and_if m f = Inr y \<longleftrightarrow> (\<exists>x. m = Inr x \<and> f x = Inr y)"
  by (cases m) auto

type_synonym logged = "store \<times> int \<times> string list"

definition log_item_in :: "bool \<Rightarrow> string \<Rightarrow> store \<Rightarrow> fault + logged" where
  "log_item_in printTrans s st =
     (if simState st \<noteq> STORE_OPEN then Inr (st, SIM_KILL, [])
      else
        and_if (scanned 0 (scan_ints 1 s)) (\<lambda>itemID.
        and_if (bump (itemCount st) itemID 1) (\<lambda>counts.
        Inr (st\<lparr>itemsInStore := itemsInStore st + 1, itemCount := counts\<rparr>, 0,
             if printTrans then [''Item '' @ s @ '' created''] else []))))"

definition log_item_out :: "bool \<Rightarrow> string \<Rightarrow> store \<Rightarrow> fault + logged" where
  "log_item_out printTrans s st0 =
     (let st = st0\<lparr>itemsInStore := itemsInStore st0 - 1\<rparr>
      in if simState st = STORE_CLOSED then Inr (st, SIM_KILL, [])
      else case strchr s CHR '' '' of
        None \<Rightarrow> Inl Out_of_bounds
      | Some marker \<Rightarrow>
          let s = takeWhile (\<lambda>c. c \<noteq> CHR '' '') s in
          and_if (scanned 0 (scan_ints 1 s)) (\<lambda>itemID.
          and_if (bump (itemCount st) itemID (-1)) (\<lambda>counts.
          and_if (bump (itemsSold st) itemID 1) (\<lambda>sold.
          Inr (st\<lparr>itemCount := counts, itemsSold := sold\<rparr>,
               if simState st \<noteq> STORE_OPEN then SIM_KILL else 0,
               if printTrans then [''Item '' @ s @ '' given to customer from '' @ tl marker]
               else [])))))"

definition log_cust_in :: "bool \<Rightarrow> string \<Rightarrow> store \<Rightarrow> fault + logged" where
  "log_cust_in printTrans s st =
     (if simState st \<noteq> STORE_OPEN then Inr (st, SIM_KILL, [])
      else
        let nums = scan_ints 2 s in
        and_if (scanned 0 nums) (\<lambda>itemID.
        and_if (bump (customerCount st) itemID 1) (\<lambda>counts.
        let customerID = customerTotal st + 1 in
        and_if (if printTrans then scanned 1 nums else Inr 0) (\<lambda>waitTime.
        Inr (st\<lparr>customersInStore := customersInStore st + 1, customerCount := counts,
                customerTotal := customerID\<rparr>, customerID,
             if printTrans
             then [''Customer '' @ show_int customerID @ '' wants item '' @ show_int itemID @
                   '' within '' @ show_int waitTime @ '' ms'']
             else [])))))"

text \<open>The counters when a customer leaves, before it is known with or without an item.\<close>

definition cust_left :: "int list \<Rightarrow> int \<Rightarrow> store \<Rightarrow> store" where
  "cust_left counts numRetries st =
     st\<lparr>customersInStore := customersInStore st - 1, customerCount := counts,
        customerRetries := customerRetries st + (if numRetries \<noteq> 0 then 1 else 0)\<rparr>"

definition log_cust_out :: "bool \<Rightarrow> string \<Rightarrow> store \<Rightarrow> fault + logged" where
  "log_cust_out printTrans s st =
     (let nums = scan_ints 4 s; marker = strchr s CHR ''<'' in
      and_if (scanned 0 nums) (\<lambda>customerID.
      and_if (scanned 1 nums) (\<lambda>itemID.
      and_if (bump (customerCount st) itemID (-1)) (\<lambda>counts.
      and_if (scanned 2 nums) (\<lambda>numRetries.
      let st = cust_left counts numRetries st;
          ack_code = (if simState st \<noteq> STORE_OPEN then SIM_KILL else 0) in
      case marker of
        Some m \<Rightarrow>
          Inr (st\<lparr>customerSales := customerSales st + 1\<rparr>, ack_code,
               if printTrans
               then [''Customer '' @ show_int customerID @ '' got item '' @ show_int itemID @
                     '' from '' @ m]
               else [])
      | None \<Rightarrow>
          and_if (if printTrans then scanned 3 nums else Inr 0) (\<lambda>waitTime.
          Inr (st\<lparr>customerExits := customerExits st + 1\<rparr>, ack_code,
               if printTrans
               then [''Customer '' @ show_int customerID @ '' left without item '' @
                     show_int itemID @ '' after '' @ show_int waitTime @ '' ms'']
               else [])))))))"

text \<open>The switch of \<^verbatim>\<open>logTransaction\<close>: the new store, the acknowledgement, what is printed.\<close>

definition transact :: "bool \<Rightarrow> int \<Rightarrow> string \<Rightarrow> store \<Rightarrow> fault + logged" where
  "transact printTrans code s st =
     (if code = SIM_DONE then Inr (st\<lparr>simState := STORE_EMPTY\<rparr>, 0, [])
      else if code = SIM_KILL then
        Inr (st\<lparr>simState := STORE_CLOSING\<rparr>, 0,
             [''Closing simulated store''] @
             (if customersInStore st > 0
              then [''Waiting for '' @ show_int (customersInStore st) @ '' customers to leave'']
              else []))
      else if code = SIM_ERROR then
        Inr (st\<lparr>simErrors := simErrors st + 1\<rparr>, 0, [''   ERROR: '' @ s])
      else if code = SIM_WARN then
        Inr (st\<lparr>simWarnings := simWarnings st + 1\<rparr>, 0, [''   WARNING: '' @ s])
      else if code = SIM_INFO then Inr (st, 0, if printTrans then [s] else [])
      else if code = SIM_ITEM_IN then log_item_in printTrans s st
      else if code = SIM_ITEM_OUT then log_item_out printTrans s st
      else if code = SIM_CUST_IN then log_cust_in printTrans s st
      else if code = SIM_CUST_OUT then log_cust_out printTrans s st
      else Inr (st, SIM_ERROR, [''Unrecognized transaction: code='' @ show_int code @
                                '', data='' @ [CHR 0x27] @ s @ [CHR 0x27]]))"

text \<open>
  What \<^verbatim>\<open>simLogTask\<close> does after a transaction: a store that is closing is closed once the last
  customer has left, and this is when the janitor is created.
\<close>

definition settle :: "store \<Rightarrow> store" where
  "settle st = (if simState st = STORE_CLOSING \<and> customersInStore st = 0
                then st\<lparr>simState := STORE_CLOSED\<rparr> else st)"

section \<open>The bookkeeping is consistent\<close>

lemma sum_list_bump:
  "k < length xs \<Longrightarrow> sum_list (xs[k := xs ! k + d]) = sum_list xs + (d :: int)"
  by (induction xs arbitrary: k) (auto split: nat.split)

lemma bump_Inr:
  assumes "bump xs i d = Inr ys" and "length xs = 10"
  shows "length ys = 10 \<and> sum_list ys = sum_list xs + d"
  using assms by (auto simp: bump_def sum_list_bump split: if_splits)

definition store_inv :: "store \<Rightarrow> bool" where
  "store_inv st \<longleftrightarrow>
     length (itemCount st) = NUM_DEMO_ITEMS \<and> length (itemsSold st) = NUM_DEMO_ITEMS \<and>
     length (customerCount st) = NUM_DEMO_ITEMS \<and>
     sum_list (customerCount st) = customersInStore st \<and>
     customerTotal st = customersInStore st + customerSales st + customerExits st \<and>
     customerRetries st \<le> customerSales st + customerExits st \<and>
     itemsInStore st \<le> sum_list (itemCount st) \<and>
     (simState st = STORE_OPEN \<longrightarrow> itemsInStore st = sum_list (itemCount st))"

lemma store_inv_new: "store_inv new_store"
  by (simp add: store_inv_def new_store_def sum_list_replicate)

lemma store_inv_updates:
  "store_inv (st\<lparr>simErrors := e\<rparr>) \<longleftrightarrow> store_inv st"
  "store_inv (st\<lparr>simWarnings := e\<rparr>) \<longleftrightarrow> store_inv st"
  "store_inv st \<Longrightarrow> x \<noteq> STORE_OPEN \<Longrightarrow> store_inv (st\<lparr>simState := x\<rparr>)"
  by (auto simp: store_inv_def)

lemmas log_defs = log_item_in_def log_item_out_def log_cust_in_def log_cust_out_def

text \<open>What each kind of transaction does to the store, when it does not fail.\<close>

lemma log_item_in_Inr:
  assumes "log_item_in p s st = Inr (st', ack, out)"
  shows "simState st \<noteq> STORE_OPEN \<and> st' = st \<and> ack = SIM_KILL \<or>
    simState st = STORE_OPEN \<and> ack = 0 \<and> (\<exists>i counts. bump (itemCount st) i 1 = Inr counts \<and>
      st' = st\<lparr>itemsInStore := itemsInStore st + 1, itemCount := counts\<rparr>)"
  using assms
  by (cases "simState st = STORE_OPEN") (auto simp: log_item_in_def and_if_Inr)

lemma log_item_out_Inr:
  assumes "log_item_out p s st = Inr (st', ack, out)"
  shows "ack \<le> 0 \<and> (st' = st\<lparr>itemsInStore := itemsInStore st - 1\<rparr> \<and> simState st = STORE_CLOSED \<or>
    (\<exists>i counts sold. bump (itemCount st) i (-1) = Inr counts \<and> bump (itemsSold st) i 1 = Inr sold \<and>
      st' = st\<lparr>itemsInStore := itemsInStore st - 1, itemCount := counts, itemsSold := sold\<rparr>))"
  using assms
  by (cases "simState st = STORE_CLOSED") (auto simp: log_item_out_def Let_def and_if_Inr split: option.splits)

lemma log_cust_in_Inr:
  assumes "log_cust_in p s st = Inr (st', ack, out)"
  shows "simState st \<noteq> STORE_OPEN \<and> st' = st \<and> ack = SIM_KILL \<or>
    simState st = STORE_OPEN \<and> ack = customerTotal st + 1 \<and>
    (\<exists>i counts. bump (customerCount st) i 1 = Inr counts \<and>
      st' = st\<lparr>customersInStore := customersInStore st + 1, customerCount := counts,
               customerTotal := customerTotal st + 1\<rparr>)"
  using assms
  by (cases "simState st = STORE_OPEN") (auto simp: log_cust_in_def Let_def and_if_Inr)

lemma log_cust_out_Inr:
  assumes "log_cust_out p s st = Inr (st', ack, out)"
  shows "ack \<le> 0 \<and> (\<exists>i counts n. bump (customerCount st) i (-1) = Inr counts \<and>
    (st' = (cust_left counts n st)\<lparr>customerSales := customerSales (cust_left counts n st) + 1\<rparr> \<or>
     st' = (cust_left counts n st)\<lparr>customerExits := customerExits (cust_left counts n st) + 1\<rparr>))"
  using assms unfolding log_cust_out_def Let_def
  by (cases "strchr s CHR ''<''") (simp_all only: option.case and_if_Inr sum.inject prod.inject, auto)

lemma cust_left_simps [simp]:
  "simState (cust_left counts n st) = simState st"
  "customersInStore (cust_left counts n st) = customersInStore st - 1"
  "customerCount (cust_left counts n st) = counts"
  "customerTotal (cust_left counts n st) = customerTotal st"
  "customerSales (cust_left counts n st) = customerSales st"
  "customerExits (cust_left counts n st) = customerExits st"
  "customerRetries (cust_left counts n st) = customerRetries st + (if n \<noteq> 0 then 1 else 0)"
  "itemsInStore (cust_left counts n st) = itemsInStore st"
  "itemCount (cust_left counts n st) = itemCount st"
  "itemsSold (cust_left counts n st) = itemsSold st"
  by (simp_all add: cust_left_def)

lemma store_inv_logged:
  assumes "store_inv st"
  shows "log_item_in p s st = Inr (st', ack, out) \<Longrightarrow> store_inv st'"
    and "log_item_out p s st = Inr (st', ack, out) \<Longrightarrow> store_inv st'"
    and "log_cust_in p s st = Inr (st', ack, out) \<Longrightarrow> store_inv st'"
    and "log_cust_out p s st = Inr (st', ack, out) \<Longrightarrow> store_inv st'"
  using assms
  by (auto simp: store_inv_def dest!: log_item_in_Inr log_item_out_Inr log_cust_in_Inr
      log_cust_out_Inr bump_Inr)

lemma store_inv_transact:
  assumes "store_inv st" and "transact p code s st = Inr (st', ack, out)"
  shows "store_inv st'"
  using assms store_inv_logged [OF assms(1)]
  by (auto simp: transact_def store_inv_updates split: if_splits)

lemma store_inv_settle: "store_inv st \<Longrightarrow> store_inv (settle st)"
  by (simp add: settle_def store_inv_updates)

section \<open>The life of a store\<close>

text \<open>
  A step of the logging task: one transaction, whatever its code and text, followed by what
  the task does after it. The task ends when the store is empty.
\<close>

inductive store_step :: "store \<Rightarrow> store \<Rightarrow> bool" where
  step: "simState st \<noteq> STORE_EMPTY \<Longrightarrow> transact p code s st = Inr (st', ack, out) \<Longrightarrow>
         store_step st (settle st')"

inductive_cases store_stepE: "store_step st st'"

lemma store_inv_reachable: "store_step\<^sup>*\<^sup>* new_store st \<Longrightarrow> store_inv st"
proof (induction rule: rtranclp_induct)
  case base
  show ?case by (rule store_inv_new)
next
  case (step y z)
  then show ?case
    by (auto elim!: store_stepE intro!: store_inv_settle dest: store_inv_transact)
qed

text \<open>Being open is not regained; a store that is not open takes nobody in.\<close>

lemma transact_not_open:
  assumes "transact p code s st = Inr (st', ack, out)" and "simState st \<noteq> STORE_OPEN"
  shows "simState st' \<noteq> STORE_OPEN" and "customerTotal st' = customerTotal st"
    and "customersInStore st' \<le> customersInStore st" and "itemsInStore st' \<le> itemsInStore st"
    and "0 \<le> ack \<longrightarrow> code \<noteq> SIM_ITEM_IN \<and> code \<noteq> SIM_CUST_IN"
  using assms
  by (auto simp: transact_def Let_def dest!: log_item_in_Inr log_item_out_Inr log_cust_in_Inr
      log_cust_out_Inr split: if_splits)

lemma settle_simps [simp]:
  "customerTotal (settle st) = customerTotal st" "customersInStore (settle st) = customersInStore st"
  "itemsInStore (settle st) = itemsInStore st" "itemCount (settle st) = itemCount st"
  "itemsSold (settle st) = itemsSold st"
  by (simp_all add: settle_def)

text \<open>
  C14. The books of the store balance in every state the logging task can reach, whatever
  transactions other processes send it: the customers waiting per item add up to the
  customers in the store, every customer that ever came is in the store, was served or
  walked out, and at most as many retries are counted as customers have left. While the store
  is open the stock per item adds up to the items in the store. In a store that is not open the
  items in the store are at most that sum: what the janitor takes from a closed store leaves the
  total but not the stock of its kind.
\<close>

theorem store_books_balance:
  assumes "store_step\<^sup>*\<^sup>* new_store st"
  shows "sum_list (customerCount st) = customersInStore st \<and>
    customerTotal st = customersInStore st + customerSales st + customerExits st \<and>
    customerRetries st \<le> customerSales st + customerExits st \<and>
    (if simState st = STORE_OPEN then itemsInStore st = sum_list (itemCount st)
     else itemsInStore st \<le> sum_list (itemCount st))"
  using store_inv_reachable [OF assms] by (simp add: store_inv_def)

theorem store_books_balance_witness:
  "store_step\<^sup>*\<^sup>* new_store (settle (new_store\<lparr>simState := STORE_CLOSING\<rparr>)) \<and>
   customerTotal (settle (new_store\<lparr>simState := STORE_CLOSING\<rparr>)) =
     customersInStore (settle (new_store\<lparr>simState := STORE_CLOSING\<rparr>)) +
     customerSales (settle (new_store\<lparr>simState := STORE_CLOSING\<rparr>)) +
     customerExits (settle (new_store\<lparr>simState := STORE_CLOSING\<rparr>))"
proof -
  have "store_step new_store (settle (new_store\<lparr>simState := STORE_CLOSING\<rparr>))"
    by (rule step [where code = SIM_KILL and p = True and s = "[]"])
      (simp_all add: transact_def new_store_def)
  then have "store_step\<^sup>*\<^sup>* new_store (settle (new_store\<lparr>simState := STORE_CLOSING\<rparr>))" by blast
  with store_books_balance [OF this] show ?thesis by blast
qed

text \<open>
  C15. A store that has begun to close is never opened again, and while it closes it only
  gets emptier: from then on no customer is counted in and neither the customers nor the
  items in the store become more, whatever transactions arrive.
\<close>

theorem closing_store_only_empties:
  assumes "store_step\<^sup>*\<^sup>* st st'" and "simState st \<noteq> STORE_OPEN"
  shows "simState st' \<noteq> STORE_OPEN \<and> customerTotal st' = customerTotal st \<and>
    customersInStore st' \<le> customersInStore st \<and> itemsInStore st' \<le> itemsInStore st"
  using assms(1)
proof (induction rule: rtranclp_induct)
  case base
  with assms(2) show ?case by simp
next
  case (step y z)
  from step(2) obtain p code s st1 ack out
    where t: "transact p code s y = Inr (st1, ack, out)" "z = settle st1"
    by (auto elim: store_stepE)
  have "simState (settle st1) \<noteq> STORE_OPEN"
    using transact_not_open(1) [OF t(1)] step.IH by (simp add: settle_def)
  then show ?case
    using transact_not_open(2-4) [OF t(1)] step.IH t(2) by auto
qed

theorem closing_store_only_empties_witness:
  "customersInStore (settle (new_store\<lparr>simState := STORE_CLOSING, simErrors := 1\<rparr>)) \<le>
   customersInStore (new_store\<lparr>simState := STORE_CLOSING\<rparr>)"
proof -
  have "store_step (new_store\<lparr>simState := STORE_CLOSING\<rparr>)
      (settle (new_store\<lparr>simState := STORE_CLOSING, simErrors := 1\<rparr>))"
    by (rule step [where code = SIM_ERROR and p = True and s = "[]"])
      (simp_all add: transact_def new_store_def)
  then show ?thesis
    using closing_store_only_empties [OF r_into_rtranclp] by auto
qed

section \<open>The texts of the transactions\<close>

text \<open>The formats with which items and customers report, and the location in a reply.\<close>

definition location :: "int \<Rightarrow> int \<Rightarrow> int \<Rightarrow> string" where
  "location z c n = ''<'' @ show_int z @ ''.'' @ show_int c @ ''.'' @ show_int n @ ''>''"

definition item_in_text :: "int \<Rightarrow> string" where
  "item_in_text itemID = show_int itemID"

definition item_out_text :: "int \<Rightarrow> string \<Rightarrow> string" where
  "item_out_text itemID inMsg = show_int itemID @ '' '' @ inMsg"

definition cust_in_text :: "int \<Rightarrow> int \<Rightarrow> string" where
  "cust_in_text itemID waitTime = show_int itemID @ '' '' @ show_int waitTime"

definition cust_exit_text :: "int \<Rightarrow> int \<Rightarrow> int \<Rightarrow> int \<Rightarrow> string" where
  "cust_exit_text customerID itemID transactionID waitTime =
     show_int customerID @ '' '' @ show_int itemID @ '' '' @ show_int transactionID @ '' '' @
     show_int waitTime"

definition cust_sale_text :: "int \<Rightarrow> int \<Rightarrow> int \<Rightarrow> string \<Rightarrow> string" where
  "cust_sale_text customerID itemID retries msg =
     show_int customerID @ '' '' @ show_int itemID @ '' '' @ show_int retries @ '' '' @ msg"

lemma scan_int_lt [simp]: "scan_int (CHR ''<'' # s) = None"
  by (simp add: scan_int_def scan_nat_def is_space_def is_digit_def)

lemma scan_int_end [simp]: "scan_int (show_int i) = Some (i, [])"
  using scan_int_show_int [of "[]" i] by simp

lemma dropWhile_notin: "c \<notin> set s \<Longrightarrow> dropWhile (\<lambda>x. x \<noteq> c) (s @ r) = dropWhile (\<lambda>x. x \<noteq> c) r"
  by (induction s) auto

lemma strchr_None: "c \<notin> set s \<Longrightarrow> strchr s c = None"
  by (induction s) (auto simp: strchr_def)

lemma strchr_append: "c \<notin> set s \<Longrightarrow> strchr (s @ c # r) c = Some (c # r)"
  by (simp add: strchr_def dropWhile_notin)

lemma special_notin_show_int [simp]:
  "CHR ''<'' \<notin> set (show_int i)" "CHR '' '' \<notin> set (show_int i)" "CHR ''>'' \<notin> set (show_int i)"
  using show_int_chars [of _ i] by (auto simp: is_digit_def dest!: show_int_chars)

lemma scan_texts:
  "scan_ints (Suc 0) (item_in_text i) = [i]"
  "scan_ints (Suc 0) (show_int i) = [i]"
  "scan_ints 2 (cust_in_text i w) = [i, w]"
  "scan_ints 4 (cust_exit_text c i t w) = [c, i, t, w]"
  "scan_ints 4 (cust_sale_text c i t (CHR ''<'' # m)) = [c, i, t]"
  by (simp_all add: item_in_text_def cust_in_text_def cust_exit_text_def cust_sale_text_def
      scan_ints.simps eval_nat_numeral)

lemma marker_texts:
  "strchr (item_out_text i m) CHR '' '' = Some (CHR '' '' # m)"
  "takeWhile (\<lambda>c. c \<noteq> CHR '' '') (item_out_text i m) = show_int i"
  "strchr (cust_exit_text c i t w) CHR ''<'' = None"
  "strchr (cust_sale_text c i t (CHR ''<'' # m)) CHR ''<'' = Some (CHR ''<'' # m)"
proof -
  show "strchr (item_out_text i m) CHR '' '' = Some (CHR '' '' # m)"
    by (simp add: item_out_text_def strchr_append)
  have "takeWhile (\<lambda>c. c \<noteq> CHR '' '') (show_int i @ CHR '' '' # m) = show_int i"
    using special_notin_show_int(2) [of i] by (subst takeWhile_append2) auto
  then show "takeWhile (\<lambda>c. c \<noteq> CHR '' '') (item_out_text i m) = show_int i"
    by (simp add: item_out_text_def)
  show "strchr (cust_exit_text c i t w) CHR ''<'' = None"
    by (rule strchr_None) (simp add: cust_exit_text_def)
  show "strchr (cust_sale_text c i t (CHR ''<'' # m)) CHR ''<'' = Some (CHR ''<'' # m)"
    using strchr_append [of "CHR ''<''" "show_int c @ '' '' @ show_int i @ '' '' @ show_int t @ '' ''" m]
    by (simp add: cust_sale_text_def)
qed

definition adjust :: "int \<Rightarrow> int \<Rightarrow> int list \<Rightarrow> int list" where
  "adjust i n xs = xs[nat (i - 1) := xs ! nat (i - 1) + n]"

text \<open>Each text, read by the part of the logging task that it is meant for.\<close>

lemma bump_item: "1 \<le> i \<Longrightarrow> i \<le> 10 \<Longrightarrow> bump xs i d = Inr (adjust i d xs)"
  by (simp add: bump_def adjust_def)

lemma item_texts_understood:
  assumes "simState st = STORE_OPEN" and "1 \<le> i" and "i \<le> 10"
  shows "\<exists>out. transact p SIM_ITEM_IN (item_in_text i) st =
      Inr (st\<lparr>itemsInStore := itemsInStore st + 1, itemCount := adjust i 1 (itemCount st)\<rparr>, 0, out)"
    and "\<exists>out. transact p SIM_ITEM_OUT (item_out_text i m) st =
      Inr (st\<lparr>itemsInStore := itemsInStore st - 1, itemCount := adjust i (-1) (itemCount st),
              itemsSold := adjust i 1 (itemsSold st)\<rparr>, 0, out)"
  using assms by (simp_all add: transact_def log_item_in_def log_item_out_def Let_def marker_texts scan_texts
      scanned_def bump_item)

lemma cust_in_text_understood:
  assumes "simState st = STORE_OPEN" and "1 \<le> i" and "i \<le> 10"
  shows "\<exists>out. transact p SIM_CUST_IN (cust_in_text i w) st =
      Inr (st\<lparr>customersInStore := customersInStore st + 1, customerCount := adjust i 1 (customerCount st),
              customerTotal := customerTotal st + 1\<rparr>, customerTotal st + 1, out)"
  using assms by (simp add: transact_def log_cust_in_def Let_def scan_texts scanned_def bump_item)

lemma cust_out_texts_understood:
  assumes "simState st = STORE_OPEN" and "1 \<le> i" and "i \<le> 10"
  shows "\<exists>out. transact p SIM_CUST_OUT (cust_sale_text c i t (location x y z)) st =
      Inr ((cust_left (adjust i (-1) (customerCount st)) t st)\<lparr>customerSales := customerSales st + 1\<rparr>, 0, out)"
    and "\<exists>out. transact p SIM_CUST_OUT (cust_exit_text c i t w) st =
      Inr ((cust_left (adjust i (-1) (customerCount st)) t st)\<lparr>customerExits := customerExits st + 1\<rparr>, 0, out)"
proof -
  have loc: "location x y z = CHR ''<'' # tl (location x y z)"
    by (simp add: location_def)
  show "\<exists>out. transact p SIM_CUST_OUT (cust_sale_text c i t (location x y z)) st =
      Inr ((cust_left (adjust i (-1) (customerCount st)) t st)\<lparr>customerSales := customerSales st + 1\<rparr>, 0, out)"
    by (subst loc, simp only: transact_def log_cust_out_def Let_def marker_texts scan_texts)
      (simp add: scanned_def bump_item assms)
  show "\<exists>out. transact p SIM_CUST_OUT (cust_exit_text c i t w) st =
      Inr ((cust_left (adjust i (-1) (customerCount st)) t st)\<lparr>customerExits := customerExits st + 1\<rparr>, 0, out)"
    by (simp add: transact_def log_cust_out_def Let_def marker_texts scan_texts scanned_def bump_item assms)
qed

text \<open>
  C16. The logging task understands what items and customers report. For every item number
  of the demo, in an open store: an arriving item is added to the stock of its number; a
  sold item is taken from it and counted as sold; an arriving customer is counted for the
  item it wants and gets the next customer number as acknowledgement; a customer that
  leaves with the location of its item counts as a sale, one that reports its waiting time
  as a walk-out, and a nonzero number of retries is counted. None of these texts makes the
  task read a variable that was not set or write outside an array.
\<close>

theorem transactions_understood:
  assumes "simState st = STORE_OPEN" and "1 \<le> i" and "i \<le> 10"
  shows "\<exists>out1 out2 out3 out4 out5.
    transact p SIM_ITEM_IN (item_in_text i) st =
      Inr (st\<lparr>itemsInStore := itemsInStore st + 1, itemCount := adjust i 1 (itemCount st)\<rparr>, 0, out1) \<and>
    transact p SIM_ITEM_OUT (item_out_text i m) st =
      Inr (st\<lparr>itemsInStore := itemsInStore st - 1, itemCount := adjust i (-1) (itemCount st),
              itemsSold := adjust i 1 (itemsSold st)\<rparr>, 0, out2) \<and>
    transact p SIM_CUST_IN (cust_in_text i w) st =
      Inr (st\<lparr>customersInStore := customersInStore st + 1,
              customerCount := adjust i 1 (customerCount st),
              customerTotal := customerTotal st + 1\<rparr>, customerTotal st + 1, out3) \<and>
    transact p SIM_CUST_OUT (cust_sale_text c i t (location x y z)) st =
      Inr ((cust_left (adjust i (-1) (customerCount st)) t st)\<lparr>customerSales := customerSales st + 1\<rparr>,
           0, out4) \<and>
    transact p SIM_CUST_OUT (cust_exit_text c i t w) st =
      Inr ((cust_left (adjust i (-1) (customerCount st)) t st)\<lparr>customerExits := customerExits st + 1\<rparr>,
           0, out5)"
  by (simp only: ex_simps simp_thms item_texts_understood [OF assms] cust_in_text_understood [OF assms]
      cust_out_texts_understood [OF assms])

theorem transactions_understood_witness:
  "\<exists>out. transact True SIM_CUST_OUT (cust_sale_text 7 3 2 (location 1 1 5)) new_store =
     Inr ((cust_left ((replicate 10 0)[2 := -1]) 2 new_store)\<lparr>customerSales := 1\<rparr>, 0, out)"
  using transactions_understood [of new_store 3 True "[]" 5 7 2 1 1 5]
  by (auto simp: new_store_def adjust_def)

section \<open>Closing down\<close>

fun run_log :: "bool \<Rightarrow> (int \<times> string) list \<Rightarrow> store \<Rightarrow> fault + store" where
  "run_log p [] st = Inr st"
| "run_log p ((code, s) # ts) st =
     and_if (transact p code s st) (\<lambda>(st', ack, out). run_log p ts (settle st'))"

text \<open>A customer that leaves, with or without its item.\<close>

definition leaving :: "string \<Rightarrow> bool" where
  "leaving s \<longleftrightarrow> (\<exists>c i t. 1 \<le> i \<and> i \<le> 10 \<and>
     ((\<exists>x y z. s = cust_sale_text c i t (location x y z)) \<or> (\<exists>w. s = cust_exit_text c i t w)))"

lemma leaving_transact:
  assumes "leaving s"
  shows "\<exists>st' ack out. transact p SIM_CUST_OUT s st = Inr (st', ack, out) \<and>
    simState st' = simState st \<and> customersInStore st' = customersInStore st - 1"
proof -
  have b: "1 \<le> i \<Longrightarrow> i \<le> 10 \<Longrightarrow> \<exists>ys. bump xs i d = Inr ys" for xs i d
    by (simp add: bump_def)
  from assms obtain c i t where i: "1 \<le> i" "i \<le> 10"
    and s: "(\<exists>x y z. s = cust_sale_text c i t (location x y z)) \<or> (\<exists>w. s = cust_exit_text c i t w)"
    unfolding leaving_def by blast
  obtain ys where ys: "bump (customerCount st) i (-1) = Inr ys" using b i by blast
  from s show ?thesis
  proof
    assume "\<exists>x y z. s = cust_sale_text c i t (location x y z)"
    then obtain m where "s = cust_sale_text c i t (CHR ''<'' # m)" by (auto simp: location_def)
    with ys show ?thesis
      by (simp add: transact_def log_cust_out_def Let_def marker_texts scan_texts scanned_def)
  next
    assume "\<exists>w. s = cust_exit_text c i t w"
    with ys show ?thesis
      by (auto simp: transact_def log_cust_out_def Let_def marker_texts scan_texts scanned_def)
  qed
qed

lemma last_customer_closes:
  assumes "simState st = STORE_CLOSING" and "customersInStore st = int (length ls)" and "ls \<noteq> []"
    and "\<forall>l \<in> set ls. leaving l"
  shows "\<exists>st'. run_log p (map (Pair SIM_CUST_OUT) ls) st = Inr st' \<and> simState st' = STORE_CLOSED \<and>
    customersInStore st' = 0"
  using assms
proof (induction ls arbitrary: st)
  case (Cons l ls)
  obtain st' ack out where t: "transact p SIM_CUST_OUT l st = Inr (st', ack, out)"
    "simState st' = STORE_CLOSING" "customersInStore st' = int (length ls)"
    using leaving_transact [of l p st] Cons.prems by auto
  show ?case
  proof (cases ls)
    case Nil
    with t show ?thesis by (simp add: settle_def)
  next
    case (Cons l' ls')
    with t have "settle st' = st'" by (simp add: settle_def)
    with t Cons Cons.IH [of st'] Cons.prems show ?thesis by simp
  qed
qed simp

lemma second_kill:
  assumes "simState st = STORE_CLOSED" and "customersInStore st = 0"
  shows "(\<exists>out. transact p SIM_KILL s st = Inr (st\<lparr>simState := STORE_CLOSING\<rparr>, 0, out)) \<and>
    settle (st\<lparr>simState := STORE_CLOSING\<rparr>) = st"
proof -
  have "settle (st\<lparr>simState := STORE_CLOSING\<rparr>) = st"
    using assms by (cases st) (simp add: settle_def)
  then show ?thesis using assms(2) by (simp add: transact_def)
qed

text \<open>
  C17. Closing completes: when an open store is told to close and every customer in it then
  reports that it leaves, with or without an item, the store is closed as the last one
  leaves (at once, if nobody is in), which is when the janitor is started. A second request to
  close, sent while the janitor of the closed store is at work, takes the store back to the closing
  state and, as nobody is in it, through it again: the step that starts a janitor is taken
  twice.
\<close>

theorem closing_completes:
  assumes "simState st = STORE_OPEN" and "customersInStore st = int (length ls)"
    and "\<forall>l \<in> set ls. leaving l"
  shows "\<exists>st'. run_log p ((SIM_KILL, []) # map (Pair SIM_CUST_OUT) ls) st = Inr st' \<and>
    simState st' = STORE_CLOSED \<and> customersInStore st' = 0 \<and>
    (\<exists>out. transact p SIM_KILL s st' = Inr (st'\<lparr>simState := STORE_CLOSING\<rparr>, 0, out)) \<and>
    settle (st'\<lparr>simState := STORE_CLOSING\<rparr>) = st'"
proof -
  have "\<exists>st'. run_log p ((SIM_KILL, []) # map (Pair SIM_CUST_OUT) ls) st = Inr st' \<and>
    simState st' = STORE_CLOSED \<and> customersInStore st' = 0"
  proof (cases ls)
    case Nil
    with assms(2) show ?thesis by (simp add: transact_def settle_def)
  next
    case (Cons l ls')
    with assms(2) have "settle (st\<lparr>simState := STORE_CLOSING\<rparr>) = st\<lparr>simState := STORE_CLOSING\<rparr>"
      by (simp add: settle_def)
    then show ?thesis
      using last_customer_closes [of "st\<lparr>simState := STORE_CLOSING\<rparr>" ls p] assms Cons
      by (simp add: transact_def)
  qed
  with second_kill show ?thesis by blast
qed

theorem closing_completes_witness:
  "\<exists>st'. run_log True [(SIM_KILL, []), (SIM_CUST_OUT, cust_exit_text 1 3 0 5000)]
      (new_store\<lparr>customersInStore := 1\<rparr>) = Inr st' \<and> simState st' = STORE_CLOSED \<and>
    settle (st'\<lparr>simState := STORE_CLOSING\<rparr>) = st'"
proof -
  have "leaving (cust_exit_text 1 3 0 5000)" 
    unfolding leaving_def by (intro exI [of _ 1] exI [of _ 3] exI [of _ 0]) auto
  then show ?thesis
    using closing_completes [of "new_store\<lparr>customersInStore := 1\<rparr>" "[cust_exit_text 1 3 0 5000]" True]
    by (auto simp: new_store_def)
qed

end
