(* ===== verification/Inv_Tasks.thy ===== *)
theory Inv_Tasks
  imports Inv_Store
begin

text \<open>
  The processes of the inventory simulation, \<^verbatim>\<open>src/demos/inventory_sim/inventory_sim.c\<close>: the
  logging task around the store, items, customers, the janitor, the commands that start and
  stop them, and \<^verbatim>\<open>main\<close>. The static variables belong to the logging task alone and are
  passed along as its store. A fork is a call whose reply says whether the program goes on
  as the child.
\<close>

section \<open>Helpers\<close>

definition randomGet :: "int \<Rightarrow> int \<Rightarrow> int prog" where
  "randomGet minValue maxValue =
     and_then (sys C_rand) (\<lambda>r. ret (r_val r mod (maxValue - minValue + 1) + minValue))"

definition childSpawn :: "unit prog \<Rightarrow> unit prog" where
  "childSpawn func =
     and_then (sys C_fork) (\<lambda>r.
     if r_ret r < 0 then and_then (emit (C_print ''Fork failed'')) (\<lambda>_. exit_prog 1)
     else if r_ret r = 0 then and_then func (\<lambda>_. exit_prog 0)
     else ret ())"

abbreviation (input) TIPC_BOGUS_SUBSCR_TYPE :: "'a::one" where "TIPC_BOGUS_SUBSCR_TYPE \<equiv> TIPC_TOP_SRV"
abbreviation (input) TIPC_BOGUS_SUBSCR_INST :: "'a::zero" where "TIPC_BOGUS_SUBSCR_INST \<equiv> 0"

definition subscription :: "tipc_subscr \<Rightarrow> u32 \<Rightarrow> u32 \<Rightarrow> u32 \<Rightarrow> u32 \<Rightarrow> u32 \<Rightarrow> tipc_subscr" where
  "subscription subscr type lower upper timeout filt =
     subscr\<lparr>sub_seq := \<lparr>seq_type = htonl type, seq_lower = htonl lower, seq_upper = htonl upper\<rparr>,
            sub_timeout := htonl timeout, sub_filter := htonl filt\<rparr>"

text \<open>\<^verbatim>\<open>close\<close>, whose result is not looked at.\<close>

definition close_fd :: "int \<Rightarrow> unit prog" where
  "close_fd fd = and_then (sys (C_close fd)) (\<lambda>_. ret ())"

definition say :: "string \<Rightarrow> unit prog" where
  "say s = emit (C_print s)"

definition simDelay :: "int \<Rightarrow> unit prog" where
  "simDelay delay_in_msecs =
     and_then (sys (C_socket AF_TIPC SOCK_SEQPACKET 0)) (\<lambda>r.
     let sockfd = r_ret r in
     if sockfd < 0 then say ''simDelay: Can't create socket'' else
     and_then uninit_subscr (\<lambda>subscr.
     and_then (sys (C_send_subscr sockfd (subscription subscr TIPC_BOGUS_SUBSCR_TYPE
       TIPC_BOGUS_SUBSCR_INST TIPC_BOGUS_SUBSCR_INST (of_int delay_in_msecs) TIPC_SUB_SERVICE))) (\<lambda>r.
     and_then
       (if r_ret r < 0 then say ''simDelay: Can't issue timeout subscription'' else
        and_then (sys (C_recv_event sockfd)) (\<lambda>r.
        if r_ret r < 0 then say ''simDelay: Error receiving subscription event''
        else if ev_event (r_event r) \<noteq> htonl TIPC_SUBSCR_TIMEOUT
        then say ''simDelay: Unexpected subscription event received''
        else ret ()))
     (\<lambda>_. close_fd sockfd))))"

definition simFind :: "bool prog" where
  "simFind =
     and_then (sys (C_socket AF_TIPC SOCK_SEQPACKET 0)) (\<lambda>r.
     let sockfd_s = r_ret r in
     and_then
       (if sockfd_s < 0 then and_then (say ''can't create socket'') (\<lambda>_. ret False) else
        and_then uninit_subscr (\<lambda>subscr.
        and_then (sys (C_send_subscr sockfd_s (subscription subscr TIPC_INV_SIM_TYPE
          (-1) (-1) 10 TIPC_SUB_SERVICE))) (\<lambda>r.
        if r_ret r < 0 then and_then (say ''subscription failure'') (\<lambda>_. ret False) else
        and_then (sys (C_recv_event sockfd_s)) (\<lambda>r.
        if r_ret r < 0 then and_then (say ''subscription event failure'') (\<lambda>_. ret False)
        else ret (ev_event (r_event r) = htonl TIPC_PUBLISHED)))))
     (\<lambda>res. and_then (close_fd sockfd_s) (\<lambda>_. ret res)))"

text \<open>The name of the logging task; the message with code and text, in host byte order.\<close>

definition log_name :: "sockaddr_tipc \<Rightarrow> sockaddr_tipc" where
  "log_name a = a\<lparr>sa_family := AF_TIPC, sa_addrtype := TIPC_ADDR_NAME,
                  sa_w0 := TIPC_INV_SIM_TYPE, sa_w1 := -1, sa_w2 := 0\<rparr>"

definition trans_msg :: "int \<Rightarrow> string \<Rightarrow> bytes" where
  "trans_msg code text = int_bytes (of_int code) @ str_bytes text"

definition simLog :: "int \<Rightarrow> string \<Rightarrow> int prog" where
  "simLog code text =
     (if length text + 1 > TRANSACTION_CONTENT_SIZE then fault Out_of_bounds else
      and_then (sys (C_socket AF_TIPC SOCK_SEQPACKET 0)) (\<lambda>r.
      let sockfd = r_ret r in
      if sockfd < 0
      then and_then (say ''Can't create socket to send transactions'') (\<lambda>_. ret SIM_ERROR) else
      and_then uninit_addr (\<lambda>a.
      and_then (sys (C_sendto sockfd (trans_msg code text) 0 (log_name a))) (\<lambda>r.
      and_then
        (if r_ret r < 0 then and_then (say ''Can't send transaction'') (\<lambda>_. ret SIM_ERROR) else
         and_then (sys (C_recv sockfd 4 0)) (\<lambda>r.
         if r_ret r \<noteq> 4 then
           and_then (say ''Can't receive transaction acknowledgement'') (\<lambda>_.
           and_then (say (''Transaction was '' @ show_int code @ '', '' @ text)) (\<lambda>_. ret SIM_ERROR))
         else ret (sint (bytes_int (r_data r)))))
      (\<lambda>res. and_then (close_fd sockfd) (\<lambda>_. ret res))))))"

definition log_quiet :: "int \<Rightarrow> string \<Rightarrow> unit prog" where
  "log_quiet code text = and_then (simLog code text) (\<lambda>_. ret ())"

section \<open>The janitor\<close>

definition simJanitor_turn :: "int \<Rightarrow> u32 \<Rightarrow> unit \<Rightarrow> (unit + unit) prog" where
  "simJanitor_turn sockfd_s own_node _ =
     and_then (sys (C_recv_event sockfd_s)) (\<lambda>r.
     let event = r_event r in
     if r_ret r < 0 then
       and_then (log_quiet SIM_ERROR ''janitor subscription event failure\<newline>'') (\<lambda>_. ret (Inr ()))
     else if ev_event event = htonl TIPC_SUBSCR_TIMEOUT then ret (Inr ())
     else if ev_event event = htonl TIPC_PUBLISHED \<and> port_node (ev_port event) = htonl own_node then
       and_then uninit_addr (\<lambda>a.
       let item = a\<lparr>sa_family := AF_TIPC, sa_addrtype := TIPC_ADDR_ID,
                    sa_w1 := ntohl (port_node (ev_port event)),
                    sa_w0 := ntohl (port_ref (ev_port event))\<rparr> in
       and_then (sys (C_socket AF_TIPC SOCK_SEQPACKET 0)) (\<lambda>r.
       let sockfd_c = r_ret r in
       and_then (sys (C_sendto sockfd_c [0] 0 item)) (\<lambda>_.
       and_then (close_fd sockfd_c) (\<lambda>_. ret (Inl ())))))
     else ret (Inl ()))"

definition simJanitorTask :: "unit prog" where
  "simJanitorTask =
     and_then (sys (C_socket AF_TIPC SOCK_SEQPACKET 0)) (\<lambda>r.
     let sockfd_s = r_ret r in
     and_then
       (if sockfd_s < 0 then log_quiet SIM_ERROR ''janitor can't create socket\<newline>'' else
        and_then (sys (C_getsockname sockfd_s)) (\<lambda>self.
        if 0 > r_ret self then log_quiet SIM_ERROR ''janitor can't determine own address\<newline>'' else
        and_then uninit_subscr (\<lambda>subscr.
        and_then (sys (C_send_subscr sockfd_s (subscription subscr TIPC_INV_SIM_TYPE
          1 10 10 TIPC_SUB_PORTS))) (\<lambda>r.
        if r_ret r < 0 then log_quiet SIM_ERROR ''janitor subscription failure\<newline>'' else
        and_then (loop (simJanitor_turn sockfd_s (id_node (r_addr self))) ()) (\<lambda>_.
        simDelay 100)))))
     (\<lambda>_. and_then (close_fd sockfd_s) (\<lambda>_. log_quiet SIM_DONE ''all done\<newline>'')))"

section \<open>The logging task\<close>

definition pad3 :: "string \<Rightarrow> string" where
  "pad3 s = replicate (3 - length s) CHR '' '' @ s"

definition show_row :: "string \<Rightarrow> int list \<Rightarrow> string" where
  "show_row title xs = title @ concat (map (\<lambda>x. '' '' @ pad3 (show_int x)) xs)"

definition showSim :: "store \<Rightarrow> unit prog" where
  "showSim st = block
     [say (show_row ''Item #   :'' [DEMO_ITEM_ID_MIN..DEMO_ITEM_ID_MAX]),
      say (''----------'' @ concat (replicate NUM_DEMO_ITEMS ''----'')),
      say (show_row ''Sold     :'' (itemsSold st)),
      say (show_row ''In Stock :'' (itemCount st)),
      say (show_row ''Customers:'' (customerCount st)),
      say (''Customer totals: sales = '' @ show_int (customerSales st) @ '', walkouts = '' @
           show_int (customerExits st) @ '', retries = '' @ show_int (customerRetries st)),
      say (''Simulation totals: errors = '' @ show_int (simErrors st) @ '', warnings = '' @
           show_int (simWarnings st))]"

text \<open>
  Which transactions read their text; a text without a terminator within the 100 bytes is
  a fault for those.
\<close>

definition reads_text :: "bool \<Rightarrow> int \<Rightarrow> store \<Rightarrow> bool" where
  "reads_text printTrans code st \<longleftrightarrow>
     (if code = SIM_DONE \<or> code = SIM_KILL then False
      else if code = SIM_INFO then printTrans
      else if code = SIM_ITEM_IN \<or> code = SIM_CUST_IN then simState st = STORE_OPEN
      else if code = SIM_ITEM_OUT then simState st \<noteq> STORE_CLOSED
      else True)"

definition logTransaction :: "int \<Rightarrow> bool \<Rightarrow> store \<Rightarrow> store prog" where
  "logTransaction sockfd_t printTrans st =
     and_then (sys (C_accept sockfd_t)) (\<lambda>r.
     let sockfd_n = r_ret r in
     if sockfd_n < 0 then and_then (say ''connection failure'') (\<lambda>_. ret st) else
     and_then (uninit_bytes (4 + TRANSACTION_CONTENT_SIZE)) (\<lambda>msg.
     and_then (receive (C_recv sockfd_n 104 MSG_DONTWAIT) msg) (\<lambda>r.
     let msg = recv_into msg r in
     and_then
       (if r_ret r < 0 then and_then (say ''Error receiving transaction'') (\<lambda>_. ret st) else
        let code = sint (bytes_int msg); text = c_string (drop 4 msg) in
        if text = None \<and> reads_text printTrans code st then fault Out_of_bounds else
        case transact printTrans code (case text of None \<Rightarrow> [] | Some s \<Rightarrow> s) st of
          Inl e \<Rightarrow> fault e
        | Inr (st, ack_code, out) \<Rightarrow>
            and_then (for_each out say) (\<lambda>_.
            and_then (sys (C_send sockfd_n (int_bytes (of_int ack_code)) 0)) (\<lambda>r.
            and_then (only_if (r_ret r < 0) (say ''couldn't acknowledge transaction'')) (\<lambda>_.
            ret st))))
     (\<lambda>st. and_then (close_fd sockfd_n) (\<lambda>_. ret st)))))"

text \<open>
  What follows a transaction: closing the store when the last customer has left, with the
  final statistics and the janitor; \<open>None\<close> is the end of the task.
\<close>

definition after_transaction :: "store \<Rightarrow> store option prog" where
  "after_transaction st =
     (case simState st of
        STORE_OPEN \<Rightarrow> ret (Some st)
      | STORE_CLOSING \<Rightarrow>
          if customersInStore st = 0 then
            let st = st\<lparr>simState := STORE_CLOSED\<rparr> in
            and_then (say ''Store closed'') (\<lambda>_.
            and_then (showSim st) (\<lambda>_.
            and_then (childSpawn simJanitorTask) (\<lambda>_. ret (Some st))))
          else ret (Some st)
      | STORE_CLOSED \<Rightarrow> ret (Some st)
      | STORE_EMPTY \<Rightarrow>
          and_then (say ''Store cleanup completed'') (\<lambda>_.
          and_then (only_if (itemsInStore st \<noteq> 0)
            (say (''WARNING: '' @ show_int (itemsInStore st) @ '' items left in store''))) (\<lambda>_.
          ret None)))"

text \<open>
  A turn of the inner loop. It goes on with the store, ends the inner loop with the event
  that broke it, or ends the task (\<open>None\<close>).
\<close>

definition log_watch :: "int \<Rightarrow> u8 \<Rightarrow> store \<Rightarrow> (store + (store \<times> tipc_event) option) prog" where
  "log_watch sockfd_w handle st =
     and_then (sys (C_recv_event sockfd_w)) (\<lambda>r.
     let event = r_event r in
     if r_ret r < 0 then
       and_then (say ''Error recv subscription on item 0'') (\<lambda>_. ret (Inr None))
     else if simState st \<noteq> STORE_OPEN then ret (Inl st)
     else if ev_event event = htonl TIPC_PUBLISHED then ret (Inr (Some (st, event)))
     else if ev_event event = htonl TIPC_SUBSCR_TIMEOUT \<and>
             sub_handle (ev_s event) \<noteq> [] \<and> hd (sub_handle (ev_s event)) = handle
     then ret (Inr (Some (st, event)))
     else ret (Inl st))"

definition simLog_turn ::
  "int \<Rightarrow> int \<Rightarrow> bool \<Rightarrow> u8 \<Rightarrow> store \<Rightarrow> (store + (store \<times> tipc_event) option) prog" where
  "simLog_turn sockfd_t sockfd_w printTrans handle st =
     and_then (sys (C_select [sockfd_t, sockfd_w])) (\<lambda>r.
     if r_ret r < 0 then and_then (say ''Select error'') (\<lambda>_. ret (Inr None)) else
     and_then
       (if sockfd_t \<in> set (r_ready r)
        then and_then (logTransaction sockfd_t printTrans st) after_transaction
        else ret (Some st))
     (\<lambda>next_st. case next_st of
        None \<Rightarrow> ret (Inr None)
      | Some st \<Rightarrow>
          if sockfd_w \<notin> set (r_ready r) then ret (Inl st) else log_watch sockfd_w handle st))"

text \<open>The halt: waiting until item 0 is withdrawn; \<open>False\<close> is an error.\<close>

definition halted_turn :: "int \<Rightarrow> unit \<Rightarrow> (unit + bool) prog" where
  "halted_turn sockfd_w _ =
     and_then (sys (C_recv_event sockfd_w)) (\<lambda>r.
     if r_ret r < 0 then
       and_then (say ''Error recv subscription on item 0'') (\<lambda>_. ret (Inr False))
     else if ev_event (r_event r) = htonl TIPC_WITHDRAWN then ret (Inr True)
     else ret (Inl ()))"

definition simLog_round ::
  "int \<Rightarrow> int \<Rightarrow> bool \<Rightarrow> store \<times> tipc_subscr \<times> u8 \<Rightarrow> ((store \<times> tipc_subscr \<times> u8) + unit) prog" where
  "simLog_round sockfd_t sockfd_w printTrans = (\<lambda>(st, subscr, handle).
     let handle = handle + 1;
         subscr = (subscription subscr TIPC_BOGUS_SUBSCR_TYPE TIPC_BOGUS_SUBSCR_INST
                     TIPC_BOGUS_SUBSCR_INST 10000 TIPC_SUB_SERVICE)
                  \<lparr>sub_handle := handle # tl (sub_handle subscr)\<rparr> in
     and_then (sys (C_send_subscr sockfd_w subscr)) (\<lambda>r.
     if r_ret r < 0 then and_then (say ''Can't watch for item 0'') (\<lambda>_. ret (Inr ())) else
     and_then (loop (simLog_turn sockfd_t sockfd_w printTrans handle) st) (\<lambda>broken.
     case broken of
       None \<Rightarrow> ret (Inr ())
     | Some (st, event) \<Rightarrow>
         and_then (showSim st) (\<lambda>_.
         if ev_event event = htonl TIPC_PUBLISHED then
           and_then (say ''Simulation halted'') (\<lambda>_.
           and_then (loop (halted_turn sockfd_w) ()) (\<lambda>resumed.
           if resumed
           then and_then (say ''Simulation resumed'') (\<lambda>_. ret (Inl (st, subscr, handle)))
           else ret (Inr ())))
         else ret (Inl (st, subscr, handle))))))"

definition simLogTask :: "bool \<Rightarrow> unit prog" where
  "simLogTask printTrans =
     and_then (say ''Creating simulated store'') (\<lambda>_.
     and_then (sys (C_socket AF_TIPC SOCK_SEQPACKET 0)) (\<lambda>r.
     let sockfd_t = r_ret r in
     and_then
       (if sockfd_t < 0
        then and_then (say ''Can't create socket to handle transactions'') (\<lambda>_. ret (-1)) else
        and_then uninit_addr (\<lambda>a.
        let trans_srv_addr = a\<lparr>sa_family := AF_TIPC, sa_addrtype := TIPC_ADDR_NAME,
              sa_w0 := TIPC_INV_SIM_TYPE, sa_w1 := -1, sa_scope := TIPC_NODE_SCOPE\<rparr> in
        and_then (sys (C_bind sockfd_t trans_srv_addr)) (\<lambda>r.
        if r_ret r < 0 then and_then (say ''Can't bind to transaction socket'') (\<lambda>_. ret (-1)) else
        and_then (sys (C_listen sockfd_t 5)) (\<lambda>r.
        if r_ret r < 0 then and_then (say ''Can't listen on transaction socket'') (\<lambda>_. ret (-1)) else
        and_then (sys (C_socket AF_TIPC SOCK_SEQPACKET 0)) (\<lambda>r.
        let sockfd_w = r_ret r in
        if sockfd_w < 0
        then and_then (say ''Can't create socket to watch for item 0'') (\<lambda>_. ret sockfd_w) else
        and_then uninit_addr (\<lambda>topsrv.
        let topsrv = topsrv\<lparr>sa_family := AF_TIPC, sa_addrtype := TIPC_ADDR_NAME,
              sa_w0 := TIPC_TOP_SRV, sa_w1 := TIPC_TOP_SRV, sa_w2 := 0\<rparr> in
        and_then (sys (C_connect sockfd_w topsrv)) (\<lambda>r.
        if r_ret r < 0
        then and_then (say ''Can't connect to TIPC topology server'') (\<lambda>_. ret sockfd_w) else
        and_then uninit_subscr (\<lambda>subscr.
        let subscr = (subscription subscr TIPC_INV_SIM_TYPE 0 0 TIPC_WAIT_FOREVER TIPC_SUB_SERVICE)
              \<lparr>sub_handle := 0 # tl (sub_handle subscr)\<rparr> in
        and_then (sys (C_send_subscr sockfd_w subscr)) (\<lambda>r.
        if r_ret r < 0
        then and_then (say ''Can't send bogus request to topology server'') (\<lambda>_. ret sockfd_w) else
        and_then (showSim new_store) (\<lambda>_.
        and_then (loop (simLog_round sockfd_t sockfd_w printTrans) (new_store, subscr, 0)) (\<lambda>_.
        ret sockfd_w)))))))))))
     (\<lambda>sockfd_w. block [close_fd sockfd_w, close_fd sockfd_t, say ''Simulation terminated''])))"

section \<open>Items\<close>

definition item_name :: "int \<Rightarrow> string" where
  "item_name itemID = ''Item '' @ show_int itemID"

text \<open>Cutting a string behind the first \<^verbatim>\<open>>\<close>, if there is one.\<close>

definition cut_marker :: "string \<Rightarrow> string" where
  "cut_marker s = (case strchr s CHR ''>'' of
                     None \<Rightarrow> s
                   | Some _ \<Rightarrow> takeWhile (\<lambda>c. c \<noteq> CHR ''>'') s @ ''>'')"

definition node_location :: "u32 \<Rightarrow> string" where
  "node_location a = location (sint (tipc_zone a)) (sint (tipc_cluster a)) (sint (tipc_node a))"

text \<open>A customer's request as the item answers it; the answer has to fit into 50 bytes.\<close>

definition reply_text :: "u32 \<Rightarrow> string \<Rightarrow> string" where
  "reply_text own inMsg = node_location own @ inMsg"

definition simItem_turn :: "int \<Rightarrow> int \<Rightarrow> u32 \<Rightarrow> bytes \<Rightarrow> (bytes + int) prog" where
  "simItem_turn itemID sockfd_l own inMsg =
     and_then (sys (C_accept sockfd_l)) (\<lambda>r.
     let sockfd_s = r_ret r in
     if sockfd_s < 0 then
       and_then (log_quiet SIM_ERROR (item_name itemID @ '' connection failure\<newline>''))
         (\<lambda>_. ret (Inr SIM_ERROR))
     else
       and_then (receive (C_recv sockfd_s (int MSG_SIZE_MAX) 0) inMsg) (\<lambda>r.
       let inMsg = recv_into inMsg r in
       and_then
         (if r_ret r \<le> 0 then
            and_then (log_quiet SIM_WARN (item_name itemID @ '' didn't get customer request\<newline>''))
              (\<lambda>_. ret (Inl inMsg))
          else case c_string inMsg of
            None \<Rightarrow> fault Out_of_bounds
          | Some req \<Rightarrow>
              let outMsg = reply_text own req; msgSize = int (length outMsg) + 1 in
              if msgSize > int MSG_SIZE_MAX then fault Out_of_bounds else
              and_then (sys (C_send sockfd_s (str_bytes outMsg) 0)) (\<lambda>r.
              if r_ret r \<noteq> msgSize then
                and_then (log_quiet SIM_WARN (item_name itemID @ '' couldn't reply to customer\<newline>''))
                  (\<lambda>_. ret (Inl inMsg))
              else
                and_then (simLog SIM_ITEM_OUT (item_out_text itemID (cut_marker req)))
                  (\<lambda>simRes. ret (Inr simRes))))
       (\<lambda>res. and_then (close_fd sockfd_s) (\<lambda>_. ret res))))"

text \<open>The delay before an item or a customer appears: random, as given, or none.\<close>

definition lag :: "int \<Rightarrow> int \<Rightarrow> int \<Rightarrow> int \<Rightarrow> unit prog" where
  "lag lagTime speed minWait maxWait =
     (if lagTime = 0 then
        and_then (randomGet minWait maxWait) (\<lambda>n. and_then (c_div n speed) simDelay)
      else if lagTime > 0 then and_then (c_div lagTime speed) simDelay
      else ret ())"

definition pick_item :: "int \<Rightarrow> int prog" where
  "pick_item itemID =
     (if itemID = 0 then randomGet DEMO_ITEM_ID_MIN DEMO_ITEM_ID_MAX else ret itemID)"

definition simItem :: "int \<Rightarrow> int \<Rightarrow> int \<Rightarrow> int prog" where
  "simItem itemID lagTime speed =
     and_then (pick_item itemID) (\<lambda>itemID.
     and_then (lag lagTime speed 0 8000) (\<lambda>_.
     and_then (sys (C_socket AF_TIPC SOCK_SEQPACKET 0)) (\<lambda>r.
     let sockfd_l = r_ret r in
     if sockfd_l < 0 then
       and_then (log_quiet SIM_ERROR (item_name itemID @ '' can't create socket\<newline>''))
         (\<lambda>_. ret SIM_ERROR)
     else
       and_then
         (and_then (sys (C_getsockname sockfd_l)) (\<lambda>self.
          if 0 > r_ret self then
            and_then (log_quiet SIM_ERROR (item_name itemID @ '' can't determine own address\<newline>''))
              (\<lambda>_. ret SIM_ERROR)
          else
          and_then uninit_addr (\<lambda>a.
          let addr = a\<lparr>sa_family := AF_TIPC, sa_addrtype := TIPC_ADDR_NAME,
                       sa_w0 := TIPC_INV_SIM_TYPE, sa_w1 := of_int itemID,
                       sa_scope := TIPC_ZONE_SCOPE\<rparr> in
          and_then (sys (C_bind sockfd_l addr)) (\<lambda>r.
          if r_ret r < 0 then
            and_then (log_quiet SIM_ERROR (item_name itemID @ '' can't publish its name\<newline>''))
              (\<lambda>_. ret SIM_ERROR)
          else
          and_then (sys (C_listen sockfd_l 5)) (\<lambda>r.
          if r_ret r < 0 then
            and_then (log_quiet SIM_ERROR (item_name itemID @ '' can't listen for customers\<newline>''))
              (\<lambda>_. ret SIM_ERROR)
          else
          and_then (simLog SIM_ITEM_IN (item_in_text itemID)) (\<lambda>ack.
          if ack < 0 then ret SIM_ERROR else
          and_then (uninit_bytes MSG_SIZE_MAX) (\<lambda>inMsg.
          loop (simItem_turn itemID sockfd_l (id_node (r_addr self))) inMsg)))))))
       (\<lambda>simRes. and_then (close_fd sockfd_l) (\<lambda>_. ret simRes)))))"

text \<open>
  \<^verbatim>\<open>do { .. } while ((repeats < 0) || (--repeats > 0))\<close> around an item or a customer; a
  negative result ends it.
\<close>

definition repeat_turn :: "int prog \<Rightarrow> int \<Rightarrow> (int + unit) prog" where
  "repeat_turn m repeats =
     and_then m (\<lambda>simRes.
     if simRes < 0 then ret (Inr ())
     else if repeats < 0 then ret (Inl repeats)
     else if repeats - 1 > 0 then ret (Inl (repeats - 1))
     else ret (Inr ()))"

record item_task_arg =
  it_itemID :: int
  it_repeats :: int
  it_lagTime :: int
  it_speed :: int
  it_taskID :: int

definition simItemTask :: "item_task_arg \<Rightarrow> unit prog" where
  "simItemTask arg =
     loop (repeat_turn (simItem (it_itemID arg) (it_lagTime arg) (it_speed arg))) (it_repeats arg)"

text \<open>The check of an item number on the command line, the same in both commands.\<close>

definition bad_item :: "int \<Rightarrow> bool" where
  "bad_item itemID \<longleftrightarrow>
     itemID \<noteq> 0 \<and> (itemID < 0 \<or> itemID < DEMO_ITEM_ID_MIN \<or> itemID > DEMO_ITEM_ID_MAX)"

definition newItem :: "int \<Rightarrow> int \<Rightarrow> unit prog" where
  "newItem itemID repeats =
     and_then simFind (\<lambda>found.
     if \<not> found then say ''Simulation is not active!''
     else if bad_item itemID then say ''Invalid item number specified''
     else childSpawn (simItemTask
       \<lparr>it_itemID = itemID, it_repeats = repeats, it_lagTime = -1, it_speed = 1, it_taskID = 0\<rparr>))"

section \<open>Customers\<close>

definition cust_name :: "int \<Rightarrow> string" where
  "cust_name taskID = ''Customer task '' @ show_int taskID"

definition request_text :: "u32 \<Rightarrow> int \<Rightarrow> int \<Rightarrow> string" where
  "request_text own customerID transactionID =
     node_location own @ ''['' @ show_int customerID @ '':'' @ show_int transactionID @ '']''"

text \<open>A turn of the customer's loop: the state is \<^verbatim>\<open>transactionID\<close> and the message buffer.\<close>

definition cust_try ::
  "int \<Rightarrow> int \<Rightarrow> u32 \<Rightarrow> int \<Rightarrow> int \<Rightarrow> int \<Rightarrow> bytes \<Rightarrow> (bytes + int) prog" where
  "cust_try itemID customerID own waitTime transactionID sockfd_c msg =
     and_then (sys (C_select [sockfd_c])) (\<lambda>r.
     if r_ret r = 0 then
       and_then (log_quiet SIM_WARN (''Customer '' @ show_int customerID @ '' missed item '' @
         show_int itemID @ '' (no reply from item)\<newline>'')) (\<lambda>_. ret (Inl msg))
     else
       and_then (receive (C_recv sockfd_c (int MSG_SIZE_MAX) 0) msg) (\<lambda>r.
       let msg = recv_into msg r in
       if r_ret r \<le> 0 then
         and_then (log_quiet SIM_INFO (''Customer '' @ show_int customerID @ '' missed item '' @
           show_int itemID @ '' (item rejected request)\<newline>'')) (\<lambda>_. ret (Inl msg))
       else case c_string msg of
         None \<Rightarrow> fault Out_of_bounds
       | Some text \<Rightarrow>
           and_then (simLog SIM_CUST_OUT
             (cust_sale_text customerID itemID (transactionID - 1) (cut_marker text)))
             (\<lambda>simRes. ret (Inr simRes))))"

definition simCust_turn ::
  "int \<Rightarrow> int \<Rightarrow> int \<Rightarrow> u32 \<Rightarrow> int \<Rightarrow> int \<Rightarrow> int \<times> bytes \<Rightarrow> ((int \<times> bytes) + int) prog" where
  "simCust_turn itemID taskID customerID own waitTime sockfd_s = (\<lambda>(transactionID, msg).
     and_then (sys (C_recv_event sockfd_s)) (\<lambda>r.
     let event = r_event r in
     if r_ret r \<noteq> sizeof_event then
       and_then (log_quiet SIM_ERROR (cust_name taskID @ '' subscription failure\<newline>''))
         (\<lambda>_. ret (Inr SIM_ERROR))
     else if ev_event event = htonl TIPC_SUBSCR_TIMEOUT then
       and_then (simLog SIM_CUST_OUT (cust_exit_text customerID itemID transactionID waitTime))
         (\<lambda>simRes. ret (Inr simRes))
     else if ev_event event = htonl TIPC_WITHDRAWN then ret (Inl (transactionID, msg))
     else
       and_then (sys (C_socket AF_TIPC SOCK_SEQPACKET 0)) (\<lambda>r.
       let sockfd_c = r_ret r in
       if sockfd_c < 0 then
         and_then (log_quiet SIM_ERROR (cust_name taskID @ '' can't create socket\<newline>''))
           (\<lambda>_. ret (Inr SIM_ERROR))
       else
         and_then uninit_addr (\<lambda>a.
         let addr = a\<lparr>sa_family := AF_TIPC, sa_addrtype := TIPC_ADDR_ID,
                      sa_w1 := ntohl (port_node (ev_port event)),
                      sa_w0 := ntohl (port_ref (ev_port event))\<rparr>;
             transactionID = transactionID + 1;
             req = request_text own customerID transactionID;
             msgSize = int (length req) + 1 in
         if msgSize > int MSG_SIZE_MAX then fault Out_of_bounds else
         let msg = overwrite msg 0 (str_bytes req) in
         and_then (sys (C_sendto sockfd_c (str_bytes req) 0 addr)) (\<lambda>r.
         if r_ret r \<noteq> msgSize then
           and_then (log_quiet SIM_ERROR (cust_name taskID @ '' unable to send request to item '' @
             show_int itemID @ ''\<newline>'')) (\<lambda>_. ret (Inr SIM_ERROR))
         else
           and_then (cust_try itemID customerID own waitTime transactionID sockfd_c msg) (\<lambda>res.
           and_then (close_fd sockfd_c) (\<lambda>_.
           case res of
             Inl msg \<Rightarrow> and_then (simDelay 500) (\<lambda>_. ret (Inl (transactionID, msg)))
           | Inr simRes \<Rightarrow> ret (Inr simRes))))))))"

definition simCust :: "int \<Rightarrow> int \<Rightarrow> int \<Rightarrow> int \<Rightarrow> int \<Rightarrow> int prog" where
  "simCust itemID lagTime waitTime speed taskID =
     and_then (pick_item itemID) (\<lambda>itemID.
     and_then (lag lagTime speed 1000 5000) (\<lambda>_.
     and_then
       (if waitTime = 0 then and_then (randomGet 5000 20000) (\<lambda>n. c_div n speed)
        else if waitTime < 0 then ret 0 else ret waitTime) (\<lambda>waitTime.
     and_then (simLog SIM_CUST_IN (cust_in_text itemID waitTime)) (\<lambda>customerID.
     if customerID < 0 then ret customerID else
     and_then (sys (C_socket AF_TIPC SOCK_SEQPACKET 0)) (\<lambda>r.
     let sockfd_s = r_ret r in
     if sockfd_s < 0 then
       and_then (log_quiet SIM_ERROR (cust_name taskID @ '' can't create subscr socket\<newline>''))
         (\<lambda>_. ret SIM_ERROR)
     else
       and_then
         (and_then (sys (C_getsockname sockfd_s)) (\<lambda>self.
          if r_ret self < 0 then
            and_then (log_quiet SIM_ERROR (cust_name taskID @ '' can't determine own address\<newline>''))
              (\<lambda>_. ret SIM_ERROR)
          else
          and_then uninit_subscr (\<lambda>subscr.
          and_then (sys (C_send_subscr sockfd_s (subscription subscr TIPC_INV_SIM_TYPE
            (of_int itemID) (of_int itemID) (of_int waitTime) TIPC_SUB_PORTS))) (\<lambda>r.
          if r_ret r < 0 then
            and_then (log_quiet SIM_ERROR (cust_name taskID @ '' can't connect to TOP server\<newline>''))
              (\<lambda>_. ret SIM_ERROR)
          else
          and_then (uninit_bytes MSG_SIZE_MAX) (\<lambda>msg.
          loop (simCust_turn itemID taskID customerID (id_node (r_addr self)) waitTime sockfd_s)
            (0, msg))))))
       (\<lambda>simRes. and_then (close_fd sockfd_s) (\<lambda>_. ret simRes)))))))"

record cust_task_arg =
  ct_itemID :: int
  ct_repeats :: int
  ct_lagTime :: int
  ct_waitTime :: int
  ct_speed :: int
  ct_taskID :: int

definition simCustTask :: "cust_task_arg \<Rightarrow> unit prog" where
  "simCustTask arg =
     loop (repeat_turn (simCust (ct_itemID arg) (ct_lagTime arg) (ct_waitTime arg) (ct_speed arg)
       (ct_taskID arg))) (ct_repeats arg)"

definition newCust :: "int \<Rightarrow> int \<Rightarrow> unit prog" where
  "newCust itemID repeats =
     and_then simFind (\<lambda>found.
     if \<not> found then say ''Simulation is not active!''
     else if bad_item itemID then say ''Invalid item number specified''
     else childSpawn (simCustTask
       \<lparr>ct_itemID = itemID, ct_repeats = repeats, ct_lagTime = -1, ct_waitTime = 0, ct_speed = 1,
        ct_taskID = 0\<rparr>))"

section \<open>Commands\<close>

definition newSim :: "int \<Rightarrow> int \<Rightarrow> int \<Rightarrow> int \<Rightarrow> unit prog" where
  "newSim numItems numCusts speed verbosity =
     and_then simFind (\<lambda>found.
     if found then say ''Simulation already active!'' else
     let numItems = (if numItems = 0 then 10 else numItems);
         numCusts = (if numCusts = 0 then 10 else numCusts);
         speed = (if speed \<le> 0 then 1 else speed);
         printTrans = (if verbosity = 0 then speed = 1 else verbosity > 0) in
     block
       [childSpawn (simLogTask printTrans),
        for_each [0..<nat numItems] (\<lambda>i. childSpawn (simItemTask
          \<lparr>it_itemID = 0, it_repeats = -1, it_lagTime = 0, it_speed = speed,
           it_taskID = int i + 1\<rparr>)),
        for_each [0..<nat numCusts] (\<lambda>i. childSpawn (simCustTask
          \<lparr>ct_itemID = 0, ct_repeats = -1, ct_lagTime = 0, ct_waitTime = 0, ct_speed = speed,
           ct_taskID = int i + 1\<rparr>))])"

definition killSim :: "unit prog" where
  "killSim =
     and_then simFind (\<lambda>found.
     if \<not> found then say ''Simulation is not active!'' else log_quiet SIM_KILL [])"

definition item_zero_addr :: "sockaddr_tipc \<Rightarrow> sockaddr_tipc" where
  "item_zero_addr a = a\<lparr>sa_family := AF_TIPC, sa_addrtype := TIPC_ADDR_NAME,
     sa_w0 := TIPC_INV_SIM_TYPE, sa_w1 := 0, sa_w2 := 0\<rparr>"

definition itemZeroTask :: "unit prog" where
  "itemZeroTask =
     and_then (sys (C_socket AF_TIPC SOCK_RDM 0)) (\<lambda>r.
     let sockfd_i = r_ret r in
     if sockfd_i < 0 then say ''Unable to create socket to halt simulation'' else
     and_then uninit_addr (\<lambda>a.
     and_then (sys (C_bind sockfd_i ((item_zero_addr a)\<lparr>sa_scope := TIPC_ZONE_SCOPE\<rparr>))) (\<lambda>r.
     if r_ret r < 0
     then block [say ''Unable to publish name to halt simulation'', close_fd sockfd_i] else
     and_then (sys (C_recv sockfd_i 1 0)) (\<lambda>r. block
       [only_if (r_ret r < 0) (say ''Unable to detect request to restart simulation''),
        close_fd sockfd_i]))))"

definition stopSim :: "unit prog" where
  "stopSim = childSpawn itemZeroTask"

definition startSim :: "unit prog" where
  "startSim =
     and_then (sys (C_socket AF_TIPC SOCK_RDM 0)) (\<lambda>r.
     let sockfd_c = r_ret r in
     if sockfd_c < 0 then say ''Unable to create socket to resume simulation'' else
     and_then uninit_addr (\<lambda>a.
     and_then (sys (C_sendto sockfd_c [0] 0 (item_zero_addr a))) (\<lambda>r. block
       [only_if (r_ret r < 0) (say ''Unable to resume simulation''),
        close_fd sockfd_c])))"

definition helpSim :: "unit prog" where
  "helpSim = say ''newSim [#items [#customers [speed [verbosity]]]] ...''"

text \<open>\<^verbatim>\<open>strstr\<close>, and the table of commands with the most arguments each takes.\<close>

fun strstr :: "string \<Rightarrow> string \<Rightarrow> bool" where
  "strstr [] t \<longleftrightarrow> t = []"
| "strstr (c # s) t \<longleftrightarrow> take (length t) (c # s) = t \<or> strstr s t"

datatype sim_command =
  eNewSimCommand | eKillSimCommand | eStopSimCommand | eStartSimCommand | eNewItemCommand
| eNewCustCommand

definition cmdList :: "(sim_command \<times> string \<times> nat) list" where
  "cmdList =
    [(eNewSimCommand, ''newSim'', 5),
     (eKillSimCommand, ''killSim'', 1),
     (eStopSimCommand, ''stopSim'', 1),
     (eStartSimCommand, ''startSim'', 1),
     (eNewItemCommand, ''newItem'', 3),
     (eNewCustCommand, ''newCust'', 3)]"

definition sim_arg :: "string list \<Rightarrow> nat \<Rightarrow> int" where
  "sim_arg argv i = (if length argv > i then atoi (argv ! i) else 0)"

definition inventory_main :: "string list \<Rightarrow> unit prog" where
  "inventory_main argv =
     (case find (\<lambda>(_, text, _). strstr (argv ! 0) text) cmdList of
        None \<Rightarrow> and_then helpSim (\<lambda>_. exit_prog 1)
      | Some (cmd, _, maxArgs) \<Rightarrow>
          if length argv > maxArgs then and_then helpSim (\<lambda>_. exit_prog 1) else
          and_then
            (case cmd of
               eNewSimCommand \<Rightarrow> newSim (sim_arg argv 1) (sim_arg argv 2) (sim_arg argv 3) (sim_arg argv 4)
             | eKillSimCommand \<Rightarrow> killSim
             | eStopSimCommand \<Rightarrow> stopSim
             | eStartSimCommand \<Rightarrow> startSim
             | eNewItemCommand \<Rightarrow> newItem (sim_arg argv 1) (sim_arg argv 2)
             | eNewCustCommand \<Rightarrow> newCust (sim_arg argv 1) (sim_arg argv 2))
          (\<lambda>_. exit_prog 0))"

end
