(* ===== verification/Inv_Props.thy ===== *)
theory Inv_Props
  imports Inv_Tasks
begin

text \<open>
  Properties that connect the processes of the inventory simulation: a transaction that one
  process sends is the one the logging task processes, the logging task changes its store
  only by the steps of the store, the numbers and texts the processes use stay in range.
\<close>

section \<open>What holds of the results of a program\<close>

definition ensures :: "'a prog \<Rightarrow> ('a \<Rightarrow> bool) \<Rightarrow> bool" where
  "ensures m Q \<longleftrightarrow> (\<forall>w x w'. m w = (Ret x, w') \<longrightarrow> Q x)"

named_theorems ensures_intros \<open>rules for the results of programs\<close>

lemma ensures_ret [ensures_intros]: "Q x \<Longrightarrow> ensures (ret x) Q"
  by (simp add: ensures_def ret_def)

lemma ensures_halt [ensures_intros]: "ensures (exit_prog n) Q" "ensures (fault e) Q"
  by (simp_all add: ensures_def exit_prog_def fault_def)

lemma ensures_and_then:
  "ensures m P \<Longrightarrow> (\<And>x. P x \<Longrightarrow> ensures (f x) Q) \<Longrightarrow> ensures (and_then m f) Q"
  unfolding ensures_def and_then_Ret_iff by blast

lemma ensures_then [ensures_intros]: "(\<And>x. ensures (f x) Q) \<Longrightarrow> ensures (and_then m f) Q"
  unfolding ensures_def and_then_Ret_iff by blast

lemma ensures_keep: "ensures m P \<Longrightarrow> ensures (and_then m (\<lambda>x. and_then n (\<lambda>_. ret x))) P"
  by (rule ensures_and_then [where P = P]) (auto intro: ensures_intros)

lemma ensures_mono: "ensures m P \<Longrightarrow> (\<And>x. P x \<Longrightarrow> Q x) \<Longrightarrow> ensures m Q"
  by (auto simp: ensures_def)

lemma ensures_if [ensures_intros]:
  "(b \<Longrightarrow> ensures m Q) \<Longrightarrow> (\<not> b \<Longrightarrow> ensures n Q) \<Longrightarrow> ensures (if b then m else n) Q"
  by simp

lemma ensures_loop:
  assumes step: "\<And>s. I s \<Longrightarrow> ensures (body s) (\<lambda>r. case r of Inl s' \<Rightarrow> I s' | Inr x \<Rightarrow> Q x)"
    and init: "I s"
  shows "ensures (loop body s) Q"
proof -
  have "Q x" if "loop_fuel n body s w = (Ret x, w')" "I s" for n s w x w'
    using that
  proof (induction n arbitrary: s w)
    case (Suc n)
    then obtain r w1 where r: "body s w = (Ret r, w1)"
      and nx: "(case r of Inl s' \<Rightarrow> loop_fuel n body s' | Inr x \<Rightarrow> ret x) w1 = (Ret x, w')"
      by (auto simp: and_then_Ret_iff)
    have "case r of Inl s' \<Rightarrow> I s' | Inr x \<Rightarrow> Q x"
      using step [OF Suc.prems(2)] r unfolding ensures_def by blast
    with nx show ?case by (cases r) (auto simp: ret_def dest: Suc.IH)
  qed simp
  with init show ?thesis unfolding ensures_def loop_def by blast
qed

section \<open>The logging task and its store\<close>

text \<open>The store after a turn, seen from the store before it.\<close>

definition progress :: "store \<Rightarrow> store \<Rightarrow> bool" where
  "progress st st' \<longleftrightarrow> store_step\<^sup>*\<^sup>* st st' \<and> (simState st \<noteq> STORE_EMPTY \<longrightarrow> simState st' \<noteq> STORE_EMPTY)"

lemma progress_refl [simp]: "progress st st"
  by (simp add: progress_def)

lemma progress_trans: "progress a b \<Longrightarrow> progress b c \<Longrightarrow> progress a c"
  unfolding progress_def by (blast intro: rtranclp_trans)

definition one_transaction :: "bool \<Rightarrow> store \<Rightarrow> store \<Rightarrow> bool" where
  "one_transaction p st st' \<longleftrightarrow>
     st' = st \<or> (\<exists>code s ack out. transact p code s st = Inr (st', ack, out))"

lemma ensures_case_logged:
  assumes "\<And>st' ack out. m = Inr (st', ack, out) \<Longrightarrow> ensures (f st' ack out) Q"
  shows "ensures (case m of Inl e \<Rightarrow> fault e | Inr (st', ack, out) \<Rightarrow> f st' ack out) Q"
  using assms by (auto intro: ensures_halt split: sum.split prod.split)

lemma logTransaction_steps: "ensures (logTransaction fd p st) (one_transaction p st)"
  unfolding logTransaction_def Let_def
  by (rule ensures_then ensures_if ensures_keep ensures_case_logged ensures_ret ensures_halt
      | (simp add: one_transaction_def; fail) | (force simp: one_transaction_def; fail))+

lemma after_transaction_settles:
  "ensures (after_transaction st) (\<lambda>r. case r of None \<Rightarrow> simState st = STORE_EMPTY
      | Some st' \<Rightarrow> st' = settle st \<and> simState st \<noteq> STORE_EMPTY)"
  unfolding after_transaction_def Let_def
  by (cases "simState st")
    (auto simp: settle_def intro!: ensures_then ensures_ret)

lemma one_transaction_progress:
  assumes "one_transaction p st st1" and "simState st1 \<noteq> STORE_EMPTY" and "simState st \<noteq> STORE_EMPTY"
    and "settle st = st"
  shows "store_step\<^sup>*\<^sup>* st (settle st1)" and "simState (settle st1) \<noteq> STORE_EMPTY"
    and "settle (settle st1) = settle st1"
proof -
  show "store_step\<^sup>*\<^sup>* st (settle st1)"
    using assms by (auto simp: one_transaction_def intro: store_step.step)
  show "simState (settle st1) \<noteq> STORE_EMPTY" "settle (settle st1) = settle st1"
    using assms(2) by (simp_all add: settle_def)
qed

text \<open>The invariant of the logging task: it was reached by steps of the store from \<open>st0\<close>.\<close>

definition live_store :: "store \<Rightarrow> store \<Rightarrow> bool" where
  "live_store st0 st \<longleftrightarrow> store_step\<^sup>*\<^sup>* st0 st \<and> simState st \<noteq> STORE_EMPTY \<and> settle st = st"

lemma log_watch_keeps:
  assumes "live_store st0 st"
  shows "ensures (log_watch fd h st) (\<lambda>r. case r of Inl st' \<Rightarrow> live_store st0 st'
      | Inr None \<Rightarrow> True | Inr (Some (st', ev)) \<Rightarrow> live_store st0 st')"
  unfolding log_watch_def Let_def
  using assms by (auto intro!: ensures_intros)

lemma simLog_turn_keeps:
  assumes "live_store st0 st"
  shows "ensures (simLog_turn t w p h st) (\<lambda>r. case r of Inl st' \<Rightarrow> live_store st0 st'
      | Inr None \<Rightarrow> True | Inr (Some (st', ev)) \<Rightarrow> live_store st0 st')"
proof -
  have step: "ensures (and_then (logTransaction t p st) after_transaction)
      (\<lambda>r. case r of None \<Rightarrow> True | Some st' \<Rightarrow> live_store st0 st')"
  proof (rule ensures_and_then [OF logTransaction_steps])
    fix st1 assume one: "one_transaction p st st1"
    show "ensures (after_transaction st1) (\<lambda>r. case r of None \<Rightarrow> True | Some st' \<Rightarrow> live_store st0 st')"
    proof (rule ensures_mono [OF after_transaction_settles])
      fix r :: "store option"
      assume r: "case r of None \<Rightarrow> simState st1 = STORE_EMPTY
        | Some st' \<Rightarrow> st' = settle st1 \<and> simState st1 \<noteq> STORE_EMPTY"
      show "case r of None \<Rightarrow> True | Some st' \<Rightarrow> live_store st0 st'"
        using r assms one_transaction_progress [OF one]
        by (auto simp: live_store_def split: option.splits)
    qed
  qed
  have Q: "ensures (case v of None \<Rightarrow> ret (Inr None)
      | Some st \<Rightarrow> if w \<notin> set (r_ready r) then ret (Inl st) else log_watch w h st)
      (\<lambda>r. case r of Inl st' \<Rightarrow> live_store st0 st' | Inr None \<Rightarrow> True
        | Inr (Some (st', ev)) \<Rightarrow> live_store st0 st')"
    if "case v of None \<Rightarrow> True | Some st' \<Rightarrow> live_store st0 st'" for v r
    using that by (cases v) (auto intro!: ensures_ret log_watch_keeps)
  show ?thesis
    unfolding simLog_turn_def
    by (rule ensures_then, rule ensures_if, rule ensures_then, rule ensures_ret, simp,
        rule ensures_and_then, rule ensures_if, rule step, rule ensures_ret)
      (use assms Q in auto)
qed

lemma simLog_round_keeps:
  assumes "live_store st0 st"
  shows "ensures (simLog_round t w p (st, sub, h))
    (\<lambda>r. case r of Inl (st', sub', h') \<Rightarrow> live_store st0 st' | Inr _ \<Rightarrow> True)"
proof -
  have inner: "ensures (loop (simLog_turn t w p h') st)
      (\<lambda>r. case r of None \<Rightarrow> True | Some (st', ev) \<Rightarrow> live_store st0 st')" for h'
    by (rule ensures_loop [where I = "live_store st0", OF _ assms])
      (rule ensures_mono [OF simLog_turn_keeps], auto split: sum.splits option.splits)
  show ?thesis
    unfolding simLog_round_def prod.case Let_def
    by (rule ensures_then, rule ensures_if, rule ensures_then, rule ensures_ret, simp,
        rule ensures_and_then [OF inner])
      (auto intro!: ensures_intros split: option.splits)
qed

text \<open>
  C18. The logging task implements the store: whatever its peers send and the kernel
  replies, in a whole round of it (transactions, timeouts, the halt by item 0) the store
  changes only by steps of the store, so the books balance in every round.
\<close>

theorem logging_task_refines_store:
  assumes "store_step\<^sup>*\<^sup>* new_store st" and "simState st \<noteq> STORE_EMPTY" and "settle st = st"
  shows "ensures (simLog_round t w p (st, sub, h))
    (\<lambda>r. case r of Inl (st', sub', h') \<Rightarrow> store_step\<^sup>*\<^sup>* st st' \<and> store_inv st' | Inr _ \<Rightarrow> True)"
proof (rule ensures_mono [OF simLog_round_keeps])
  show "live_store st st" using assms by (simp add: live_store_def)
  fix r assume "case r of Inl (st', sub', h') \<Rightarrow> live_store st st' | Inr _ \<Rightarrow> True"
  then show "case r of Inl (st', sub', h') \<Rightarrow> store_step\<^sup>*\<^sup>* st st' \<and> store_inv st' | Inr _ \<Rightarrow> True"
    using assms(1) store_inv_reachable
    by (auto simp: live_store_def split: sum.splits intro: rtranclp_trans)
qed

theorem logging_task_refines_store_witness:
  "ensures (simLog_round 3 4 True (new_store, ev_s (r_event (ok 0)), 0))
    (\<lambda>r. case r of Inl (st', sub', h') \<Rightarrow> store_step\<^sup>*\<^sup>* new_store st' \<and> store_inv st' | Inr _ \<Rightarrow> True)"
proof -
  have "simState new_store \<noteq> STORE_EMPTY" "settle new_store = new_store"
    by (simp_all add: settle_def new_store_def)
  then show ?thesis by (intro logging_task_refines_store) simp_all
qed

section \<open>From the sender of a transaction to the logging task\<close>

lemma trans_msg_received:
  assumes "CHR 0x00 \<notin> set text" and "length text < 100" and "length buf = 104"
    and "- (2 ^ 31) \<le> code" and "code < 2 ^ 31"
  defines "msg \<equiv> recv_into buf (msg_reply (trans_msg code text))"
  shows "sint (bytes_int msg) = code" and "c_string (drop 4 msg) = Some text"
proof -
  have m: "msg = trans_msg code text @ drop (length (trans_msg code text)) buf"
    using assms(2,3) by (simp add: msg_def recv_into_def trans_msg_def str_bytes_def)
  show "sint (bytes_int msg) = code"
    using assms(4,5) sint_of_int_u32 [of code] by (simp add: m trans_msg_def bytes_int_int_bytes)
  show "c_string (drop 4 msg) = Some text"
    using assms(1) by (simp add: m trans_msg_def c_string_str_bytes)
qed

lemma run_say [run]:
  "and_then (say s) f w = f () (w\<lparr>calls := calls w @ [C_print s]\<rparr>)"
  "and_then (for_each out say) g w = g () (w\<lparr>calls := calls w @ map C_print out\<rparr>)"
proof -
  show one: "and_then (say s) f w = f () (w\<lparr>calls := calls w @ [C_print s]\<rparr>)" for s f w
    by (simp add: say_def run)
  show "and_then (for_each out say) g w = g () (w\<lparr>calls := calls w @ map C_print out\<rparr>)"
    by (induction out arbitrary: w) (simp_all add: run one)
qed

text \<open>
  C19. A transaction arrives as it was sent and is answered. For a code and a text of less than
  100 characters simLog sends the message \<open>m\<close> to the name of the logging task, waits for an answer
  of four bytes, closes its socket and returns the acknowledgement that the answer carries. This
  message \<open>m\<close> makes the logging task process exactly this transaction: it prints what belongs to
  it, sends the answer \<open>a\<close> with the acknowledgement on the connection, closes it and goes on with
  the changed store.
\<close>

theorem transaction_roundtrip:
  assumes "CHR 0x00 \<notin> set text" and "length text < 100" and "- (2 ^ 31) \<le> code" and "code < 2 ^ 31"
    and "transact p code text st = Inr (st', ack, out)" and "- (2 ^ 31) \<le> ack" and "ack < 2 ^ 31"
    and "m = int_bytes (of_int code) @ str_bytes text" and "a = int_bytes (of_int ack)"
    and "replies w = [ok c, ok (int (length m)), msg_reply a, ok 0] @ rs" and "0 \<le> c"
    and "replies v = [ok n, msg_reply m, ok 4, ok 0] @ rs'" and "0 \<le> n"
  shows "simLog code text w = (Ret ack, w\<lparr>replies := rs, calls := calls w @
      [C_socket AF_TIPC SOCK_SEQPACKET 0, C_sendto c m 0 (log_name (stk_addr w)), C_recv c 4 0, C_close c]\<rparr>) \<and>
    logTransaction fd p st v = (Ret st', v\<lparr>replies := rs', calls := calls v @
      [C_accept fd, C_recv n 104 MSG_DONTWAIT] @ map C_print out @ [C_send n a 0, C_close n]\<rparr>)"
proof
  show "simLog code text w = (Ret ack, w\<lparr>replies := rs, calls := calls w @
      [C_socket AF_TIPC SOCK_SEQPACKET 0, C_sendto c m 0 (log_name (stk_addr w)), C_recv c 4 0, C_close c]\<rparr>)"
    using assms(2,8-11) sint_of_int_u32 [OF assms(6,7)]
    by (simp add: simLog_def trans_msg_def run Let_def close_fd_def)
  have m: "m = trans_msg code text" using assms(8) by (simp add: trans_msg_def)
  note received = trans_msg_received [OF assms(1,2) _ assms(3,4), folded m]
  show "logTransaction fd p st v = (Ret st', v\<lparr>replies := rs', calls := calls v @
      [C_accept fd, C_recv n 104 MSG_DONTWAIT] @ map C_print out @ [C_send n a 0, C_close n]\<rparr>)"
    using assms(5,9,12,13) received
    by (simp add: logTransaction_def run Let_def close_fd_def)
qed

theorem transaction_roundtrip_witness:
  "let m = int_bytes (of_int SIM_ITEM_IN) @ str_bytes ''7'' in
   calls (snd (simLog SIM_ITEM_IN ''7'' (world_of [ok 6, ok 6, msg_reply (int_bytes 0), ok 0]))) ! 1 =
     C_sendto 6 m 0 (log_name (r_addr (msg_reply []))) \<and>
   fst (logTransaction 3 False new_store (world_of [ok 5, msg_reply m, ok 4, ok 0])) =
     Ret (new_store\<lparr>itemsInStore := 1, itemCount := (replicate 10 0)[6 := 1]\<rparr>)"
proof -
  have t: "transact False SIM_ITEM_IN ''7'' new_store =
      Inr (new_store\<lparr>itemsInStore := 1, itemCount := (replicate 10 0)[6 := 1]\<rparr>, 0, [])"
    by (simp add: transact_def log_item_in_def new_store_def scan_ints.simps scan_int_def scan_nat_def
        is_space_def is_digit_def digit_val_def scanned_def bump_def)
  show ?thesis
    using transaction_roundtrip [OF _ _ _ _ t _ _ refl refl, of
        "world_of [ok 6, ok 6, msg_reply (int_bytes 0), ok 0]" 6 "[]"
        "world_of [ok 5, msg_reply (int_bytes (of_int SIM_ITEM_IN) @ str_bytes ''7''), ok 4, ok 0]" 5 "[]" 3]
    by (simp add: world_of_def Let_def str_bytes_def) 
qed

section \<open>Numbers and buffers\<close>

lemma randomGet_range:
  "minValue \<le> maxValue \<Longrightarrow> ensures (randomGet minValue maxValue) (\<lambda>n. minValue \<le> n \<and> n \<le> maxValue)"
  unfolding randomGet_def
  by (rule ensures_then, rule ensures_ret)
    (use pos_mod_bound [of "maxValue - minValue + 1"] pos_mod_sign [of "maxValue - minValue + 1"] in
      \<open>smt (verit)\<close>)

text \<open>
  Whatever number the command line gives, an item task or customer task that is started
  works on an item number of the demo: a number outside 1 to 10 is refused, 0 is replaced by
  a random number, which is in that range for every result of rand.
\<close>

lemma item_numbers_in_range:
  assumes "\<not> bad_item itemID"
  shows "ensures (pick_item itemID) (\<lambda>i. 1 \<le> i \<and> i \<le> 10)"
  using assms randomGet_range [of 1 10]
  by (auto simp: pick_item_def bad_item_def intro: ensures_ret)

lemma sint_small:
  assumes "unat (x :: u32) < n" and "n \<le> 4096"
  shows "0 \<le> sint x \<and> sint x < int n"
proof -
  have "int (unat x) < int n" using assms(1) by (simp only: of_nat_less_iff)
  then have u: "uint x < int n" by simp
  have "- (2 ^ 31) \<le> uint x" by (rule order_trans [of _ 0]) simp_all
  moreover have "uint x < 2 ^ 31" using u assms(2) by simp
  ultimately have "sint (of_int (uint x) :: u32) = uint x" by (rule sint_of_int_u32)
  with u show ?thesis using uint_ge_0 [of x] by simp
qed

lemma length_node_location: "length (node_location a) \<le> 15"
proof -
  have "length (show_int (sint (tipc_zone a))) \<le> 3"
    using sint_small [OF tipc_zone_bound [of a]] by (intro length_show_int_nat) auto
  moreover have "length (show_int (sint (tipc_cluster a))) \<le> 4"
    using sint_small [OF tipc_cluster_bound [of a]] by (intro length_show_int_nat) auto
  moreover have "length (show_int (sint (tipc_node a))) \<le> 4"
    using sint_small [OF tipc_node_bound [of a]] by (intro length_show_int_nat) auto
  ultimately show ?thesis by (simp add: node_location_def location_def)
qed

lemma reply_overruns_buffer:
  "length (reply_text 0xFFFFFFFF (request_text 0xFFFFFFFF 1000000000 1000000000)) + 1 > MSG_SIZE_MAX"
proof -
  have "sint (tipc_zone 0xFFFFFFFF) = 255" "sint (tipc_cluster 0xFFFFFFFF) = 4095"
    "sint (tipc_node 0xFFFFFFFF) = 4095"
    by (simp_all add: tipc_zone_def tipc_cluster_def tipc_node_def drop_bit_eq_div)
  moreover have "length (show_int 255) = 3" "length (show_int 4095) = 4" "length (show_int 1000000000) = 10"
    by (simp_all add: show_int_def show_nat.simps)
  ultimately show ?thesis
    by (simp add: reply_text_def request_text_def node_location_def location_def)
qed

text \<open>
  C20. The 50-byte message buffers of customers and items suffice as long as the customer
  number and the number of tries are below a hundred million, whatever the node addresses:
  the request and the item's answer to it fit with their terminators. Nothing in the code keeps
  the answer within its buffer: for larger numbers, still within an int, the item's sprintf
  writes past the end of its array.
\<close>

theorem messages_fit:
  assumes "0 \<le> customerID" and "customerID < 10 ^ 8" and "0 \<le> transactionID" and "transactionID < 10 ^ 8"
  shows "length (request_text own customerID transactionID) + 1 \<le> MSG_SIZE_MAX \<and>
    length (reply_text own' (request_text own customerID transactionID)) + 1 \<le> MSG_SIZE_MAX \<and>
    length (reply_text 0xFFFFFFFF (request_text 0xFFFFFFFF 1000000000 1000000000)) + 1 > MSG_SIZE_MAX"
proof -
  have "length (show_int customerID) \<le> 8" "length (show_int transactionID) \<le> 8"
    using assms by (simp_all add: length_show_int_nat)
  then show ?thesis
    using length_node_location [of own] length_node_location [of own'] reply_overruns_buffer
    by (simp add: request_text_def reply_text_def)
qed

theorem messages_fit_witness:
  "length (request_text 0xFFFFFFFF 12345678 9) + 1 \<le> MSG_SIZE_MAX \<and>
   length (reply_text 0xFFFFFFFF (request_text 0xFFFFFFFF 12345678 9)) + 1 \<le> MSG_SIZE_MAX"
  using messages_fit [of 12345678 9 "0xFFFFFFFF" "0xFFFFFFFF"] by simp

end
