(* ===== verification/Tipcc.thy ===== *)
theory Tipcc
  imports Sys
begin

text \<open>
  The C binding of TIPC, \<^verbatim>\<open>src/multicast_blast/tipcc.c\<close> and \<^verbatim>\<open>tipcc.h\<close>. A pointer argument is
  an option, \<open>None\<close> the null pointer; what a function writes through a pointer is part of its
  result. A character array is the bytes it has room for, and writing behind them is a fault.

  \<^verbatim>\<open>struct tipc_addr\<close> of the binding is the record \<open>tipc_addr_t\<close>, since the interface header
  has a function \<open>tipc_addr\<close>. Whether the kernel headers know TIPC groups is decided when the
  program is compiled; it is a parameter of \<open>tipc_join\<close> and \<open>tipc_leave\<close>.
\<close>

section \<open>Sockets\<close>

record tipc_addr_t =
  ta_type :: u32
  ta_instance :: u32
  ta_domain :: u32

definition tipc_socket :: "int \<Rightarrow> int prog" where
  "tipc_socket sk_type = and_then (sys (C_socket AF_TIPC sk_type 0)) (\<lambda>r. ret (r_ret r))"

text \<open>\<^verbatim>\<open>F_GETFL\<close> is 3, \<^verbatim>\<open>F_SETFL\<close> 4 and \<^verbatim>\<open>O_NONBLOCK\<close> 2048 on Linux.\<close>

definition tipc_sock_non_block :: "int \<Rightarrow> int prog" where
  "tipc_sock_non_block sd =
     and_then (sys (C_fcntl sd 3 0)) (\<lambda>r.
     if r_ret r < 0 then ret (-1) else
     and_then (sys (C_fcntl sd 4 2048)) (\<lambda>r.
     if r_ret r < 0 then ret (-1) else ret sd))"

definition tipc_sock_rejectable :: "int \<Rightarrow> int prog" where
  "tipc_sock_rejectable sd = and_then (sys (C_setsockopt sd TIPC_DEST_DROPPABLE 0)) (\<lambda>r. ret (r_ret r))"

definition tipc_close :: "int \<Rightarrow> int prog" where
  "tipc_close sd = and_then (sys (C_close sd)) (\<lambda>r. ret (r_ret r))"

text \<open>The port identity in a socket address, as the binding hands it out.\<close>

definition port_of :: "sockaddr_tipc \<Rightarrow> tipc_addr_t" where
  "port_of addr = \<lparr>ta_type = 0, ta_instance = id_ref addr, ta_domain = id_node addr\<rparr>"

definition tipc_sockid :: "int \<Rightarrow> tipc_addr_t option \<Rightarrow> (int \<times> tipc_addr_t option) prog" where
  "tipc_sockid sd idp =
     (case idp of
        None \<Rightarrow> ret (-1, None)
      | Some _ \<Rightarrow>
          and_then (sys (C_getsockname sd)) (\<lambda>r.
          if r_ret r < 0 then ret (-1, idp) else ret (0, Some (port_of (r_addr r)))))"

text \<open>A local variable of the type before it is assigned.\<close>

definition uninit_ta :: "tipc_addr_t prog" where
  "uninit_ta = and_then uninit_addr (\<lambda>a.
     ret \<lparr>ta_type = sa_w0 a, ta_instance = sa_w1 a, ta_domain = sa_w2 a\<rparr>)"

definition tipc_own_node :: "u32 prog" where
  "tipc_own_node =
     and_then (get_var g_own_node) (\<lambda>own_node.
     if own_node \<noteq> 0 then ret own_node else
     and_then (tipc_socket SOCK_RDM) (\<lambda>sd.
     and_then uninit_ta (\<lambda>sockid.
     and_then (tipc_sockid sd (Some sockid)) (\<lambda>(rc, idp).
     and_then
       (case idp of
          Some sockid \<Rightarrow>
            if rc = 0 then set_var (g_own_node_update (\<lambda>_. ta_domain sockid)) else ret ()
        | None \<Rightarrow> ret ()) (\<lambda>_.
     and_then (sys (C_close sd)) (\<lambda>_.
     get_var g_own_node))))))"

definition tipc_own_cluster :: "u32 prog" where
  "tipc_own_cluster = and_then tipc_own_node (\<lambda>n. ret (n AND NOT 0xfff))"

definition tipc_own_zone :: "u32 prog" where
  "tipc_own_zone = and_then tipc_own_node (\<lambda>n. ret (n AND NOT 0xffffff))"

definition domain2scope :: "u32 \<Rightarrow> u8 prog" where
  "domain2scope domain =
     (if domain = 0 then ret TIPC_ZONE_SCOPE else
      and_then tipc_own_node (\<lambda>node.
      if node = domain then ret TIPC_NODE_SCOPE else
      and_then tipc_own_cluster (\<lambda>cluster.
      if cluster = domain then ret TIPC_CLUSTER_SCOPE else
      and_then tipc_own_zone (\<lambda>zone.
      if zone = domain then ret TIPC_ZONE_SCOPE else ret 0xff))))"

definition my_scope :: "u32 \<Rightarrow> bool prog" where
  "my_scope domain = and_then (domain2scope domain) (\<lambda>s. ret (s \<le> TIPC_NODE_SCOPE))"

text \<open>An address with a name sequence; what an initialiser does not name is 0.\<close>

definition seq_addr :: "u32 \<Rightarrow> u32 \<Rightarrow> u32 \<Rightarrow> u8 \<Rightarrow> sockaddr_tipc" where
  "seq_addr type lower upper scope =
     \<lparr>sa_family = AF_TIPC, sa_addrtype = TIPC_ADDR_NAMESEQ, sa_scope = scope,
      sa_w0 = type, sa_w1 = lower, sa_w2 = upper\<rparr>"

definition tipc_bind :: "int \<Rightarrow> u32 \<Rightarrow> u32 \<Rightarrow> u32 \<Rightarrow> u32 \<Rightarrow> int prog" where
  "tipc_bind sd type lower upper scope =
     and_then (domain2scope scope) (\<lambda>s.
     let addr = seq_addr type lower upper (if scope = 0 then TIPC_ZONE_SCOPE else s) in
     and_then (my_scope scope) (\<lambda>mine.
     if \<not> mine then ret (-1) else
     and_then (sys (C_bind sd addr)) (\<lambda>r. ret (r_ret r))))"

definition tipc_unbind :: "int \<Rightarrow> u32 \<Rightarrow> u32 \<Rightarrow> u32 \<Rightarrow> int prog" where
  "tipc_unbind sd type lower upper =
     and_then (sys (C_bind sd (seq_addr type lower upper (-1)))) (\<lambda>r. ret (r_ret r))"

text \<open>The address for a name, over whatever the variable held before.\<close>

definition name_addr :: "sockaddr_tipc \<Rightarrow> tipc_addr_t \<Rightarrow> sockaddr_tipc" where
  "name_addr a dst = a\<lparr>sa_family := AF_TIPC, sa_addrtype := TIPC_ADDR_NAME,
                       sa_w0 := ta_type dst, sa_w1 := ta_instance dst, sa_w2 := ta_domain dst\<rparr>"

definition tipc_connect :: "int \<Rightarrow> tipc_addr_t option \<Rightarrow> int prog" where
  "tipc_connect sd dst =
     (case dst of
        None \<Rightarrow> ret (-1)
      | Some dst \<Rightarrow>
          and_then uninit_addr (\<lambda>addr.
          and_then (sys (C_connect sd (name_addr addr dst))) (\<lambda>r. ret (r_ret r))))"

definition tipc_listen :: "int \<Rightarrow> int \<Rightarrow> int prog" where
  "tipc_listen sd backlog = and_then (sys (C_listen sd backlog)) (\<lambda>r. ret (r_ret r))"

definition tipc_accept :: "int \<Rightarrow> tipc_addr_t option \<Rightarrow> (int \<times> tipc_addr_t option) prog" where
  "tipc_accept sd src =
     and_then uninit_addr (\<lambda>addr.
     and_then (sys (C_accept sd)) (\<lambda>r.
     let addr = (if r_ret r \<ge> 0 then r_addr r else addr) in
     ret (r_ret r, map_option (\<lambda>_. port_of addr) src)))"

definition tipc_join :: "bool \<Rightarrow> int \<Rightarrow> tipc_addr_t \<Rightarrow> int prog" where
  "tipc_join has_groups sd member =
     (if has_groups then
        and_then (domain2scope (ta_domain member)) (\<lambda>scope.
        and_then (sys (C_group_join sd (ta_type member) (ta_instance member) scope)) (\<lambda>r. ret (r_ret r)))
      else
        and_then (emit (C_print ''tipc_join() not supported by kernel version this was built for''))
          (\<lambda>_. ret (-1)))"

definition tipc_leave :: "bool \<Rightarrow> int \<Rightarrow> int prog" where
  "tipc_leave has_groups sd =
     (if has_groups then and_then (sys (C_group_leave sd)) (\<lambda>r. ret (r_ret r))
      else
        and_then (emit (C_print ''tipc_leave() not supported by kernel version this was built for''))
          (\<lambda>_. ret (-1)))"

section \<open>Messages\<close>

text \<open>
  Sending \<^verbatim>\<open>msg_len\<close> bytes of a buffer; a length beyond the buffer reads outside it. A
  length that a caller computed as a negative int is a huge \<^verbatim>\<open>size_t\<close>, and outside too.
\<close>

definition with_bytes :: "bytes \<Rightarrow> int \<Rightarrow> (bytes \<Rightarrow> 'a prog) \<Rightarrow> 'a prog" where
  "with_bytes buf n f =
     (if 0 \<le> n \<and> n \<le> int (length buf) then f (take (nat n) buf) else fault Out_of_bounds)"

definition tipc_send :: "int \<Rightarrow> bytes \<Rightarrow> int \<Rightarrow> int prog" where
  "tipc_send sd msg msg_len =
     with_bytes msg msg_len (\<lambda>d. and_then (sys (C_send sd d 0)) (\<lambda>r. ret (r_ret r)))"

text \<open>The message header of \<^verbatim>\<open>sendmsg\<close>: an optional destination and the pieces of the message.\<close>

record msghdr =
  msg_name :: "sockaddr_tipc option"
  msg_iov :: "bytes list"

definition tipc_sendmsg :: "int \<Rightarrow> msghdr \<Rightarrow> int prog" where
  "tipc_sendmsg sd msg = and_then (sys (C_sendmsg sd (msg_name msg) (msg_iov msg))) (\<lambda>r. ret (r_ret r))"

definition dest_addr :: "sockaddr_tipc \<Rightarrow> tipc_addr_t \<Rightarrow> sockaddr_tipc" where
  "dest_addr a dst =
     (if ta_type dst \<noteq> 0 then name_addr a dst
      else a\<lparr>sa_family := AF_TIPC, sa_addrtype := TIPC_ADDR_ID,
             sa_w0 := ta_instance dst, sa_w1 := ta_domain dst\<rparr>)"

definition tipc_sendto :: "int \<Rightarrow> bytes \<Rightarrow> int \<Rightarrow> tipc_addr_t option \<Rightarrow> int prog" where
  "tipc_sendto sd msg msg_len dst =
     (case dst of
        None \<Rightarrow> ret (-1)
      | Some dst \<Rightarrow>
          and_then uninit_addr (\<lambda>addr.
          with_bytes msg msg_len (\<lambda>d.
          and_then (sys (C_sendto sd d 0 (dest_addr addr dst))) (\<lambda>r. ret (r_ret r)))))"

text \<open>The scope is computed from the address's own scope, which the initialiser has left 0.\<close>

definition tipc_mcast :: "int \<Rightarrow> bytes \<Rightarrow> int \<Rightarrow> tipc_addr_t option \<Rightarrow> int prog" where
  "tipc_mcast sd msg msg_len dst =
     (case dst of
        None \<Rightarrow> ret (-1)
      | Some dst \<Rightarrow>
          let addr = seq_addr (ta_type dst) (ta_instance dst) (ta_instance dst) 0 in
          and_then (domain2scope (ucast (sa_scope addr))) (\<lambda>s.
          with_bytes msg msg_len (\<lambda>d.
          and_then (sys (C_sendto sd d 0 (addr\<lparr>sa_scope := s\<rparr>))) (\<lambda>r. ret (r_ret r)))))"

text \<open>\<^verbatim>\<open>MSG_WAITALL\<close> is 256.\<close>

definition tipc_recv :: "int \<Rightarrow> bytes \<Rightarrow> bool \<Rightarrow> (int \<times> bytes) prog" where
  "tipc_recv sd buf waitall =
     and_then (receive (C_recv sd (int (length buf)) (if waitall then 256 else 0)) buf) (\<lambda>r.
     ret (r_ret r, recv_into buf r))"

text \<open>
  A returned message: the error code, the number of bytes returned and the bytes, and the
  ancillary data that follow. The length is compared as an unsigned number.
\<close>

definition returned_msg :: "bytes \<Rightarrow> cmsg list \<Rightarrow> (int \<times> int \<times> bytes \<times> cmsg list) prog" where
  "returned_msg buf ancs =
     (case ancs of
        [] \<Rightarrow> fault Out_of_bounds
      | anc # ancs \<Rightarrow>
          and_then (cmsg_word anc 0) (\<lambda>e.
          and_then (cmsg_word anc 1) (\<lambda>n.
          let rc = (if n < 0 \<or> n > int (length buf) then int (length buf) else n) in
          case ancs of
            [] \<Rightarrow> fault Out_of_bounds
          | anc # ancs \<Rightarrow>
              if rc > int (length (cmsg_bytes anc)) then fault Out_of_bounds
              else ret (e, rc, overwrite buf 0 (take (nat rc) (cmsg_bytes anc)), ancs))))"

record received =
  rv_rc :: int
  rv_buf :: bytes
  rv_src :: "tipc_addr_t option"
  rv_dst :: "tipc_addr_t option"
  rv_err :: "int option"

definition tipc_recvfrom ::
  "int \<Rightarrow> bytes \<Rightarrow> tipc_addr_t option \<Rightarrow> tipc_addr_t option \<Rightarrow> int option \<Rightarrow> received prog" where
  "tipc_recvfrom sd buf src dst err =
     and_then (receive (C_recvmsg sd (int (length buf))) buf) (\<lambda>r.
     if r_ret r < 0 then
       ret \<lparr>rv_rc = r_ret r, rv_buf = buf, rv_src = src, rv_dst = dst, rv_err = err\<rparr>
     else
     let src = map_option (\<lambda>_. port_of (r_addr r)) src; buf = recv_into buf r in
     and_then
       (if r_anc r \<noteq> [] \<and> cmsg_type (hd (r_anc r)) = TIPC_ERRINFO then returned_msg buf (r_anc r)
        else ret (0, r_ret r, buf, r_anc r)) (\<lambda>(e, rc, buf, ancs).
     and_then (if e \<noteq> 0 then and_then (tipc_sockid sd src) (\<lambda>(_, src). ret src) else ret src) (\<lambda>src.
     let rc = (if err = None \<and> e \<noteq> 0 then 0 else rc); err = map_option (\<lambda>_. e) err in
     if dst = None then
       ret \<lparr>rv_rc = rc, rv_buf = buf, rv_src = src, rv_dst = None, rv_err = err\<rparr>
     else
     and_then
       (if ancs \<noteq> [] \<and> cmsg_type (hd ancs) = TIPC_DESTNAME then
          and_then (cmsg_word (hd ancs) 0) (\<lambda>t.
          and_then (cmsg_word (hd ancs) 1) (\<lambda>i.
          ret (Some \<lparr>ta_type = of_int t, ta_instance = of_int i, ta_domain = 0\<rparr>)))
        else and_then (tipc_sockid sd dst) (\<lambda>(_, dst). ret dst)) (\<lambda>dst.
     ret \<lparr>rv_rc = rc, rv_buf = buf, rv_src = src, rv_dst = dst, rv_err = err\<rparr>))))"

section \<open>The topology server\<close>

definition tipc_topsrv_conn :: "u32 \<Rightarrow> int prog" where
  "tipc_topsrv_conn node =
     (let srv = \<lparr>ta_type = TIPC_TOP_SRV, ta_instance = TIPC_TOP_SRV, ta_domain = node\<rparr> in
      and_then (tipc_socket SOCK_SEQPACKET) (\<lambda>sd.
      if sd \<le> 0 then ret sd else
      and_then (tipc_connect sd (Some srv)) (\<lambda>rc.
      and_then (if rc < 0 then and_then (tipc_close sd) (\<lambda>_. ret ()) else ret ()) (\<lambda>_.
      ret sd))))"

definition tipc_srv_subscr :: "int \<Rightarrow> u32 \<Rightarrow> u32 \<Rightarrow> u32 \<Rightarrow> bool \<Rightarrow> int \<Rightarrow> int prog" where
  "tipc_srv_subscr sd type lower upper all_ports expire =
     and_then uninit_subscr (\<lambda>subscr.
     let subscr = subscr\<lparr>sub_seq := \<lparr>seq_type = type, seq_lower = lower, seq_upper = upper\<rparr>,
           sub_timeout := (if expire < 0 then TIPC_WAIT_FOREVER else of_int expire),
           sub_filter := (if all_ports then TIPC_SUB_PORTS else TIPC_SUB_SERVICE)\<rparr> in
     and_then (sys (C_send_subscr sd subscr)) (\<lambda>r.
     if r_ret r \<noteq> sizeof_subscr then ret (-1) else ret 0))"

record srv_event =
  se_rc :: int
  se_srv :: "tipc_addr_t option"
  se_id :: "tipc_addr_t option"
  se_available :: "bool option"
  se_expired :: "bool option"

definition tipc_srv_evt ::
  "int \<Rightarrow> tipc_addr_t option \<Rightarrow> tipc_addr_t option \<Rightarrow> bool option \<Rightarrow> bool option \<Rightarrow> srv_event prog" where
  "tipc_srv_evt sd srv idp available expired =
     and_then (sys (C_recv_event sd)) (\<lambda>r.
     let evt = r_event r in
     if r_ret r \<noteq> sizeof_event then
       ret \<lparr>se_rc = -1, se_srv = srv, se_id = idp, se_available = available, se_expired = expired\<rparr>
     else if ev_event evt = TIPC_SUBSCR_TIMEOUT then
       ret \<lparr>se_rc = 0, se_srv = srv, se_id = idp, se_available = available,
            se_expired = map_option (\<lambda>_. True) expired\<rparr>
     else
       ret \<lparr>se_rc = 0,
            se_srv = map_option (\<lambda>_. \<lparr>ta_type = seq_type (sub_seq (ev_s evt)),
              ta_instance = ev_found_lower evt, ta_domain = port_node (ev_port evt)\<rparr>) srv,
            se_id = map_option (\<lambda>_. \<lparr>ta_type = 0, ta_instance = port_ref (ev_port evt),
              ta_domain = port_node (ev_port evt)\<rparr>) idp,
            se_available = map_option (\<lambda>_. ev_event evt = TIPC_PUBLISHED) available,
            se_expired = map_option (\<lambda>_. False) expired\<rparr>)"

definition tipc_srv_wait :: "tipc_addr_t \<Rightarrow> int \<Rightarrow> bool prog" where
  "tipc_srv_wait srv wait =
     and_then (tipc_topsrv_conn 0) (\<lambda>sd.
     if sd < 0 then ret False else
     and_then (tipc_srv_subscr sd (ta_type srv) (ta_instance srv) (ta_instance srv) False wait) (\<lambda>rc1.
     and_then (tipc_srv_evt sd None None (Some False) (Some False)) (\<lambda>e.
     let rc = (if rc1 \<noteq> 0 \<or> se_rc e \<noteq> 0 then -1 else 0 :: int) in
     and_then (sys (C_close sd)) (\<lambda>_.
     if se_expired e = Some True then ret False
     else ret (if rc \<noteq> 0 then False else se_available e = Some True)))))"

definition tipc_neigh_subscr :: "u32 \<Rightarrow> int prog" where
  "tipc_neigh_subscr node =
     and_then (tipc_topsrv_conn node) (\<lambda>sd.
     if sd \<le> 0 then ret (-1) else
     and_then (tipc_srv_subscr sd TIPC_CFG_SRV 0 (NOT 0) True (-1)) (\<lambda>rc.
     if rc \<noteq> 0 then ret (-1) else ret sd))"

definition tipc_neigh_evt ::
  "int \<Rightarrow> u32 option \<Rightarrow> bool option \<Rightarrow> (int \<times> u32 option \<times> bool option) prog" where
  "tipc_neigh_evt sd neigh_node available =
     and_then uninit_ta (\<lambda>srv.
     and_then (tipc_srv_evt sd (Some srv) None available None) (\<lambda>e.
     let srv = (case se_srv e of Some s \<Rightarrow> s | None \<Rightarrow> srv) in
     ret (se_rc e, map_option (\<lambda>_. ta_instance srv) neigh_node, se_available e)))"

definition tipc_link_subscr :: "u32 \<Rightarrow> int prog" where
  "tipc_link_subscr node =
     and_then (tipc_topsrv_conn node) (\<lambda>sd.
     if sd \<le> 0 then ret (-1) else
     and_then (tipc_srv_subscr sd TIPC_LINK_STATE 0 (NOT 0) True (-1)) (\<lambda>rc.
     if rc \<noteq> 0 then ret (-1) else ret sd))"

record link_event =
  le_rc :: int
  le_node :: "u32 option"
  le_available :: "bool option"
  le_local :: "int option"
  le_remote :: "int option"

definition tipc_link_evt ::
  "int \<Rightarrow> u32 option \<Rightarrow> bool option \<Rightarrow> int option \<Rightarrow> int option \<Rightarrow> link_event prog" where
  "tipc_link_evt sd neigh_node available local_bearerid remote_bearerid =
     and_then (sys (C_recv_event sd)) (\<lambda>r.
     let evt = r_event r in
     if r_ret r \<noteq> sizeof_event then
       ret \<lparr>le_rc = -1, le_node = neigh_node, le_available = available,
            le_local = local_bearerid, le_remote = remote_bearerid\<rparr>
     else
       ret \<lparr>le_rc = 0, le_node = map_option (\<lambda>_. ev_found_lower evt) neigh_node,
            le_available = map_option (\<lambda>_. ev_event evt = TIPC_PUBLISHED) available,
            le_local = map_option (\<lambda>_. uint (port_ref (ev_port evt) AND 0xffff)) local_bearerid,
            le_remote = map_option (\<lambda>_. uint (drop_bit 16 (port_ref (ev_port evt)) AND 0xffff))
              remote_bearerid\<rparr>)"

section \<open>Texts\<close>

text \<open>
  \<^verbatim>\<open>snprintf(buf, len, ..)\<close> of a text: at most \<open>len - 1\<close> characters and a terminator.
  \<^verbatim>\<open>strncpy(buf, s, len)\<close>: at most \<open>len\<close> characters, filled up with zeros. Then the byte at
  index \<open>len\<close> is cleared.
\<close>

definition snprintf :: "bytes \<Rightarrow> nat \<Rightarrow> string \<Rightarrow> bytes prog" where
  "snprintf buf len text =
     (let out = (if len = 0 then [] else str_bytes (take (len - 1) text)) in
      if length out \<le> length buf then ret (overwrite buf 0 out) else fault Out_of_bounds)"

text \<open>\<^verbatim>\<open>sprintf\<close> of a text, which may not run past the buffer.\<close>

definition sprintf :: "bytes \<Rightarrow> string \<Rightarrow> bytes prog" where
  "sprintf buf text =
     (if length text + 1 \<le> length buf then ret (overwrite buf 0 (str_bytes text)) else fault Out_of_bounds)"

text \<open>A terminated string in an array, for printing.\<close>

definition string_of :: "bytes \<Rightarrow> string prog" where
  "string_of b = (case c_string b of None \<Rightarrow> fault Out_of_bounds | Some s \<Rightarrow> ret s)"

text \<open>Hexadecimal digits, as \<^verbatim>\<open>%x\<close> prints them.\<close>

definition hex_char :: "nat \<Rightarrow> char" where
  "hex_char d = (if d < 10 then digit_char d else char_of (87 + d))"

fun show_hex :: "nat \<Rightarrow> string" where
  "show_hex n = (if n < 16 then [hex_char n] else show_hex (n div 16) @ [hex_char (n mod 16)])"

declare show_hex.simps [simp del]

definition strncpy :: "bytes \<Rightarrow> bytes \<Rightarrow> nat \<Rightarrow> bytes prog" where
  "strncpy buf src len =
     (if len \<le> length buf
      then ret (overwrite buf 0 (take len (takeWhile (\<lambda>x. x \<noteq> 0) src @ replicate len 0)))
      else fault Out_of_bounds)"

definition put_byte :: "bytes \<Rightarrow> nat \<Rightarrow> u8 \<Rightarrow> bytes prog" where
  "put_byte buf i x = (if i < length buf then ret (buf[i := x]) else fault Out_of_bounds)"

text \<open>The reply to \<^verbatim>\<open>SIOCGETLINKNAME\<close> carries the link name; the socket is not closed.\<close>

definition tipc_linkname :: "bytes \<Rightarrow> nat \<Rightarrow> u32 \<Rightarrow> u32 \<Rightarrow> bytes prog" where
  "tipc_linkname buf len peer bearerid =
     and_then (put_byte buf 0 0) (\<lambda>buf.
     and_then (tipc_socket SOCK_RDM) (\<lambda>sd.
     if sd \<le> 0 then ret buf else
     and_then (sys (C_ioctl sd peer bearerid)) (\<lambda>r.
     if r_ret r < 0 then ret buf else
     and_then (strncpy buf (take 60 (r_data r)) len) (\<lambda>buf.
     put_byte buf len 0))))"

definition show_u32 :: "u32 \<Rightarrow> string" where
  "show_u32 x = show_int (uint x)"

definition domain_text :: "u32 \<Rightarrow> string" where
  "domain_text d = show_u32 (tipc_zone d) @ ''.'' @ show_u32 (tipc_cluster d) @ ''.'' @ show_u32 (tipc_node d)"

definition tipc_dtoa :: "u32 \<Rightarrow> bytes \<Rightarrow> nat \<Rightarrow> bytes prog" where
  "tipc_dtoa domain buf len =
     and_then (snprintf buf len (domain_text domain)) (\<lambda>buf. put_byte buf len 0)"

definition addr_text :: "tipc_addr_t \<Rightarrow> string" where
  "addr_text addr = show_u32 (ta_type addr) @ '':'' @ show_u32 (ta_instance addr) @ ''@'' @
     domain_text (ta_domain addr)"

definition tipc_ntoa :: "tipc_addr_t \<Rightarrow> bytes \<Rightarrow> nat \<Rightarrow> bytes prog" where
  "tipc_ntoa addr buf len =
     and_then (snprintf buf len (addr_text addr)) (\<lambda>buf. put_byte buf len 0)"

definition tipc_rtoa :: "u32 \<Rightarrow> u32 \<Rightarrow> u32 \<Rightarrow> u32 \<Rightarrow> bytes \<Rightarrow> nat \<Rightarrow> bytes prog" where
  "tipc_rtoa type lower upper domain buf len =
     and_then (snprintf buf len
       (show_u32 type @ '':'' @ show_u32 lower @ '':'' @ show_u32 upper @ ''@'' @
        domain_text domain)) (\<lambda>buf. put_byte buf len 0)"

end
