(* ===== verification/Doomed.thy ===== *)
theory Doomed
  imports Sys
begin

text \<open>
  Programs that cannot get anywhere. A \<open>meek\<close> program exchanges no messages and goes wrong in no
  other way than by an exit with status 1 or an access out of bounds; a \<open>doomed\<close> one, beyond that,
  never returns. One doomed statement makes the program doomed that runs into it.
\<close>

fun traffic :: "call \<Rightarrow> bool" where
  "traffic (C_send _ _ _) = True"
| "traffic (C_sendto _ _ _ _) = True"
| "traffic (C_sendmsg _ _ _) = True"
| "traffic (C_write _ _) = True"
| "traffic (C_recv _ _ _) = True"
| "traffic (C_recvfrom _ _ _) = True"
| "traffic (C_recvmsg _ _) = True"
| "traffic (C_read _ _) = True"
| "traffic _ = False"

definition idle :: "world \<Rightarrow> world \<Rightarrow> bool" where
  "idle w w' \<longleftrightarrow> filter traffic (calls w') = filter traffic (calls w)"

definition meek :: "'a prog \<Rightarrow> bool" where
  "meek m \<longleftrightarrow> (\<forall>w. idle w (snd (m w)) \<and>
     (case fst (m w) of Ret x \<Rightarrow> True | Exit n \<Rightarrow> n = 1 | Fault e \<Rightarrow> e = Out_of_bounds | Blocked \<Rightarrow> True))"

definition doomed :: "'a prog \<Rightarrow> bool" where
  "doomed m \<longleftrightarrow> meek m \<and> (\<forall>w x. fst (m w) \<noteq> Ret x)"

named_theorems meek_intros \<open>programs that end well or in the known ways\<close>

lemma meekD: "meek m \<Longrightarrow> m w = (out, w') \<Longrightarrow> idle w w' \<and>
   (case out of Ret x \<Rightarrow> True | Exit n \<Rightarrow> n = 1 | Fault e \<Rightarrow> e = Out_of_bounds | Blocked \<Rightarrow> True)"
  by (metis fst_conv meek_def snd_conv)

lemma idle_trans: "idle w w' \<Longrightarrow> idle w' w'' \<Longrightarrow> idle w w''"
  by (simp add: idle_def)

lemma meek_and_then [meek_intros]:
  assumes m: "meek m" and f: "\<And>x. meek (f x)"
  shows "meek (and_then m f)"
  unfolding meek_def
proof
  fix w
  obtain out w' where run: "m w = (out, w')" by (cases "m w")
  show "idle w (snd (and_then m f w)) \<and> (case fst (and_then m f w) of
      Ret x \<Rightarrow> True | Exit n \<Rightarrow> n = 1 | Fault e \<Rightarrow> e = Out_of_bounds | Blocked \<Rightarrow> True)"
  proof (cases out)
    case (Ret x)
    obtain out' w'' where "f x w' = (out', w'')" by (cases "f x w'")
    with Ret run meekD [OF m run] meekD [OF f, of x w'] show ?thesis
      by (auto simp: and_then_def intro: idle_trans)
  qed (use meekD [OF m run] run in \<open>simp_all add: and_then_def\<close>)
qed

lemma doomed_and_then:
  assumes m: "meek m" and f: "\<And>x. doomed (f x)"
  shows "doomed (and_then m f)"
proof -
  have "fst (and_then m f w) \<noteq> Ret y" for w y
    using f by (cases "m w"; cases "fst (m w)") (auto simp: and_then_def doomed_def)
  with meek_and_then [OF m, of f] f show ?thesis by (simp add: doomed_def)
qed

lemma doomed_first:
  assumes "doomed m"
  shows "doomed (and_then m f)"
proof -
  have "idle w (snd (and_then m f w)) \<and> (case fst (and_then m f w) of
      Ret x \<Rightarrow> False | Exit n \<Rightarrow> n = 1 | Fault e \<Rightarrow> e = Out_of_bounds | Blocked \<Rightarrow> True)" for w
  proof -
    obtain out w' where run: "m w = (out, w')" by (cases "m w")
    with assms have "out \<noteq> Ret x" for x by (metis doomed_def fst_conv)
    with run meekD [of m w out w'] assms show ?thesis
      by (cases out) (auto simp: and_then_def doomed_def)
  qed
  then show ?thesis
    unfolding doomed_def meek_def by (fastforce split: outcome.splits)
qed

lemma doomedD: "doomed m \<Longrightarrow> idle w (snd (m w)) \<and> fst (m w) \<in> {Exit 1, Fault Out_of_bounds, Blocked}"
  by (cases "m w"; cases "fst (m w)") (auto simp: doomed_def dest: meekD spec [of _ w])

lemma doomed_meek: "doomed m \<Longrightarrow> meek m"
  by (simp add: doomed_def)

lemma doomed_if: "doomed m \<Longrightarrow> doomed n \<Longrightarrow> doomed (if b then m else n)"
  by simp

lemma idle_simps [simp]:
  "idle w w" "idle w (w\<lparr>replies := rs\<rparr>)"
  "idle w (w\<lparr>calls := calls w @ [c]\<rparr>) \<longleftrightarrow> \<not> traffic c"
  "idle w (w\<lparr>replies := rs, calls := calls w @ [c]\<rparr>) \<longleftrightarrow> \<not> traffic c"
  by (simp_all add: idle_def)

lemma meek_basic [meek_intros]:
  "meek (ret x)" "\<not> traffic c \<Longrightarrow> meek (sys c)" "\<not> traffic c \<Longrightarrow> meek (emit c)" "meek (get_var g)"
  "(\<And>w. calls (h w) = calls w) \<Longrightarrow> meek (set_var h)" "meek uninit_addr" "meek uninit_subscr"
  "meek (uninit_bytes n)" "meek (fault Out_of_bounds)" "meek (exit_prog 1)"
  by (auto simp: meek_def ret_def sys_def emit_def get_var_def set_var_def uninit_addr_def uninit_subscr_def
      uninit_bytes_def fault_def exit_prog_def idle_def split: list.splits)

lemma meek_if [meek_intros]: "meek m \<Longrightarrow> meek n \<Longrightarrow> meek (if b then m else n)"
  by simp

lemma meek_case [meek_intros]:
  "meek m \<Longrightarrow> (\<And>x. meek (f x)) \<Longrightarrow> meek (case y of None \<Rightarrow> m | Some x \<Rightarrow> f x)"
  "(\<And>a b. meek (g a b)) \<Longrightarrow> meek (case z of (a, b) \<Rightarrow> g a b)"
  by (simp_all split: option.split prod.split)

lemma meek_loop_fuel: "(\<And>s. meek (body s)) \<Longrightarrow> meek (loop_fuel n body s)"
proof (induction n arbitrary: s)
  case (Suc n)
  have "meek (and_then (body s) (\<lambda>r. case r of Inl s' \<Rightarrow> loop_fuel n body s' | Inr x \<Rightarrow> ret x))"
    using Suc by (intro meek_intros) (simp_all add: meek_basic split: sum.split)
  then show ?case by (simp add: meek_def)
qed (simp_all add: meek_def)

lemma meek_loop [meek_intros]: "(\<And>s. meek (body s)) \<Longrightarrow> meek (loop body s)"
  using meek_loop_fuel [of body _ s] by (simp add: meek_def loop_def del: loop_fuel.simps)

lemma doomed_exit: "doomed (exit_prog 1)" "doomed (fault Out_of_bounds)"
  by (simp_all add: doomed_def meek_basic) (simp_all add: exit_prog_def fault_def)

lemma doomed_uninit:
  assumes "\<And>b. length b = n \<Longrightarrow> doomed (f b)"
  shows "doomed (and_then (uninit_bytes n) f)"
proof -
  have "doomed (f (take n (stk_bytes w @ replicate n 0)))" for w
    by (rule assms) (simp add: min_def)
  moreover have "and_then (uninit_bytes n) f w = f (take n (stk_bytes w @ replicate n 0)) w" for w
    by (rule run_uninit_bytes)
  ultimately show ?thesis unfolding doomed_def meek_def by metis
qed

lemma doomed_case_prod: "(\<And>a b. doomed (g a b)) \<Longrightarrow> doomed (case z of (a, b) \<Rightarrow> g a b)"
  by (cases z) simp

end
