(* ===== verification/Safe.thy ===== *)
theory Safe
  imports Sys
begin

text \<open>
  A small logic for memory safety. \<open>safe K E Q m\<close>: on every run of \<open>m\<close> in which the replies of the
  kernel satisfy \<open>K\<close>, \<open>m\<close> faults only in the ways in \<open>E\<close>, and what it returns satisfies \<open>Q\<close>. With
  \<open>E\<close> empty it says that the program never leaves an array, never divides by 0 and never reads what
  was not written; with \<open>Q\<close> an invariant of the variables of a loop it says that every turn keeps
  it. The rules follow the structure of a program, so a proof names the invariants of its loops
  and no more.
\<close>

definition lawful :: "(reply \<Rightarrow> bool) \<Rightarrow> world \<Rightarrow> bool" where
  "lawful K w \<longleftrightarrow> list_all K (replies w)"

definition safe :: "(reply \<Rightarrow> bool) \<Rightarrow> fault set \<Rightarrow> ('a \<Rightarrow> bool) \<Rightarrow> 'a prog \<Rightarrow> bool" where
  "safe K E Q m \<longleftrightarrow> (\<forall>w. lawful K w \<longrightarrow>
     (case m w of (Ret x, w') \<Rightarrow> Q x \<and> lawful K w' | (Fault e, w') \<Rightarrow> e \<in> E | _ \<Rightarrow> True))"

named_theorems safe_intros \<open>safety of programs\<close>

lemma lawful_any [simp]: "lawful (\<lambda>_. True) w"
  by (simp add: lawful_def list_all_iff)

lemma safe_Ret: "safe K E Q m \<Longrightarrow> m w = (Ret x, w') \<Longrightarrow> lawful K w \<Longrightarrow> Q x \<and> lawful K w'"
  unfolding safe_def by (drule spec [of _ w]) simp

lemma safe_Fault: "safe K E Q m \<Longrightarrow> m w = (Fault e, w') \<Longrightarrow> lawful K w \<Longrightarrow> e \<in> E"
  unfolding safe_def by (drule spec [of _ w]) simp

lemma safe_no_fault: "safe K {} Q m \<Longrightarrow> lawful K w \<Longrightarrow> fst (m w) \<noteq> Fault e"
  using safe_Fault [of K "{}" Q m w e "snd (m w)"] by (cases "m w") auto

lemma safe_weaken: "safe K E P m \<Longrightarrow> (\<And>x. P x \<Longrightarrow> Q x) \<Longrightarrow> safe K E Q m"
  unfolding safe_def by (fastforce split: outcome.splits prod.splits)

section \<open>The statements\<close>

lemma safe_bind:
  assumes m: "safe K E P m" and f: "\<And>x. P x \<Longrightarrow> safe K E Q (f x)"
  shows "safe K E Q (and_then m f)"
  unfolding safe_def
proof (intro allI impI)
  fix w
  assume w: "lawful K w"
  obtain out w' where run: "m w = (out, w')" by (cases "m w")
  show "case and_then m f w of (Ret x, w') \<Rightarrow> Q x \<and> lawful K w' | (Fault e, w') \<Rightarrow> e \<in> E | _ \<Rightarrow> True"
  proof (cases out)
    case (Ret x)
    with run safe_Ret [OF m _ w] have "P x" "lawful K w'" by auto
    with Ret run f [of x] show ?thesis by (simp add: and_then_def safe_def)
  next
    case (Fault e)
    with run safe_Fault [OF m _ w] show ?thesis by (simp add: and_then_def)
  qed (use run in \<open>simp_all add: and_then_def\<close>)
qed

text \<open>Statements whose result may be anything.\<close>

abbreviation (input) harmless :: "(reply \<Rightarrow> bool) \<Rightarrow> fault set \<Rightarrow> 'a prog \<Rightarrow> bool" where
  "harmless K E m \<equiv> safe K E (\<lambda>_. True) m"

lemma harmless_bind: "harmless K E m \<Longrightarrow> (\<And>x. safe K E Q (f x)) \<Longrightarrow> safe K E Q (and_then m f)"
  by (rule safe_bind)

lemma safe_harmless: "safe K E Q m \<Longrightarrow> harmless K E m"
  by (erule safe_weaken) simp

lemma safe_ret [safe_intros]: "Q x \<Longrightarrow> safe K E Q (ret x)"
  by (simp add: safe_def ret_def)

lemma safe_stop [safe_intros]:
  "safe K E Q (exit_prog n)" "safe K E Q spin" "e \<in> E \<Longrightarrow> safe K E Q (fault e)"
  by (simp_all add: safe_def exit_prog_def spin_def fault_def)

lemma safe_sys: "safe K E K (sys c)"
  by (auto simp: safe_def sys_def lawful_def split: list.splits)

lemma safe_sys_then [safe_intros]: "(\<And>r. K r \<Longrightarrow> safe K E Q (f r)) \<Longrightarrow> safe K E Q (and_then (sys c) f)"
  by (rule safe_bind [OF safe_sys])

text \<open>A receiving call asks for no more than its buffer holds.\<close>

lemma safe_receive: "0 \<le> asked c \<and> asked c \<le> int (length buf) \<or> Out_of_bounds \<in> E \<Longrightarrow> safe K E K (receive c buf)"
  by (auto simp: receive_def safe_sys intro: safe_stop)

lemma safe_receive_then [safe_intros]:
  "0 \<le> asked c \<and> asked c \<le> int (length buf) \<or> Out_of_bounds \<in> E \<Longrightarrow>
   (\<And>r. K r \<Longrightarrow> safe K E Q (f r)) \<Longrightarrow> safe K E Q (and_then (receive c buf) f)"
  by (rule safe_bind [OF safe_receive])

lemma safe_call [safe_intros]:
  "harmless K E (sys c)" "harmless K E (emit c)" "harmless K E (get_var g)"
  "harmless K E uninit_addr" "harmless K E uninit_subscr"
  using safe_harmless [OF safe_sys]
  by (simp_all add: safe_def emit_def get_var_def uninit_addr_def uninit_subscr_def lawful_def)

lemma safe_set_var [safe_intros]: "(\<And>w. replies (h w) = replies w) \<Longrightarrow> harmless K E (set_var h)"
  by (simp add: safe_def set_var_def lawful_def)

lemma safe_uninit_bytes: "safe K E (\<lambda>b. length b = n) (uninit_bytes n)"
  by (auto simp: safe_def uninit_bytes_def min_def)

lemma safe_uninit_bytes_then [safe_intros]:
  "(\<And>b. length b = n \<Longrightarrow> safe K E Q (f b)) \<Longrightarrow> safe K E Q (and_then (uninit_bytes n) f)"
  by (rule safe_bind [OF safe_uninit_bytes])

lemma safe_if [safe_intros]:
  "(b \<Longrightarrow> safe K E Q m) \<Longrightarrow> (\<not> b \<Longrightarrow> safe K E Q n) \<Longrightarrow> safe K E Q (if b then m else n)"
  by simp

lemma safe_case [safe_intros]:
  "(v = None \<Longrightarrow> safe K E Q m) \<Longrightarrow> (\<And>x. v = Some x \<Longrightarrow> safe K E Q (f x)) \<Longrightarrow>
     safe K E Q (case v of None \<Rightarrow> m | Some x \<Rightarrow> f x)"
  "(\<And>a b. u = (a, b) \<Longrightarrow> safe K E Q (g a b)) \<Longrightarrow> safe K E Q (case u of (a, b) \<Rightarrow> g a b)"
  by (cases v; simp) (cases u; simp)

lemma safe_only_if [safe_intros]: "(b \<Longrightarrow> harmless K E m) \<Longrightarrow> harmless K E (only_if b m)"
  by (simp add: only_if_def safe_ret)

lemma safe_block [safe_intros]: "(\<And>m. m \<in> set ms \<Longrightarrow> harmless K E m) \<Longrightarrow> harmless K E (block ms)"
proof (induction ms)
  case (Cons m ms)
  then show ?case by (simp add: harmless_bind)
qed (simp add: safe_ret)

lemma safe_for_each [safe_intros]:
  "(\<And>i. i \<in> set is \<Longrightarrow> harmless K E (f i)) \<Longrightarrow> harmless K E (for_each is f)"
  by (induction "is") (simp_all add: safe_ret harmless_bind)

lemma safe_for_state:
  "(\<And>i s. i \<in> set is \<Longrightarrow> I s \<Longrightarrow> safe K E I (f i s)) \<Longrightarrow> I s \<Longrightarrow> safe K E I (for_state is f s)"
proof (induction "is" arbitrary: s)
  case (Cons i "is")
  have "safe K E I (f i s)" using Cons.prems by simp
  moreover have "safe K E I (for_state is f t)" if "I t" for t
    using that Cons.prems(1) by (intro Cons.IH) simp_all
  ultimately show ?case by (simp add: safe_bind)
qed (simp add: safe_ret)

section \<open>Loops\<close>

text \<open>The invariant of the loop holds before every turn.\<close>

fun keeps :: "('s \<Rightarrow> bool) \<Rightarrow> ('r \<Rightarrow> bool) \<Rightarrow> 's + 'r \<Rightarrow> bool" where
  "keeps I Q (Inl s) = I s"
| "keeps I Q (Inr x) = Q x"

lemma keeps_True: "keeps (\<lambda>_. True) (\<lambda>_. True) = (\<lambda>_. True)"
proof
  show "keeps (\<lambda>_. True) (\<lambda>_. True) r = True" for r :: "'a + 'b" by (cases r) simp_all
qed

lemma safe_loop_fuel:
  assumes "\<And>s. I s \<Longrightarrow> safe K E (keeps I Q) (body s)"
  shows "I s \<Longrightarrow> safe K E Q (loop_fuel n body s)"
proof (induction n arbitrary: s)
  case (Suc n)
  have "safe K E Q (and_then (body s) (\<lambda>r. case r of Inl s' \<Rightarrow> loop_fuel n body s' | Inr x \<Rightarrow> ret x))"
  proof (rule safe_bind [OF assms [OF Suc.prems]])
    fix r
    assume "keeps I Q r"
    then show "safe K E Q (case r of Inl s' \<Rightarrow> loop_fuel n body s' | Inr x \<Rightarrow> ret x)"
      by (cases r) (simp_all add: Suc.IH safe_ret)
  qed
  then show ?case by (simp add: safe_def)
qed (simp add: safe_def)

lemma safe_loop:
  assumes "\<And>s. I s \<Longrightarrow> safe K E (keeps I Q) (body s)" and "I s"
  shows "safe K E Q (loop body s)"
proof -
  have "safe K E Q (loop_fuel n body s)" for n
    using assms by (rule safe_loop_fuel)
  then show ?thesis by (simp add: safe_def loop_def del: loop_fuel.simps)
qed

lemma harmless_loop [safe_intros]: "(\<And>s. harmless K E (body s)) \<Longrightarrow> harmless K E (loop body s)"
  by (rule safe_loop [where I = "\<lambda>_. True"]) (simp_all add: keeps_True)

section \<open>Buffers and numbers\<close>

lemma safe_malloc: "safe K E (\<lambda>b. case b of None \<Rightarrow> True | Some buf \<Rightarrow> length buf = nat n) (malloc n)"
  unfolding malloc_def by (intro safe_intros) (auto simp: min_def)

lemma safe_div [safe_intros]: "b \<noteq> 0 \<or> Div_by_zero \<in> E \<Longrightarrow> harmless K E (c_div a b)"
  "d \<noteq> 0 \<or> Div_by_zero \<in> E \<Longrightarrow> harmless K E (u64_div x d)"
  by (auto simp: c_div_def u64_div_def intro!: safe_intros)

end
