(* ===== verification/Tipcc_Props.thy ===== *)
theory Tipcc_Props
  imports Tipcc Doomed Safe
begin

text \<open>
  What the C binding of TIPC promises its callers: which domains a name may be bound to, what
  becomes of messages and of messages that come back, waiting for a service, and the texts of
  addresses. Two findings are theorems here: a topology connection that failed is handed out
  closed, and every text function clears a byte behind the length it is given. The locale
  \<^verbatim>\<open>address_printer\<close> holds what the text functions have in common; it is interpreted on each of
  them, and on those of the older copy of the binding.
\<close>

section \<open>The own node and its scopes\<close>

lemmas tipcc_calls = tipc_socket_def tipc_close_def tipc_sockid_def uninit_ta_def

lemma own_node_known:
  "g_own_node w \<noteq> 0 \<Longrightarrow> tipc_own_node w = (Ret (g_own_node w), w)"
  by (simp add: tipc_own_node_def run)

lemma own_node_known_then [run]:
  "g_own_node w \<noteq> 0 \<Longrightarrow> and_then tipc_own_node f w = f (g_own_node w) w"
  by (simp add: and_then_def own_node_known)

lemma own_node_learned:
  assumes "g_own_node w = 0" and "replies w = s # a # c # rs" and "r_ret a \<ge> 0"
  shows "tipc_own_node w = (Ret (id_node (r_addr a)),
    w\<lparr>replies := rs, g_own_node := id_node (r_addr a),
      calls := calls w @ [C_socket AF_TIPC SOCK_RDM 0, C_getsockname (r_ret s), C_close (r_ret s)]\<rparr>)"
  using assms by (simp add: tipc_own_node_def tipcc_calls run port_of_def)

text \<open>
  The own node is asked for once: the first function that needs it opens a socket, asks for
  its address and closes it. \<open>knows_node w n s a c rs\<close>: the node \<open>n\<close> is known, or the next replies
  tell it; \<open>rs\<close> are the replies after that. \<open>node_asked\<close> is the world once it is known.
\<close>

definition knows_node :: "world \<Rightarrow> u32 \<Rightarrow> reply \<Rightarrow> reply \<Rightarrow> reply \<Rightarrow> reply list \<Rightarrow> bool" where
  "knows_node w n s a c rs \<longleftrightarrow> n \<noteq> 0 \<and>
     (if g_own_node w \<noteq> 0 then g_own_node w = n \<and> replies w = rs
      else replies w = s # a # c # rs \<and> 0 \<le> r_ret a \<and> id_node (r_addr a) = n)"

definition asks_node :: "world \<Rightarrow> reply \<Rightarrow> call list" where
  "asks_node w s = (if g_own_node w \<noteq> 0 then []
     else [C_socket AF_TIPC SOCK_RDM 0, C_getsockname (r_ret s), C_close (r_ret s)])"

definition node_asked :: "world \<Rightarrow> u32 \<Rightarrow> reply \<Rightarrow> reply list \<Rightarrow> world" where
  "node_asked w n s rs = w\<lparr>replies := rs, g_own_node := n, calls := calls w @ asks_node w s\<rparr>"

lemma node_asked_known: "g_own_node w \<noteq> 0 \<Longrightarrow> knows_node w n s a c rs \<Longrightarrow> node_asked w n s rs = w"
  by (cases w) (auto simp: knows_node_def node_asked_def asks_node_def)

lemma own_node_asked:
  "knows_node w n s a c rs \<Longrightarrow> tipc_own_node w = (Ret n, node_asked w n s rs)"
  using own_node_learned [of w s a c rs] own_node_known [of w]
  by (cases "g_own_node w = 0") (auto simp: node_asked_known, auto simp: knows_node_def node_asked_def asks_node_def)

lemma own_node_asked_then:
  "knows_node w n s a c rs \<Longrightarrow> and_then tipc_own_node f w = f n (node_asked w n s rs)"
  by (simp add: and_then_def own_node_asked)

text \<open>The domains that are the own node, its cluster, its zone, or everything.\<close>

definition own_scope :: "u32 \<Rightarrow> u32 \<Rightarrow> u8 option" where
  "own_scope n d =
     (if d = 0 then Some TIPC_ZONE_SCOPE
      else if d = n then Some TIPC_NODE_SCOPE
      else if d = n AND NOT 0xfff then Some TIPC_CLUSTER_SCOPE
      else if d = n AND NOT 0xffffff then Some TIPC_ZONE_SCOPE
      else None)"

lemma own_scope_range: "own_scope n d = Some s \<Longrightarrow> s \<le> 3 \<and> s \<noteq> 0"
  by (auto simp: own_scope_def split: if_splits)

lemma domain2scope_known [run]:
  "g_own_node w \<noteq> 0 \<Longrightarrow> and_then (domain2scope d) f w =
     f (case own_scope (g_own_node w) d of Some s \<Rightarrow> s | None \<Rightarrow> 0xff) w"
  by (auto simp: domain2scope_def tipc_own_cluster_def tipc_own_zone_def own_scope_def run)

lemma domain2scope_all [run]: "and_then (domain2scope 0) f w = f TIPC_ZONE_SCOPE w"
  by (simp add: domain2scope_def run)

lemma bind_known:
  assumes "g_own_node w \<noteq> 0" and "replies w = r # rs"
  shows "tipc_bind sd t l u d w =
    (case own_scope (g_own_node w) d of
       Some s \<Rightarrow> (Ret (r_ret r), w\<lparr>replies := rs, calls := calls w @ [C_bind sd (seq_addr t l u s)]\<rparr>)
     | None \<Rightarrow> (Ret (-1), w))"
proof (cases "own_scope (g_own_node w) d")
  case None
  then show ?thesis using assms
    by (simp add: tipc_bind_def my_scope_def run Let_def)
next
  case (Some s)
  then have "s \<le> 3" "d = 0 \<Longrightarrow> s = 1"
    using own_scope_range by (auto simp: own_scope_def)
  then show ?thesis using assms Some
    by (cases "d = 0") (simp_all add: tipc_bind_def my_scope_def run Let_def)
qed

text \<open>With another domain than 0 the newer tipc_bind begins by asking for the own node.\<close>

lemma domain2scope_asks:
  assumes "knows_node w n s a c rs" and "d \<noteq> 0"
  shows "and_then (domain2scope d) f w = and_then (domain2scope d) f (node_asked w n s rs)"
proof -
  have "g_own_node (node_asked w n s rs) = n" "n \<noteq> 0"
    using assms(1) by (simp_all add: knows_node_def node_asked_def)
  then show ?thesis
    using assms(2) by (simp add: domain2scope_def run own_node_asked_then [OF assms(1)])
qed

lemma bind_asks:
  "knows_node w n s a c rs \<Longrightarrow> d \<noteq> 0 \<Longrightarrow>
   tipc_bind sd t l u d w = tipc_bind sd t l u d (node_asked w n s rs)"
  by (simp add: tipc_bind_def Let_def domain2scope_asks [of w n s a c rs d])

text \<open>
  C21. A name is bound with the scope its domain stands for: node scope for the own node \<open>n\<close>,
  cluster scope for its cluster, zone scope for its zone. A domain that the own node does not
  belong to is refused without a bind. The own node is what was learned before, or else it is
  asked for now, with one socket that is closed again, and kept for the next time. For the domain
  0 the scope is the zone, and nothing is asked. That the node has an address other than 0
  which the kernel tells is assumed.
\<close>

theorem tipc_bind_by_domain:
  assumes "knows_node w n s a c (r # rs)"
  shows "(d \<noteq> 0 \<longrightarrow> tipc_bind sd t l u d w =
      (case own_scope n d of
         Some sc \<Rightarrow> (Ret (r_ret r), w\<lparr>replies := rs, g_own_node := n,
                        calls := calls w @ asks_node w s @ [C_bind sd (seq_addr t l u sc)]\<rparr>)
       | None \<Rightarrow> (Ret (-1), w\<lparr>replies := r # rs, g_own_node := n, calls := calls w @ asks_node w s\<rparr>))) \<and>
    tipc_bind sd t l u 0 w = (Ret (r_ret (hd (replies w))), w\<lparr>replies := tl (replies w),
      calls := calls w @ [C_bind sd (seq_addr t l u TIPC_ZONE_SCOPE)]\<rparr>)"
proof (intro conjI impI)
  assume "d \<noteq> 0"
  moreover have "g_own_node (node_asked w n s (r # rs)) = n" "n \<noteq> 0" "replies (node_asked w n s (r # rs)) = r # rs"
    using assms by (simp_all add: knows_node_def node_asked_def)
  ultimately show "tipc_bind sd t l u d w =
      (case own_scope n d of
         Some sc \<Rightarrow> (Ret (r_ret r), w\<lparr>replies := rs, g_own_node := n,
                        calls := calls w @ asks_node w s @ [C_bind sd (seq_addr t l u sc)]\<rparr>)
       | None \<Rightarrow> (Ret (-1), w\<lparr>replies := r # rs, g_own_node := n, calls := calls w @ asks_node w s\<rparr>))"
    using bind_asks [OF assms] bind_known [of "node_asked w n s (r # rs)" r rs]
    by (simp add: node_asked_def split: option.split)
next
  obtain r' rs' where "replies w = r' # rs'" using assms by (auto simp: knows_node_def split: if_splits)
  then show "tipc_bind sd t l u 0 w = (Ret (r_ret (hd (replies w))), w\<lparr>replies := tl (replies w),
      calls := calls w @ [C_bind sd (seq_addr t l u TIPC_ZONE_SCOPE)]\<rparr>)"
    by (simp add: tipc_bind_def my_scope_def run Let_def)
qed

theorem tipc_bind_by_domain_witness:
  "let a = (ok 0)\<lparr>r_addr := (r_addr (ok 0))\<lparr>sa_w1 := 0x0100100a\<rparr>\<rparr> in
   calls (snd (tipc_bind 3 1000 1 1 0x01001000 (world_of [ok 5, a, ok 0, ok 0]))) =
     [C_socket AF_TIPC SOCK_RDM 0, C_getsockname 5, C_close 5, C_bind 3 (seq_addr 1000 1 1 TIPC_CLUSTER_SCOPE)] \<and>
   fst (tipc_bind 3 1000 1 1 0x01002000 ((world_of [ok 0])\<lparr>g_own_node := 0x0100100a\<rparr>)) = Ret (-1)"
proof -
  define a where "a = (ok 0)\<lparr>r_addr := (r_addr (ok 0))\<lparr>sa_w1 := 0x0100100a\<rparr>\<rparr>"
  have k: "knows_node (world_of [ok 5, a, ok 0, ok 0]) 0x0100100a (ok 5) a (ok 0) [ok 0]"
    "knows_node ((world_of [ok 0])\<lparr>g_own_node := 0x0100100a\<rparr>) 0x0100100a (ok 5) a (ok 0) [ok 0]"
    by (simp_all add: knows_node_def world_of_def a_def)
  show ?thesis
    using tipc_bind_by_domain [OF k(1), of "0x01001000" 3 1000 1 1] tipc_bind_by_domain [OF k(2), of "0x01002000" 3 1000 1 1]
    by (simp add: Let_def a_def [symmetric] own_scope_def asks_node_def) (simp add: world_of_def)
qed

section \<open>Connections to the topology server\<close>

lemmas topology_calls = tipc_topsrv_conn_def tipc_srv_subscr_def tipc_connect_def tipcc_calls Let_def

text \<open>
  C22. The connection to the topology server. Once connected, tipc_srv_wait answers yes exactly if
  the subscription was sent whole and the first event is whole and says the service is
  published; in every other case, a timeout included, the answer is no, and the connection is
  closed either way. When connecting fails, tipc_topsrv_conn closes its socket and still returns
  the descriptor as a success; tipc_link_subscr then sends its subscription to the closed
  descriptor, or to whatever has been opened under this number since, and returns it to its
  caller.
\<close>

theorem topology_connection:
  assumes "replies w = s # c # u # e # x # rs" and "0 < r_ret s"
  shows "(0 \<le> r_ret c \<longrightarrow> (\<exists>w'. tipc_srv_wait srv t w =
      (Ret (r_ret u = sizeof_subscr \<and> r_ret e = sizeof_event \<and> ev_event (r_event e) = TIPC_PUBLISHED), w') \<and>
      replies w' = rs \<and> last (calls w') = C_close (r_ret s))) \<and>
    (r_ret c < 0 \<and> r_ret e = sizeof_subscr \<longrightarrow> (\<exists>a sub. tipc_link_subscr node w =
      (Ret (r_ret s), w\<lparr>replies := x # rs, calls := calls w @
         [C_socket AF_TIPC SOCK_SEQPACKET 0, C_connect (r_ret s) a, C_close (r_ret s), C_send_subscr (r_ret s) sub]\<rparr>)))"
proof (intro conjI impI)
  assume "0 \<le> r_ret c"
  with assms show "\<exists>w'. tipc_srv_wait srv t w =
      (Ret (r_ret u = sizeof_subscr \<and> r_ret e = sizeof_event \<and> ev_event (r_event e) = TIPC_PUBLISHED), w') \<and>
      replies w' = rs \<and> last (calls w') = C_close (r_ret s)"
    by (cases "r_ret u = sizeof_subscr"; cases "r_ret e = sizeof_event";
        cases "ev_event (r_event e) = TIPC_SUBSCR_TIMEOUT")
      (simp_all add: tipc_srv_wait_def tipc_srv_evt_def topology_calls run)
next
  assume "r_ret c < 0 \<and> r_ret e = sizeof_subscr"
  with assms show "\<exists>a sub. tipc_link_subscr node w = (Ret (r_ret s), w\<lparr>replies := x # rs, calls := calls w @
         [C_socket AF_TIPC SOCK_SEQPACKET 0, C_connect (r_ret s) a, C_close (r_ret s), C_send_subscr (r_ret s) sub]\<rparr>)"
    by (simp add: tipc_link_subscr_def topology_calls run) blast
qed

theorem topology_connection_witness:
  "(\<exists>w'. tipc_srv_wait \<lparr>ta_type = 76453, ta_instance = 17, ta_domain = 0\<rparr> 1000
      (world_of [ok 4, ok 0, ok 28, (ok 48)\<lparr>r_event := (r_event (ok 0))\<lparr>ev_event := 1\<rparr>\<rparr>, ok 0]) = (Ret True, w')) \<and>
   (\<exists>w'. tipc_link_subscr 0 (world_of [ok 4, ok (-1), ok 0, ok 28, ok 0]) = (Ret 4, w'))"
  using topology_connection [of "world_of [ok 4, ok 0, ok 28, (ok 48)\<lparr>r_event := (r_event (ok 0))\<lparr>ev_event := 1\<rparr>\<rparr>, ok 0]"
      "ok 4" "ok 0" "ok 28" "(ok 48)\<lparr>r_event := (r_event (ok 0))\<lparr>ev_event := 1\<rparr>\<rparr>" "ok 0" "[]"
      "\<lparr>ta_type = 76453, ta_instance = 17, ta_domain = 0\<rparr>" 1000 0]
    topology_connection [of "world_of [ok 4, ok (-1), ok 0, ok 28, ok 0]" "ok 4" "ok (-1)" "ok 0" "ok 28" "ok 0" "[]"
      "\<lparr>ta_type = 0, ta_instance = 0, ta_domain = 0\<rparr>" 0 0]
  by (auto simp: world_of_def)

section \<open>Messages and returned messages\<close>

definition returned :: "reply \<Rightarrow> bool" where
  "returned m \<longleftrightarrow> r_anc m \<noteq> [] \<and> cmsg_type (hd (r_anc m)) = TIPC_ERRINFO"

text \<open>
  An answer reaches the sender: the source address that tipc_recvfrom fills in for an
  ordinary message makes tipc_sendto address the very port the message came from.
\<close>

lemma reply_reaches_sender:
  assumes "replies w = m # s # rs" and "0 \<le> r_ret m" and "\<not> returned m"
    and "0 \<le> n" and "n \<le> int (length out)"
  shows "\<exists>a. and_then (tipc_recvfrom sd buf (Some b) None err) (\<lambda>v. tipc_sendto sd out n (rv_src v)) w =
      (Ret (r_ret s), w\<lparr>replies := rs, calls := calls w @
         [C_recvmsg sd (int (length buf)), C_sendto sd (take (nat n) out) 0 a]\<rparr>) \<and>
    sa_addrtype a = TIPC_ADDR_ID \<and> id_ref a = id_ref (r_addr m) \<and> id_node a = id_node (r_addr m)"
  using assms
  by (auto simp: tipc_recvfrom_def tipc_sendto_def returned_def with_bytes_def dest_addr_def port_of_def
      run Let_def)

text \<open>What the kernel attaches to a message that comes back: error code and length, then the data.\<close>

definition returned_with :: "reply \<Rightarrow> int \<Rightarrow> bytes \<Rightarrow> bool" where
  "returned_with m e d \<longleftrightarrow> 0 \<le> r_ret m \<and>
     (\<exists>i1 i2 ancs. r_anc m = i1 # i2 # ancs \<and> cmsg_type i1 = TIPC_ERRINFO \<and>
        (\<exists>we wl rest. cmsg_words i1 = we # wl # rest \<and> sint we = e \<and> sint wl = int (length d)) \<and>
        cmsg_bytes i2 = d)"

text \<open>
  C23. A message that comes back: with an error pointer, tipc_recvfrom returns the number of
  returned bytes, cut to the buffer, the bytes at the start of the buffer and the error code;
  without one it returns 0, as the header promises. If the kernel attached no data, which it
  does when the returned message was empty, it runs through a null pointer.
\<close>

theorem returned_message:
  assumes "replies w = m # rs" and "e \<noteq> 0"
  shows "(returned_with m e d \<longrightarrow>
      (\<exists>v w'. tipc_recvfrom sd buf None None (Some e') w = (Ret v, w') \<and>
         rv_rc v = int (min (length d) (length buf)) \<and> rv_err v = Some e \<and>
         take (min (length d) (length buf)) (rv_buf v) = take (length buf) d) \<and>
      (\<exists>v w'. tipc_recvfrom sd buf None None None w = (Ret v, w') \<and> rv_rc v = 0)) \<and>
    (0 \<le> r_ret m \<and> returned m \<and> tl (r_anc m) = [] \<and> 2 \<le> length (cmsg_words (hd (r_anc m))) \<longrightarrow>
      (\<exists>w'. tipc_recvfrom sd buf None None err w = (Fault Out_of_bounds, w')))"
proof -
  have came_back: "\<exists>v w'. tipc_recvfrom sd buf None None x w = (Ret v, w') \<and>
      rv_rc v = (if x = None then 0 else int (min (length d) (length buf))) \<and> rv_err v = map_option (\<lambda>_. e) x \<and>
      take (min (length d) (length buf)) (rv_buf v) = take (length buf) d"
    if m: "returned_with m e d" for x
    using assms m
    by (auto simp: returned_with_def tipc_recvfrom_def returned_msg_def cmsg_word_def tipc_sockid_def run
        Let_def overwrite_def min_def)
  have empty: "\<exists>w'. tipc_recvfrom sd buf None None err w = (Fault Out_of_bounds, w')"
    if "0 \<le> r_ret m" "returned m" "tl (r_anc m) = []" "2 \<le> length (cmsg_words (hd (r_anc m)))"
  proof -
    from that obtain i a b rest where "r_anc m = [i]" "cmsg_type i = TIPC_ERRINFO" "cmsg_words i = a # b # rest"
      by (cases "r_anc m"; cases "cmsg_words (hd (r_anc m))"; cases "tl (cmsg_words (hd (r_anc m)))")
        (auto simp: returned_def)
    with that(1) assms(1) show ?thesis
      by (simp add: tipc_recvfrom_def returned_msg_def cmsg_word_def run Let_def)
  qed
  show ?thesis
    using came_back [of "Some e'"] came_back [of None] empty by auto
qed

theorem returned_message_witness:
  "\<exists>v w'. tipc_recvfrom 3 [0, 0] None None (Some 0)
     (world_of [(ok 0)\<lparr>r_anc := [\<lparr>cmsg_type = 1, cmsg_words = [2, 3], cmsg_bytes = []\<rparr>,
                               \<lparr>cmsg_type = 2, cmsg_words = [], cmsg_bytes = [7, 8, 9]\<rparr>]\<rparr>]) = (Ret v, w') \<and>
     rv_rc v = 2 \<and> rv_err v = Some 2 \<and> take 2 (rv_buf v) = [7, 8]"
  using returned_message [of "world_of [(ok 0)\<lparr>r_anc := [\<lparr>cmsg_type = 1, cmsg_words = [2, 3], cmsg_bytes = []\<rparr>,
        \<lparr>cmsg_type = 2, cmsg_words = [], cmsg_bytes = [7, 8, 9]\<rparr>]\<rparr>]"
      "(ok 0)\<lparr>r_anc := [\<lparr>cmsg_type = 1, cmsg_words = [2, 3], cmsg_bytes = []\<rparr>,
        \<lparr>cmsg_type = 2, cmsg_words = [], cmsg_bytes = [7, 8, 9]\<rparr>]\<rparr>" "[]" 2 "[7, 8, 9]" 3 "[0, 0]" 0 None]
  by (auto simp: world_of_def returned_with_def ok_def msg_reply_def eval_nat_numeral)

section \<open>Texts of addresses\<close>

lemma length_show_u32: "uint x < 10 ^ k \<Longrightarrow> 0 < k \<Longrightarrow> length (show_u32 x) \<le> k"
  by (simp add: show_u32_def length_show_int_nat)

lemma uint_u32_bound: "uint (x :: u32) < 10 ^ 10"
  using uint_lt2p [of x] by simp

lemma length_domain_text: "length (domain_text d) \<le> 13"
proof -
  have "uint (tipc_zone d) < 10 ^ 3" "uint (tipc_cluster d) < 10 ^ 4" "uint (tipc_node d) < 10 ^ 4"
    using tipc_zone_bound [of d] tipc_cluster_bound [of d] tipc_node_bound [of d]
    by (simp_all only: unat_eq_nat_uint nat_less_iff uint_ge_0) simp_all
  from this [THEN length_show_u32] show ?thesis by (simp add: domain_text_def)
qed

lemma length_addr_text: "length (addr_text a) \<le> 35"
  using length_domain_text [of "ta_domain a"] length_show_u32 [OF uint_u32_bound, of "ta_type a"]
    length_show_u32 [OF uint_u32_bound, of "ta_instance a"]
  by (simp add: addr_text_def)

lemma show_u32_no_nul: "CHR 0x00 \<notin> set (show_u32 x)"
  using show_int_chars [of "CHR 0x00"] by (auto simp: show_u32_def is_digit_def)

lemma addr_text_no_nul: "CHR 0x00 \<notin> set (addr_text a)" "CHR 0x00 \<notin> set (domain_text d)"
  using show_u32_no_nul by (auto simp: addr_text_def domain_text_def)

text \<open>What a buffer holds after a text was written with the length \<open>len\<close> and byte \<open>len\<close> was cleared.\<close>

definition printed :: "bytes \<Rightarrow> nat \<Rightarrow> string \<Rightarrow> bytes" where
  "printed buf len t = (overwrite buf 0 (str_bytes (take (len - 1) t)))[len := 0]"

lemma length_printed [simp]: "0 < len \<Longrightarrow> len < length buf \<Longrightarrow> length (printed buf len t) = length buf"
  by (simp add: printed_def str_bytes_def)

lemma c_string_printed:
  assumes "0 < len" and "CHR 0x00 \<notin> set t"
  shows "c_string (printed buf len t) = Some (take (len - 1) t)"
proof -
  let ?t = "take (len - 1) t"
  have fit: "length (str_bytes ?t) \<le> len" using assms(1) by (simp add: str_bytes_def)
  then have "printed buf len t =
      str_bytes ?t @ (drop (length (str_bytes ?t)) buf)[len - length (str_bytes ?t) := 0]"
    by (simp add: printed_def overwrite_def list_update_append)
  moreover have "CHR 0x00 \<notin> set ?t" using assms(2) by (meson in_set_takeD)
  ultimately show ?thesis by (simp add: c_string_str_bytes)
qed

text \<open>
  The interface of a function that writes the text of something to a buffer of the caller. It
  is shared by the functions for addresses, domains and name ranges of both copies of the
  binding, and all its clients need.
\<close>

locale address_printer =
  fixes to_buf :: "'a \<Rightarrow> bytes \<Rightarrow> nat \<Rightarrow> bytes prog" and shown :: "'a \<Rightarrow> string"
  assumes writes: "to_buf a buf len = and_then (snprintf buf len (shown a)) (\<lambda>b. put_byte b len 0)"
    and no_nul: "CHR 0x00 \<notin> set (shown a)"
begin

lemma with_room:
  "0 < len \<Longrightarrow> len < length buf \<Longrightarrow> to_buf a buf len w = (Ret (printed buf len (shown a)), w)"
  by (simp add: writes snprintf_def put_byte_def printed_def str_bytes_def run Let_def)

lemma with_room_then:
  "0 < len \<Longrightarrow> len < length buf \<Longrightarrow> and_then (to_buf a buf len) f w = f (printed buf len (shown a)) w"
  by (simp add: and_then_def with_room)

lemma string_of_text:
  "0 < len \<Longrightarrow> and_then (string_of (printed buf len (shown a))) f w = f (take (len - 1) (shown a)) w"
  by (simp add: string_of_def c_string_printed no_nul run)

lemma without_room: "0 < len \<Longrightarrow> len = length buf \<Longrightarrow> to_buf a buf len w = (Fault Out_of_bounds, w)"
  by (simp add: writes snprintf_def put_byte_def str_bytes_def run Let_def)

lemma doomed_text: "length buf = len \<Longrightarrow> 0 < len \<Longrightarrow> doomed (and_then (to_buf a buf len) f)"
  by (rule doomed_first) (simp add: doomed_def meek_def without_room)

lemma safe_text:
  "0 < len \<Longrightarrow> len < length buf \<Longrightarrow>
   safe K E (\<lambda>b. length b = length buf \<and> c_string b \<noteq> None) (to_buf a buf len)"
  by (simp add: safe_def with_room c_string_printed no_nul)

end

interpretation ntoa: address_printer tipc_ntoa addr_text
  by unfold_locales (simp_all add: tipc_ntoa_def addr_text_no_nul)

interpretation dtoa: address_printer tipc_dtoa domain_text
  by unfold_locales (simp_all add: tipc_dtoa_def addr_text_no_nul)

text \<open>The text of a range of names, for \<open>tipc_rtoa\<close> with its first four arguments in a tuple.\<close>

definition range_text :: "u32 \<times> u32 \<times> u32 \<times> u32 \<Rightarrow> string" where
  "range_text = (\<lambda>(type, lower, upper, domain).
     show_u32 type @ '':'' @ show_u32 lower @ '':'' @ show_u32 upper @ ''@'' @ domain_text domain)"

interpretation rtoa: address_printer "\<lambda>(type, lower, upper, domain). tipc_rtoa type lower upper domain" range_text
  by unfold_locales
    (auto simp: tipc_rtoa_def range_text_def addr_text_no_nul show_u32_no_nul)

text \<open>
  C24. The text of an address: given a buffer with at least one byte more than the length
  passed, tipc_ntoa leaves the text of the address there, cut to the length less one, and 36
  bytes always hold the whole text. Given the size of the buffer, as every caller in the
  repository does, it writes one byte behind the buffer; so do tipc_dtoa and tipc_rtoa.
\<close>

theorem ntoa_writes_behind:
  assumes "0 < len"
  shows "(len < length buf \<longrightarrow>
      (\<exists>b. tipc_ntoa a buf len w = (Ret b, w) \<and> c_string b = Some (take (len - 1) (addr_text a)) \<and>
         (36 \<le> len \<longrightarrow> c_string b = Some (addr_text a)))) \<and>
    (len = length buf \<longrightarrow> tipc_ntoa a buf len w = (Fault Out_of_bounds, w) \<and>
       tipc_dtoa d buf len w = (Fault Out_of_bounds, w) \<and>
       tipc_rtoa t l u d buf len w = (Fault Out_of_bounds, w))"
  using assms ntoa.with_room [of len buf a w] ntoa.without_room [of len buf a w] dtoa.without_room [of len buf d w]
    rtoa.without_room [of len buf "(t, l, u, d)" w] c_string_printed [OF assms addr_text_no_nul(1) [of a], of buf]
    length_addr_text [of a]
  by auto

theorem ntoa_writes_behind_witness:
  "(\<exists>b. tipc_ntoa \<lparr>ta_type = 4711, ta_instance = 0, ta_domain = 0x01001000\<rparr> (replicate 31 0) 30 (world_of []) = (Ret b, world_of []) \<and>
      c_string b = Some (take 29 (addr_text \<lparr>ta_type = 4711, ta_instance = 0, ta_domain = 0x01001000\<rparr>))) \<and>
   tipc_ntoa \<lparr>ta_type = 4711, ta_instance = 0, ta_domain = 0x01001000\<rparr> (replicate 30 0) 30 (world_of []) =
     (Fault Out_of_bounds, world_of [])"
  using ntoa_writes_behind [of 30 "replicate 31 0" "\<lparr>ta_type = 4711, ta_instance = 0, ta_domain = 0x01001000\<rparr>" "world_of []"]
    ntoa_writes_behind [of 30 "replicate 30 0" "\<lparr>ta_type = 4711, ta_instance = 0, ta_domain = 0x01001000\<rparr>" "world_of []"]
  by auto

end
