(* ===== verification/Capi.thy ===== *)
theory Capi
  imports Tipcc_Props
begin

text \<open>
  The older copy of the C binding that the demo programs are built with,
  \<^verbatim>\<open>src/demos/c_api_demo/tipcc.c\<close>. Most of its functions are the text of
  \<^verbatim>\<open>src/multicast_blast/tipcc.c\<close>; those that differ are defined here, with a prefix, and compared
  with the newer ones.
\<close>

definition capi_my_scope :: "u32 \<Rightarrow> bool prog" where
  "capi_my_scope domain =
     (if domain = 0 then ret True else
      and_then tipc_own_node (\<lambda>node.
      if node = domain then ret True else
      and_then tipc_own_cluster (\<lambda>cluster.
      if cluster = domain then ret True else
      and_then tipc_own_zone (\<lambda>zone.
      ret (zone = domain)))))"

definition capi_bind :: "int \<Rightarrow> u32 \<Rightarrow> u32 \<Rightarrow> u32 \<Rightarrow> u32 \<Rightarrow> int prog" where
  "capi_bind sd type lower upper scope =
     and_then tipc_own_node (\<lambda>node.
     let s = (if node = scope then TIPC_NODE_SCOPE else 0) in
     and_then tipc_own_cluster (\<lambda>cluster.
     let s = (if cluster = scope then TIPC_CLUSTER_SCOPE else s) in
     and_then tipc_own_zone (\<lambda>zone.
     let s = (if zone = scope then TIPC_ZONE_SCOPE else s);
         s = (if scope = 0 then TIPC_ZONE_SCOPE else s) in
     and_then (capi_my_scope scope) (\<lambda>mine.
     if \<not> mine then ret (-1) else
     and_then (sys (C_bind sd (seq_addr type lower upper s))) (\<lambda>r. ret (r_ret r))))))"

text \<open>\<^verbatim>\<open>ENOTSUP\<close> is 95.\<close>

definition capi_mcast :: "int \<Rightarrow> bytes \<Rightarrow> int \<Rightarrow> tipc_addr_t option \<Rightarrow> int prog" where
  "capi_mcast sd msg msg_len dst =
     (case dst of
        None \<Rightarrow> ret (-1)
      | Some dst \<Rightarrow>
          and_then tipc_own_cluster (\<lambda>cluster.
          if ta_domain dst \<noteq> cluster then ret (-95) else
          with_bytes msg msg_len (\<lambda>d.
          and_then (sys (C_sendto sd d 0 (seq_addr (ta_type dst) (ta_instance dst) (ta_instance dst) 0)))
            (\<lambda>r. ret (r_ret r)))))"

definition capi_srv_evt ::
  "int \<Rightarrow> tipc_addr_t option \<Rightarrow> bool option \<Rightarrow> bool option \<Rightarrow> srv_event prog" where
  "capi_srv_evt sd srv available expired =
     and_then (sys (C_recv_event sd)) (\<lambda>r.
     let evt = r_event r in
     if r_ret r \<noteq> sizeof_event then
       ret \<lparr>se_rc = -1, se_srv = srv, se_id = None, se_available = available, se_expired = expired\<rparr>
     else if ev_event evt = TIPC_SUBSCR_TIMEOUT then
       ret \<lparr>se_rc = 0, se_srv = srv, se_id = None, se_available = available,
            se_expired = map_option (\<lambda>_. True) expired\<rparr>
     else
       ret \<lparr>se_rc = 0,
            se_srv = map_option (\<lambda>_. \<lparr>ta_type = seq_type (sub_seq (ev_s evt)),
              ta_instance = ev_found_lower evt, ta_domain = port_node (ev_port evt)\<rparr>) srv,
            se_id = None,
            se_available = map_option (\<lambda>_. ev_event evt = TIPC_PUBLISHED) available,
            se_expired = map_option (\<lambda>_. False) expired\<rparr>)"

text \<open>The two callers of \<^verbatim>\<open>tipc_srv_evt\<close>; what they do is otherwise that of the newer ones.\<close>

definition capi_srv_wait :: "tipc_addr_t \<Rightarrow> int \<Rightarrow> bool prog" where
  "capi_srv_wait srv wait =
     and_then (tipc_topsrv_conn 0) (\<lambda>sd.
     if sd < 0 then ret False else
     and_then (tipc_srv_subscr sd (ta_type srv) (ta_instance srv) (ta_instance srv) False wait) (\<lambda>rc1.
     and_then (capi_srv_evt sd None (Some False) (Some False)) (\<lambda>e.
     let rc = (if rc1 \<noteq> 0 \<or> se_rc e \<noteq> 0 then -1 else 0 :: int) in
     and_then (sys (C_close sd)) (\<lambda>_.
     if se_expired e = Some True then ret False
     else ret (if rc \<noteq> 0 then False else se_available e = Some True)))))"

definition capi_neigh_evt ::
  "int \<Rightarrow> u32 option \<Rightarrow> bool option \<Rightarrow> (int \<times> u32 option \<times> bool option) prog" where
  "capi_neigh_evt sd neigh_node available =
     and_then uninit_ta (\<lambda>srv.
     and_then (capi_srv_evt sd (Some srv) available None) (\<lambda>e.
     let srv = (case se_srv e of Some s \<Rightarrow> s | None \<Rightarrow> srv) in
     ret (se_rc e, map_option (\<lambda>_. ta_instance srv) neigh_node, se_available e)))"

definition capi_ntoa :: "tipc_addr_t \<Rightarrow> bytes \<Rightarrow> nat \<Rightarrow> bytes prog" where
  "capi_ntoa addr buf len =
     and_then (snprintf buf len
       (show_u32 (ta_type addr) @ '':'' @ show_u32 (ta_instance addr) @ '':'' @
        domain_text (ta_domain addr))) (\<lambda>buf. put_byte buf len 0)"

definition capi_rtoa :: "u32 \<Rightarrow> u32 \<Rightarrow> u32 \<Rightarrow> u32 \<Rightarrow> bytes \<Rightarrow> nat \<Rightarrow> bytes prog" where
  "capi_rtoa type lower upper domain buf len =
     and_then (snprintf buf len
       (show_u32 type @ '':'' @ show_u32 lower @ '':'' @ show_u32 upper @ '':'' @
        domain_text domain)) (\<lambda>buf. put_byte buf len 0)"

section \<open>Texts\<close>

definition capi_text :: "tipc_addr_t \<Rightarrow> string" where
  "capi_text addr = show_u32 (ta_type addr) @ '':'' @ show_u32 (ta_instance addr) @ '':'' @
     domain_text (ta_domain addr)"

definition capi_range_text :: "u32 \<times> u32 \<times> u32 \<times> u32 \<Rightarrow> string" where
  "capi_range_text = (\<lambda>(type, lower, upper, domain).
     show_u32 type @ '':'' @ show_u32 lower @ '':'' @ show_u32 upper @ '':'' @ domain_text domain)"

interpretation capi_addr: address_printer capi_ntoa capi_text
  by unfold_locales
    (auto simp: capi_ntoa_def capi_text_def addr_text_no_nul show_u32_no_nul)

interpretation capi_range: address_printer "\<lambda>(type, lower, upper, domain). capi_rtoa type lower upper domain"
    capi_range_text
  by unfold_locales
    (auto simp: capi_rtoa_def capi_range_text_def addr_text_no_nul show_u32_no_nul)

lemma length_capi_text: "length (capi_text a) \<le> 35"
  using length_addr_text [of a] by (simp add: addr_text_def capi_text_def)

section \<open>The two versions compared\<close>

text \<open>A node address whose node and cluster parts are set is neither its cluster nor its zone.\<close>

lemma ffffff_mask: "(0xffffff :: u32) = mask 24"
  by (simp add: mask_eq_exp_minus_1)

lemma own_domains_distinct:
  assumes "tipc_node n \<noteq> 0" and "tipc_cluster n \<noteq> 0"
  shows "n AND NOT 0xfff \<noteq> n" and "n AND NOT 0xffffff \<noteq> n" and "n AND NOT 0xfff \<noteq> n AND NOT 0xffffff"
proof -
  have node: "tipc_node (n AND NOT 0xfff) = 0" "tipc_node (n AND NOT 0xffffff) = 0"
    "tipc_cluster (n AND NOT 0xfff) = tipc_cluster n" "tipc_cluster (n AND NOT 0xffffff) = 0"
    by (rule bit_word_eqI; auto simp: tipc_node_def tipc_cluster_def bit_simps fff_mask ffffff_mask bit_mask_iff)+
  with assms show "n AND NOT 0xfff \<noteq> n" "n AND NOT 0xffffff \<noteq> n" "n AND NOT 0xfff \<noteq> n AND NOT 0xffffff"
    by metis+
qed

text \<open>Once the own node is known, the older tipc_bind does what the newer one does.\<close>

lemma capi_bind_known:
  assumes "tipc_node (g_own_node w) \<noteq> 0" and "tipc_cluster (g_own_node w) \<noteq> 0"
  shows "capi_bind sd type lower upper scope w = tipc_bind sd type lower upper scope w"
proof -
  let ?n = "g_own_node w"
  have n: "?n \<noteq> 0" using assms by (auto simp: tipc_node_def)
  have mine: "and_then (capi_my_scope scope) f w = f (own_scope ?n scope \<noteq> None) w" for f :: "bool \<Rightarrow> int prog"
    using n by (auto simp: capi_my_scope_def tipc_own_cluster_def tipc_own_zone_def own_scope_def run)
  show ?thesis
  proof (cases "own_scope ?n scope")
    case None
    with n mine show ?thesis
      by (simp add: capi_bind_def tipc_bind_def my_scope_def tipc_own_cluster_def tipc_own_zone_def Let_def run)
  next
    case (Some s)
    with own_domains_distinct [OF assms] n mine own_scope_range [OF Some] show ?thesis
      by (auto simp: capi_bind_def tipc_bind_def my_scope_def tipc_own_cluster_def tipc_own_zone_def Let_def
          own_scope_def run split: if_splits)
  qed
qed

lemma capi_bind_asks:
  assumes "knows_node w n s a c rs"
  shows "capi_bind sd t l u d w = capi_bind sd t l u d (node_asked w n s rs)"
proof -
  have "g_own_node (node_asked w n s rs) = n" "n \<noteq> 0"
    using assms by (simp_all add: knows_node_def node_asked_def)
  then show ?thesis by (simp add: capi_bind_def own_node_asked_then [OF assms] run)
qed

text \<open>
  C31. The two versions of the binding compared, on a node \<open>n\<close> with a proper address, one whose node
  and cluster parts are not 0, which is known or which the kernel tells now. The older tipc_bind
  always asks for the own node first, and then does what the newer one does, although it tries
  the scopes in the opposite order; so for every domain but 0 the two make the same calls with
  the same result, while for the domain 0 the newer one does not ask. The versions of tipc_mcast
  differ: the older one sends only to the own cluster and answers \<open>-ENOTSUP\<close> for every other domain,
  0 included; the newer one does not look at the domain, asks nothing and sends with zone scope.
\<close>

theorem capi_bind_equivalent:
  assumes "knows_node w n s a c (r # rs)" and "tipc_node n \<noteq> 0" and "tipc_cluster n \<noteq> 0"
    and "0 \<le> len" and "len \<le> int (length msg)"
  shows "capi_bind sd t l u d w = tipc_bind sd t l u d (snd (tipc_own_node w)) \<and>
    (d \<noteq> 0 \<longrightarrow> capi_bind sd t l u d w = tipc_bind sd t l u d w) \<and>
    capi_mcast sd msg len (Some dst) w =
      (if ta_domain dst = n AND NOT 0xfff
       then (Ret (r_ret r), w\<lparr>replies := rs, g_own_node := n, calls := calls w @ asks_node w s @
          [C_sendto sd (take (nat len) msg) 0 (seq_addr (ta_type dst) (ta_instance dst) (ta_instance dst) 0)]\<rparr>)
       else (Ret (-95), w\<lparr>replies := r # rs, g_own_node := n, calls := calls w @ asks_node w s\<rparr>)) \<and>
    tipc_mcast sd msg len (Some dst) w =
      (Ret (r_ret (hd (replies w))), w\<lparr>replies := tl (replies w), calls := calls w @
          [C_sendto sd (take (nat len) msg) 0 (seq_addr (ta_type dst) (ta_instance dst) (ta_instance dst) TIPC_ZONE_SCOPE)]\<rparr>)"
proof -
  let ?w = "node_asked w n s (r # rs)"
  have g: "g_own_node ?w = n" by (simp add: node_asked_def)
  have bind: "capi_bind sd t l u d w = tipc_bind sd t l u d ?w"
    unfolding capi_bind_asks [OF assms(1)] using assms(2,3) by (intro capi_bind_known) (simp_all add: g)
  obtain r' rs' where "replies w = r' # rs'" using assms(1) by (auto simp: knows_node_def split: if_splits)
  then have "tipc_mcast sd msg len (Some dst) w =
      (Ret (r_ret (hd (replies w))), w\<lparr>replies := tl (replies w), calls := calls w @
          [C_sendto sd (take (nat len) msg) 0 (seq_addr (ta_type dst) (ta_instance dst) (ta_instance dst) TIPC_ZONE_SCOPE)]\<rparr>)"
    using assms(4,5) by (simp add: tipc_mcast_def run Let_def with_bytes_def seq_addr_def)
  moreover have "capi_mcast sd msg len (Some dst) w =
      (if ta_domain dst = n AND NOT 0xfff
       then (Ret (r_ret r), w\<lparr>replies := rs, g_own_node := n, calls := calls w @ asks_node w s @
          [C_sendto sd (take (nat len) msg) 0 (seq_addr (ta_type dst) (ta_instance dst) (ta_instance dst) 0)]\<rparr>)
       else (Ret (-95), w\<lparr>replies := r # rs, g_own_node := n, calls := calls w @ asks_node w s\<rparr>))"
    using assms(4,5)
    by (simp add: capi_mcast_def tipc_own_cluster_def run own_node_asked_then [OF assms(1)] with_bytes_def)
      (simp add: node_asked_def run)
  ultimately show ?thesis
    using bind bind_asks [OF assms(1)] by (simp add: own_node_asked [OF assms(1)])
qed

theorem capi_bind_equivalent_witness:
  "let a = (ok 0)\<lparr>r_addr := (r_addr (ok 0))\<lparr>sa_w1 := 0x0100100a\<rparr>\<rparr>; w = world_of [ok 5, a, ok 0, ok 0];
       dst = \<lparr>ta_type = 18888, ta_instance = 17, ta_domain = 0\<rparr> in
   capi_bind 3 18888 0 1 0x01001000 w = tipc_bind 3 18888 0 1 0x01001000 w \<and>
   fst (capi_mcast 3 [65] 1 (Some dst) w) = Ret (-95) \<and> fst (tipc_mcast 3 [65] 1 (Some dst) w) = Ret 5"
proof -
  define a where "a = (ok 0)\<lparr>r_addr := (r_addr (ok 0))\<lparr>sa_w1 := 0x0100100a\<rparr>\<rparr>"
  have rs: "replies (world_of rs) = rs" for rs by (simp add: world_of_def)
  have "knows_node (world_of [ok 5, a, ok 0, ok 0]) 0x0100100a (ok 5) a (ok 0) [ok 0]"
    "tipc_node 0x0100100a \<noteq> 0" "tipc_cluster 0x0100100a \<noteq> 0" "0 \<le> (1 :: int)" "1 \<le> int (length [65])"
    by (simp_all add: knows_node_def world_of_def a_def tipc_node_def tipc_cluster_def)
  note equivalent = capi_bind_equivalent [OF this, of 3 18888 0 1 "0x01001000"
      "\<lparr>ta_type = 18888, ta_instance = 17, ta_domain = 0\<rparr>", THEN conjunct2]
  show ?thesis
    unfolding Let_def a_def [symmetric] using equivalent by (simp add: rs)
qed

end
