(* ===== verification/Capi_Demos.thy ===== *)
theory Capi_Demos
  imports Capi
begin

text \<open>
  The demonstrations of the C binding under \<^verbatim>\<open>src/demos/c_api_demo\<close>: a client and a server that
  talk over each of the three kinds of socket, and a subscriber to topology events. They are
  built with the older copy of the binding.

  All arrays, those for the texts of addresses and those for messages, have \<^verbatim>\<open>BUF_SZ\<close>, 40, bytes, and
  \<^verbatim>\<open>BUF_SZ\<close> is the length that is passed with them.
\<close>

abbreviation (input) BUF_SZ :: nat where "BUF_SZ \<equiv> 40"

abbreviation (input) RDM_SRV_TYPE :: u32 where "RDM_SRV_TYPE \<equiv> 18888"
abbreviation (input) STREAM_SRV_TYPE :: u32 where "STREAM_SRV_TYPE \<equiv> 17777"
abbreviation (input) SEQPKT_SRV_TYPE :: u32 where "SEQPKT_SRV_TYPE \<equiv> 16666"
abbreviation (input) SRV_INST :: u32 where "SRV_INST \<equiv> 17"

definition say :: "string \<Rightarrow> unit prog" where
  "say s = emit (C_print s)"

definition rule_off :: "unit prog" where
  "rule_off = say ''-------------------------------------''"

section \<open>Polling several descriptors\<close>

text \<open>
  \<^verbatim>\<open>struct pollfd\<close>: the descriptor, whether its events ask for \<^verbatim>\<open>POLLIN\<close>, and the two bits of
  \<^verbatim>\<open>revents\<close> that the programs read. \<^verbatim>\<open>POLLHUP\<close> is reported whether it was asked for or not, a
  negative descriptor is passed over, and a call that fails leaves the array alone.
\<close>

record pollfd =
  pf_fd :: int
  pf_want :: bool
  pf_in :: bool
  pf_hup :: bool

definition poll :: "pollfd list \<Rightarrow> int \<Rightarrow> (int \<times> pollfd list) prog" where
  "poll pfd timeout =
     and_then (sys (C_poll (map pf_fd pfd) timeout)) (\<lambda>r.
     ret (r_ret r,
       if r_ret r < 0 then pfd
       else map (\<lambda>p. p\<lparr>pf_in := pf_want p \<and> 0 \<le> pf_fd p \<and> pf_fd p \<in> set (r_ready r),
                       pf_hup := 0 \<le> pf_fd p \<and> pf_fd p \<in> set (r_hup r)\<rparr>) pfd))"

text \<open>An entry as \<^verbatim>\<open>memset\<close> leaves it, and one that is set up to wait for input.\<close>

definition no_pollfd :: pollfd where
  "no_pollfd = \<lparr>pf_fd = 0, pf_want = False, pf_in = False, pf_hup = False\<rparr>"

definition watch :: "int \<Rightarrow> pollfd" where
  "watch fd = no_pollfd\<lparr>pf_fd := fd, pf_want := True\<rparr>"

definition set_fd :: "pollfd list \<Rightarrow> nat \<Rightarrow> int \<Rightarrow> pollfd list" where
  "set_fd pfd i fd = pfd[i := (pfd ! i)\<lparr>pf_fd := fd\<rparr>]"

section \<open>The client\<close>

definition capi_client_die :: "string \<Rightarrow> 'a prog" where
  "capi_client_die msg = and_then (say (''Client:'' @ msg)) (\<lambda>_. exit_prog 1)"

definition hello_msg :: bytes where
  "hello_msg = str_bytes ''Hello World'' @ replicate (BUF_SZ - 12) 0"

definition rdm_service_demo :: "int \<Rightarrow> bool \<Rightarrow> u32 \<Rightarrow> u32 prog" where
  "rdm_service_demo sd up srv_node =
     (if \<not> up then and_then (say ''Service on SOCK_RDM went down'') (\<lambda>_. ret srv_node) else
      let srv = \<lparr>ta_type = RDM_SRV_TYPE, ta_instance = SRV_INST, ta_domain = 0\<rparr> in
      and_then uninit_ta (\<lambda>cli.
      and_then (uninit_bytes BUF_SZ) (\<lambda>cbuf.
      and_then (uninit_bytes BUF_SZ) (\<lambda>sbuf.
      and_then (uninit_bytes BUF_SZ) (\<lambda>rmsg.
      and_then rule_off (\<lambda>_.
      and_then (say ''Service on SOCK_RDM came up'') (\<lambda>_.
      and_then (capi_ntoa srv sbuf BUF_SZ) (\<lambda>sbuf.
      and_then (string_of sbuf) (\<lambda>to.
      and_then (say (''Sending msg: Hello World on SOCK_RDM -->'' @ to)) (\<lambda>_.
      and_then (tipc_sock_rejectable sd) (\<lambda>rc.
      if rc < 0 then capi_client_die ''Set rejectable failed'' else
      and_then (tipc_sendto sd hello_msg (int BUF_SZ) (Some srv)) (\<lambda>rc.
      if rc \<noteq> int BUF_SZ then capi_client_die ''sendto() failed'' else
      and_then (tipc_recvfrom sd rmsg (Some srv) (Some cli) (Some 0)) (\<lambda>v.
      if rv_rc v < 0 \<or> rv_err v \<noteq> Some 0 then capi_client_die ''Unexpected response'' else
      let srv = (case rv_src v of Some a \<Rightarrow> a | None \<Rightarrow> srv);
          cli = (case rv_dst v of Some a \<Rightarrow> a | None \<Rightarrow> cli) in
      and_then (capi_ntoa cli cbuf BUF_SZ) (\<lambda>cbuf.
      and_then (capi_ntoa srv sbuf BUF_SZ) (\<lambda>sbuf.
      and_then (string_of (rv_buf v)) (\<lambda>msg.
      and_then (string_of cbuf) (\<lambda>me.
      and_then (string_of sbuf) (\<lambda>from.
      and_then (say (''Received response: '' @ msg @ '' '' @ me @ '' <-- '' @ from)) (\<lambda>_.
      ret (ta_domain srv))))))))))))))))))))"

definition rdm_reject_demo :: "int \<Rightarrow> bool \<Rightarrow> u32 \<Rightarrow> unit prog" where
  "rdm_reject_demo sd up srv_node =
     (if \<not> up then ret () else
      let dum = \<lparr>ta_type = 42, ta_instance = 1, ta_domain = srv_node\<rparr> in
      and_then uninit_ta (\<lambda>a.
      and_then (uninit_bytes BUF_SZ) (\<lambda>cbuf.
      and_then (uninit_bytes BUF_SZ) (\<lambda>sbuf.
      and_then (capi_ntoa dum sbuf BUF_SZ) (\<lambda>sbuf.
      and_then (string_of sbuf) (\<lambda>to.
      and_then (say (''Sending msg: Hello World on SOCK_RDM --> '' @ to @ '' (non-existing)'')) (\<lambda>_.
      and_then (tipc_sendto sd hello_msg (int BUF_SZ) (Some dum)) (\<lambda>rc.
      if rc \<noteq> int BUF_SZ then say ''Client sendto() failed: No route to host'' else
      and_then (tipc_recvfrom sd hello_msg (Some a) (Some a) (Some 0)) (\<lambda>v.
      if rv_rc v < 0 \<or> rv_err v = Some 0 then capi_client_die ''Unexpected response'' else
      let srv = (case rv_src v of Some x \<Rightarrow> x | None \<Rightarrow> a);
          cli = (case rv_dst v of Some x \<Rightarrow> x | None \<Rightarrow> a);
          err = (case rv_err v of Some e \<Rightarrow> e | None \<Rightarrow> 0) in
      and_then (capi_ntoa cli cbuf BUF_SZ) (\<lambda>cbuf.
      and_then (capi_ntoa srv sbuf BUF_SZ) (\<lambda>sbuf.
      and_then (string_of (rv_buf v)) (\<lambda>msg.
      and_then (string_of cbuf) (\<lambda>me.
      and_then (string_of sbuf) (\<lambda>from.
      and_then (say (''Received rejected msg: '' @ msg @ '' '' @ me @ '' <-- '' @ from @ '', err '' @
        show_int err)) (\<lambda>_.
      rule_off)))))))))))))))"

definition stream_service_demo :: "int \<Rightarrow> bool \<Rightarrow> unit prog" where
  "stream_service_demo sd up =
     (if \<not> up then say ''Service on SOCK_STREAM went down'' else
      let srv = \<lparr>ta_type = STREAM_SRV_TYPE, ta_instance = SRV_INST, ta_domain = 0\<rparr> in
      and_then (uninit_bytes BUF_SZ) (\<lambda>sbuf.
      and_then rule_off (\<lambda>_.
      and_then (say ''Service on SOCK_STREAM came up'') (\<lambda>_.
      and_then (capi_ntoa srv sbuf BUF_SZ) (\<lambda>sbuf.
      and_then (string_of sbuf) (\<lambda>to.
      and_then (say (''Performing two-way connect with message Hello World   -->'' @ to)) (\<lambda>_.
      and_then (tipc_sendto sd hello_msg (int BUF_SZ) (Some srv)) (\<lambda>rc.
      if rc \<noteq> int BUF_SZ then capi_client_die ''send() failed'' else
      and_then (tipc_recv sd hello_msg True) (\<lambda>(rc, msg).
      if rc < 0 then capi_client_die ''Unexpected response'' else
      and_then (string_of msg) (\<lambda>m.
      and_then (say (''Received response: '' @ m @ '' on SOCK_STREAM connection'')) (\<lambda>_.
      and_then (say (''SOCK_STREAM connection established --> '' @ to)) (\<lambda>_.
      rule_off))))))))))))"

definition seqpacket_service_demo :: "int \<Rightarrow> bool \<Rightarrow> unit prog" where
  "seqpacket_service_demo sd up =
     (if \<not> up then say ''Service on SOCK_SEQPACKET went down'' else
      let srv = \<lparr>ta_type = SEQPKT_SRV_TYPE, ta_instance = SRV_INST, ta_domain = 0\<rparr> in
      and_then (uninit_bytes BUF_SZ) (\<lambda>sbuf.
      and_then rule_off (\<lambda>_.
      and_then (say ''Service on SOCK_SEQPACKET came up'') (\<lambda>_.
      and_then (capi_ntoa srv sbuf BUF_SZ) (\<lambda>sbuf.
      and_then (string_of sbuf) (\<lambda>to.
      and_then (say (''Connecting to:              -->'' @ to)) (\<lambda>_.
      and_then (tipc_connect sd (Some srv)) (\<lambda>rc.
      if rc < 0 then capi_client_die ''connect() failed'' else
      and_then (say ''Sending msg: Hello World on connection'') (\<lambda>_.
      and_then (tipc_send sd hello_msg (int BUF_SZ)) (\<lambda>rc.
      if rc \<noteq> int BUF_SZ then capi_client_die ''send() failed'' else
      and_then (tipc_recv sd hello_msg True) (\<lambda>(rc, msg).
      if rc < 0 then capi_client_die ''Unexpected response'' else
      and_then (string_of msg) (\<lambda>m.
      and_then (say (''Received response: '' @ m @ '' on SOCK_SEQPACKET connection'')) (\<lambda>_.
      rule_off)))))))))))))"

text \<open>What the main loop of the client works on.\<close>

record capi_client_state =
  cc_pfd :: "pollfd list"
  cc_srv :: tipc_addr_t
  cc_up :: bool
  cc_srv_node :: u32

text \<open>A connection that was hung up is replaced by a new socket of its kind.\<close>

definition renew :: "nat \<Rightarrow> int \<Rightarrow> string \<Rightarrow> pollfd list \<Rightarrow> pollfd list prog" where
  "renew i sk_type kind pfd =
     (if \<not> pf_hup (pfd ! i) then ret pfd else
      and_then (say (kind @ '' connection hangup'')) (\<lambda>_.
      and_then (tipc_close (pf_fd (pfd ! i))) (\<lambda>_.
      and_then (tipc_socket sk_type) (\<lambda>sd.
      ret (set_fd pfd i sd)))))"

definition capi_client_turn :: "capi_client_state \<Rightarrow> (capi_client_state + unit) prog" where
  "capi_client_turn st =
     and_then (poll (cc_pfd st) 3000000) (\<lambda>(n, pfd).
     if n = 0 then ret (Inr ()) else
     and_then (renew 1 SOCK_STREAM ''SOCK_STREAM'' pfd) (\<lambda>pfd.
     and_then (renew 2 SOCK_SEQPACKET ''SOCK_SEQPACKET'' pfd) (\<lambda>pfd.
     let st = st\<lparr>cc_pfd := pfd\<rparr> in
     if \<not> pf_in (pfd ! 3) then ret (Inl st) else
     and_then (capi_srv_evt (pf_fd (pfd ! 3)) (Some (cc_srv st)) (Some (cc_up st)) None) (\<lambda>e.
     if se_rc e \<noteq> 0 then capi_client_die ''reception of service event failed'' else
     let srv = (case se_srv e of Some a \<Rightarrow> a | None \<Rightarrow> cc_srv st);
         up = (case se_available e of Some b \<Rightarrow> b | None \<Rightarrow> cc_up st) in
     and_then
       (if ta_type srv = RDM_SRV_TYPE then
          and_then (rdm_service_demo (pf_fd (pfd ! 0)) up (cc_srv_node st)) (\<lambda>node.
          and_then (rdm_reject_demo (pf_fd (pfd ! 0)) up node) (\<lambda>_. ret node))
        else ret (cc_srv_node st)) (\<lambda>srv_node.
     and_then (only_if (ta_type srv = STREAM_SRV_TYPE) (stream_service_demo (pf_fd (pfd ! 1)) up)) (\<lambda>_.
     and_then (only_if (ta_type srv = SEQPKT_SRV_TYPE) (seqpacket_service_demo (pf_fd (pfd ! 2)) up)) (\<lambda>_.
     ret (Inl (st\<lparr>cc_srv := srv, cc_up := up, cc_srv_node := srv_node\<rparr>)))))))))"

text \<open>The subscriptions to the three services, in the client and in the subscriber.\<close>

definition capi_subscribe :: "(string \<Rightarrow> unit prog) \<Rightarrow> int \<Rightarrow> unit prog" where
  "capi_subscribe fail sd =
     for_each [(RDM_SRV_TYPE, ''RDM''), (STREAM_SRV_TYPE, ''STREAM''), (SEQPKT_SRV_TYPE, ''SEQPACKET'')] (\<lambda>(t, kind).
       and_then (tipc_srv_subscr sd t 0 (NOT 0) False (-1)) (\<lambda>rc.
       if rc \<noteq> 0 then fail (''subscribe for '' @ kind @ '' server failed'') else ret ()))"

definition capi_client_main :: "unit prog" where
  "capi_client_main =
     (let srv = \<lparr>ta_type = RDM_SRV_TYPE, ta_instance = SRV_INST, ta_domain = 0\<rparr> in
      and_then (say ''****** TIPC C API Demo Client Started ******'') (\<lambda>_.
      and_then (uninit_bytes BUF_SZ) (\<lambda>sbuf.
      and_then (capi_ntoa srv sbuf BUF_SZ) (\<lambda>sbuf.
      and_then (string_of sbuf) (\<lambda>name.
      and_then (say (''Waiting for Service '' @ name)) (\<lambda>_.
      and_then (capi_srv_wait srv (-1)) (\<lambda>_.
      and_then (tipc_socket SOCK_RDM) (\<lambda>rdm.
      and_then (tipc_socket SOCK_STREAM) (\<lambda>str.
      and_then (tipc_socket SOCK_SEQPACKET) (\<lambda>pkt.
      and_then (tipc_topsrv_conn 0) (\<lambda>top.
      and_then (capi_subscribe capi_client_die top) (\<lambda>_.
      and_then (uninit_bytes 1) (\<lambda>up.
      and_then (loop (capi_client_turn)
        \<lparr>cc_pfd = [watch rdm, watch str, watch pkt, watch top, no_pollfd, no_pollfd],
         cc_srv = srv, cc_up = (up \<noteq> [0]), cc_srv_node = 0\<rparr>) (\<lambda>_.
      and_then (say ''****** TIPC C API Demo Finished ******'') (\<lambda>_.
      exit_prog 0)))))))))))))))"

section \<open>The server\<close>

definition capi_server_die :: "string \<Rightarrow> 'a prog" where
  "capi_server_die msg = and_then (say (''Server: '' @ msg)) (\<lambda>_. exit_prog 1)"

definition bind_service :: "u32 \<Rightarrow> u32 \<Rightarrow> int \<Rightarrow> string \<Rightarrow> int prog" where
  "bind_service type scope sktype sk_str =
     and_then uninit_ta (\<lambda>sockid.
     and_then (uninit_bytes BUF_SZ) (\<lambda>cbuf.
     and_then (uninit_bytes BUF_SZ) (\<lambda>sbuf.
     and_then (tipc_socket sktype) (\<lambda>sd.
     if sd \<le> 0 then capi_server_die (''failed to create '' @ sk_str @ '' socket'') else
     and_then (capi_bind sd type 0 (NOT 0) scope) (\<lambda>rc.
     if rc \<noteq> 0 then capi_server_die (''failed to bind '' @ sk_str @ '' socket'') else
     and_then (tipc_sockid sd (Some sockid)) (\<lambda>(_, idp).
     let sockid = (case idp of Some a \<Rightarrow> a | None \<Rightarrow> sockid) in
     and_then (capi_ntoa sockid sbuf BUF_SZ) (\<lambda>sbuf.
     and_then (capi_ntoa sockid cbuf BUF_SZ) (\<lambda>cbuf.
     and_then (capi_rtoa type 0 (NOT 0) scope sbuf BUF_SZ) (\<lambda>sbuf.
     and_then (string_of cbuf) (\<lambda>c.
     and_then (string_of sbuf) (\<lambda>s.
     and_then (say (''Bound '' @ sk_str @ '' socket '' @ c @ '' to '' @ s)) (\<lambda>_.
     ret sd))))))))))))"

definition recv_rdm_msg :: "int \<Rightarrow> unit prog" where
  "recv_rdm_msg sd =
     and_then uninit_ta (\<lambda>a.
     and_then (uninit_bytes BUF_SZ) (\<lambda>cbuf.
     and_then (uninit_bytes BUF_SZ) (\<lambda>sbuf.
     and_then (uninit_bytes BUF_SZ) (\<lambda>msg.
     and_then rule_off (\<lambda>_.
     and_then (tipc_recvfrom sd msg (Some a) (Some a) None) (\<lambda>v.
     if rv_rc v \<le> 0 then capi_server_die ''unexpected message on RDM socket'' else
     let cli = (case rv_src v of Some x \<Rightarrow> x | None \<Rightarrow> a);
         srv = (case rv_dst v of Some x \<Rightarrow> x | None \<Rightarrow> a) in
     and_then (capi_ntoa srv sbuf BUF_SZ) (\<lambda>sbuf.
     and_then (capi_ntoa cli cbuf BUF_SZ) (\<lambda>cbuf.
     and_then (string_of (rv_buf v)) (\<lambda>m.
     and_then (string_of sbuf) (\<lambda>s.
     and_then (string_of cbuf) (\<lambda>c.
     and_then (say (''Received msg: '' @ m @ '' on SOCK_RDM '' @ s @ '' <-- '' @ c)) (\<lambda>_.
     and_then (sprintf (rv_buf v) ''Huh?'') (\<lambda>msg.
     and_then (capi_ntoa cli sbuf BUF_SZ) (\<lambda>sbuf.
     and_then (string_of sbuf) (\<lambda>to.
     and_then (say (''Responding with: Huh? --> '' @ to)) (\<lambda>_.
     and_then (tipc_sendto sd msg (int BUF_SZ) (Some cli)) (\<lambda>rc.
     if 0 \<ge> rc then capi_server_die ''Server: failed to send'' else
     rule_off)))))))))))))))))"

definition recv_stream_setup :: "int \<Rightarrow> int prog" where
  "recv_stream_setup sd =
     and_then uninit_ta (\<lambda>cli.
     and_then (uninit_bytes BUF_SZ) (\<lambda>cbuf.
     and_then (uninit_bytes BUF_SZ) (\<lambda>msg.
     and_then rule_off (\<lambda>_.
     and_then (tipc_listen sd 32) (\<lambda>_.
     and_then (tipc_accept sd (Some cli)) (\<lambda>(newsd, src).
     if newsd \<le> 0 then capi_server_die ''accept on SOCK_STREAM failed'' else
     let cli = (case src of Some a \<Rightarrow> a | None \<Rightarrow> cli) in
     and_then (tipc_recv newsd msg True) (\<lambda>(rc, msg).
     if rc \<le> 0 then capi_server_die ''unexpected message on STREAM socket'' else
     and_then (string_of msg) (\<lambda>m.
     and_then (say (''Received msg: '' @ m @ '' on STREAM connection'')) (\<lambda>_.
     and_then (sprintf msg ''Huh?'') (\<lambda>msg.
     and_then (say ''Responding with: Huh?'') (\<lambda>_.
     and_then (capi_ntoa cli cbuf BUF_SZ) (\<lambda>cbuf.
     and_then (string_of cbuf) (\<lambda>c.
     and_then (say (''SOCK_STREAM connection established --> '' @ c)) (\<lambda>_.
     and_then (tipc_send newsd msg (int BUF_SZ)) (\<lambda>rc.
     if rc \<le> 0 then capi_server_die ''failed to respond'' else
     and_then rule_off (\<lambda>_. ret newsd))))))))))))))))"

text \<open>Here the text of the client's address is printed before it has been written.\<close>

definition recv_seqpacket_setup :: "int \<Rightarrow> int prog" where
  "recv_seqpacket_setup sd =
     and_then uninit_ta (\<lambda>cli.
     and_then (uninit_bytes BUF_SZ) (\<lambda>cbuf.
     and_then (uninit_bytes BUF_SZ) (\<lambda>msg.
     and_then rule_off (\<lambda>_.
     and_then (tipc_listen sd 32) (\<lambda>_.
     and_then (tipc_accept sd (Some cli)) (\<lambda>(newsd, src).
     if newsd \<le> 0 then capi_server_die ''accept on SOCK_SEQPACKET failed'' else
     let cli = (case src of Some a \<Rightarrow> a | None \<Rightarrow> cli) in
     and_then (string_of cbuf) (\<lambda>c.
     and_then (say (''SOCK_SEQPACKET connection established <-- '' @ c)) (\<lambda>_.
     and_then (tipc_recv newsd msg True) (\<lambda>(rc, msg).
     if rc \<le> 0 then capi_server_die ''unexpected message on STREAM socket'' else
     and_then (string_of msg) (\<lambda>m.
     and_then (say (''Received msg: '' @ m @ '' on SOCK_SEQPACKET connection'')) (\<lambda>_.
     and_then (sprintf msg ''Huh?'') (\<lambda>msg.
     and_then (say ''Responding with: Huh?'') (\<lambda>_.
     and_then (tipc_send newsd msg (int BUF_SZ)) (\<lambda>rc.
     if rc \<le> 0 then capi_server_die ''failed to respond'' else
     and_then (capi_ntoa cli cbuf BUF_SZ) (\<lambda>_.
     and_then rule_off (\<lambda>_. ret newsd))))))))))))))))"

definition server_hangup :: "nat \<Rightarrow> pollfd list \<Rightarrow> pollfd list prog" where
  "server_hangup i pfd =
     (if \<not> pf_hup (pfd ! i) then ret pfd else
      and_then rule_off (\<lambda>_.
      and_then (say (if i = 1 then ''SOCK_STREAM '' else ''SOCK_SEQPACKET '')) (\<lambda>_.
      and_then (say ''Connection hangup'') (\<lambda>_.
      and_then (tipc_close (pf_fd (pfd ! i))) (\<lambda>_.
      ret (set_fd pfd i 0))))))"

text \<open>The inner loop ends with a \<^verbatim>\<open>break\<close>, so it is run once at most.\<close>

definition capi_server_turn :: "int \<Rightarrow> int \<Rightarrow> int \<Rightarrow> pollfd list \<Rightarrow> (pollfd list + unit) prog" where
  "capi_server_turn rdmsd strsd pktsd pfd =
     and_then (recv_rdm_msg rdmsd) (\<lambda>_.
     and_then (recv_stream_setup strsd) (\<lambda>sd0.
     let pfd = pfd[0 := (pfd ! 0)\<lparr>pf_fd := sd0, pf_want := True\<rparr>] in
     and_then (recv_seqpacket_setup pktsd) (\<lambda>sd1.
     let pfd = pfd[1 := (pfd ! 1)\<lparr>pf_fd := sd1, pf_want := True\<rparr>] in
     and_then (poll pfd 3000000) (\<lambda>(n, pfd).
     if n = 0 then ret (Inl pfd) else
     and_then (for_state [0, 1] server_hangup pfd) (\<lambda>pfd. ret (Inl pfd))))))"

definition capi_server_main :: "unit prog" where
  "capi_server_main =
     and_then tipc_own_cluster (\<lambda>scope.
     and_then (say ''****** TIPC C API Demo Server Started ******'') (\<lambda>_.
     and_then (bind_service RDM_SRV_TYPE scope SOCK_RDM ''RDM'') (\<lambda>rdmsd.
     and_then (bind_service STREAM_SRV_TYPE 0 SOCK_STREAM ''STREAM'') (\<lambda>strsd.
     and_then (bind_service SEQPKT_SRV_TYPE 0 SOCK_SEQPACKET ''SEQPACKET'') (\<lambda>pktsd.
     loop (capi_server_turn rdmsd strsd pktsd) [no_pollfd, no_pollfd])))))"

section \<open>The topology subscriber\<close>

definition capi_topology_die :: "string \<Rightarrow> 'a prog" where
  "capi_topology_die msg = and_then (say (''Topology Client:'' @ msg)) (\<lambda>_. exit_prog 1)"

record capi_topology =
  ct_pfd :: "pollfd list"
  ct_up :: bool
  ct_srv :: tipc_addr_t
  ct_sbuf :: bytes
  ct_neigh :: u32
  ct_topsrvnode :: u32
  ct_topsrvbuf :: bytes

text \<open>A service event: the new state, printed with the text of the address it names.\<close>

definition service_name :: "u32 \<Rightarrow> string option" where
  "service_name t =
     (if t = RDM_SRV_TYPE then Some ''SOCK_RDM''
      else if t = STREAM_SRV_TYPE then Some ''SOCK_STREAM''
      else if t = SEQPKT_SRV_TYPE then Some ''SOCK_SEQPACKET''
      else None)"

definition service_event :: "capi_topology \<Rightarrow> capi_topology prog" where
  "service_event st =
     and_then (capi_srv_evt (pf_fd (ct_pfd st ! 0)) (Some (ct_srv st)) (Some (ct_up st)) None) (\<lambda>e.
     if se_rc e \<noteq> 0 then capi_topology_die ''reception of service event failed'' else
     let srv = (case se_srv e of Some a \<Rightarrow> a | None \<Rightarrow> ct_srv st);
         up = (case se_available e of Some b \<Rightarrow> b | None \<Rightarrow> ct_up st) in
     and_then (capi_ntoa srv (ct_sbuf st) BUF_SZ) (\<lambda>sbuf.
     and_then
       (case service_name (ta_type srv) of
          None \<Rightarrow> ret ()
        | Some kind \<Rightarrow>
            and_then (string_of sbuf) (\<lambda>s.
            say (''Service '' @ s @ '' on '' @ kind @ '' is '' @ (if up then ''UP'' else ''DOWN'')))) (\<lambda>_.
     ret (st\<lparr>ct_srv := srv, ct_up := up, ct_sbuf := sbuf\<rparr>))))"

text \<open>The state after an event about a neighbour that arrived on a descriptor.\<close>

definition neighbour_event :: "int \<Rightarrow> capi_topology \<Rightarrow> capi_topology prog" where
  "neighbour_event sd st =
     and_then (capi_neigh_evt sd (Some (ct_neigh st)) (Some (ct_up st))) (\<lambda>(rc, node, up).
     if rc \<noteq> 0 then capi_topology_die ''reception of service event failed'' else
     ret (st\<lparr>ct_neigh := (case node of Some n \<Rightarrow> n | None \<Rightarrow> ct_neigh st),
             ct_up := (case up of Some b \<Rightarrow> b | None \<Rightarrow> ct_up st)\<rparr>))"

definition neighbour_found :: "capi_topology \<Rightarrow> capi_topology prog" where
  "neighbour_found st =
     and_then (if pf_fd (ct_pfd st ! 3) \<noteq> 0 then ret False
               else and_then tipc_own_node (\<lambda>own. ret (ct_neigh st \<noteq> own))) (\<lambda>new.
     if \<not> new then ret st else
     and_then (tipc_dtoa (ct_neigh st) (ct_topsrvbuf st) BUF_SZ) (\<lambda>buf.
     and_then (tipc_neigh_subscr (ct_neigh st)) (\<lambda>sd.
     ret (st\<lparr>ct_topsrvnode := ct_neigh st, ct_topsrvbuf := buf,
             ct_pfd := (ct_pfd st)[3 := (ct_pfd st ! 3)\<lparr>pf_fd := sd, pf_want := True\<rparr>]\<rparr>))))"

definition neighbour_lost :: "capi_topology \<Rightarrow> capi_topology prog" where
  "neighbour_lost st =
     (if ct_neigh st \<noteq> ct_topsrvnode st then ret st else
      and_then (tipc_close (pf_fd (ct_pfd st ! 3))) (\<lambda>_.
      ret (st\<lparr>ct_pfd := set_fd (ct_pfd st) 3 0\<rparr>)))"

definition node_event :: "capi_topology \<Rightarrow> capi_topology prog" where
  "node_event st =
     and_then (neighbour_event (pf_fd (ct_pfd st ! 1)) st) (\<lambda>st.
     and_then (tipc_dtoa (ct_neigh st) (ct_sbuf st) BUF_SZ) (\<lambda>sbuf.
     let st = st\<lparr>ct_sbuf := sbuf\<rparr> in
     and_then (string_of sbuf) (\<lambda>s.
     if ct_up st
     then and_then (say (''Found neighbor node '' @ s)) (\<lambda>_. neighbour_found st)
     else and_then (say (''Lost contact with neighbor node '' @ s)) (\<lambda>_. neighbour_lost st))))"

definition link_state_event :: "capi_topology \<Rightarrow> capi_topology prog" where
  "link_state_event st =
     and_then (tipc_link_evt (pf_fd (ct_pfd st ! 2)) (Some (ct_neigh st)) (Some (ct_up st)) (Some 0) (Some 0)) (\<lambda>e.
     if le_rc e \<noteq> 0 then capi_topology_die ''reception of service event failed'' else
     let node = (case le_node e of Some n \<Rightarrow> n | None \<Rightarrow> ct_neigh st);
         up = (case le_available e of Some b \<Rightarrow> b | None \<Rightarrow> ct_up st);
         bearer = (case le_local e of Some b \<Rightarrow> b | None \<Rightarrow> 0) in
     and_then (tipc_linkname (ct_sbuf st) BUF_SZ node (of_int bearer)) (\<lambda>sbuf.
     and_then (string_of sbuf) (\<lambda>s.
     and_then (say ((if up then ''Found link '' else ''Lost link '') @ s)) (\<lambda>_.
     ret (st\<lparr>ct_neigh := node, ct_up := up, ct_sbuf := sbuf\<rparr>)))))"

definition remote_event :: "capi_topology \<Rightarrow> capi_topology prog" where
  "remote_event st =
     and_then (neighbour_event (pf_fd (ct_pfd st ! 3)) st) (\<lambda>st.
     and_then (tipc_dtoa (ct_neigh st) (ct_sbuf st) BUF_SZ) (\<lambda>sbuf.
     and_then (string_of (ct_topsrvbuf st)) (\<lambda>t.
     and_then (string_of sbuf) (\<lambda>s.
     and_then (say (''Neighbor node '' @ t @ (if ct_up st then '' found node '' else '' lost contact with node '') @ s)) (\<lambda>_.
     ret (st\<lparr>ct_sbuf := sbuf\<rparr>))))))"

definition capi_topology_turn :: "capi_topology \<Rightarrow> (capi_topology + unit) prog" where
  "capi_topology_turn st =
     and_then (poll (ct_pfd st) 3000000) (\<lambda>(n, pfd).
     if n = 0 then ret (Inr ()) else
     and_then (let st = st\<lparr>ct_pfd := pfd\<rparr> in if pf_in (pfd ! 0) then service_event st else ret st) (\<lambda>st.
     and_then (if pf_in (pfd ! 1) then node_event st else ret st) (\<lambda>st.
     and_then (if pf_in (pfd ! 2) then link_state_event st else ret st) (\<lambda>st.
     if pf_hup (pfd ! 3) then
       and_then (tipc_close (pf_fd (ct_pfd st ! 3))) (\<lambda>_.
       ret (Inl (st\<lparr>ct_pfd := set_fd (ct_pfd st) 3 0\<rparr>)))
     else
     and_then (if pf_in (pfd ! 3) then remote_event st else ret st) (\<lambda>st.
     ret (Inl st))))))"

definition capi_topology_main :: "unit prog" where
  "capi_topology_main =
     (let srv = \<lparr>ta_type = RDM_SRV_TYPE, ta_instance = SRV_INST, ta_domain = 0\<rparr> in
      and_then (uninit_bytes 1) (\<lambda>up.
      and_then (uninit_bytes BUF_SZ) (\<lambda>sbuf.
      and_then (uninit_bytes BUF_SZ) (\<lambda>topsrvbuf.
      and_then (say ''****** TIPC C API Topology Service Client Started ******'') (\<lambda>_.
      and_then (capi_ntoa srv sbuf BUF_SZ) (\<lambda>sbuf.
      and_then (tipc_topsrv_conn 0) (\<lambda>sd0.
      and_then (capi_subscribe capi_topology_die sd0) (\<lambda>_.
      and_then (tipc_neigh_subscr 0) (\<lambda>sd1.
      if sd1 \<le> 0 then capi_topology_die ''subscribe or neighbor nodes failed'' else
      and_then (tipc_link_subscr 0) (\<lambda>sd2.
      if sd2 \<le> 0 then capi_topology_die ''subscribe for neigbor links failed'' else
      and_then (loop capi_topology_turn
        \<lparr>ct_pfd = [watch sd0, watch sd1, watch sd2, no_pollfd, no_pollfd, no_pollfd], ct_up = (up \<noteq> [0]),
         ct_srv = srv, ct_sbuf = sbuf, ct_neigh = 0, ct_topsrvnode = 0, ct_topsrvbuf = topsrvbuf\<rparr>) (\<lambda>_.
      exit_prog 0)))))))))))"

end
