(* ===== verification/Mcast.thy ===== *)
theory Mcast
  imports Tipcc
begin

text \<open>
  The two multicast blasters, \<^verbatim>\<open>src/multicast_blast/mcast_tipc.c\<close> and \<^verbatim>\<open>group_cast.c\<close>, on top of
  the C binding. Their static variables are passed along as states. The options that \<^verbatim>\<open>getopt\<close>
  finds on the command line are the parameter of the main programs, as pairs of the letter and
  its argument; a letter \<^verbatim>\<open>getopt\<close> does not know arrives as a question mark.
\<close>

type_synonym options = "(char \<times> string) list"

abbreviation (input) BUF_LEN :: nat where "BUF_LEN \<equiv> 66000"

section \<open>The multicast blaster: the transmitter\<close>

definition mcast_die :: "string \<Rightarrow> 'a prog" where
  "mcast_die msg = and_then (emit (C_print (''Client:'' @ msg))) (\<lambda>_. exit_prog 1)"

definition mcast_srv :: "u32 \<Rightarrow> tipc_addr_t" where
  "mcast_srv domain = \<lparr>ta_type = 76453, ta_instance = 17, ta_domain = domain\<rparr>"

text \<open>The header of a packet, \<^verbatim>\<open>struct req\<close>: sequence number and packets still to come.\<close>

definition req_seqno :: "bytes \<Rightarrow> u32" where
  "req_seqno buf = ntohl (bytes_int buf)"

definition req_remaining :: "bytes \<Rightarrow> u32" where
  "req_remaining buf = ntohl (bytes_int (drop 4 buf))"

definition req_stamp :: "bytes \<Rightarrow> u32 \<Rightarrow> bytes" where
  "req_stamp buf count =
     overwrite buf 0 (int_bytes (htonl (req_seqno buf + 1)) @ int_bytes (htonl count))"

definition mcast_transmitter_turn ::
  "int \<Rightarrow> int \<Rightarrow> tipc_addr_t \<Rightarrow> u32 \<times> bytes \<Rightarrow> ((u32 \<times> bytes) + unit) prog" where
  "mcast_transmitter_turn sd len srv = (\<lambda>(count, buf).
     if count = 0 then ret (Inr ()) else
     let buf = req_stamp buf count in
     and_then (tipc_mcast sd buf len (Some srv)) (\<lambda>rc.
     if 0 \<ge> rc then mcast_die ''Failed to send multicast'' else ret (Inl (count - 1, buf))))"

definition mcast_transmitter :: "int \<Rightarrow> u32 \<Rightarrow> tipc_addr_t \<Rightarrow> bytes \<Rightarrow> unit prog" where
  "mcast_transmitter len count srv buf =
     and_then (emit (C_print ''Waiting for first server'')) (\<lambda>_.
     and_then (tipc_srv_wait srv (-1)) (\<lambda>_.
     and_then (tipc_socket SOCK_RDM) (\<lambda>sd.
     if sd < 0 then mcast_die ''Failed to create client socket'' else
     and_then (emit (C_print (''Transmitting messages of size '' @ show_u32 (of_int len) @ '' bytes''))) (\<lambda>_.
     loop (mcast_transmitter_turn sd len srv) (count, buf)))))"

section \<open>The multicast blaster: the receiver\<close>

record sndr =
  rcv_nxt :: u32
  cnt :: u32
  total_cnt :: u32

abbreviation (input) MAX_RCVRS :: u32 where "MAX_RCVRS \<equiv> 0xff"

definition no_sndr :: sndr where
  "no_sndr = \<lparr>rcv_nxt = 0, cnt = 0, total_cnt = 0\<rparr>"

text \<open>What the receiver makes of a packet from a sender: its counters and what it prints.\<close>

definition mcast_account :: "bool \<Rightarrow> string \<Rightarrow> bytes \<Rightarrow> sndr \<Rightarrow> sndr \<times> string list" where
  "mcast_account verbose srcbuf pkt s =
     (let seqno = req_seqno pkt;
          gap = seqno - rcv_nxt s;
          missing = (if gap \<noteq> 0 \<and> cnt s \<noteq> 0
                     then [''Missing '' @ show_u32 gap @ '' msgs from '' @ srcbuf] else []);
          s = s\<lparr>rcv_nxt := seqno + 1\<rparr>;
          s = (if cnt s = 0 then s\<lparr>total_cnt := req_remaining pkt\<rparr> else s);
          s = s\<lparr>cnt := cnt s + 1\<rparr>;
          progress = (if cnt s mod 10000 = 0 \<and> verbose
                      then [''Now at '' @ show_u32 (cnt s) @ '' msgs from '' @ srcbuf] else [])
      in if req_remaining pkt = 1 then
           (no_sndr, missing @ progress @
             (if cnt s = total_cnt s
              then [''Test OK for '' @ show_u32 (cnt s) @ '' pkts from '' @ srcbuf]
              else [''Test NOK for '' @ show_u32 (cnt s) @ '' pkts from '' @ srcbuf @ '', missing '' @
                    show_u32 (total_cnt s - cnt s)]))
         else (s, missing @ progress))"

definition mcast_receiver_turn ::
  "int \<Rightarrow> bool \<Rightarrow> bytes \<times> tipc_addr_t \<times> sndr list \<Rightarrow> ((bytes \<times> tipc_addr_t \<times> sndr list) + unit) prog" where
  "mcast_receiver_turn sd verbose = (\<lambda>(buf, src, sndrs).
     and_then (tipc_recvfrom sd buf (Some src) None None) (\<lambda>v.
     if 0 \<ge> rv_rc v then mcast_die ''unexpected message on multicast server socket'' else
     let buf = rv_buf v; src = (case rv_src v of Some s \<Rightarrow> s | None \<Rightarrow> src) in
     and_then (uninit_bytes 10) (\<lambda>srcbuf.
     and_then (tipc_dtoa (ta_domain src) srcbuf 10) (\<lambda>srcbuf.
     and_then (string_of srcbuf) (\<lambda>node.
     let i = unat (ta_domain src AND MAX_RCVRS);
         (s, out) = mcast_account verbose node buf (sndrs ! i) in
     and_then (for_each out (\<lambda>l. emit (C_print l))) (\<lambda>_.
     ret (Inl (buf, src, sndrs[i := s]))))))))"

definition mcast_receiver :: "tipc_addr_t \<Rightarrow> bool \<Rightarrow> bytes \<Rightarrow> bytes \<Rightarrow> unit prog" where
  "mcast_receiver srv verbose srvbuf buf =
     and_then (emit (C_daemon ''prctl'')) (\<lambda>_.
     and_then (tipc_socket SOCK_RDM) (\<lambda>sd.
     if sd < 0 then mcast_die ''Failed to create server socket'' else
     and_then (tipc_bind sd (ta_type srv) (ta_instance srv) (ta_instance srv) (ta_domain srv)) (\<lambda>rc.
     if rc \<noteq> 0 then mcast_die ''Failed to bind server socket'' else
     and_then (string_of srvbuf) (\<lambda>name.
     and_then (emit (C_print (''Server socket created and bound to '' @ name))) (\<lambda>_.
     and_then uninit_ta (\<lambda>src.
     loop (mcast_receiver_turn sd verbose) (buf, src, replicate 256 no_sndr)))))))"

definition mcast_subscriber_turn :: "int \<Rightarrow> bool \<Rightarrow> tipc_addr_t \<times> bool \<Rightarrow> ((tipc_addr_t \<times> bool) + unit) prog" where
  "mcast_subscriber_turn sd verbose = (\<lambda>(rcvr, up).
     and_then (tipc_srv_evt sd (Some rcvr) None (Some up) None) (\<lambda>e.
     if se_rc e \<noteq> 0 then mcast_die ''reception of service event failed'' else
     let rcvr = (case se_srv e of Some s \<Rightarrow> s | None \<Rightarrow> rcvr);
         up = (case se_available e of Some b \<Rightarrow> b | None \<Rightarrow> up) in
     and_then (uninit_bytes 10) (\<lambda>node.
     and_then (tipc_dtoa (ta_domain rcvr) node 10) (\<lambda>node.
     and_then
       (if verbose then
          and_then (string_of node) (\<lambda>node.
          emit (C_print (if up then ''New receiver discovered on node '' @ node
                         else ''Receiver on node '' @ node @ '' lost'')))
        else ret ()) (\<lambda>_. ret (Inl (rcvr, up)))))))"

definition mcast_receiver_subscriber :: "tipc_addr_t \<Rightarrow> bool \<Rightarrow> unit prog" where
  "mcast_receiver_subscriber srv verbose =
     and_then (emit (C_daemon ''prctl'')) (\<lambda>_.
     and_then (tipc_topsrv_conn 0) (\<lambda>sd.
     if sd < 0 then mcast_die ''Failed to create subscriber socket'' else
     and_then (tipc_srv_subscr sd (ta_type srv) (ta_instance srv) (ta_instance srv) True (-1)) (\<lambda>rc.
     if rc \<noteq> 0 then mcast_die ''subscription for server failed'' else
     and_then uninit_ta (\<lambda>rcvr.
     and_then (uninit_bytes 1) (\<lambda>up.
     loop (mcast_subscriber_turn sd verbose) (rcvr, up \<noteq> [0]))))))"

section \<open>The multicast blaster: the main program\<close>

record mcast_conf =
  mc_len :: int
  mc_count :: u32
  mc_xmit_only :: bool
  mc_rcvr_only :: bool
  mc_verbose :: bool

definition mcast_usage :: "'a prog" where
  "mcast_usage = and_then (emit (C_print ''Usage: [-c] [-s] [-l <msglen>]'')) (\<lambda>_. exit_prog 1)"

fun mcast_options :: "options \<Rightarrow> mcast_conf \<Rightarrow> mcast_conf prog" where
  "mcast_options [] c = ret c"
| "mcast_options ((opt, optarg) # opts) c =
     (if opt = CHR ''l'' then mcast_options opts (c\<lparr>mc_len := atoi optarg\<rparr>)
      else if opt = CHR ''c'' then mcast_options opts (c\<lparr>mc_xmit_only := True\<rparr>)
      else if opt = CHR ''v'' then mcast_options opts (c\<lparr>mc_verbose := True\<rparr>)
      else if opt = CHR ''s'' then mcast_options opts (c\<lparr>mc_rcvr_only := True\<rparr>)
      else if opt = CHR ''n'' then mcast_options opts (c\<lparr>mc_count := of_int (atoi optarg)\<rparr>)
      else mcast_usage)"

text \<open>\<^verbatim>\<open>if (!fork()) child\<close>\<close>

definition fork_child :: "unit prog \<Rightarrow> unit prog" where
  "fork_child child = and_then (sys C_fork) (\<lambda>r. if r_ret r = 0 then child else ret ())"

definition mcast_main :: "options \<Rightarrow> unit prog" where
  "mcast_main opts =
     and_then (mcast_options opts \<lparr>mc_len = 66000, mc_count = -1, mc_xmit_only = False,
                                   mc_rcvr_only = False, mc_verbose = False\<rparr>) (\<lambda>c.
     let buf = replicate BUF_LEN 0xff in
     and_then tipc_own_cluster (\<lambda>cluster.
     let srv = mcast_srv cluster in
     and_then (tipc_ntoa srv (replicate 20 0) 20) (\<lambda>srvbuf. block
       [only_if (\<not> mc_xmit_only c) (fork_child (mcast_receiver srv (mc_verbose c) srvbuf buf)),
        only_if (mc_rcvr_only c) spin,
        fork_child (mcast_receiver_subscriber srv (mc_verbose c)),
        mcast_transmitter (mc_len c) (mc_count c) srv buf,
        exit_prog 0])))"

end
