(* ===== verification/Group_Cast.thy ===== *)
theory Group_Cast
  imports Mcast
begin

text \<open>
  The group blaster, \<^verbatim>\<open>src/multicast_blast/group_cast.c\<close>. Its static variables, the counters
  and the message buffer, are a record that the program hands on.
\<close>

section \<open>State\<close>

record group_state =
  member_cnt :: u32
  snt_bc :: u32
  snt_mc :: u32
  snt_ac :: u32
  snt_uc :: u32
  rcv_bc :: u32
  rcv_mc :: u32
  rcv_ac :: u32
  rcv_uc :: u32
  gbuf :: bytes

definition new_group_state :: group_state where
  "new_group_state = \<lparr>member_cnt = 0, snt_bc = 0, snt_mc = 0, snt_ac = 0, snt_uc = 0,
     rcv_bc = 0, rcv_mc = 0, rcv_ac = 0, rcv_uc = 0, gbuf = replicate BUF_LEN 0\<rparr>"

datatype mtyp = NONE | BCAST | MCAST | UCAST | ACAST

fun mtyp_code :: "mtyp \<Rightarrow> u8" where
  "mtyp_code NONE = 0"
| "mtyp_code BCAST = 1"
| "mtyp_code MCAST = 2"
| "mtyp_code UCAST = 3"
| "mtyp_code ACAST = 4"

text \<open>The kinds of message can be enumerated, so statements about all of them can be evaluated.\<close>

instantiation mtyp :: enum
begin

definition enum_mtyp :: "mtyp list" where
  "enum_mtyp = [NONE, BCAST, MCAST, UCAST, ACAST]"

definition enum_all_mtyp :: "(mtyp \<Rightarrow> bool) \<Rightarrow> bool" where
  "enum_all_mtyp P \<longleftrightarrow> P NONE \<and> P BCAST \<and> P MCAST \<and> P UCAST \<and> P ACAST"

definition enum_ex_mtyp :: "(mtyp \<Rightarrow> bool) \<Rightarrow> bool" where
  "enum_ex_mtyp P \<longleftrightarrow> P NONE \<or> P BCAST \<or> P MCAST \<or> P UCAST \<or> P ACAST"

instance
proof
  show UNIV: "(UNIV :: mtyp set) = set Enum.enum"
  proof (rule set_eqI)
    show "k \<in> UNIV \<longleftrightarrow> k \<in> set Enum.enum" for k :: mtyp by (cases k) (simp_all add: enum_mtyp_def)
  qed
  show "distinct (Enum.enum :: mtyp list)" by (simp add: enum_mtyp_def)
  show "Enum.enum_all P \<longleftrightarrow> Ball UNIV P" for P :: "mtyp \<Rightarrow> bool"
    unfolding UNIV by (simp add: enum_mtyp_def enum_all_mtyp_def)
  show "Enum.enum_ex P \<longleftrightarrow> Bex UNIV P" for P :: "mtyp \<Rightarrow> bool"
    unfolding UNIV by (simp add: enum_mtyp_def enum_ex_mtyp_def)
qed

end

lemma all_mtyp: "(\<forall>k. P k) \<longleftrightarrow> P NONE \<and> P BCAST \<and> P MCAST \<and> P UCAST \<and> P ACAST"
  using enum_class.enum_all_UNIV [of P] unfolding enum_all_mtyp_def by simp

text \<open>The header at the start of the buffer: an 8-bit message type and a flag.\<close>

definition hdr_type :: "group_state \<Rightarrow> u8" where
  "hdr_type st = gbuf st ! 0"

definition hdr_reply :: "group_state \<Rightarrow> bool" where
  "hdr_reply st \<longleftrightarrow> gbuf st ! 1 \<noteq> 0"

definition set_hdr :: "mtyp \<Rightarrow> bool \<Rightarrow> group_state \<Rightarrow> group_state" where
  "set_hdr t reply st = st\<lparr>gbuf := (gbuf st)[0 := mtyp_code t, 1 := (if reply then 1 else 0)]\<rparr>"

definition group_die :: "string \<Rightarrow> 'a prog" where
  "group_die msg = and_then (emit (C_print (''groupcast:'' @ msg))) (\<lambda>_. exit_prog 1)"

section \<open>Receiving and sending\<close>

definition elapsedmsec :: "int \<times> int \<Rightarrow> int \<times> int \<Rightarrow> 64 word prog" where
  "elapsedmsec = (\<lambda>(from_sec, from_usec) (to_sec, to_usec).
     and_then (c_div ((to_sec * 1000000 + to_usec) - (from_sec * 1000000 + from_usec)) 1000) (\<lambda>ms.
     ret (of_int ms)))"

definition discover_member :: "int \<Rightarrow> group_state \<Rightarrow> group_state prog" where
  "discover_member sd st =
     and_then uninit_ta (\<lambda>member.
     and_then uninit_ta (\<lambda>memberid.
     and_then (uninit_bytes 1) (\<lambda>up.
     and_then (tipc_srv_evt sd (Some member) (Some memberid) (Some (up \<noteq> [0])) None) (\<lambda>e.
     if se_rc e \<noteq> 0 then group_die ''reception of service event failed'' else
     let member = (case se_srv e of Some a \<Rightarrow> a | None \<Rightarrow> member);
         memberid = (case se_id e of Some a \<Rightarrow> a | None \<Rightarrow> memberid);
         up = (case se_available e of Some b \<Rightarrow> b | None \<Rightarrow> False) in
     and_then (uninit_bytes 30) (\<lambda>member_str.
     and_then (tipc_ntoa member member_str 30) (\<lambda>member_str.
     and_then (uninit_bytes 30) (\<lambda>memberid_str.
     and_then (tipc_ntoa memberid memberid_str 30) (\<lambda>memberid_str.
     and_then (string_of member_str) (\<lambda>m.
     and_then (string_of memberid_str) (\<lambda>i.
     if up then
       and_then (emit (C_print (''New member '' @ m @ '' discovered at '' @ i))) (\<lambda>_.
       ret (st\<lparr>member_cnt := member_cnt st + 1\<rparr>))
     else
       and_then (emit (C_print (''Member '' @ m @ '' at '' @ i @ '' lost''))) (\<lambda>_.
       ret (st\<lparr>member_cnt := member_cnt st - 1\<rparr>))))))))))))"

text \<open>The statistics, printed at every 2000th message of a kind; the counter is passed as an int.\<close>

definition pr_stats :: "u32 \<Rightarrow> group_state \<Rightarrow> unit prog" where
  "pr_stats rcv_cnt st =
     only_if (sint rcv_cnt mod 2000 = 0)
       (emit (C_print (''Recv '' @ show_u32 (rcv_bc st) @ '' broadcasts, '' @ show_u32 (rcv_mc st) @
          '' multicasts, '' @ show_u32 (rcv_ac st) @ '' anycasts, '' @ show_u32 (rcv_uc st) @
          '' unicasts; Sent '' @ show_u32 (snt_uc st) @ '' unicasts'')))"

definition group_timeout :: "mtyp \<Rightarrow> group_state \<Rightarrow> int" where
  "group_timeout t st = (if t = NONE then -1 else if member_cnt st \<le> 1 then -1 else 0)"

text \<open>A received message is counted by its type; the counter is raised before the statistics.\<close>

definition count_received :: "group_state \<Rightarrow> (u32 \<times> group_state) option" where
  "count_received st =
     (if hdr_type st = mtyp_code BCAST then Some (rcv_bc st, st\<lparr>rcv_bc := rcv_bc st + 1\<rparr>)
      else if hdr_type st = mtyp_code MCAST then Some (rcv_mc st, st\<lparr>rcv_mc := rcv_mc st + 1\<rparr>)
      else if hdr_type st = mtyp_code ACAST then Some (rcv_ac st, st\<lparr>rcv_ac := rcv_ac st + 1\<rparr>)
      else if hdr_type st = mtyp_code UCAST then Some (rcv_uc st, st\<lparr>rcv_uc := rcv_uc st + 1\<rparr>)
      else None)"

definition count_message :: "group_state \<Rightarrow> group_state prog" where
  "count_message st =
     (case count_received st of
        None \<Rightarrow> ret st
      | Some (old, st) \<Rightarrow> and_then (pr_stats old st) (\<lambda>_. ret st))"

text \<open>The answer is the message itself with another header, cut or extended to the length of the own messages.\<close>

definition answer_message :: "int \<Rightarrow> int \<Rightarrow> tipc_addr_t option \<Rightarrow> group_state \<Rightarrow> group_state prog" where
  "answer_message sd len src st =
     (if hdr_reply st then
        let st = set_hdr UCAST False st in
        and_then (tipc_sendto sd (gbuf st) len src) (\<lambda>rc.
        if 0 \<ge> rc then group_die ''Failed to send group unicast''
        else ret (st\<lparr>snt_uc := snt_uc st + 1\<rparr>))
      else ret st)"

definition group_receive :: "int \<Rightarrow> int \<Rightarrow> group_state \<Rightarrow> group_state prog" where
  "group_receive sd len st =
     and_then uninit_ta (\<lambda>src.
     and_then (tipc_recvfrom sd (gbuf st) (Some src) None None) (\<lambda>v.
     if 0 \<ge> rv_rc v then group_die ''unexpected message on transceiver socket'' else
     and_then (count_message (st\<lparr>gbuf := rv_buf v\<rparr>)) (answer_message sd len (rv_src v))))"

definition group_receive_turn ::
  "int \<Rightarrow> int \<Rightarrow> mtyp \<Rightarrow> int \<Rightarrow> group_state \<Rightarrow> (group_state + group_state) prog" where
  "group_receive_turn sd0 sd1 t len st =
     and_then (sys (C_poll [sd0, sd1] (group_timeout t st))) (\<lambda>r.
     if r_ret r \<le> 0 then ret (Inr st) else
     and_then (if sd0 \<in> set (r_ready r) then discover_member sd0 st else ret st) (\<lambda>st.
     and_then (if sd1 \<in> set (r_ready r) then group_receive sd1 len st else ret st) (\<lambda>st.
     ret (Inl st))))"

definition group_send :: "int \<Rightarrow> mtyp \<Rightarrow> bool \<Rightarrow> int \<Rightarrow> tipc_addr_t \<Rightarrow> group_state \<Rightarrow> group_state prog" where
  "group_send sd t ucast_reply len dst st =
     (let st = set_hdr t ucast_reply st in
      if t = BCAST then
        and_then (tipc_send sd (gbuf st) len) (\<lambda>rc.
        if 0 \<ge> rc then group_die ''Failed to send group broadcast''
        else ret (st\<lparr>snt_bc := snt_bc st + 1\<rparr>))
      else if t = ACAST then
        and_then (tipc_sendto sd (gbuf st) len (Some dst)) (\<lambda>rc.
        if 0 \<ge> rc then group_die ''Failed to send group anycast''
        else ret (st\<lparr>snt_ac := snt_ac st + 1\<rparr>))
      else if t = MCAST then
        and_then (tipc_mcast sd (gbuf st) len (Some dst)) (\<lambda>rc.
        if 0 \<ge> rc then group_die ''Failed to send group multicast''
        else ret (st\<lparr>snt_mc := snt_mc st + 1\<rparr>))
      else ret st)"

definition group_transceive ::
  "int \<Rightarrow> int \<Rightarrow> mtyp \<Rightarrow> bool \<Rightarrow> int \<Rightarrow> tipc_addr_t \<Rightarrow> group_state \<Rightarrow> group_state prog" where
  "group_transceive sd0 sd1 t ucast_reply len dst st =
     and_then (loop (group_receive_turn sd0 sd1 t len) st) (group_send sd1 t ucast_reply len dst)"

section \<open>The main program\<close>

record group_conf =
  gc_len :: int
  gc_mtyp :: mtyp
  gc_reply :: bool
  gc_inst :: int
  gc_dst :: tipc_addr_t

definition group_syntax :: "'a prog" where
  "group_syntax = and_then (emit (C_print ''Usage: [-b] [-m] [-a] [-l <msglen>]'')) (\<lambda>_. exit_prog 1)"

text \<open>The three kinds of message exclude each other.\<close>

definition choose_mtyp :: "mtyp \<Rightarrow> group_conf \<Rightarrow> (group_conf \<Rightarrow> group_conf prog) \<Rightarrow> group_conf prog" where
  "choose_mtyp t c continue = (if gc_mtyp c \<noteq> NONE then group_syntax else continue (c\<lparr>gc_mtyp := t\<rparr>))"

fun group_options :: "options \<Rightarrow> group_conf \<Rightarrow> group_conf prog" where
  "group_options [] c = ret c"
| "group_options ((opt, optarg) # opts) c =
     (if opt = CHR ''l'' then group_options opts (c\<lparr>gc_len := atoi optarg\<rparr>)
      else if opt = CHR ''i'' then group_options opts (c\<lparr>gc_inst := atoi optarg\<rparr>)
      else if opt = CHR ''b'' then choose_mtyp BCAST c (group_options opts)
      else if opt = CHR ''m'' then choose_mtyp MCAST c (group_options opts)
      else if opt = CHR ''a'' then choose_mtyp ACAST c (group_options opts)
      else if opt = CHR ''r'' then group_options opts (c\<lparr>gc_reply := True\<rparr>)
      else if opt = CHR ''d'' then
        group_options opts (c\<lparr>gc_dst := (gc_dst c)\<lparr>ta_instance := of_int (atoi optarg)\<rparr>\<rparr>)
      else group_syntax)"

definition group_discover_turn :: "int \<Rightarrow> group_state \<Rightarrow> (group_state + group_state) prog" where
  "group_discover_turn sd st =
     and_then (sys (C_poll [sd] 1000)) (\<lambda>r.
     if r_ret r \<le> 0 then ret (Inr st)
     else if sd \<notin> set (r_ready r) then ret (Inr st)
     else and_then (discover_member sd st) (\<lambda>st. ret (Inl st)))"

text \<open>
  The statistics of the sender: messages per second and Mb/s since the start and in the last
  interval. The number of messages is multiplied by 1000 as an unsigned int.
\<close>

definition group_report ::
  "int \<times> int \<Rightarrow> int \<times> int \<Rightarrow> int \<times> int \<Rightarrow> group_state \<Rightarrow> unit prog" where
  "group_report start_time start_intv now st =
     (let snt = snt_bc st + snt_mc st + snt_ac st + snt_uc st in
      and_then (elapsedmsec start_time now) (\<lambda>elapsed_ms_tot.
      and_then (u64_div (ucast (snt * 1000)) elapsed_ms_tot) (\<lambda>msg_per_sec_tot.
      let thruput_tot = ucast ((msg_per_sec_tot * 66000 * 8) div 1000000) :: u32 in
      and_then (elapsedmsec start_intv now) (\<lambda>elapsed_ms_intv.
      and_then (u64_div 2000000 elapsed_ms_intv) (\<lambda>msg_per_sec_intv.
      let thruput_intv = ucast ((msg_per_sec_intv * 66000 * 8) div 1000000) :: u32 in
      emit (C_print (''Sent '' @ show_u32 (snt_bc st) @ '' broadcast, '' @ show_u32 (snt_mc st) @
        '' multicast, '' @ show_u32 (snt_ac st) @ '' anycast, throughput '' @ show_u32 thruput_tot @
        '' MB/s, last intv '' @ show_u32 thruput_intv @ '' MB/s'')))))))"

definition group_main_turn ::
  "int \<Rightarrow> int \<Rightarrow> group_conf \<Rightarrow> int \<times> int \<Rightarrow> (int \<times> int) \<times> group_state \<Rightarrow>
     (((int \<times> int) \<times> group_state) + unit) prog" where
  "group_main_turn sd0 sd1 c start_time = (\<lambda>(start_intv, st).
     and_then (group_transceive sd0 sd1 (gc_mtyp c) (gc_reply c) (gc_len c) (gc_dst c) st) (\<lambda>st.
     if (snt_bc st = 0 \<or> snt_bc st mod 2000 \<noteq> 0) \<and> (snt_mc st = 0 \<or> snt_mc st mod 2000 \<noteq> 0) \<and>
        (snt_ac st = 0 \<or> snt_ac st mod 2000 \<noteq> 0)
     then ret (Inl (start_intv, st))
     else
       and_then (sys C_gettimeofday) (\<lambda>r.
       and_then (group_report start_time start_intv (time_of r) st) (\<lambda>_.
       ret (Inl (time_of r, st))))))"

definition group_main :: "bool \<Rightarrow> options \<Rightarrow> unit prog" where
  "group_main has_groups opts =
     and_then (group_options opts \<lparr>gc_len = 66000, gc_mtyp = NONE, gc_reply = False, gc_inst = 0,
                 gc_dst = \<lparr>ta_type = 4711, ta_instance = 0, ta_domain = 0\<rparr>\<rparr>) (\<lambda>c.
     and_then (tipc_topsrv_conn 0) (\<lambda>sd0.
     if sd0 < 0 then group_die ''Failed to create subscriber socket'' else
     and_then (tipc_srv_subscr sd0 4711 0 (NOT 0) True (-1)) (\<lambda>rc.
     if rc \<noteq> 0 then group_die ''subscription for group members failed'' else
     and_then (emit (C_print ''Waiting for remote members'')) (\<lambda>_.
     and_then (loop (group_discover_turn sd0) new_group_state) (\<lambda>st.
     and_then (tipc_socket SOCK_RDM) (\<lambda>sd1.
     if sd1 < 0 then group_die ''Failed to create member socket'' else
     and_then tipc_own_cluster (\<lambda>cluster.
     let self = \<lparr>ta_type = 4711, ta_instance = of_int (gc_inst c), ta_domain = cluster\<rparr> in
     and_then (tipc_join has_groups sd1 self) (\<lambda>rc.
     if rc \<noteq> 0 then group_die ''Failed to join group'' else
     and_then (tipc_ntoa self (replicate 30 0) 30) (\<lambda>self_str.
     and_then (string_of self_str) (\<lambda>name.
     and_then (emit (C_print (''Joined as member '' @ name))) (\<lambda>_.
     let st = st\<lparr>gbuf := replicate BUF_LEN 0xff\<rparr> in
     and_then (sys C_gettimeofday) (\<lambda>r.
     let start_time = time_of r in
     and_then (sys C_gettimeofday) (\<lambda>r.
     loop (group_main_turn sd0 sd1 c start_time) (time_of r, st))))))))))))))"

end
