(* ===== verification/Mcast_Props.thy ===== *)
theory Mcast_Props
  imports Group_Cast Tipcc_Props
begin

text \<open>
  The multicast blaster from the sender to the receiver's verdict, and how far the two blasters
  get. The packets of a transmission carry consecutive sequence numbers and the number of
  packets still to come; the receiver judges a test by the two, and its verdict is proved right
  for every pattern of lost packets that spares the first and the last one.
\<close>

section \<open>The packets of a transmission\<close>

fun mcast_bufs :: "nat \<Rightarrow> bytes \<Rightarrow> bytes list" where
  "mcast_bufs 0 buf = []"
| "mcast_bufs (Suc n) buf = (let b = req_stamp buf (of_nat (Suc n)) in b # mcast_bufs n b)"

lemma req_stamp_simps [simp]:
  assumes "8 \<le> length buf"
  shows "length (req_stamp buf c) = length buf" "req_seqno (req_stamp buf c) = req_seqno buf + 1"
    "req_remaining (req_stamp buf c) = c"
  using assms by (simp_all add: req_stamp_def req_seqno_def req_remaining_def overwrite_def
      bytes_int_int_bytes)

lemma req_take [simp]:
  "4 \<le> k \<Longrightarrow> req_seqno (take k b) = req_seqno b"
  "8 \<le> k \<Longrightarrow> req_remaining (take k b) = req_remaining b"
  by (simp_all add: req_seqno_def req_remaining_def bytes_int_def drop_take)

lemma mcast_bufs_length [simp]: "length (mcast_bufs n buf) = n"
  by (induction n arbitrary: buf) (simp_all add: Let_def)

lemma mcast_bufs_header:
  "i < n \<Longrightarrow> 8 \<le> length buf \<Longrightarrow> length (mcast_bufs n buf ! i) = length buf \<and>
     req_seqno (mcast_bufs n buf ! i) = req_seqno buf + 1 + of_nat i \<and>
     req_remaining (mcast_bufs n buf ! i) = of_nat (n - i)"
proof (induction n arbitrary: buf i)
  case (Suc n)
  then show ?case by (cases i) (simp_all add: Let_def)
qed simp

lemma run_mcast [run]:
  "0 \<le> len \<Longrightarrow> len \<le> int (length buf) \<Longrightarrow> replies w = r # rs \<Longrightarrow>
   and_then (tipc_mcast sd buf len (Some dst)) f w =
     f (r_ret r) (w\<lparr>replies := rs, calls := calls w @
       [C_sendto sd (take (nat len) buf) 0 (seq_addr (ta_type dst) (ta_instance dst) (ta_instance dst) 1)]\<rparr>)"
  by (simp add: tipc_mcast_def with_bytes_def seq_addr_def Let_def run)

lemma turns_mcast: "turns (mcast_transmitter_turn sd len srv s)"
  by (cases s)
    (auto simp: mcast_transmitter_turn_def tipc_mcast_def domain2scope_def with_bytes_def seq_addr_def Let_def
      and_then_assoc mcast_die_def intro!: waits_intros intro: turns_waits)

text \<open>
  Told to send \<open>n\<close> packets, the transmitter multicasts exactly \<open>n\<close> messages, built one from the
  other by stamping the header, and then ends.
\<close>

lemma transmitter_sends:
  assumes "n < 2 ^ 32" and "8 \<le> length buf" and "0 \<le> len" and "len \<le> int (length buf)"
    and "replies w = rs @ rest" and "length rs = n" and "\<forall>r \<in> set rs. 0 < r_ret r"
  shows "loop (mcast_transmitter_turn sd len srv) (of_nat n, buf) w =
    (Ret (), w\<lparr>replies := rest, calls := calls w @ map (\<lambda>b. C_sendto sd (take (nat len) b) 0
       (seq_addr (ta_type srv) (ta_instance srv) (ta_instance srv) TIPC_ZONE_SCOPE)) (mcast_bufs n buf)\<rparr>)"
  using assms
proof (induction n arbitrary: buf w rs)
  case 0
  then show ?case
    by (subst loop_unfold [OF turns_mcast]) (simp add: mcast_transmitter_turn_def run)
next
  case (Suc n)
  then obtain r rs' where rs: "rs = r # rs'" by (cases rs) auto
  have nz: "(of_nat (Suc n) :: u32) \<noteq> 0"
    using Suc.prems(1) by (simp only: of_nat_eq_0_iff word_of_nat_eq_0_iff) (auto dest: dvd_imp_le)
  have prev: "(of_nat (Suc n) :: u32) - 1 = of_nat n" by simp
  show ?case
    using Suc.prems Suc.IH [of "req_stamp buf (of_nat (Suc n))" "w\<lparr>replies := rs' @ rest, calls := calls w @
       [C_sendto sd (take (nat len) (req_stamp buf (of_nat (Suc n)))) 0 (seq_addr (ta_type srv) (ta_instance srv) (ta_instance srv) 1)]\<rparr>" rs']
    by (subst loop_unfold [OF turns_mcast])
      (simp add: mcast_transmitter_turn_def rs nz prev run Let_def del: of_nat_Suc)
qed

section \<open>The receiver's verdict\<close>

text \<open>The receiver's bookkeeping over the packets of one sender, and its verdict on \<open>k\<close> of \<open>n\<close> packets.\<close>

fun account_all :: "bool \<Rightarrow> string \<Rightarrow> bytes list \<Rightarrow> sndr \<Rightarrow> sndr \<times> string list" where
  "account_all v src [] s = (s, [])"
| "account_all v src (p # ps) s =
     (let (s, out) = mcast_account v src p s; (s, out') = account_all v src ps s in (s, out @ out'))"

definition verdict :: "string \<Rightarrow> nat \<Rightarrow> nat \<Rightarrow> string" where
  "verdict src k n =
     (if k = n then ''Test OK for '' @ show_u32 (of_nat k) @ '' pkts from '' @ src
      else ''Test NOK for '' @ show_u32 (of_nat k) @ '' pkts from '' @ src @ '', missing '' @
        show_u32 (of_nat n - of_nat k))"

lemma account_all_append:
  "account_all v src (ps @ qs) s =
     (let (s, out) = account_all v src ps s; (s, out') = account_all v src qs s in (s, out @ out'))"
  by (induction ps arbitrary: s) (simp_all add: Let_def split: prod.splits)

lemma of_nat_u32_eq: "a < 2 ^ 32 \<Longrightarrow> b < 2 ^ 32 \<Longrightarrow> (of_nat a :: u32) = of_nat b \<longleftrightarrow> a = b"
  by (simp add: word_unat_eq_iff unsigned_of_nat take_bit_nat_eq_self)

text \<open>Packets between the first and the last one are counted, and reported only after a gap.\<close>

definition follows :: "bytes list \<Rightarrow> u32 \<Rightarrow> bool" where
  "follows ps q \<longleftrightarrow> map req_seqno ps = map (\<lambda>i. q + of_nat i) [0..<length ps]"

lemma follows_Cons: "follows (p # ps) q \<longleftrightarrow> req_seqno p = q \<and> follows ps (q + 1)"
  by (auto simp: follows_def upt_conv_Cons map_Suc_upt [symmetric] comp_def add.assoc simp del: upt_Suc)

lemma account_middle:
  assumes "\<forall>p \<in> set ps. req_remaining p \<noteq> 1" and "cnt s = of_nat c" and "0 < c" and "c + length ps < 2 ^ 32"
  shows "\<exists>s' out. account_all v src ps s = (s', out) \<and> cnt s' = of_nat (c + length ps) \<and>
    total_cnt s' = total_cnt s \<and>
    (follows ps (rcv_nxt s) \<and> \<not> v \<longrightarrow> out = [] \<and> rcv_nxt s' = rcv_nxt s + of_nat (length ps))"
  using assms
proof (induction ps arbitrary: s c)
  case (Cons p ps)
  have nz: "(of_nat c :: u32) \<noteq> 0"
    using Cons.prems by (simp only: word_of_nat_eq_0_iff) (auto dest: dvd_imp_le)
  let ?s = "s\<lparr>rcv_nxt := req_seqno p + 1, cnt := cnt s + 1\<rparr>"
  have "cnt ?s = of_nat (Suc c)" using Cons.prems by (simp add: add.commute)
  from Cons.IH [OF _ this] Cons.prems obtain s' out where
    s': "account_all v src ps ?s = (s', out)" "cnt s' = of_nat (Suc c + length ps)" "total_cnt s' = total_cnt s"
      "follows ps (req_seqno p + 1) \<and> \<not> v \<longrightarrow> out = [] \<and> rcv_nxt s' = req_seqno p + 1 + of_nat (length ps)"
    by auto
  obtain out0 where "mcast_account v src p s = (?s, out0)"
      "req_seqno p = rcv_nxt s \<and> \<not> v \<longrightarrow> out0 = []"
    using Cons.prems nz by (auto simp: mcast_account_def Let_def)
  with s' show ?case by (simp add: follows_Cons add.commute add.left_commute)
qed (simp add: follows_def)

text \<open>The packets of a transmission, and those that arrive, in their order.\<close>

definition packet :: "nat \<Rightarrow> nat \<Rightarrow> nat \<Rightarrow> bytes" where
  "packet len n i = take len (mcast_bufs n (replicate BUF_LEN 0xff) ! i)"

definition arrived :: "nat \<Rightarrow> nat \<Rightarrow> (nat \<Rightarrow> bool) \<Rightarrow> bytes list" where
  "arrived len n keep = map (packet len n) (filter keep [0..<n])"

lemma seqno_ff: "req_seqno (replicate BUF_LEN 0xff) = -1"
proof -
  have "bytes_int (replicate BUF_LEN 0xff) = 0xFFFFFFFF" by (simp add: bytes_int_def)
  then show ?thesis by (simp add: req_seqno_def ntohl_def htonl_def)
qed

lemma packet_header:
  "i < n \<Longrightarrow> 8 \<le> len \<Longrightarrow> req_seqno (packet len n i) = of_nat i \<and> req_remaining (packet len n i) = of_nat (n - i)"
  using mcast_bufs_header [of i n "replicate BUF_LEN 0xff"] by (simp add: packet_def seqno_ff)

text \<open>The first packet opens the books, those between the first and the last one are counted.\<close>

lemma account_first:
  assumes "1 < n" and "n < 2 ^ 32" and "8 \<le> len"
  shows "mcast_account v src (packet len n 0) no_sndr = (\<lparr>rcv_nxt = 1, cnt = 1, total_cnt = of_nat n\<rparr>, [])"
proof -
  have "(of_nat n :: u32) \<noteq> 1" using of_nat_u32_eq [of n 1] assms by simp
  then show ?thesis
    using packet_header [of 0 n len] assms by (simp add: mcast_account_def no_sndr_def Let_def)
qed

lemma account_between:
  assumes "n < 2 ^ 32" and "8 \<le> len" and "set mid \<subseteq> {1..<n - 1}" and "1 + length mid < 2 ^ 32"
  shows "\<exists>s out. account_all v src (map (packet len n) mid) \<lparr>rcv_nxt = 1, cnt = 1, total_cnt = of_nat n\<rparr> = (s, out) \<and>
    cnt s = of_nat (Suc (length mid)) \<and> total_cnt s = of_nat n \<and>
    (mid = [1..<n - 1] \<and> \<not> v \<longrightarrow> out = [] \<and> rcv_nxt s = 1 + of_nat (length mid))"
proof -
  have "req_remaining (packet len n i) \<noteq> 1" if "i \<in> set mid" for i
  proof -
    have "i \<in> {1..<n - 1}" using that assms(3) by blast
    then have "i < n" "n - i < 2 ^ 32" "n - i \<noteq> 1" using assms(1) by auto
    with of_nat_u32_eq [of "n - i" 1] packet_header [of i n len] assms(2) show ?thesis by (simp del: of_nat_diff)
  qed
  moreover have "follows (map (packet len n) mid) 1" if "mid = [1..<n - 1]"
    using that packet_header [of _ n len] assms(2) by (auto simp: follows_def intro!: nth_equalityI)
  ultimately show ?thesis
    using account_middle [of "map (packet len n) mid" "\<lparr>rcv_nxt = 1, cnt = 1, total_cnt = of_nat n\<rparr>" 1 v src] assms(4)
    by auto
qed

lemma account_last:
  assumes "req_remaining p = 1" and "cnt s = of_nat c" and "0 < c" and "Suc c < 2 ^ 32"
    and "total_cnt s = of_nat n" and "n < 2 ^ 32"
  shows "\<exists>out. mcast_account v src p s = (no_sndr, out @ [verdict src (Suc c) n]) \<and>
    (req_seqno p = rcv_nxt s \<and> \<not> v \<longrightarrow> out = [])"
proof -
  have nz: "(of_nat c :: u32) \<noteq> 0" using of_nat_u32_eq [of c 0] assms by simp
  have eq: "(of_nat c + 1 :: u32) = of_nat n \<longleftrightarrow> Suc c = n"
    using of_nat_u32_eq [of "Suc c" n] assms by (simp add: add.commute)
  show ?thesis
  proof (cases "Suc c = n")
    case True
    then have "(of_nat n :: u32) = of_nat c + 1" by auto
    with assms(1,2,3,5) nz True show ?thesis by (simp add: mcast_account_def verdict_def Let_def)
  next
    case False
    with assms nz eq show ?thesis by (simp add: mcast_account_def verdict_def Let_def add.commute)
  qed
qed

text \<open>The books after the packets that arrive, when the first and the last one do.\<close>

lemma account_arrived:
  assumes "0 < n" and "n < 2 ^ 32" and "8 \<le> len" and "keep 0" and "keep (n - 1)"
  shows "\<exists>out. account_all v src (arrived len n keep) no_sndr = (no_sndr, out) \<and>
    last out = verdict src (length (arrived len n keep)) n \<and>
    ((\<forall>i < n. keep i) \<and> \<not> v \<longrightarrow> out = [verdict src n n])"
proof (cases "n = 1")
  case True
  then have "arrived len n keep = [packet len n 0]" using assms(4) by (simp add: arrived_def)
  with packet_header [of 0 n len] True assms(3) show ?thesis
    by (simp add: mcast_account_def no_sndr_def verdict_def Let_def)
next
  case False
  define mid where "mid = filter keep [1..<n - 1]"
  have "[0..<n] = 0 # [1..<n - 1] @ [n - 1]"
    using assms(1) False by (cases n; cases "n - 1") (simp_all add: upt_rec [of 0])
  then have arr: "arrived len n keep = packet len n 0 # map (packet len n) mid @ [packet len n (n - 1)]"
    using assms(4,5) by (simp add: arrived_def mid_def)
  have len: "length mid \<le> n - 2" using length_filter_le [of keep "[1..<n - 1]"] by (simp add: mid_def)
  then have small: "1 + length mid < 2 ^ 32" "Suc (Suc (length mid)) < 2 ^ 32" using assms(1,2) False by simp_all
  have "set mid \<subseteq> {1..<n - 1}" by (auto simp: mid_def)
  from account_between [OF assms(2,3) this small(1), of v src] obtain s out where
    s: "account_all v src (map (packet len n) mid) \<lparr>rcv_nxt = 1, cnt = 1, total_cnt = of_nat n\<rparr> = (s, out)"
      "cnt s = of_nat (Suc (length mid))" "total_cnt s = of_nat n"
      "mid = [1..<n - 1] \<and> \<not> v \<longrightarrow> out = [] \<and> rcv_nxt s = 1 + of_nat (length mid)"
    by blast
  have "req_remaining (packet len n (n - 1)) = 1" "req_seqno (packet len n (n - 1)) = of_nat (n - 1)"
    using packet_header [of "n - 1" n len] assms(1,3) by simp_all
  with account_last [OF _ s(2) _ small(2) s(3) assms(2), of "packet len n (n - 1)" v src] obtain out' where
    last: "mcast_account v src (packet len n (n - 1)) s = (no_sndr, out' @ [verdict src (Suc (Suc (length mid))) n])"
      "of_nat (n - 1) = rcv_nxt s \<and> \<not> v \<longrightarrow> out' = []"
    by auto
  have all: "out = [] \<and> out' = [] \<and> Suc (Suc (length mid)) = n" if "\<forall>i < n. keep i" "\<not> v"
  proof -
    have "mid = [1..<n - 1]" using that(1) by (auto simp: mid_def filter_id_conv)
    with s(4) last(2) that(2) assms(1) False show ?thesis by (auto simp: of_nat_diff)
  qed
  have "1 < n" using assms(1) False by simp
  from account_first [OF this assms(2,3), of v src] s(1) last(1) all show ?thesis
    by (auto simp: arr account_all_append)
qed

text \<open>
  C25. A test from the sender to the verdict. Told to send \<open>n\<close> packets, the transmitter multicasts
  exactly \<open>n\<close> messages of the length asked for and ends. If the first and the last of them arrive
  and \<open>k\<close> packets arrive in all, in their order, the receiver's last line says OK when \<open>k = n\<close> and
  otherwise NOK, with the number received and the number missing, and its books are empty for the
  next test. When nothing is lost it reports nothing else.
\<close>

theorem mcast_verdict:
  assumes "0 < n" and "n < 2 ^ 32" and "8 \<le> len" and "len \<le> BUF_LEN"
    and "replies w = rs @ rest" and "length rs = n" and "\<forall>r \<in> set rs. 0 < r_ret r"
    and "keep 0" and "keep (n - 1)"
  shows "\<exists>pkts out. loop (mcast_transmitter_turn sd (int len) srv) (of_nat n, replicate BUF_LEN 0xff) w =
      (Ret (), w\<lparr>replies := rest, calls := calls w @ map (\<lambda>p. C_sendto sd p 0
         (seq_addr (ta_type srv) (ta_instance srv) (ta_instance srv) TIPC_ZONE_SCOPE)) pkts\<rparr>) \<and>
    length pkts = n \<and> (\<forall>p \<in> set pkts. length p = len) \<and>
    account_all v src (map ((!) pkts) (filter keep [0..<n])) no_sndr = (no_sndr, out) \<and>
    last out = verdict src (length (filter keep [0..<n])) n \<and>
    ((\<forall>i < n. keep i) \<and> \<not> v \<longrightarrow> out = [verdict src n n])"
proof -
  let ?b = "replicate BUF_LEN 0xff"
  let ?pkts = "map (take len) (mcast_bufs n ?b)"
  have arr: "arrived len n keep = map ((!) ?pkts) (filter keep [0..<n])"
    by (simp add: arrived_def packet_def)
  have len: "\<forall>p \<in> set ?pkts. length p = len"
    using mcast_bufs_header [of _ n ?b] assms(4) by (auto simp: set_conv_nth)
  have "loop (mcast_transmitter_turn sd (int len) srv) (of_nat n, ?b) w =
      (Ret (), w\<lparr>replies := rest, calls := calls w @ map (\<lambda>p. C_sendto sd p 0
         (seq_addr (ta_type srv) (ta_instance srv) (ta_instance srv) TIPC_ZONE_SCOPE)) ?pkts\<rparr>)"
    using transmitter_sends [OF assms(2) _ _ _ assms(5,6,7), of ?b "int len" sd srv] assms(4) by (simp add: comp_def)
  moreover obtain out where "account_all v src (arrived len n keep) no_sndr = (no_sndr, out)"
      "last out = verdict src (length (arrived len n keep)) n"
      "(\<forall>i < n. keep i) \<and> \<not> v \<longrightarrow> out = [verdict src n n]"
    using account_arrived [OF assms(1,2,3,8,9), of v src] by blast
  moreover have "length (arrived len n keep) = length (filter keep [0..<n])" by (simp add: arr)
  ultimately show ?thesis
    using len unfolding arr by (intro exI [of _ ?pkts] exI [of _ out]) simp
qed

theorem mcast_verdict_witness:
  "\<exists>pkts out. loop (mcast_transmitter_turn 3 8 (mcast_srv 0)) (of_nat 3, replicate BUF_LEN 0xff)
       (world_of [ok 8, ok 8, ok 8]) =
     (Ret (), (world_of [])\<lparr>calls := map (\<lambda>p. C_sendto 3 p 0 (seq_addr 76453 17 17 1)) pkts\<rparr>) \<and>
     account_all False ''1.1.2'' [pkts ! 0, pkts ! 2] no_sndr = (no_sndr, out) \<and>
     last out = verdict ''1.1.2'' 2 3"
proof -
  let ?w = "world_of [ok 8, ok 8, ok 8]"
  have two: "filter (\<lambda>i. i \<noteq> 1) [0..<3] = [0, 2 :: nat]" by (simp add: upt_rec numeral_2_eq_2)
  have len: "length [0, 2 :: nat] = 2" by simp
  have "\<forall>r \<in> set [ok 8, ok 8, ok 8]. 0 < r_ret r" "replies ?w = [ok 8, ok 8, ok 8] @ []"
    by (simp_all add: world_of_def)
  from mcast_verdict [OF _ _ _ _ this(2) _ this(1), where n = 3 and len = 8 and keep = "\<lambda>i. i \<noteq> 1" and sd = 3
      and srv = "mcast_srv 0" and v = False and src = "''1.1.2''", unfolded two len]
  obtain pkts out where
    "loop (mcast_transmitter_turn 3 8 (mcast_srv 0)) (of_nat 3, replicate BUF_LEN 0xff) ?w =
      (Ret (), ?w\<lparr>replies := [], calls := map (\<lambda>p. C_sendto 3 p 0 (seq_addr 76453 17 17 1)) pkts\<rparr>)"
    "account_all False ''1.1.2'' [pkts ! 0, pkts ! 2] no_sndr = (no_sndr, out)"
    "last out = verdict ''1.1.2'' 2 3"
    by (auto simp: mcast_srv_def world_of_def simp del: account_all.simps)
  then show ?thesis by (intro exI [of _ pkts] exI [of _ out]) (simp add: world_of_def del: account_all.simps)
qed

section \<open>How far the blasters get\<close>

lemma doomed_die [simp]: "doomed (group_die s)" "doomed (mcast_die s)" "doomed group_syntax" "doomed mcast_usage"
  by (simp_all add: group_die_def mcast_die_def group_syntax_def mcast_usage_def doomed_and_then doomed_exit
      meek_basic)

lemma meek_tipcc [meek_intros]:
  "meek (tipc_socket t)" "meek (tipc_sockid sd i)" "meek uninit_ta" "meek (tipc_close sd)" "meek (tipc_connect sd d)"
  by (simp_all add: tipc_socket_def tipc_sockid_def uninit_ta_def tipc_close_def tipc_connect_def meek_intros
      split: option.split)

lemma meek_own [meek_intros]: "meek tipc_own_node" "meek tipc_own_cluster" "meek tipc_own_zone"
  unfolding tipc_own_cluster_def tipc_own_zone_def tipc_own_node_def by (rule meek_intros | (simp; fail))+

lemma meek_topology [meek_intros]:
  "meek (tipc_topsrv_conn n)" "meek (tipc_srv_subscr sd t l u a e)" "meek (tipc_srv_evt sd ra rb rc rd)"
  "meek (domain2scope d)" "meek (tipc_join g sd m)"
  unfolding tipc_topsrv_conn_def tipc_srv_subscr_def tipc_srv_evt_def domain2scope_def tipc_join_def Let_def
  by (rule meek_intros | (simp; fail))+

lemma meek_texts [meek_intros]: "meek (tipc_ntoa ad b n)" "meek (string_of b)"
  unfolding tipc_ntoa_def snprintf_def put_byte_def string_of_def Let_def by (rule meek_intros | (simp; fail))+

lemma meek_discover [meek_intros]: "meek (discover_member sd st)" "meek (group_discover_turn sd st)"
  unfolding group_discover_turn_def discover_member_def Let_def
  by (rule meek_intros doomed_meek [OF doomed_die(1)] | (simp; fail))+

lemma meek_options: "meek (mcast_options opts c)" "meek (group_options opts c')"
proof -
  show "meek (mcast_options opts c)"
    by (induction opts c rule: mcast_options.induct)
      (simp_all add: meek_basic doomed_meek [OF doomed_die(4)])
  show "meek (group_options opts c')"
  proof (induction opts arbitrary: c')
    case (Cons p opts)
    then show ?case
      by (cases p) (simp add: choose_mtyp_def doomed_meek [OF doomed_die(3)])
  qed (simp add: meek_basic)
qed

text \<open>Both blasters print their own address before they send or receive anything.\<close>

lemma blasters_doomed: "doomed (mcast_main opts)" "doomed (group_main has_groups opts)"
proof -
  show "doomed (mcast_main opts)"
    unfolding mcast_main_def Let_def
    by (rule ntoa.doomed_text doomed_and_then meek_options meek_intros | (simp; fail))+
  show "doomed (group_main has_groups opts)"
    unfolding group_main_def Let_def
    by (rule ntoa.doomed_text doomed_and_then doomed_if doomed_die meek_options meek_intros | (simp; fail))+
qed

end
