(* ===== verification/Capi_Demo_Props.thy ===== *)
theory Capi_Demo_Props
  imports Capi_Demos Mcast_Props
begin

text \<open>
  How far the programs that are built on the C binding get without leaving their arrays: to
  where they print the first address, which is before the first message between them.
\<close>

lemma say_then [run]: "and_then (say s) f w = f () (w\<lparr>calls := calls w @ [C_print s]\<rparr>)"
  "say s w = (Ret (), w\<lparr>calls := calls w @ [C_print s]\<rparr>)"
  by (simp_all add: say_def run)

lemma meek_say [meek_intros]: "meek (say s)" "meek rule_off"
  by (simp_all add: say_def rule_off_def meek_basic)

lemma doomed_server_die [simp]: "doomed (capi_server_die s)"
  by (simp add: capi_server_die_def doomed_and_then doomed_exit meek_say)

lemma meek_capi [meek_intros]: "meek (capi_my_scope d)" "meek (capi_bind sd t l u d)"
  unfolding capi_bind_def capi_my_scope_def Let_def by (rule meek_intros | (simp; fail))+

lemma doomed_bind_service: "doomed (bind_service t d k s)"
  unfolding bind_service_def Let_def
  by (rule doomed_uninit capi_addr.doomed_text doomed_if doomed_server_die doomed_case_prod doomed_and_then
      meek_intros | (simp; fail))+

lemma doomed_server: "doomed (capi_server_main)"
  unfolding capi_server_main_def
  by (rule doomed_first [OF doomed_bind_service] doomed_and_then meek_intros)+

lemma client_overruns:
  "capi_client_main w = (Fault Out_of_bounds, w\<lparr>calls := calls w @
     [C_print ''****** TIPC C API Demo Client Started ******'']\<rparr>)"
  "capi_topology_main w = (Fault Out_of_bounds, w\<lparr>calls := calls w @
     [C_print ''****** TIPC C API Topology Service Client Started ******'']\<rparr>)"
  by (simp_all add: capi_client_main_def capi_topology_main_def run Let_def)
     (simp_all add: and_then_def capi_addr.without_room min_def)

text \<open>
  C28. No program built on the C binding gets to its messages without leaving an array first. Until
  then no run of the two blasters, of the demonstration's server, of its client or of its
  topology subscriber makes any of the calls that send or receive a message; what the group
  blaster exchanges with the topology server are subscriptions and events, which do not count.
  The runs of the first three end with status 1, wait for ever, or write behind an array of 20,
  30 or 40 characters; those of the last two always write behind theirs, right after the line
  that says that they have started. What is to blame is the printing of an address. What a
  program does after it has written behind an array is left open.
\<close>

theorem binding_programs_overrun:
  "filter traffic (calls (snd (mcast_main opts w))) = filter traffic (calls w) \<and>
   fst (mcast_main opts w) \<in> {Exit 1, Fault Out_of_bounds, Blocked} \<and>
   filter traffic (calls (snd (group_main has_groups opts w))) = filter traffic (calls w) \<and>
   fst (group_main has_groups opts w) \<in> {Exit 1, Fault Out_of_bounds, Blocked} \<and>
   filter traffic (calls (snd (capi_server_main w))) = filter traffic (calls w) \<and>
   fst (capi_server_main w) \<in> {Exit 1, Fault Out_of_bounds, Blocked} \<and>
   capi_client_main w = (Fault Out_of_bounds, w\<lparr>calls := calls w @
     [C_print ''****** TIPC C API Demo Client Started ******'']\<rparr>) \<and>
   capi_topology_main w = (Fault Out_of_bounds, w\<lparr>calls := calls w @
     [C_print ''****** TIPC C API Topology Service Client Started ******'']\<rparr>)"
  using doomedD [OF blasters_doomed(1) [of opts], of w] doomedD [OF blasters_doomed(2) [of has_groups opts], of w]
    doomedD [OF doomed_server, of w]
  by (simp add: client_overruns idle_def)

end
