(* ===== verification/Pipe.thy ===== *)
theory Pipe
  imports Tipcc
begin

text \<open>
  The pipe over TIPC, \<^verbatim>\<open>src/tipc-pipe/tipc-pipe.c\<close>. The global variables that the options set
  are a configuration, the ones that change later (the destination and the buffer) a state.
  What \<^verbatim>\<open>getopt_long\<close> finds on the command line is the parameter of the main program: the name
  of each option with its argument, and the two optional addresses. The trace that goes to the
  standard error output is left out, except for the reports of lost messages.
\<close>

section \<open>Configuration and state\<close>

datatype client_mode_e = data_client_e | single_listener | multi_server | topology_client

record pipe_conf =
  sock_type :: int
  addr_type :: int
  server_type :: int
  dest_droppable :: int
  delay :: int
  data_num :: int
  data_check :: int
  data_size :: int
  wait_peer :: int
  replay :: int
  tee :: int
  addr1 :: int
  addr2 :: int
  recvq_depth :: int
  buf_size :: int
  mode :: client_mode_e

definition default_conf :: pipe_conf where
  "default_conf = \<lparr>sock_type = SOCK_STREAM, addr_type = TIPC_ADDR_NAME, server_type = 1000,
     dest_droppable = -1, delay = 0, data_num = 0, data_check = 0, data_size = 0, wait_peer = 0,
     replay = 0, tee = 0, addr1 = 0, addr2 = 0, recvq_depth = 0, buf_size = 66000,
     mode = data_client_e\<rparr>"

record pipe_state =
  addr_sk :: sockaddr_tipc
  pbuf :: bytes

section \<open>Helpers\<close>

definition nanosleep :: "int \<Rightarrow> unit prog" where
  "nanosleep ms = emit (C_sleep ms)"

text \<open>The number 0 printed with a width: leading zeros, or blanks behind it for a negative width.\<close>

definition zero_padded :: "int \<Rightarrow> string" where
  "zero_padded width =
     (if width \<ge> 0 then replicate (nat width - 1) CHR ''0'' @ ''0''
      else ''0'' @ replicate (nat (- width) - 1) CHR '' '')"

text \<open>\<^verbatim>\<open>write\<close> of the first \<open>n\<close> bytes of the buffer; the standard output is descriptor 1.\<close>

definition write_all :: "int \<Rightarrow> bytes \<Rightarrow> int \<Rightarrow> unit prog" where
  "write_all fd buf n =
     with_bytes buf n (\<lambda>d. and_then (sys (C_write fd d)) (\<lambda>r.
       if r_ret r \<noteq> n then exit_prog 1 else ret ()))"

section \<open>Sending and checking numbered messages\<close>

text \<open>\<^verbatim>\<open>MSG_DONTWAIT\<close> is 64.\<close>

definition tipc_write :: "pipe_conf \<Rightarrow> pipe_state \<Rightarrow> int \<Rightarrow> int \<Rightarrow> reply prog" where
  "tipc_write c st tipc len =
     with_bytes (pbuf st) len (\<lambda>d.
       if sock_type c = SOCK_DGRAM \<or> sock_type c = SOCK_RDM
       then sys (C_sendto tipc d 64 (addr_sk st)) else sys (C_write tipc d))"

text \<open>Writing until the socket does not ask to try again.\<close>

definition write_turn :: "pipe_conf \<Rightarrow> pipe_state \<Rightarrow> int \<Rightarrow> int \<Rightarrow> unit \<Rightarrow> (unit + int) prog" where
  "write_turn c st tipc len _ =
     and_then (tipc_write c st tipc len) (\<lambda>r.
     if r_ret r < 0 \<and> r_errno r = EAGAIN then and_then (nanosleep 100) (\<lambda>_. ret (Inl ()))
     else ret (Inr (r_ret r)))"

definition generated_text :: "pipe_conf \<Rightarrow> sockaddr_tipc \<Rightarrow> int \<Rightarrow> int \<Rightarrow> int \<Rightarrow> string" where
  "generated_text c name pid i try =
     (if data_size c \<noteq> 0 then zero_padded (data_size c - 2) @ ''\<newline>''
      else ''message '' @ show_int i @ '' try '' @ show_int try @ '' '' @ show_hex (unat (id_node name)) @
           '' '' @ show_int pid @ '' '' @ show_hex (unat (id_ref name)) @ ''\<newline>'')"

definition generate_try ::
  "pipe_conf \<Rightarrow> sockaddr_tipc \<Rightarrow> int \<Rightarrow> int \<Rightarrow> int \<times> pipe_state \<Rightarrow> ((int \<times> pipe_state) + (int \<times> pipe_state)) prog" where
  "generate_try c name tipc i = (\<lambda>(try, st).
     let try = try + 1 in
     and_then (if data_size c \<noteq> 0 then ret 0 else and_then (sys C_getpid) (\<lambda>r. ret (r_ret r))) (\<lambda>pid.
     let text = generated_text c name pid i try in
     and_then (sprintf (pbuf st) text) (\<lambda>buf.
     let st = st\<lparr>pbuf := buf\<rparr> in
     and_then (tipc_write c st tipc (int (length text) + 1)) (\<lambda>r.
     if r_ret r < 0 \<and> r_errno r = EAGAIN then and_then (nanosleep 100) (\<lambda>_. ret (Inl (try, st)))
     else ret (Inr (r_ret r, st))))))"

text \<open>The loop over the messages; the result is the value of \<^verbatim>\<open>ret\<close>.\<close>

definition generate_turn ::
  "pipe_conf \<Rightarrow> sockaddr_tipc \<Rightarrow> int \<Rightarrow> int \<times> int \<times> pipe_state \<Rightarrow>
     ((int \<times> int \<times> pipe_state) + (int \<times> pipe_state)) prog" where
  "generate_turn c name tipc = (\<lambda>(i, retval, st).
     if \<not> i < data_num c then ret (Inr (retval, st)) else
     and_then (loop (generate_try c name tipc i) (0, st)) (\<lambda>(retval, st).
     if retval < 0 then and_then (emit (C_print ''generate_data'')) (\<lambda>_. ret (Inr (retval, st)))
     else and_then (nanosleep (delay c)) (\<lambda>_. ret (Inl (i + 1, retval, st)))))"

definition generate_data ::
  "pipe_conf \<Rightarrow> sockaddr_tipc \<Rightarrow> int \<Rightarrow> int \<Rightarrow> pipe_state \<Rightarrow> (int \<times> pipe_state) prog" where
  "generate_data c name tipc retval st = loop (generate_turn c name tipc) (0, retval, st)"

abbreviation (input) MAP_EXPECTED_SEQUENCE_NUMBERS :: nat where "MAP_EXPECTED_SEQUENCE_NUMBERS \<equiv> 255"

text \<open>\<^verbatim>\<open>sscanf(buf, "message %d", &seq)\<close>: the number if there is one.\<close>

definition scan_message :: "string \<Rightarrow> int option" where
  "scan_message s = (if take 7 s = ''message'' then map_option fst (scan_int (drop 7 s)) else None)"

text \<open>
  The bookkeeping for one message: the entry of the sender in the map of expected numbers, and
  the report of lost messages.
\<close>

definition expect_next :: "u32 \<Rightarrow> string \<Rightarrow> int \<Rightarrow> int \<times> string list" where
  "expect_next ref text expected =
     (case scan_message text of
        Some seq \<Rightarrow>
          (seq + 1, if seq - expected \<noteq> 0
                    then [''#'' @ show_int expected @ '' '' @ show_int (seq - expected) @ '' lost on '' @
                          show_hex (unat ref)] else [])
      | None \<Rightarrow> (expected + 1, []))"

definition check_turn ::
  "pipe_conf \<Rightarrow> int \<Rightarrow> int list \<times> pipe_state \<Rightarrow> ((int list \<times> pipe_state) + (int \<times> pipe_state)) prog" where
  "check_turn c tipc = (\<lambda>(map, st).
     and_then (receive (C_recvfrom tipc (buf_size c) 0) (pbuf st)) (\<lambda>r.
     let st = st\<lparr>pbuf := recv_into (pbuf st) r\<rparr> in
     if r_ret r \<le> 0 then ret (Inr (r_ret r, st)) else
     case c_string (pbuf st) of
       None \<Rightarrow> fault Out_of_bounds
     | Some text \<Rightarrow>
         let ref = id_ref (r_addr r); k = unat ref mod 256 in
         if k \<ge> MAP_EXPECTED_SEQUENCE_NUMBERS then fault Out_of_bounds else
         let (e, out) = expect_next ref text (map ! k) in
         and_then (for_each out (\<lambda>l. emit (C_print l))) (\<lambda>_.
         and_then (write_all 1 (pbuf st) (r_ret r)) (\<lambda>_.
         and_then (nanosleep (delay c)) (\<lambda>_.
         ret (Inl (map[k := e], st)))))))"

definition check_generated_data :: "pipe_conf \<Rightarrow> int \<Rightarrow> pipe_state \<Rightarrow> (int \<times> pipe_state) prog" where
  "check_generated_data c tipc st =
     loop (check_turn c tipc) (replicate MAP_EXPECTED_SEQUENCE_NUMBERS 0, st)"

section \<open>The pipe\<close>

text \<open>
  The pair of descriptors is set by \<^verbatim>\<open>socketpair\<close> with the option \<^verbatim>\<open>tee\<close> and not set otherwise.
  A turn of the loop is split by the three sources of data; \<open>None\<close> stands for the \<^verbatim>\<open>break\<close>
  statements, with the value of \<^verbatim>\<open>len\<close>.
\<close>

definition tee_input :: "pipe_conf \<Rightarrow> int \<Rightarrow> reply \<Rightarrow> int \<times> pipe_state \<Rightarrow> ((int \<times> pipe_state) + (int \<times> pipe_state)) prog" where
  "tee_input c fd0 r = (\<lambda>(len, st).
     if tee c \<noteq> 0 \<and> fd0 \<in> set (r_ready r) then
       and_then (receive (C_recv fd0 (buf_size c) 0) (pbuf st)) (\<lambda>r.
       let st = st\<lparr>pbuf := recv_into (pbuf st) r\<rparr> in
       if r_ret r < 0 then ret (Inr (r_ret r, st))
       else and_then (write_all 1 (pbuf st) (r_ret r)) (\<lambda>_. ret (Inl (r_ret r, st))))
     else ret (Inl (len, st)))"

definition stdin_input ::
  "pipe_conf \<Rightarrow> int \<Rightarrow> int \<Rightarrow> reply \<Rightarrow> int \<times> pipe_state \<Rightarrow> ((int \<times> int \<times> pipe_state) + (int \<times> pipe_state)) prog" where
  "stdin_input c tipc fd1 r = (\<lambda>(len, st).
     if 0 \<in> set (r_ready r) then
       and_then (receive (C_read 0 (buf_size c)) (pbuf st)) (\<lambda>r.
       let st = st\<lparr>pbuf := recv_into (pbuf st) r\<rparr>; data_in_len = r_ret r in
       if data_in_len < 0 then ret (Inr (data_in_len, st)) else
       and_then (loop (write_turn c st tipc data_in_len) ()) (\<lambda>_.
       and_then (loop (write_turn c st fd1 data_in_len) ()) (\<lambda>len.
       ret (Inl (data_in_len, len, st)))))
     else ret (Inl (0, len, st)))"

definition tipc_input ::
  "pipe_conf \<Rightarrow> int \<Rightarrow> reply \<Rightarrow> int \<times> int \<times> pipe_state \<Rightarrow> ((int \<times> int \<times> pipe_state) + (int \<times> pipe_state)) prog" where
  "tipc_input c tipc r = (\<lambda>(data_in_len, len, st).
     if tipc \<in> set (r_ready r) then
       and_then uninit_addr (\<lambda>peer.
       and_then (receive (C_recvfrom tipc (buf_size c) 0) (pbuf st)) (\<lambda>r.
       let peer = (if r_ret r \<ge> 0 then r_addr r else peer);
           st = st\<lparr>pbuf := recv_into (pbuf st) r,
                   addr_sk := (if replay c \<noteq> 0 then peer else addr_sk st)\<rparr> in
       if r_ret r < 0 then ret (Inr (r_ret r, st))
       else and_then (write_all 1 (pbuf st) (r_ret r)) (\<lambda>_. ret (Inl (r_ret r, r_ret r, st)))))
     else ret (Inl (data_in_len, len, st)))"

definition or_break :: "('a + 'b) prog \<Rightarrow> ('a \<Rightarrow> ('c + 'b) prog) \<Rightarrow> ('c + 'b) prog" where
  "or_break m f = and_then m (\<lambda>r. case r of Inl x \<Rightarrow> f x | Inr y \<Rightarrow> ret (Inr y))"

definition pipe_turn ::
  "pipe_conf \<Rightarrow> int \<Rightarrow> int \<times> int \<Rightarrow> int \<times> pipe_state \<Rightarrow> ((int \<times> pipe_state) + (int \<times> pipe_state)) prog" where
  "pipe_turn c tipc = (\<lambda>(fd0, fd1) (len, st).
     and_then (sys (C_poll ([0, tipc] @ (if tee c \<noteq> 0 then [fd0] else [])) (-1))) (\<lambda>r.
     if r_ret r \<le> 0 then ret (Inr (len, st)) else
     or_break (tee_input c fd0 r (len, st)) (\<lambda>s.
     or_break (stdin_input c tipc fd1 r s) (\<lambda>s.
     or_break (tipc_input c tipc r s) (\<lambda>(data_in_len, len, st).
     if (0 \<in> set (r_hup r) \<or> tipc \<in> set (r_hup r)) \<and> data_in_len = 0 then
       and_then (emit (C_print ''Hangup received from Peer'')) (\<lambda>_. ret (Inr (len, st)))
     else and_then (nanosleep (delay c)) (\<lambda>_. ret (Inl (len, st))))))))"

text \<open>\<^verbatim>\<open>socketpair\<close> replies with the two descriptors; without it they are what the stack holds.\<close>

definition pipe_start :: "pipe_conf \<Rightarrow> int \<Rightarrow> pipe_state \<Rightarrow> (int \<times> pipe_state) prog" where
  "pipe_start c tipc st =
     and_then (uninit_bytes 8) (\<lambda>pair.
     and_then
       (if tee c \<noteq> 0 then
          and_then (sys C_socketpair) (\<lambda>r.
          if r_ret r < 0 then and_then (emit (C_print ''Cannot open sockpair'')) (\<lambda>_. exit_prog 1)
          else ret (r_ready r ! 0, r_ready r ! 1))
        else ret (sint (bytes_int pair), sint (bytes_int (drop 4 pair)))) (\<lambda>(fd0, fd1).
     and_then (loop (pipe_turn c tipc (fd0, fd1)) (0, st)) (\<lambda>(len, st).
     and_then (if tee c \<noteq> 0 then and_then (sys (C_close fd1)) (\<lambda>_. and_then (sys (C_close fd0)) (\<lambda>_. ret ()))
               else ret ()) (\<lambda>_.
     ret (len, st)))))"

section \<open>Servers and clients\<close>

definition data_io ::
  "pipe_conf \<Rightarrow> sockaddr_tipc \<Rightarrow> int \<Rightarrow> int \<Rightarrow> pipe_state \<Rightarrow> (int \<times> pipe_state) prog" where
  "data_io c name tipc retval st =
     and_then (if recvq_depth c \<noteq> 0
               then and_then (sys (C_setsockopt tipc 133 (recvq_depth c))) (\<lambda>_. ret ()) else ret ()) (\<lambda>_.
     if data_num c \<noteq> 0 then generate_data c name tipc retval st
     else if data_check c \<noteq> 0 then check_generated_data c tipc st
     else pipe_start c tipc st)"

text \<open>In the server for many connections the parent goes on without closing the connection.\<close>

definition accept_turn ::
  "pipe_conf \<Rightarrow> sockaddr_tipc \<Rightarrow> int \<Rightarrow> pipe_state \<Rightarrow> int \<Rightarrow> (int + int) prog" where
  "accept_turn c name tipc st retval =
     (case mode c of
        single_listener \<Rightarrow>
          and_then (sys (C_accept tipc)) (\<lambda>r.
          and_then (data_io c name (r_ret r) (r_ret r) st) (\<lambda>(retval, _).
          and_then (sys (C_shutdown (r_ret r))) (\<lambda>_.
          and_then (sys (C_close (r_ret r))) (\<lambda>_. ret (Inr retval)))))
      | multi_server \<Rightarrow>
          and_then (sys (C_accept tipc)) (\<lambda>r.
          and_then (sys C_fork) (\<lambda>f.
          if r_ret f = 0 then
            and_then (data_io c name (r_ret r) (r_ret r) st) (\<lambda>_.
            and_then (sys (C_shutdown (r_ret r))) (\<lambda>_.
            and_then (sys (C_close (r_ret r))) (\<lambda>_. exit_prog 0)))
          else ret (Inl (r_ret r))))
      | _ \<Rightarrow> and_then (emit (C_print ''Unknown mode'')) (\<lambda>_. ret (Inr retval)))"

definition listen_accept_and_io :: "pipe_conf \<Rightarrow> sockaddr_tipc \<Rightarrow> int \<Rightarrow> pipe_state \<Rightarrow> int prog" where
  "listen_accept_and_io c name tipc st =
     and_then (sys (C_listen tipc 0)) (\<lambda>r.
     loop (accept_turn c name tipc st) (r_ret r))"

definition tipc_addr_set :: "int \<Rightarrow> int \<Rightarrow> int \<Rightarrow> int \<Rightarrow> sockaddr_tipc" where
  "tipc_addr_set atype stype a1 a2 =
     (let A = \<lparr>sa_family = AF_TIPC, sa_addrtype = of_int atype, sa_scope = TIPC_CLUSTER_SCOPE,
               sa_w0 = 0, sa_w1 = 0, sa_w2 = 0\<rparr> in
      if atype = TIPC_ADDR_MCAST then A\<lparr>sa_w0 := of_int stype, sa_w1 := of_int a1, sa_w2 := of_int a2\<rparr>
      else if atype = TIPC_ADDR_NAME then A\<lparr>sa_w0 := of_int stype, sa_w2 := 0, sa_w1 := of_int a1\<rparr>
      else if atype = TIPC_ADDR_ID then A\<lparr>sa_w1 := of_int a1, sa_w0 := of_int a2\<rparr>
      else A)"

definition run_server :: "pipe_conf \<Rightarrow> sockaddr_tipc \<Rightarrow> int \<Rightarrow> pipe_state \<Rightarrow> int prog" where
  "run_server c name tipc st =
     and_then (sys (C_bind tipc (addr_sk st))) (\<lambda>r.
     if sock_type c = SOCK_SEQPACKET \<or> sock_type c = SOCK_STREAM
     then listen_accept_and_io c name tipc st
     else and_then (data_io c name tipc (r_ret r) st) (\<lambda>(retval, _). ret retval))"

definition run_client :: "pipe_conf \<Rightarrow> sockaddr_tipc \<Rightarrow> int \<Rightarrow> int \<Rightarrow> pipe_state \<Rightarrow> int prog" where
  "run_client c name tipc retval st =
     and_then (if dest_droppable c \<ge> 0
               then and_then (sys (C_setsockopt tipc TIPC_DEST_DROPPABLE (dest_droppable c))) (\<lambda>r. ret (r_ret r))
               else ret retval) (\<lambda>retval.
     and_then (if sock_type c = SOCK_SEQPACKET \<or> sock_type c = SOCK_STREAM
               then and_then (sys (C_connect tipc (addr_sk st))) (\<lambda>r. ret (r_ret r)) else ret retval) (\<lambda>retval.
     and_then (data_io c name tipc retval st) (\<lambda>(retval, _). ret retval)))"

text \<open>
  The names of the events. An event the table does not have is an access outside it; its entry 0
  is a null pointer, which the caller prints with \<^verbatim>\<open>%s\<close>.
\<close>

definition event_name :: "u32 \<Rightarrow> string prog" where
  "event_name e =
     (if e = 0 then fault Null_string
      else if e = TIPC_PUBLISHED then ret ''TIPC_PUBLISHED''
      else if e = TIPC_WITHDRAWN then ret ''TIPC_WITHDRAWN''
      else if e = TIPC_SUBSCR_TIMEOUT then ret ''TIPC_SUBSCR_TIMEOUT''
      else fault Out_of_bounds)"

definition topology_turn :: "int \<Rightarrow> u32 \<Rightarrow> unit \<Rightarrow> (unit + int) prog" where
  "topology_turn sd timeout _ =
     and_then (sys (C_recv_event sd)) (\<lambda>r.
     let event = r_event r; e = (if r_ret r > 0 then ntohl (ev_event event) else 0) in
     and_then (event_name e) (\<lambda>name.
     let (lower, upper) =
           (if r_ret r \<le> 0 then (0, 0)
            else if e = TIPC_SUBSCR_TIMEOUT
            then (ntohl (seq_lower (sub_seq (ev_s event))), ntohl (seq_upper (sub_seq (ev_s event))))
            else (ntohl (ev_found_lower event), ntohl (ev_found_upper event))) in
     and_then (emit (C_print (''TIPC_TOP_SRV event '' @ name @ '' lower:'' @ show_u32 lower @
       '' upper:'' @ show_u32 upper))) (\<lambda>_.
     ret (if timeout = TIPC_WAIT_FOREVER \<and> r_ret r \<ge> 0 then Inl () else Inr (r_ret r)))))"

definition run_topology_client :: "pipe_conf \<Rightarrow> int \<Rightarrow> int \<Rightarrow> u32 \<Rightarrow> int prog" where
  "run_topology_client c lower upper timeout =
     and_then (sys (C_socket AF_TIPC SOCK_SEQPACKET 0)) (\<lambda>r.
     let sd = r_ret r in
     and_then (sys (C_connect sd (tipc_addr_set TIPC_ADDR_NAME TIPC_TOP_SRV TIPC_TOP_SRV 0))) (\<lambda>_.
     let subscr = \<lparr>sub_seq = \<lparr>seq_type = htonl (of_int (server_type c)), seq_lower = htonl (of_int lower),
                              seq_upper = htonl (of_int upper)\<rparr>,
                   sub_timeout = htonl timeout, sub_filter = htonl TIPC_SUB_SERVICE,
                   sub_handle = replicate 8 0\<rparr> in
     and_then (sys (C_send_subscr sd subscr)) (\<lambda>_.
     and_then (loop (topology_turn sd timeout) ()) (\<lambda>retval.
     and_then (sys (C_close sd)) (\<lambda>_. ret retval)))))"

section \<open>Options and main program\<close>

definition expand_arg :: "string option \<Rightarrow> int" where
  "expand_arg arg =
     (case arg of
        None \<Rightarrow> 0
      | Some arg \<Rightarrow>
          if arg = ''SOCK_STREAM'' then SOCK_STREAM
          else if arg = ''SOCK_DGRAM'' then SOCK_DGRAM
          else if arg = ''SOCK_RDM'' then SOCK_RDM
          else if arg = ''SOCK_SEQPACKET'' then SOCK_SEQPACKET
          else if arg = ''TIPC_ADDR_NAMESEQ'' then TIPC_ADDR_NAMESEQ
          else if arg = ''TIPC_ADDR_MCAST'' then TIPC_ADDR_MCAST
          else if arg = ''TIPC_ADDR_NAME'' then TIPC_ADDR_NAME
          else if arg = ''TIPC_ADDR_ID'' then TIPC_ADDR_ID
          else atoi arg)"

text \<open>The table of long options: those that take a value, and those that stand for one.\<close>

definition options_init :: "(string \<times> (int \<Rightarrow> pipe_conf \<Rightarrow> pipe_conf)) list \<times> (string \<times> (pipe_conf \<Rightarrow> pipe_conf)) list" where
  "options_init =
     ([(''sock_type'', \<lambda>v c. c\<lparr>sock_type := v\<rparr>), (''server_type'', \<lambda>v c. c\<lparr>server_type := v\<rparr>),
       (''addr_type'', \<lambda>v c. c\<lparr>addr_type := v\<rparr>), (''delay'', \<lambda>v c. c\<lparr>delay := v\<rparr>),
       (''data_num'', \<lambda>v c. c\<lparr>data_num := v\<rparr>), (''buf_size'', \<lambda>v c. c\<lparr>buf_size := v\<rparr>),
       (''data_size'', \<lambda>v c. c\<lparr>data_size := v\<rparr>), (''wait_peer'', \<lambda>v c. c\<lparr>wait_peer := v\<rparr>),
       (''recvq_depth'', \<lambda>v c. c\<lparr>recvq_depth := v\<rparr>), (''dest_droppable'', \<lambda>v c. c\<lparr>dest_droppable := v\<rparr>)],
      [(''rdm'', \<lambda>c. c\<lparr>sock_type := SOCK_RDM\<rparr>), (''stm'', \<lambda>c. c\<lparr>sock_type := SOCK_STREAM\<rparr>),
       (''sqp'', \<lambda>c. c\<lparr>sock_type := SOCK_SEQPACKET\<rparr>), (''mc'', \<lambda>c. c\<lparr>addr_type := TIPC_ADDR_MCAST\<rparr>),
       (''nam'', \<lambda>c. c\<lparr>addr_type := TIPC_ADDR_NAME\<rparr>), (''top'', \<lambda>c. c\<lparr>mode := topology_client\<rparr>),
       (''id'', \<lambda>c. c\<lparr>addr_type := TIPC_ADDR_ID\<rparr>), (''data_check'', \<lambda>c. c\<lparr>data_check := 1\<rparr>),
       (''replay'', \<lambda>c. c\<lparr>replay := 1\<rparr>), (''tee'', \<lambda>c. c\<lparr>tee := 1\<rparr>)])"

fun pipe_options :: "(string \<times> string option) list \<Rightarrow> pipe_conf \<Rightarrow> pipe_conf prog" where
  "pipe_options [] c = ret c"
| "pipe_options ((opt, optarg) # opts) c =
     (case map_of (fst options_init) opt of
        Some set_it \<Rightarrow> pipe_options opts (set_it (expand_arg optarg) c)
      | None \<Rightarrow>
          (case map_of (snd options_init) opt of
             Some set_it \<Rightarrow> pipe_options opts (set_it c)
           | None \<Rightarrow>
               if opt = ''h'' \<or> opt = ''help'' then and_then (emit (C_print ''Usage:'')) (\<lambda>_. exit_prog 0)
               else if opt = ''s'' then pipe_options opts (c\<lparr>mode := single_listener\<rparr>)
               else if opt = ''l'' then pipe_options opts (c\<lparr>mode := multi_server\<rparr>)
               else and_then (emit (C_print ''Error in arguments'')) (\<lambda>_. exit_prog 1)))"

text \<open>A failing assertion aborts the program; a shell reports this as status 134.\<close>

definition pipe_init :: "(string \<times> string option) list \<Rightarrow> string list \<Rightarrow> pipe_conf prog" where
  "pipe_init opts args =
     and_then (pipe_options opts default_conf) (\<lambda>c.
     let c = (case args of [] \<Rightarrow> c | a # _ \<Rightarrow> c\<lparr>addr1 := atoi a, addr2 := atoi a\<rparr>);
         c = (case args of a # b # _ \<Rightarrow> c\<lparr>addr2 := atoi b\<rparr> | _ \<Rightarrow> c) in
     if data_size c + 1 < buf_size c then ret c else exit_prog 134)"

definition pipe_main :: "(string \<times> string option) list \<Rightarrow> string list \<Rightarrow> unit prog" where
  "pipe_main opts args =
     and_then (pipe_init opts args) (\<lambda>c.
     and_then (malloc (buf_size c)) (\<lambda>buf.
     and_then (sys (C_socket AF_TIPC (sock_type c) 0)) (\<lambda>r.
     let tipc = r_ret r in
     and_then (sys (C_getsockname tipc)) (\<lambda>n.
     let name = (if r_ret n \<ge> 0 then r_addr n
                 else \<lparr>sa_family = 0, sa_addrtype = 0, sa_scope = 0, sa_w0 = 0, sa_w1 = 0, sa_w2 = 0\<rparr>);
         st = \<lparr>addr_sk = tipc_addr_set (addr_type c) (server_type c) (addr1 c) (addr2 c),
               pbuf = (case buf of None \<Rightarrow> [] | Some b \<Rightarrow> b)\<rparr> in
     and_then (if wait_peer c \<noteq> 0
               then run_topology_client c (addr1 c) (addr1 c) (of_int (wait_peer c)) else ret (r_ret n)) (\<lambda>retval.
     and_then (case mode c of
         topology_client \<Rightarrow> run_topology_client c (addr1 c) (addr2 c) TIPC_WAIT_FOREVER
       | single_listener \<Rightarrow> run_server c name tipc st
       | multi_server \<Rightarrow> run_server c name tipc st
       | data_client_e \<Rightarrow> run_client c name tipc retval st) (\<lambda>_.
     exit_prog 0))))))"

end
