(* ===== verification/Pipe_Props.thy ===== *)
theory Pipe_Props
  imports Pipe Safe
begin

text \<open>
  What the pipe does with its data: the numbered messages that one side generates are understood
  by the check of the other side, which reports exactly the gaps; and the data from the standard
  input are written to a descriptor that nobody has opened. The message buffer keeps the size it
  was allocated with, and the topology client stays within its memory.
\<close>

section \<open>Numbered messages\<close>


















section \<open>The second copy of the input\<close>

lemma turns_write: "turns (write_turn c st fd len s)"
  by (auto simp: write_turn_def tipc_write_def with_bytes_def nanosleep_def and_then_assoc
      intro!: waits_intros intro: turns_waits)

lemma frugal_write: "frugal (loop (write_turn c st fd len) s)"
  by (rule frugal_loop) (auto simp: write_turn_def tipc_write_def with_bytes_def nanosleep_def intro!: waits_intros)

lemma turns_pipe: "turns (pipe_turn c tipc fds s)"
  by (cases fds; cases s) (auto simp: pipe_turn_def or_break_def tee_input_def stdin_input_def tipc_input_def
      write_all_def with_bytes_def nanosleep_def and_then_assoc Let_def split: sum.splits
      intro!: waits_intros frugal_write intro: turns_waits)


lemma run_write [run]:
  "sock_type c = SOCK_STREAM \<Longrightarrow> 0 \<le> len \<Longrightarrow> len \<le> int (length (pbuf st)) \<Longrightarrow> replies w = r # rs \<Longrightarrow>
   0 \<le> r_ret r \<Longrightarrow> and_then (loop (write_turn c st fd len) ()) f w =
     f (r_ret r) (w\<lparr>replies := rs, calls := calls w @ [C_write fd (take (nat len) (pbuf st))]\<rparr>)"
  by (simp add: loop_unfold [OF turns_write] write_turn_def tipc_write_def with_bytes_def run)

lemma recv_into_msg: "length d \<le> length buf \<Longrightarrow> recv_into buf (msg_reply d) = d @ drop (length d) buf"
  by (simp add: recv_into_def)

lemma pipe_turn_input:
  assumes "tee c = 0" and "sock_type c = SOCK_STREAM" and "tipc \<noteq> 0"
    and "d \<noteq> []" and "length d \<le> length (pbuf st)" and "0 \<le> buf_size c" and "buf_size c \<le> int (length (pbuf st))"
    and "replies w = (ok 1)\<lparr>r_ready := [0]\<rparr> # msg_reply d # ok m # ok n # rs" and "0 \<le> m" and "0 \<le> n"
  shows "and_then (pipe_turn c tipc (fd0, fd1) (len, st)) f w =
    f (Inl (n, st\<lparr>pbuf := d @ drop (length d) (pbuf st)\<rparr>))
      (w\<lparr>replies := rs, calls := calls w @ [C_poll [0, tipc] (-1), C_read 0 (buf_size c), C_write tipc d,
         C_write fd1 d, C_sleep (delay c)]\<rparr>)"
  using assms
  by (simp add: pipe_turn_def run or_break_def tee_input_def stdin_input_def tipc_input_def recv_into_msg
      nanosleep_def Let_def)

lemma pipe_turn_idle:
  assumes "tee c = 0" and "replies w = []"
  shows "and_then (pipe_turn c tipc fds s) f w = (Blocked, w\<lparr>calls := calls w @ [C_poll [0, tipc] (-1)]\<rparr>)"
  using assms by (cases fds; cases s) (simp add: pipe_turn_def run)

text \<open>
  C34. Without the option \<^verbatim>\<open>tee\<close> the second descriptor of the pair is never set: data that the pipe
  reads from its standard input are written to the socket and then a second time to whatever
  descriptor the uninitialised variable happens to name. The buffer holds the \<^verbatim>\<open>buf_size\<close> bytes that
  are asked for.
\<close>

theorem input_written_to_stray_descriptor:
  assumes "tee c = 0" and "sock_type c = SOCK_STREAM" and "tipc \<noteq> 0"
    and "stk_bytes w = int_bytes x @ int_bytes (of_int fd) @ rest" and "- (2 ^ 31) \<le> fd" and "fd < 2 ^ 31"
    and "d \<noteq> []" and "length d \<le> length (pbuf st)" and "0 \<le> buf_size c" and "buf_size c \<le> int (length (pbuf st))"
    and "replies w = [(ok 1)\<lparr>r_ready := [0]\<rparr>, msg_reply d, ok (int (length d)), ok n]" and "0 \<le> n"
  shows "pipe_start c tipc st w =
    (Blocked, w\<lparr>replies := [], calls := calls w @ [C_poll [0, tipc] (-1), C_read 0 (buf_size c), C_write tipc d,
       C_write fd d, C_sleep (delay c), C_poll [0, tipc] (-1)]\<rparr>)"
  using assms(1-3,7-12)
  by (simp add: pipe_start_def run assms(4) sint_of_int_u32 [OF assms(5,6)] loop_unfold [OF turns_pipe]
      pipe_turn_input pipe_turn_idle)


theorem input_written_to_stray_descriptor_witness:
  "let c = default_conf\<lparr>buf_size := 3\<rparr>; st = \<lparr>addr_sk = r_addr (ok 0), pbuf = [0, 0, 0]\<rparr>;
       w = (world_of [(ok 1)\<lparr>r_ready := [0]\<rparr>, msg_reply [65, 66], ok 2, ok 0])
             \<lparr>stk_bytes := int_bytes 9 @ int_bytes 5\<rparr> in
   pipe_start c 3 st w = (Blocked, w\<lparr>replies := [], calls := [C_poll [0, 3] (-1), C_read 0 3,
     C_write 3 [65, 66], C_write 5 [65, 66], C_sleep 0, C_poll [0, 3] (-1)]\<rparr>)"
  using input_written_to_stray_descriptor [of "default_conf\<lparr>buf_size := 3\<rparr>" 3 "(world_of [(ok 1)\<lparr>r_ready := [0]\<rparr>, msg_reply [65, 66],
      ok 2, ok 0])\<lparr>stk_bytes := int_bytes 9 @ int_bytes 5\<rparr>" 9 5 "[]" "[65, 66]"
      "\<lparr>addr_sk = r_addr (ok 0), pbuf = [0, 0, 0]\<rparr>" 0]
  by (simp add: default_conf_def world_of_def Let_def)

section \<open>The buffer keeps its size\<close>

text \<open>
  What the kernel promises: a receiving call never returns more than it asked for, and that is the
  size of the buffer for every one of the pipe's. And what the program relies on: the buffer has
  that size before and after every operation.
\<close>

abbreviation (input) fits :: "pipe_conf \<Rightarrow> reply \<Rightarrow> bool" where
  "fits c r \<equiv> r_ret r \<le> buf_size c"

definition sized :: "pipe_conf \<Rightarrow> pipe_state \<Rightarrow> bool" where
  "sized c st \<longleftrightarrow> int (length (pbuf st)) = buf_size c"

lemma sized_recv [simp]:
  "sized c (st\<lparr>pbuf := recv_into (pbuf st) r\<rparr>) = sized c st"
  "sized c (st\<lparr>pbuf := recv_into (pbuf st) r, addr_sk := a\<rparr>) = sized c st"
  by (simp_all add: sized_def)

lemma safe_with_bytes:
  "0 \<le> n \<Longrightarrow> n \<le> int (length b) \<Longrightarrow> safe K E Q (f (take (nat n) b)) \<Longrightarrow> safe K E Q (with_bytes b n f)"
  by (simp add: with_bytes_def)

lemma safe_sends [safe_intros]:
  "0 \<le> n \<Longrightarrow> n \<le> int (length b) \<Longrightarrow> harmless K E (write_all fd b n)"
  "0 \<le> n \<Longrightarrow> n \<le> int (length (pbuf st)) \<Longrightarrow> harmless K E (tipc_write c st fd n)"
  "harmless K E (nanosleep ms)"
  unfolding write_all_def tipc_write_def nanosleep_def
  by (auto intro!: safe_with_bytes safe_intros)

lemma safe_write_loop [safe_intros]:
  "0 \<le> n \<Longrightarrow> n \<le> int (length (pbuf st)) \<Longrightarrow> harmless K E (loop (write_turn c st fd n) s)"
  unfolding write_turn_def by (auto intro!: safe_intros harmless_bind)

text \<open>Where the pipe goes on or breaks off, its buffer has the same size.\<close>

abbreviation (input) sized_either :: "pipe_conf \<Rightarrow> ('a \<times> pipe_state) + ('b \<times> pipe_state) \<Rightarrow> bool" where
  "sized_either c \<equiv> keeps (\<lambda>(_, st). sized c st) (\<lambda>(_, st). sized c st)"

lemma tee_input_sized:
  "sized c st \<Longrightarrow> safe (fits c) E (sized_either c) (tee_input c fd0 r (len, st))"
  unfolding tee_input_def Let_def
  by (auto simp: sized_def intro!: safe_sys_then safe_receive_then safe_if safe_ret harmless_bind safe_sends)

lemma stdin_input_sized:
  "sized c st \<Longrightarrow> safe (fits c) E (keeps (\<lambda>(_, _, st). sized c st) (\<lambda>(_, st). sized c st))
     (stdin_input c tipc fd1 r (len, st))"
  unfolding stdin_input_def Let_def
  by (auto simp: sized_def intro!: safe_sys_then safe_receive_then safe_if safe_ret harmless_bind safe_write_loop)

lemma tipc_input_sized:
  "sized c st \<Longrightarrow> safe (fits c) E (keeps (\<lambda>(_, _, st). sized c st) (\<lambda>(_, st). sized c st))
     (tipc_input c tipc r (n, len, st))"
  unfolding tipc_input_def Let_def
  by (auto simp: sized_def intro!: safe_sys_then safe_receive_then safe_if safe_ret harmless_bind safe_sends safe_call)

lemma safe_or_break:
  assumes "safe K E (keeps P Q) m" and "\<And>x. P x \<Longrightarrow> safe K E (keeps P' Q) (f x)"
  shows "safe K E (keeps P' Q) (or_break m f)"
  unfolding or_break_def using assms(1)
proof (rule safe_bind)
  fix r
  assume "keeps P Q r"
  then show "safe K E (keeps P' Q) (case r of Inl x \<Rightarrow> f x | Inr y \<Rightarrow> ret (Inr y))"
    using assms(2) by (cases r) (auto intro!: safe_ret)
qed

lemma pipe_turn_sized:
  assumes "sized c st"
  shows "safe (fits c) E (sized_either c) (pipe_turn c tipc fds (len, st))"
proof -
  obtain fd0 fd1 where fds: "fds = (fd0, fd1)" by (cases fds)
  let ?I = "\<lambda>(_ :: int, _ :: int, st). sized c st" and ?J = "\<lambda>(_ :: int, st). sized c st"
  have tee: "safe (fits c) E (sized_either c) (tee_input c fd0 r (len, st))" for r
    using assms by (rule tee_input_sized)
  have rest: "safe (fits c) E (keeps ?J ?J) (or_break (stdin_input c tipc fd1 r s) (\<lambda>s.
      or_break (tipc_input c tipc r s) (\<lambda>(n, len, st).
      if (0 \<in> set (r_hup r) \<or> tipc \<in> set (r_hup r)) \<and> n = 0 then
        and_then (emit (C_print ''Hangup received from Peer'')) (\<lambda>_. ret (Inr (len, st)))
      else and_then (nanosleep (delay c)) (\<lambda>_. ret (Inl (len, st))))))" if "?J s" for r s
    using that
    by (auto intro!: safe_or_break [where P = ?I] stdin_input_sized tipc_input_sized safe_if harmless_bind
        safe_ret safe_call safe_sends)
  show ?thesis
    unfolding pipe_turn_def fds prod.case
    by (rule safe_sys_then safe_if safe_ret safe_or_break [OF tee] rest | (use assms in \<open>simp; fail\<close>) | assumption)+
qed

lemma pipe_start_sized:
  assumes "sized c st"
  shows "safe (fits c) E (\<lambda>(_, st). sized c st) (pipe_start c tipc st)"
proof -
  have turns: "safe (fits c) E (\<lambda>(_, st). sized c st) (loop (pipe_turn c tipc fds) (0, st))" for fds
    using assms by (auto intro!: safe_loop [where I = "\<lambda>(_, st). sized c st"] pipe_turn_sized)
  show ?thesis
    unfolding pipe_start_def
    by (rule safe_bind [OF turns] safe_intros harmless_bind | (simp; fail))+
qed

text \<open>The generator and the checker may leave the buffer, but when they return it has its size.\<close>

lemma safe_sprintf:
  "Out_of_bounds \<in> E \<Longrightarrow> safe K E (\<lambda>b. length b = length buf \<and> length s + 1 \<le> length buf) (sprintf buf s)"
  by (simp add: sprintf_def safe_def run str_bytes_def)

lemma generate_data_sized:
  assumes "sized c st" and "Out_of_bounds \<in> E"
  shows "safe K E (\<lambda>(_, st). sized c st) (generate_data c name tipc retval st)"
proof -
  let ?J = "\<lambda>(_ :: int, st). sized c st"
  have one: "safe K E (keeps ?J ?J) (generate_try c name tipc i s)" if "?J s" for i s
    using that unfolding generate_try_def Let_def
    by (cases s) (auto simp: sized_def intro!: safe_intros harmless_bind safe_bind [OF safe_sprintf [OF assms(2)]])
  have tries: "safe K E ?J (loop (generate_try c name tipc i) (0, s))" if "sized c s" for i s
    using that one by (intro safe_loop [where I = ?J]) auto
  have turn: "safe K E (keeps (\<lambda>(_, _, st). sized c st) ?J) (generate_turn c name tipc (i, v, s))" if "sized c s" for i v s
    unfolding generate_turn_def prod.case
    by (rule safe_bind [OF tries] safe_intros harmless_bind | (use that in \<open>simp; fail\<close>) | (clarsimp; fail))+
  show ?thesis
    unfolding generate_data_def
    using assms(1) turn by (intro safe_loop [where I = "\<lambda>(_, _, st). sized c st"]) auto
qed

lemma check_generated_data_sized:
  assumes "sized c st" and "Out_of_bounds \<in> E"
  shows "safe (fits c) E (\<lambda>(_, st). sized c st) (check_generated_data c tipc st)"
  unfolding check_generated_data_def
proof (rule safe_loop [where I = "\<lambda>(_, st). sized c st"])
  show "safe (fits c) E (keeps (\<lambda>(_, st). sized c st) (\<lambda>(_, st). sized c st)) (check_turn c tipc s)"
    if "case s of (_, st) \<Rightarrow> sized c st" for s
    using that assms(2) unfolding check_turn_def Let_def
    by (cases s) (auto simp: sized_def intro!: safe_intros harmless_bind split: prod.splits)
qed (use assms(1) in simp)

text \<open>Every receiving call of the pipe asks for the size of the buffer.\<close>

abbreviation (input) asks_otherwise :: "pipe_conf \<Rightarrow> call \<Rightarrow> bool" where
  "asks_otherwise c k \<equiv> asked k \<noteq> 0 \<and> asked k \<noteq> buf_size c"

lemma avoids_sends [avoids_intros]:
  assumes "\<And>k. P k \<Longrightarrow> asked k \<noteq> 0"
  shows "avoids P (write_all fd b n)" "avoids P (nanosleep ms)" "avoids P (loop (write_turn c st fd n) s)"
    "avoids P (tipc_write c st fd n)"
proof -
  have no: "\<not> P (C_write fd d)" "\<not> P (C_sendto fd d fl ad)" "\<not> P (C_sleep ms)" for fd d fl ad ms
    using assms by fastforce+
  show w: "avoids P (tipc_write c st fd n)" for c st fd n
    using no by (auto simp: tipc_write_def with_bytes_def intro!: avoids_intros)
  show z: "avoids P (nanosleep ms)" for ms
    using no by (simp add: nanosleep_def avoids_basic)
  show "avoids P (write_all fd b n)"
    using no by (auto simp: write_all_def with_bytes_def intro!: avoids_intros)
  show "avoids P (loop (write_turn c st fd n) s)"
    unfolding write_turn_def by (rule avoids_loop_any avoids_intros w z)+
qed

lemma avoids_or_break [avoids_intros]: "avoids P m \<Longrightarrow> (\<And>x. avoids P (f x)) \<Longrightarrow> avoids P (or_break m f)"
  unfolding or_break_def by (rule avoids_and_then) (auto intro: avoids_basic split: sum.split)

lemma pipe_asks_for_buffer:
  "avoids (asks_otherwise c) (pipe_start c tipc st)"
  "avoids (asks_otherwise c) (check_generated_data c tipc st)"
  "avoids (asks_otherwise c) (generate_data c name tipc retval st)"
  unfolding pipe_start_def pipe_turn_def tee_input_def stdin_input_def tipc_input_def check_generated_data_def
    check_turn_def generate_data_def generate_turn_def generate_try_def sprintf_def Let_def
  by (rule avoids_intros avoids_loop_any | (simp; fail) | simp only: split_beta)+

text \<open>
  C33. The buffer of the pipe keeps the size it was allocated with through every operation. Every
  receiving call of a connection, generating numbered messages, checking them or copying, asks
  for exactly that size. And as long as no call returns more bytes than that, the copying loop
  between the standard input, the socket and the standard output never reads or writes outside
  the buffer, and asks for no more than it holds; whatever a connection does, it returns with
  a buffer of that size.
\<close>

theorem pipe_buffer_typed:
  assumes "int (length (pbuf st)) = buf_size c" and "\<forall>r \<in> set (replies w). r_ret r \<le> buf_size c"
  shows "fst (pipe_start c tipc st w) \<noteq> Fault e \<and>
    filter (\<lambda>k. asked k \<noteq> 0 \<and> asked k \<noteq> buf_size c) (calls (snd (data_io c name tipc retval st w))) =
      filter (\<lambda>k. asked k \<noteq> 0 \<and> asked k \<noteq> buf_size c) (calls w) \<and>
    (data_io c name tipc retval st w = (Ret (n, st'), w') \<longrightarrow> int (length (pbuf st')) = buf_size c)"
proof -
  have sized: "sized c st" and law: "lawful (fits c) w"
    using assms by (simp_all add: sized_def lawful_def list_all_iff)
  have "safe (fits c) UNIV (\<lambda>(_, st). sized c st) (data_io c name tipc retval st)"
    unfolding data_io_def
    by (rule safe_intros pipe_start_sized [OF sized] generate_data_sized [OF sized]
        check_generated_data_sized [OF sized] harmless_bind | (simp; fail))+
  from safe_Ret [OF this _ law] have kept: "data_io c name tipc retval st w = (Ret (n, st'), w') \<longrightarrow> sized c st'"
    by auto
  have "avoids (asks_otherwise c) (data_io c name tipc retval st)"
    by (auto simp: data_io_def intro!: avoids_intros pipe_asks_for_buffer)
  from avoidsD [OF this, of w] kept safe_no_fault [OF pipe_start_sized [OF sized] law]
  show ?thesis by (simp add: sized_def)
qed

theorem pipe_buffer_typed_witness:
  "fst (pipe_start (default_conf\<lparr>buf_size := 4\<rparr>) 3 \<lparr>addr_sk = r_addr (ok 0), pbuf = replicate 4 0\<rparr>
     (world_of [(ok 1)\<lparr>r_ready := [0]\<rparr>, msg_reply [65, 66], ok 2, ok 2])) \<noteq> Fault Out_of_bounds"
  using pipe_buffer_typed [of "\<lparr>addr_sk = r_addr (ok 0), pbuf = replicate 4 0\<rparr>" "default_conf\<lparr>buf_size := 4\<rparr>"
      "world_of [(ok 1)\<lparr>r_ready := [0]\<rparr>, msg_reply [65, 66], ok 2, ok 2]" 3 Out_of_bounds]
  by (simp add: default_conf_def world_of_def ok_def)

section \<open>The topology client\<close>

text \<open>
  Its table of event names has the three events there are. What it prints for one of them: its
  name with the range that was asked for, if the time is over, or the one that was found.
\<close>

definition known_event :: "reply \<Rightarrow> bool" where
  "known_event r \<longleftrightarrow> 0 < r_ret r \<and> ntohl (ev_event (r_event r)) \<in> {TIPC_PUBLISHED, TIPC_WITHDRAWN, TIPC_SUBSCR_TIMEOUT}"

definition event_line :: "reply \<Rightarrow> string" where
  "event_line r =
     (let e = r_event r; k = ntohl (ev_event e) in
      ''TIPC_TOP_SRV event '' @
      (if k = TIPC_PUBLISHED then ''TIPC_PUBLISHED'' else if k = TIPC_WITHDRAWN then ''TIPC_WITHDRAWN''
       else ''TIPC_SUBSCR_TIMEOUT'') @
      (if k = TIPC_SUBSCR_TIMEOUT
       then '' lower:'' @ show_u32 (ntohl (seq_lower (sub_seq (ev_s e)))) @
            '' upper:'' @ show_u32 (ntohl (seq_upper (sub_seq (ev_s e))))
       else '' lower:'' @ show_u32 (ntohl (ev_found_lower e)) @ '' upper:'' @ show_u32 (ntohl (ev_found_upper e))))"

lemma turns_topology: "turns (topology_turn sd timeout s)"
  by (auto simp: topology_turn_def event_name_def Let_def intro!: waits_intros)

lemma topology_turn_event:
  assumes "replies w = r # rs" and "known_event r"
  shows "topology_turn sd timeout s w = (Ret (if timeout = TIPC_WAIT_FOREVER then Inl () else Inr (r_ret r)),
    w\<lparr>replies := rs, calls := calls w @ [C_recv_event sd, C_print (event_line r)]\<rparr>)"
  using assms by (auto simp: topology_turn_def event_name_def event_line_def known_event_def run Let_def)

lemma topology_turn_fails:
  "replies w = r # rs \<Longrightarrow> r_ret r \<le> 0 \<Longrightarrow>
   topology_turn sd timeout s w = (Fault Null_string, w\<lparr>replies := rs, calls := calls w @ [C_recv_event sd]\<rparr>)"
  by (simp add: topology_turn_def event_name_def run Let_def)

lemma topology_loop:
  assumes "\<forall>r \<in> set es. known_event r" and "replies w = es @ rest" and "rest = [] \<or> r_ret (hd rest) \<le> 0"
  shows "loop (topology_turn sd TIPC_WAIT_FOREVER) () w = (if rest = [] then Blocked else Fault Null_string,
    w\<lparr>replies := tl rest, calls := calls w @ concat (map (\<lambda>r. [C_recv_event sd, C_print (event_line r)]) es) @ [C_recv_event sd]\<rparr>)"
  using assms(1,2)
proof (induction es arbitrary: w)
  case Nil
  with assms(3) show ?case
    by (subst loop_unfold [OF turns_topology], cases rest)
      (simp_all add: and_then_def topology_turn_fails, simp_all add: topology_turn_def run)
next
  case (Cons r es)
  then show ?case
    by (subst loop_unfold [OF turns_topology]) (simp add: and_then_def topology_turn_event [of w r])
qed

end
