(* ===== verification/Tipclog.thy ===== *)
theory Tipclog
  imports Tipcc
begin

text \<open>
  The network event logger, \<^verbatim>\<open>src/tipclog/tipclog.c\<close>: a daemon that subscribes for link and node
  events and writes them to the system log. The calls of \<^verbatim>\<open>libdaemon\<close>, which is not part of the
  repository, are calls with an arbitrary reply; a line of the log is a printed line that starts
  with its priority, without the text of \<^verbatim>\<open>strerror\<close>. The two global variables that change are a
  state; the file's \<^verbatim>\<open>tipc_own_node\<close> is the field \<open>log_own_node\<close>.
\<close>

section \<open>State and subscriptions\<close>

record log_state =
  topsrv_sd :: int
  log_own_node :: u32

definition daemon_log :: "string \<Rightarrow> string \<Rightarrow> unit prog" where
  "daemon_log prio line = emit (C_print (prio @ '': '' @ line))"

definition sa_topsrv :: sockaddr_tipc where
  "sa_topsrv = \<lparr>sa_family = AF_TIPC, sa_addrtype = TIPC_ADDR_NAME, sa_scope = 0,
     sa_w0 = TIPC_TOP_SRV, sa_w1 = TIPC_TOP_SRV, sa_w2 = 0\<rparr>"

text \<open>The test of the descriptor is for 0, so that a failure of \<^verbatim>\<open>socket\<close> is not noticed here.\<close>

definition topology_connect :: "(int \<times> u32) prog" where
  "topology_connect =
     and_then (sys (C_socket AF_TIPC SOCK_SEQPACKET 0)) (\<lambda>r.
     let sd = r_ret r in
     if sd = 0 then and_then (daemon_log ''ERR'' ''Failed to open TIPC socket'') (\<lambda>_. exit_prog (-1)) else
     and_then (sys (C_connect sd sa_topsrv)) (\<lambda>r.
     if r_ret r \<noteq> 0
     then and_then (daemon_log ''ERR'' ''Failed to connect to the TIPC topology server'') (\<lambda>_. exit_prog (-1)) else
     and_then (sys (C_getsockname sd)) (\<lambda>r.
     if r_ret r \<noteq> 0
     then and_then (daemon_log ''ERR'' ''Failed to fetch the local TIPC address'') (\<lambda>_. exit_prog (-1))
     else ret (sd, id_node (r_addr r)))))"

definition evt_sub :: "u32 \<Rightarrow> string \<Rightarrow> tipc_subscr" where
  "evt_sub type handle = \<lparr>sub_seq = \<lparr>seq_type = htonl type, seq_lower = htonl 0, seq_upper = htonl (NOT 0)\<rparr>,
     sub_timeout = htonl TIPC_WAIT_FOREVER, sub_filter = htonl TIPC_SUB_PORTS,
     sub_handle = map of_char handle\<rparr>"

definition subscribe_evt :: "log_state \<Rightarrow> log_state prog" where
  "subscribe_evt st =
     and_then (if topsrv_sd st = 0
               then and_then topology_connect (\<lambda>(sd, node). ret \<lparr>topsrv_sd = sd, log_own_node = node\<rparr>)
               else ret st) (\<lambda>st.
     and_then (sys (C_send_subscr (topsrv_sd st) (evt_sub TIPC_LINK_STATE ''link_evt''))) (\<lambda>r.
     if r_ret r \<noteq> sizeof_subscr
     then and_then (daemon_log ''ERR'' ''Failed to subscribe to TIPC link state events'') (\<lambda>_. exit_prog (-1)) else
     and_then (sys (C_send_subscr (topsrv_sd st) (evt_sub 0 ''node_evt''))) (\<lambda>r.
     if r_ret r \<noteq> sizeof_subscr
     then and_then (daemon_log ''ERR'' ''Failed to subscribe to TIPC node events'') (\<lambda>_. exit_prog (-1))
     else ret st)))"

section \<open>Events\<close>

text \<open>The reply to \<^verbatim>\<open>SIOCGETLINKNAME\<close> carries the 60 characters of the link name.\<close>

definition log_link :: "log_state \<Rightarrow> tipc_event \<Rightarrow> unit prog" where
  "log_link st e =
     (let bearer = ntohl (port_ref (ev_port e)) in
      and_then (sys (C_ioctl (topsrv_sd st) (ntohl (ev_found_lower e)) bearer)) (\<lambda>r.
      if r_ret r < 0 then and_then (daemon_log ''ERR'' ''ioctl'') (\<lambda>_. exit_prog (-1)) else
      case c_string (take 60 (r_data r @ replicate 60 0)) of
        None \<Rightarrow> fault Out_of_bounds
      | Some name \<Rightarrow>
          let rest = '' link <'' @ name @ ''> on network plane '' @ [char_of (unat (bearer + 65))] in
          if ntohl (ev_event e) = TIPC_PUBLISHED then daemon_log ''INFO'' (''Established'' @ rest)
          else daemon_log ''WARNING'' (''Lost'' @ rest)))"

definition log_node :: "log_state \<Rightarrow> tipc_event \<Rightarrow> unit prog" where
  "log_node st e =
     (let n = ntohl (port_node (ev_port e)) in
      if n = log_own_node st then ret ()
      else if ntohl (ev_event e) = TIPC_PUBLISHED
      then daemon_log ''INFO'' (''Established contact with node <'' @ domain_text n @ ''>'')
      else daemon_log ''WARNING'' (''Lost contact with node node <'' @ domain_text n @ ''>''))"

definition log_event :: "log_state \<Rightarrow> tipc_event \<Rightarrow> unit prog" where
  "log_event st e =
     (let t = ntohl (seq_type (sub_seq (ev_s e))) in
      if t = TIPC_LINK_STATE then log_link st e
      else if t = 0 then log_node st e
      else daemon_log ''ERR'' ''Unknown event received'')"

section \<open>The logger\<close>

abbreviation (input) EINTR :: int where "EINTR \<equiv> 4"
abbreviation (input) SIGINT :: int where "SIGINT \<equiv> 2"
abbreviation (input) SIGQUIT :: int where "SIGQUIT \<equiv> 3"
abbreviation (input) SIGTERM :: int where "SIGTERM \<equiv> 15"

definition strsignal :: "int \<Rightarrow> string" where
  "strsignal sig = (if sig = SIGINT then ''Interrupt'' else if sig = SIGQUIT then ''Quit'' else ''Terminated'')"

text \<open>
  A set of descriptors is an array of \<^verbatim>\<open>FD_SETSIZE\<close> bits: a descriptor that is negative or too large
  has no bit in it.
\<close>

abbreviation (input) FD_SETSIZE :: int where "FD_SETSIZE \<equiv> 1024"

definition FD_SET :: "int \<Rightarrow> int list \<Rightarrow> int list prog" where
  "FD_SET fd fds = (if 0 \<le> fd \<and> fd < FD_SETSIZE then ret (fds @ [fd]) else fault Out_of_bounds)"

definition FD_ISSET :: "int \<Rightarrow> int list \<Rightarrow> bool prog" where
  "FD_ISSET fd fds = (if 0 \<le> fd \<and> fd < FD_SETSIZE then ret (fd \<in> set fds) else fault Out_of_bounds)"

text \<open>What the loop does with the descriptors that are ready; it goes on with these.\<close>

definition logger_ready :: "log_state \<Rightarrow> int \<Rightarrow> int list \<Rightarrow> (int list + unit) prog" where
  "logger_ready st fd fds =
     and_then (FD_ISSET fd fds) (\<lambda>signal.
      if signal then
        and_then (sys (C_daemon ''daemon_signal_next'')) (\<lambda>r.
        let sig = r_ret r in
        if sig \<le> 0 then and_then (daemon_log ''ERR'' ''daemon_signal_next() failed'') (\<lambda>_. ret (Inr ()))
        else if sig \<in> {SIGINT, SIGQUIT, SIGTERM} then
          and_then (daemon_log ''WARNING'' (''Interrupted by signal '' @ strsignal sig @ '', shutting down'')) (\<lambda>_.
          ret (Inr ()))
        else ret (Inl fds))
      else and_then (FD_ISSET (topsrv_sd st) fds) (\<lambda>event.
      if event then
        and_then (sys (C_recv_event (topsrv_sd st))) (\<lambda>r.
        if r_ret r \<noteq> sizeof_event
        then and_then (daemon_log ''ERR'' ''Failed to read topology event'') (\<lambda>_. ret (Inr ()))
        else and_then (log_event st (r_event r)) (\<lambda>_. ret (Inl fds)))
      else ret (Inl fds)))"

text \<open>
  One turn of the loop. \<^verbatim>\<open>select\<close> replaces the set of descriptors by the subset that is ready and
  leaves it alone when it fails; the set is carried from turn to turn.
\<close>

definition logger_turn :: "log_state \<Rightarrow> int \<Rightarrow> int list \<Rightarrow> (int list + unit) prog" where
  "logger_turn st fd fds =
     and_then (sys (C_select fds)) (\<lambda>r.
     if r_ret r < 0 then
       if r_errno r = EINTR then ret (Inl fds)
       else and_then (daemon_log ''ERR'' ''select()'') (\<lambda>_. ret (Inr ()))
     else logger_ready st fd (filter (\<lambda>d. d \<in> set (r_ready r)) fds))"

definition tipc_event_logger :: "log_state \<Rightarrow> log_state prog" where
  "tipc_event_logger st =
     and_then (subscribe_evt st) (\<lambda>st.
     and_then (sys (C_daemon ''daemon_retval_send 0'')) (\<lambda>_.
     and_then (daemon_log ''INFO'' ''TIPC network event logger started'') (\<lambda>_.
     and_then (sys (C_daemon ''daemon_signal_fd'')) (\<lambda>r.
     and_then (FD_SET (r_ret r) []) (\<lambda>fds.
     and_then (FD_SET (topsrv_sd st) fds) (\<lambda>fds.
     and_then (loop (logger_turn st (r_ret r)) fds) (\<lambda>_.
     ret st)))))))"

definition log_finish :: "log_state \<Rightarrow> unit prog" where
  "log_finish st =
     and_then (if topsrv_sd st \<noteq> 0 then and_then (sys (C_shutdown (topsrv_sd st))) (\<lambda>_. ret ()) else ret ()) (\<lambda>_.
     and_then (daemon_log ''INFO'' ''Exiting...'') (\<lambda>_.
     and_then (sys (C_daemon ''daemon_retval_send 255'')) (\<lambda>_.
     and_then (sys (C_daemon ''daemon_signal_done'')) (\<lambda>_.
     and_then (sys (C_daemon ''daemon_pid_file_remove'')) (\<lambda>_.
     exit_prog 0)))))"

text \<open>The daemon itself: three preparations, each of which reports its failure, then the logger.\<close>

definition log_daemon :: "unit prog" where
  "log_daemon =
     (let st = \<lparr>topsrv_sd = 0, log_own_node = 0\<rparr>;
          failed = (\<lambda>line code. and_then (daemon_log ''ERR'' line) (\<lambda>_.
            and_then (sys (C_daemon code)) (\<lambda>_. log_finish st))) in
      and_then (sys (C_daemon ''daemon_close_all'')) (\<lambda>r.
      if r_ret r < 0 then failed ''Failed to close all file descriptors'' ''daemon_retval_send 1'' else
      and_then (sys (C_daemon ''daemon_pid_file_create'')) (\<lambda>r.
      if r_ret r < 0 then failed ''Could not create PID file'' ''daemon_retval_send 2'' else
      and_then (sys (C_daemon ''daemon_signal_init'')) (\<lambda>r.
      if r_ret r < 0 then failed ''Could not register signal handlers'' ''daemon_retval_send 3'' else
      and_then (tipc_event_logger st) log_finish))))"

definition tipclog_main :: "unit prog" where
  "tipclog_main =
     and_then (sys (C_daemon ''daemon_reset_sigs'')) (\<lambda>r.
     if r_ret r < 0
     then and_then (daemon_log ''ERR'' ''Failed to reset all signal handlers'') (\<lambda>_. exit_prog 1) else
     and_then (sys (C_daemon ''daemon_unblock_sigs'')) (\<lambda>r.
     and_then (only_if (r_ret r < 0) (daemon_log ''ERR'' ''Failed to unblock all signals'')) (\<lambda>_.
     and_then (sys (C_daemon ''daemon_pid_file_is_running'')) (\<lambda>r.
     if r_ret r \<ge> 0
     then and_then (daemon_log ''ERR'' (''Daemon already running on PID file '' @ show_u32 (of_int (r_ret r)))) (\<lambda>_.
       exit_prog 1) else
     and_then (sys (C_daemon ''daemon_retval_init'')) (\<lambda>r.
     if r_ret r < 0 then and_then (daemon_log ''ERR'' ''Failed to create pipe.'') (\<lambda>_. exit_prog 1) else
     and_then (sys (C_daemon ''daemon_fork'')) (\<lambda>r.
     if r_ret r < 0 then and_then (sys (C_daemon ''daemon_retval_done'')) (\<lambda>_. exit_prog 1)
     else if r_ret r \<noteq> 0 then
       and_then (sys (C_daemon ''daemon_retval_wait'')) (\<lambda>r.
       if r_ret r < 0
       then and_then (daemon_log ''ERR'' ''Could not recieve return value from daemon process'') (\<lambda>_. exit_prog 255)
       else and_then (daemon_log (if r_ret r \<noteq> 0 then ''ERR'' else ''INFO'')
              (''Daemon returned '' @ show_int (r_ret r) @ '' as return value.'')) (\<lambda>_.
            exit_prog (r_ret r)))
     else log_daemon))))))"

end
