(* ===== verification/Tipclog_Props.thy ===== *)
theory Tipclog_Props
  imports Tipclog Safe
begin

text \<open>
  What the event logger hears. Its loop hands \<^verbatim>\<open>select\<close> the set that the last \<^verbatim>\<open>select\<close> has left, so a
  descriptor that is not ready once is never waited for again. The last section shows that the
  logger never leaves its arrays when the names the kernel gives for links end with a zero byte
  and its two descriptors have a bit in the set, whatever else it is answered.
\<close>

fun asks_signal :: "call \<Rightarrow> bool" where
  "asks_signal (C_daemon what) \<longleftrightarrow> what = ''daemon_signal_next''"
| "asks_signal _ \<longleftrightarrow> False"

fun reads_event :: "call \<Rightarrow> bool" where
  "reads_event (C_recv_event sd) \<longleftrightarrow> True"
| "reads_event _ \<longleftrightarrow> False"

lemma isset_then [simp]:
  "and_then (FD_ISSET fd fds) f = (if 0 \<le> fd \<and> fd < FD_SETSIZE then f (fd \<in> set fds) else fault Out_of_bounds)"
  by (simp add: FD_ISSET_def)

lemma turns_logger: "turns (logger_turn st fd fds)"
  by (auto simp: logger_turn_def logger_ready_def log_event_def log_link_def log_node_def daemon_log_def
      and_then_assoc Let_def split: option.splits intro!: waits_intros intro: turns_waits)

lemma avoids_log [avoids_intros]:
  "\<not> P (C_print (prio @ '': '' @ line)) \<Longrightarrow> avoids P (daemon_log prio line)"
  by (simp add: daemon_log_def avoids_basic)

lemma avoids_log_event [avoids_intros]: "avoids asks_signal (log_event st e)" "avoids reads_event (log_event st e)"
  unfolding log_event_def log_link_def log_node_def Let_def
  by (rule avoids_intros | (simp; fail))+

lemma logger_ready_keeps: "logger_ready st fd fds w = (Ret (Inl fds'), w') \<Longrightarrow> fds' = fds"
  by (auto simp: logger_ready_def and_then_Ret_iff run_if ret_def fault_def Let_def split: if_splits)

lemma logger_turn_shrinks: "logger_turn st fd fds w = (Ret (Inl fds'), w') \<Longrightarrow> set fds' \<subseteq> set fds"
  by (auto simp: logger_turn_def and_then_Ret_iff run_if ret_def split: if_splits dest!: logger_ready_keeps)

lemma logger_ready_avoids [avoids_intros]:
  "fd \<notin> set fds \<Longrightarrow> avoids asks_signal (logger_ready st fd fds)"
  "topsrv_sd st \<notin> set fds \<Longrightarrow> avoids reads_event (logger_ready st fd fds)"
  unfolding logger_ready_def Let_def isset_then by (rule avoids_intros | (simp; fail))+

lemma logger_turn_avoids:
  "fd \<notin> set fds \<Longrightarrow> avoids asks_signal (logger_turn st fd fds)"
  "topsrv_sd st \<notin> set fds \<Longrightarrow> avoids reads_event (logger_turn st fd fds)"
  unfolding logger_turn_def by (rule avoids_intros | (simp; fail))+

lemma logger_deaf: "fd \<notin> set fds \<Longrightarrow> avoids asks_signal (loop (logger_turn st fd) fds)"
  by (rule avoids_loop [where I = "\<lambda>fds. fd \<notin> set fds"])
    (auto simp: logger_turn_avoids dest: logger_turn_shrinks)

lemma logger_blind: "topsrv_sd st \<notin> set fds \<Longrightarrow> avoids reads_event (loop (logger_turn st fd) fds)"
  by (rule avoids_loop [where I = "\<lambda>fds. topsrv_sd st \<notin> set fds"])
    (auto simp: logger_turn_avoids dest: logger_turn_shrinks)

text \<open>After the first call of select the run is that of the loop from the descriptors it left.\<close>

lemma logger_first_ready:
  assumes "replies w = r # rs" and "0 \<le> r_ret r" and "filter (\<lambda>d. d \<in> set (r_ready r)) fds = ready"
    and "avoids P (logger_ready st fd ready)" and "avoids P (loop (logger_turn st fd) ready)" and "\<not> P (C_select fds)"
  shows "filter P (calls (snd (loop (logger_turn st fd) fds w))) = filter P (calls w)"
proof -
  have "avoids P (and_then (logger_ready st fd ready)
      (\<lambda>r. case r of Inl s \<Rightarrow> loop (logger_turn st fd) s | Inr x \<Rightarrow> ret x))"
    using assms(4,5)
    by (intro avoids_bind) (auto simp: avoids_basic split: sum.splits dest!: logger_ready_keeps)
  from avoidsD [OF this, of "w\<lparr>replies := rs, calls := calls w @ [C_select fds]\<rparr>"] show ?thesis
    using assms(1-3,6) by (subst loop_unfold [OF turns_logger]) (simp add: logger_turn_def run)
qed

text \<open>
  C35. The logger hears only one of its two sources. A request to end that arrives first, on a
  descriptor that the set can hold, ends it. But once an event from the topology server has arrived alone, no later turn looks at
  signals, whatever happens, so that the daemon can no longer be told to end; and once another
  signal has arrived alone, no later turn reads an event.
\<close>

theorem logger_hears_one_source:
  assumes "fd \<noteq> topsrv_sd st" and "replies w = r # g # rs" and "0 \<le> r_ret r"
  shows "(0 \<le> fd \<and> fd < FD_SETSIZE \<and> fd \<in> set (r_ready r) \<and> r_ret g \<in> {SIGINT, SIGQUIT, SIGTERM} \<longrightarrow>
      loop (logger_turn st fd) [fd, topsrv_sd st] w =
        (Ret (), w\<lparr>replies := rs, calls := calls w @ [C_select [fd, topsrv_sd st], C_daemon ''daemon_signal_next'',
          C_print (''WARNING: Interrupted by signal '' @ strsignal (r_ret g) @ '', shutting down'')]\<rparr>)) \<and>
    (r_ready r = [topsrv_sd st] \<longrightarrow>
      filter asks_signal (calls (snd (loop (logger_turn st fd) [fd, topsrv_sd st] w))) = filter asks_signal (calls w)) \<and>
    (r_ready r = [fd] \<longrightarrow>
      filter reads_event (calls (snd (loop (logger_turn st fd) [fd, topsrv_sd st] w))) = filter reads_event (calls w))"
proof (intro conjI impI)
  show "loop (logger_turn st fd) [fd, topsrv_sd st] w =
        (Ret (), w\<lparr>replies := rs, calls := calls w @ [C_select [fd, topsrv_sd st], C_daemon ''daemon_signal_next'',
          C_print (''WARNING: Interrupted by signal '' @ strsignal (r_ret g) @ '', shutting down'')]\<rparr>)"
    if "0 \<le> fd \<and> fd < FD_SETSIZE \<and> fd \<in> set (r_ready r) \<and> r_ret g \<in> {SIGINT, SIGQUIT, SIGTERM}"
    using assms that by (subst loop_unfold [OF turns_logger]) (auto simp: logger_turn_def logger_ready_def daemon_log_def Let_def run)
next
  assume ready: "r_ready r = [topsrv_sd st]"
  show "filter asks_signal (calls (snd (loop (logger_turn st fd) [fd, topsrv_sd st] w))) = filter asks_signal (calls w)"
    using assms ready by (intro logger_first_ready [OF assms(2,3) refl]) (auto intro: logger_deaf logger_ready_avoids)
next
  assume ready: "r_ready r = [fd]"
  show "filter reads_event (calls (snd (loop (logger_turn st fd) [fd, topsrv_sd st] w))) = filter reads_event (calls w)"
    using assms ready by (intro logger_first_ready [OF assms(2,3) refl]) (auto intro: logger_blind logger_ready_avoids)
qed

theorem logger_hears_one_source_witness:
  "let st = \<lparr>topsrv_sd = 4, log_own_node = 0\<rparr> in
   fst (loop (logger_turn st 3) [3, 4] (world_of [(ok 1)\<lparr>r_ready := [3]\<rparr>, ok 15])) = Ret () \<and>
   filter asks_signal (calls (snd (loop (logger_turn st 3) [3, 4]
     (world_of [(ok 1)\<lparr>r_ready := [4]\<rparr>, ok 48, (ok 1)\<lparr>r_ready := [3]\<rparr>, ok 15])))) = []"
  using logger_hears_one_source [of 3 "\<lparr>topsrv_sd = 4, log_own_node = 0\<rparr>" "world_of [(ok 1)\<lparr>r_ready := [3]\<rparr>, ok 15]"
      "(ok 1)\<lparr>r_ready := [3]\<rparr>" "ok 15" "[]"]
    logger_hears_one_source [of 3 "\<lparr>topsrv_sd = 4, log_own_node = 0\<rparr>" "world_of [(ok 1)\<lparr>r_ready := [4]\<rparr>, ok 48,
      (ok 1)\<lparr>r_ready := [3]\<rparr>, ok 15]" "(ok 1)\<lparr>r_ready := [4]\<rparr>" "ok 48" "[(ok 1)\<lparr>r_ready := [3]\<rparr>, ok 15]"]
  by (simp add: world_of_def)

section \<open>Memory safety\<close>

text \<open>The only array of the logger that the kernel fills is the link name, which it terminates.\<close>

definition terminated_name :: "reply \<Rightarrow> bool" where
  "terminated_name r \<longleftrightarrow> c_string (take 60 (r_data r @ replicate 60 0)) \<noteq> None"

lemma safe_daemon_log [safe_intros]: "harmless K E (daemon_log p l)"
  by (simp add: daemon_log_def safe_call)

lemma safe_log_event:
  assumes "\<And>r. K r \<Longrightarrow> terminated_name r"
  shows "harmless K E (log_event st e)"
  unfolding log_event_def log_link_def log_node_def Let_def
  by (rule safe_intros harmless_bind | (metis assms terminated_name_def))+

lemma safe_subscribe_evt [safe_intros]: "harmless K E (subscribe_evt st)"
  unfolding subscribe_evt_def topology_connect_def Let_def
  by (rule safe_intros harmless_bind | (simp; fail))+

text \<open>
  The descriptors of the logger's loop have a bit in the set: \<open>FD_SET\<close> is where the others fault.
\<close>

abbreviation (input) has_bit :: "int \<Rightarrow> bool" where
  "has_bit fd \<equiv> 0 \<le> fd \<and> fd < FD_SETSIZE"

lemma safe_logger_loop:
  assumes "\<And>r. K r \<Longrightarrow> terminated_name r" and "has_bit fd" and "has_bit (topsrv_sd st)"
  shows "harmless K E (loop (logger_turn st fd) fds)"
  unfolding logger_turn_def logger_ready_def Let_def isset_then
  by (rule safe_log_event [OF assms(1)] safe_intros harmless_bind | assumption | (use assms(2,3) in \<open>simp; fail\<close>))+

text \<open>
  The first replies of a logger that gets as far as its loop: of \<open>socket\<close>, of the two other calls of
  topology_connect, of the two subscriptions, of daemon_retval_send, and the descriptor of
  the signals.
\<close>

definition logger_set_up :: "world \<Rightarrow> reply \<Rightarrow> reply \<Rightarrow> reply list \<Rightarrow> bool" where
  "logger_set_up w s g rs \<longleftrightarrow> (\<exists>k n a b d. replies w = [s, k, n, a, b, d, g] @ rs \<and> 0 \<noteq> r_ret s \<and> r_ret k = 0 \<and>
     r_ret n = 0 \<and> r_ret a = sizeof_subscr \<and> r_ret b = sizeof_subscr)"

lemma logger_enters_loop:
  assumes "logger_set_up w s g rs" and "topsrv_sd st = 0"
  shows "\<exists>st' w'. topsrv_sd st' = r_ret s \<and> replies w' = rs \<and> tipc_event_logger st w =
    (if \<not> (has_bit (r_ret s) \<and> has_bit (r_ret g)) then (Fault Out_of_bounds, w')
     else and_then (loop (logger_turn st' (r_ret g)) [r_ret g, r_ret s]) (\<lambda>_. ret st') w')"
proof -
  obtain k n a b d where r: "replies w = [s, k, n, a, b, d, g] @ rs" "0 \<noteq> r_ret s" "r_ret k = 0" "r_ret n = 0"
    "r_ret a = sizeof_subscr" "r_ret b = sizeof_subscr"
    using assms(1) unfolding logger_set_up_def by blast
  let ?st = "\<lparr>topsrv_sd = r_ret s, log_own_node = id_node (r_addr n)\<rparr>"
  let ?w = "w\<lparr>replies := rs, calls := calls w @ [C_socket AF_TIPC SOCK_SEQPACKET 0, C_connect (r_ret s) sa_topsrv,
    C_getsockname (r_ret s), C_send_subscr (r_ret s) (evt_sub TIPC_LINK_STATE ''link_evt''),
    C_send_subscr (r_ret s) (evt_sub 0 ''node_evt''), C_daemon ''daemon_retval_send 0'',
    C_print ''INFO: TIPC network event logger started'', C_daemon ''daemon_signal_fd'']\<rparr>"
  show ?thesis
    by (rule exI [of _ ?st], rule exI [of _ ?w])
      (use r assms(2) in \<open>simp add: tipc_event_logger_def subscribe_evt_def topology_connect_def daemon_log_def FD_SET_def
        run Let_def\<close>)
qed

text \<open>
  Once it is set up, the logger faults if and only if one of its two descriptors has no bit in
  the set, provided the kernel terminates the link names that it gives.
\<close>

lemma logger_faults:
  assumes "logger_set_up w s g rs" and "topsrv_sd st = 0" and "\<forall>r \<in> set rs. terminated_name r"
  shows "(\<exists>e. fst (tipc_event_logger st w) = Fault e) \<longleftrightarrow> \<not> (has_bit (r_ret s) \<and> has_bit (r_ret g))"
proof -
  obtain st' w' where run: "topsrv_sd st' = r_ret s" "replies w' = rs" "tipc_event_logger st w =
    (if \<not> (has_bit (r_ret s) \<and> has_bit (r_ret g)) then (Fault Out_of_bounds, w')
     else and_then (loop (logger_turn st' (r_ret g)) [r_ret g, r_ret s]) (\<lambda>_. ret st') w')"
    using logger_enters_loop [OF assms(1,2)] by blast
  show ?thesis
  proof (cases "has_bit (r_ret s) \<and> has_bit (r_ret g)")
    case True
    then have "harmless terminated_name {} (and_then (loop (logger_turn st' (r_ret g)) [r_ret g, r_ret s]) (\<lambda>_. ret st'))"
      using run(1) by (intro harmless_bind safe_logger_loop safe_ret) auto
    from safe_no_fault [OF this, of w'] True run assms(3) show ?thesis
      by (auto simp: lawful_def list_all_iff)
  next
    case False
    then have "tipc_event_logger st w = (Fault Out_of_bounds, w')" unfolding run(3) by (rule if_P)
    with False show ?thesis by simp
  qed
qed

end
