(* ===== verification/Bench.thy ===== *)
theory Bench
  imports Tipcc
begin

text \<open>
  The benchmark, \<^verbatim>\<open>src/demos/benchmark\<close>: a master (the client program) forks clients, the server
  program forks one server per connection, and the master tells both over a control socket what
  to transfer. This theory holds \<^verbatim>\<open>common_tipc.h\<close> and the client program; global variables are
  parameters (the descriptors) or results (the buffer). Numbers are printed without padding and
  the frames of the tables are left out.
\<close>

section \<open>Shared definitions\<close>

definition bench_die :: "string \<Rightarrow> 'a prog" where
  "bench_die msg = and_then (emit (C_print (msg @ '': ''))) (\<lambda>_. exit_prog 1)"

definition bench_name :: "u32 \<Rightarrow> u32 \<Rightarrow> sockaddr_tipc" where
  "bench_name type inst = \<lparr>sa_family = AF_TIPC, sa_addrtype = TIPC_ADDR_NAME, sa_scope = TIPC_ZONE_SCOPE,
     sa_w0 = type, sa_w1 = inst, sa_w2 = 0\<rparr>"

abbreviation (input) MAX_DELAY :: int where "MAX_DELAY \<equiv> 300000"
abbreviation (input) MASTER_NAME :: u32 where "MASTER_NAME \<equiv> 16666"
abbreviation (input) SRV_CTRL_NAME :: u32 where "SRV_CTRL_NAME \<equiv> 17777"
abbreviation (input) SRV_LSTN_NAME :: u32 where "SRV_LSTN_NAME \<equiv> 18888"

definition master_srv_addr :: sockaddr_tipc where "master_srv_addr = bench_name MASTER_NAME 0"
definition srv_ctrl_addr :: sockaddr_tipc where "srv_ctrl_addr = seq_addr SRV_CTRL_NAME 0 0 TIPC_ZONE_SCOPE"
definition srv_lstn_addr :: sockaddr_tipc where "srv_lstn_addr = bench_name SRV_LSTN_NAME 0"

text \<open>\<^verbatim>\<open>struct srv_info\<close> and its 68 bytes in memory; the addresses and counts are in network order.\<close>

record srv_info =
  tcp_port :: u16
  num_ips :: u16
  ips :: "u32 list"

definition short_bytes :: "u16 \<Rightarrow> bytes" where
  "short_bytes x = [ucast x, ucast (drop_bit 8 x)]"

definition bytes_short :: "bytes \<Rightarrow> u16" where
  "bytes_short b = ucast (b ! 0) OR push_bit 8 (ucast (b ! 1))"

definition srv_info_bytes :: "srv_info \<Rightarrow> bytes" where
  "srv_info_bytes s = short_bytes (tcp_port s) @ short_bytes (num_ips s) @ concat (map int_bytes (ips s))"

definition bytes_srv_info :: "bytes \<Rightarrow> srv_info" where
  "bytes_srv_info b = \<lparr>tcp_port = bytes_short b, num_ips = bytes_short (drop 2 b),
     ips = map (\<lambda>i. bytes_int (drop (4 + 4 * i) b)) [0..<16]\<rparr>"

abbreviation (input) SRV_INFO :: u32 where "SRV_INFO \<equiv> 0"
abbreviation (input) SRV_MSGLEN_ACK :: u32 where "SRV_MSGLEN_ACK \<equiv> 1"
abbreviation (input) SRV_FINISHED :: u32 where "SRV_FINISHED \<equiv> 2"
abbreviation (input) TIPC_CONN :: u32 where "TIPC_CONN \<equiv> 0"
abbreviation (input) TCP_CONN :: u32 where "TCP_CONN \<equiv> 1"
abbreviation (input) RCV_MSG_LEN :: u32 where "RCV_MSG_LEN \<equiv> 2"
abbreviation (input) RESTART :: u32 where "RESTART \<equiv> 3"

text \<open>The three commands that are made of four words, and the one of a single word.\<close>

definition cmd_bytes :: "u32 list \<Rightarrow> bytes" where
  "cmd_bytes ws = concat (map (\<lambda>w. int_bytes (htonl w)) ws)"

definition cmd_word :: "bytes \<Rightarrow> nat \<Rightarrow> u32" where
  "cmd_word b i = ntohl (bytes_int (drop (4 * i) b))"

definition wait_for_name :: "u32 \<Rightarrow> u32 \<Rightarrow> int \<Rightarrow> u32 prog" where
  "wait_for_name t i wait =
     and_then (sys (C_socket AF_TIPC SOCK_STREAM 0)) (\<lambda>r.
     let sd = r_ret r in
     and_then (sys (C_connect sd \<lparr>sa_family = AF_TIPC, sa_addrtype = TIPC_ADDR_NAME, sa_scope = 0,
        sa_w0 = TIPC_TOP_SRV, sa_w1 = TIPC_TOP_SRV, sa_w2 = 0\<rparr>)) (\<lambda>r.
     if 0 > r_ret r then bench_die ''Client: failed to connect to topology server'' else
     and_then uninit_subscr (\<lambda>subscr.
     and_then (sys (C_send_subscr sd (subscr\<lparr>
        sub_seq := \<lparr>seq_type = htonl t, seq_lower = htonl i, seq_upper = htonl i\<rparr>,
        sub_timeout := htonl (of_int wait), sub_filter := htonl TIPC_SUB_SERVICE\<rparr>))) (\<lambda>r.
     if r_ret r \<noteq> sizeof_subscr then bench_die ''Client: failed to send subscription'' else
     and_then (sys (C_recv_event sd)) (\<lambda>r.
     if r_ret r \<noteq> sizeof_event then bench_die ''Client: failed to receive event''
     else if ev_event (r_event r) \<noteq> htonl TIPC_PUBLISHED then
       bench_die (''Client: server {'' @ show_u32 t @ '','' @ show_u32 i @
         ''} not published within '' @ show_u32 (of_int (wait div 1000)) @ '' [s]'')
     else
     and_then (sys (C_close sd)) (\<lambda>_.
     ret (ntohl (port_node (ev_port (r_event r))))))))))"

text \<open>
  The result of \<^verbatim>\<open>poll\<close> for one descriptor: it is in \<open>r_ready\<close> if its events have \<^verbatim>\<open>POLLIN\<close>, and
  \<open>r_val\<close> are its events otherwise.
\<close>

definition wait_for_msg :: "int \<Rightarrow> int prog" where
  "wait_for_msg sd =
     and_then (sys (C_poll [sd] MAX_DELAY)) (\<lambda>r.
     if r_ret r < 0 then ret (-1)
     else if r_ret r = 0 then ret (-2)
     else if sd \<in> set (r_ready r) then ret 0
     else ret (r_val r))"

text \<open>
  The addresses of the interfaces, as the kernel gives them: \<open>r_val\<close> of the reply to
  \<^verbatim>\<open>SIOCGIFCONF\<close> is the number of entries, an entry's name and address are in the reply to
  \<^verbatim>\<open>SIOCGIFADDR\<close>. The array holds 16 addresses.
\<close>

definition set_ip :: "nat \<Rightarrow> u32 \<Rightarrow> srv_info \<Rightarrow> srv_info prog" where
  "set_ip ip_no ip sinfo =
     (if ip_no < 16 then ret (sinfo\<lparr>ips := (ips sinfo)[ip_no := ip], num_ips := htons (of_nat (ip_no + 1))\<rparr>)
      else fault Out_of_bounds)"

fun ip_entries :: "int \<Rightarrow> string option \<Rightarrow> nat list \<Rightarrow> nat \<Rightarrow> srv_info \<Rightarrow> srv_info prog" where
  "ip_entries sck ifname [] ip_no sinfo = ret sinfo"
| "ip_entries sck ifname (i # is) ip_no sinfo =
     and_then (sys (C_ifaddr sck i)) (\<lambda>r.
     and_then (only_if (r_ret r < 0) (emit (C_print ''ioctl(OSIOCGIFADDR)''))) (\<lambda>_.
     let ip = of_int (r_val r) in
     if ifname \<noteq> None \<and> c_string (r_data r @ [0]) = ifname then set_ip 0 ip sinfo
     else if ip \<noteq> 0 \<and> ntohl ip \<noteq> 0x7f000001
     then and_then (set_ip ip_no ip sinfo) (ip_entries sck ifname is (ip_no + 1))
     else ip_entries sck ifname is ip_no sinfo))"

definition get_ip_list :: "srv_info \<Rightarrow> string option \<Rightarrow> srv_info prog" where
  "get_ip_list sinfo ifname =
     and_then (sys (C_socket 2 SOCK_DGRAM 0)) (\<lambda>r.
     let sck = r_ret r in
     if sck \<le> 0 then bench_die ''Failed to create socket'' else
     and_then (sys (C_ifconf sck)) (\<lambda>r.
     if r_ret r < 0 then bench_die ''Failed to obtain IP list'' else
     ip_entries sck ifname [0..<nat (r_val r)] 0 sinfo))"

definition bench_own_node :: "u32 prog" where
  "bench_own_node =
     and_then (sys (C_socket AF_TIPC SOCK_RDM 0)) (\<lambda>r.
     let sd = r_ret r in
     if sd < 0 then bench_die ''Master: Can't create client ctrl socket'' else
     and_then (sys (C_getsockname sd)) (\<lambda>a.
     if r_ret a < 0 then bench_die ''Failed to get sock address'' else
     and_then (sys (C_close sd)) (\<lambda>_. ret (id_node (r_addr a)))))"


section \<open>Commands between the master, its clients and the servers\<close>

abbreviation (input) CLNT_READY :: u32 where "CLNT_READY \<equiv> 1"
abbreviation (input) CLNT_FINISHED :: u32 where "CLNT_FINISHED \<equiv> 2"
abbreviation (input) CLNT_EXEC :: u32 where "CLNT_EXEC \<equiv> 3"
abbreviation (input) CLNT_TERM :: u32 where "CLNT_TERM \<equiv> 4"

definition clnt_ctrl_addr :: sockaddr_tipc where "clnt_ctrl_addr = seq_addr 19999 0 0 TIPC_NODE_SCOPE"
definition master_clnt_addr :: sockaddr_tipc where "master_clnt_addr = bench_name MASTER_NAME 1"

definition send_cmd :: "int \<Rightarrow> bytes \<Rightarrow> sockaddr_tipc \<Rightarrow> string \<Rightarrow> unit prog" where
  "send_cmd sd c addr msg =
     and_then (sys (C_sendto sd c 0 addr)) (\<lambda>r.
     if r_ret r \<noteq> int (length c) then bench_die msg else ret ())"

definition recv_cmd :: "int \<Rightarrow> nat \<Rightarrow> string \<Rightarrow> string \<Rightarrow> bytes prog" where
  "recv_cmd sd n nothing invalid =
     and_then (wait_for_msg sd) (\<lambda>res.
     if res \<noteq> 0 then bench_die nothing else
     and_then (uninit_bytes n) (\<lambda>c.
     and_then (receive (C_recv sd (int n) 0) c) (\<lambda>r.
     if r_ret r \<noteq> int n then bench_die invalid else ret (recv_into c r))))"

definition master_to_client :: "int \<Rightarrow> u32 \<Rightarrow> u32 \<Rightarrow> u32 \<Rightarrow> u32 \<Rightarrow> unit prog" where
  "master_to_client master_clnt_sd cmd msglen msgcnt bounce =
     send_cmd master_clnt_sd (cmd_bytes [cmd, msglen, msgcnt, bounce]) clnt_ctrl_addr
       (''Unable to send cmd '' @ show_u32 cmd @ '' to clients'')"

definition client_from_master :: "int \<Rightarrow> (u32 \<times> u32 \<times> u32 \<times> u32) prog" where
  "client_from_master master_sd =
     and_then (recv_cmd master_sd 16 ''Client: No command from master'' ''Client: Invalid msg msg from master'') (\<lambda>c.
     ret (cmd_word c 0, cmd_word c 1, cmd_word c 2, cmd_word c 3))"

definition client_to_master :: "int \<Rightarrow> u32 \<Rightarrow> unit prog" where
  "client_to_master master_sd cmd =
     send_cmd master_sd (cmd_bytes [cmd]) master_clnt_addr ''Client: Unable to send msg to master''"

definition master_from_client :: "int \<Rightarrow> u32 prog" where
  "master_from_client master_clnt_sd =
     and_then (recv_cmd master_clnt_sd 4 ''Client: No command from master'' ''Client: Invalid msg msg from master'') (\<lambda>c.
     ret (cmd_word c 0))"

definition master_to_srv :: "int \<Rightarrow> u32 \<Rightarrow> u32 \<Rightarrow> u32 \<Rightarrow> u32 \<Rightarrow> unit prog" where
  "master_to_srv master_srv_sd cmd msglen msgcnt echo =
     send_cmd master_srv_sd (cmd_bytes [cmd, msglen, msgcnt, echo]) srv_ctrl_addr
       (''Unable to send cmd '' @ show_u32 cmd @ '' to servers'')"

text \<open>The command, the address of the server's node and the information on its addresses.\<close>

definition master_from_srv :: "int \<Rightarrow> (u32 \<times> u32 \<times> srv_info) prog" where
  "master_from_srv master_srv_sd =
     and_then (recv_cmd master_srv_sd 76 ''Master: No info from server'' ''Master: Invalid info msg from server'') (\<lambda>c.
     ret (cmd_word c 0, cmd_word c 1, bytes_srv_info (drop 8 c)))"

definition bench_usage :: "'a prog" where
  "bench_usage = and_then (emit (C_print ''Usage:'')) (\<lambda>_. exit_prog 1)"

definition elapsedusec :: "int \<times> int \<Rightarrow> 64 word prog" where
  "elapsedusec = (\<lambda>(from_sec, from_usec).
     and_then (sys C_gettimeofday) (\<lambda>r.
     let (now_sec, now_usec) = time_of r in
     ret (of_int ((now_sec * 1000000 + now_usec) - (from_sec * 1000000 + from_usec)))))"

section \<open>A client\<close>

text \<open>
  Sending, and with \<^verbatim>\<open>bounce\<close> receiving, the \<open>n\<close> messages still to be sent. Every so many messages
  the processor is given up; the report of a missing answer is shown without the number of
  messages sent. Receiving \<open>len\<close> bytes writes at most that many to the buffer.
\<close>

definition recv_len :: "int \<Rightarrow> bytes \<Rightarrow> int \<Rightarrow> string \<Rightarrow> bytes prog" where
  "recv_len sd buf msglen invalid =
     and_then (receive (C_recv sd msglen MSG_WAITALL) buf) (\<lambda>r.
     if r_ret r \<noteq> msglen then bench_die invalid else ret (recv_into buf r))"

fun stream_turns :: "int \<Rightarrow> u32 \<Rightarrow> int \<Rightarrow> bool \<Rightarrow> nat \<Rightarrow> int \<Rightarrow> bytes \<Rightarrow> bytes prog" where
  "stream_turns peer_sd clnt_id msglen bounce 0 yields buf = ret buf"
| "stream_turns peer_sd clnt_id msglen bounce (Suc n) yields buf =
     and_then (if yields - 1 = 0 then and_then (emit C_sched_yield) (\<lambda>_. c_div 4194304 msglen)
               else ret (yields - 1)) (\<lambda>yields.
     with_bytes buf msglen (\<lambda>d.
     and_then (sys (C_send peer_sd d 0)) (\<lambda>r.
     if msglen \<noteq> r_ret r then bench_die (''Client '' @ show_u32 clnt_id @ '': send failed'') else
     if \<not> bounce then stream_turns peer_sd clnt_id msglen bounce n yields buf else
     and_then (wait_for_msg peer_sd) (\<lambda>res.
     if res \<noteq> 0 then bench_die (''Client '' @ show_u32 clnt_id @ '': no resp from srv'') else
     and_then (recv_len peer_sd buf msglen (''Client '' @ show_u32 clnt_id @ '': invalid msg from server''))
       (stream_turns peer_sd clnt_id msglen bounce n yields)))))"

definition stream_messages :: "int \<Rightarrow> u32 \<Rightarrow> int \<Rightarrow> int \<Rightarrow> int \<Rightarrow> bytes \<Rightarrow> bytes prog" where
  "stream_messages peer_sd clnt_id msgcnt msglen bounce buf =
     and_then (c_div 2097152 msglen) (\<lambda>yields.
     stream_turns peer_sd clnt_id msglen (bounce \<noteq> 0) (nat msgcnt) yields buf)"

text \<open>A client goes from command to command until it is told to end.\<close>

definition client_turn :: "int \<Rightarrow> int \<Rightarrow> u32 \<Rightarrow> bytes \<Rightarrow> (bytes + unit) prog" where
  "client_turn peer_sd master_sd clnt_id buf =
     and_then (client_from_master master_sd) (\<lambda>(cmd, msglen, msgcnt, bounce).
     if cmd = CLNT_TERM then
       and_then (sys (C_shutdown peer_sd)) (\<lambda>_.
       and_then (sys (C_close peer_sd)) (\<lambda>_.
       and_then (sys (C_close master_sd)) (\<lambda>_. exit_prog 0)))
     else
       and_then (stream_messages peer_sd clnt_id (sint msgcnt) (sint msglen) (sint bounce) buf) (\<lambda>buf.
       and_then (client_to_master master_sd CLNT_FINISHED) (\<lambda>_. ret (Inl buf))))"

definition impstr :: "nat \<Rightarrow> string" where
  "impstr i = [''LOW'', ''MEDIUM'', ''HIGH'', ''CRITICAL''] ! i"

definition connect_to_server :: "u32 \<Rightarrow> u16 \<Rightarrow> u32 \<Rightarrow> int prog" where
  "connect_to_server clnt_id port addr =
     (let client = ''Client '' @ show_u32 clnt_id in
      if port = 0 then
        and_then (sys (C_socket AF_TIPC SOCK_STREAM 0)) (\<lambda>r.
        let peer_sd = r_ret r in
        if peer_sd < 0 then bench_die (client @ '': Can't create socket to server'') else
        and_then (sys (C_setsockopt peer_sd TIPC_IMPORTANCE (uint (clnt_id mod 4)))) (\<lambda>r.
        if r_ret r \<noteq> 0 then bench_die (client @ '': Can't set socket options'') else
        and_then (sys (C_connect peer_sd srv_lstn_addr)) (\<lambda>r.
        if r_ret r < 0 then bench_die (client @ '': connect failed'') else ret peer_sd)))
      else
        and_then (sys (C_socket 2 SOCK_STREAM 6)) (\<lambda>r.
        let peer_sd = r_ret r in
        if peer_sd < 0 then bench_die ''TCP Server: failed to create client socket'' else
        and_then (sys (C_connect_in peer_sd (htonl addr) (htons port))) (\<lambda>r.
        if r_ret r < 0 then bench_die ''TCP connect() failed'' else ret peer_sd)))"

definition client_create :: "int \<Rightarrow> u32 \<Rightarrow> u16 \<Rightarrow> u32 \<Rightarrow> bytes \<Rightarrow> unit prog" where
  "client_create master_clnt_sd clnt_id port addr buf =
     and_then (sys C_fork) (\<lambda>r.
     if r_ret r \<noteq> 0 then ret () else
     and_then (emit (C_print (''Client '' @ show_u32 clnt_id @ '' created with importance '' @
       impstr (unat (clnt_id mod 4))))) (\<lambda>_.
     and_then (sys (C_close master_clnt_sd)) (\<lambda>_.
     and_then (sys (C_socket AF_TIPC SOCK_RDM 0)) (\<lambda>r.
     let master_sd = r_ret r in
     if master_sd < 0 then bench_die (''Client '' @ show_u32 clnt_id @ '': Can't create socket to master'') else
     and_then (sys (C_bind master_sd clnt_ctrl_addr)) (\<lambda>r.
     if r_ret r \<noteq> 0 then bench_die (''Client '' @ show_u32 clnt_id @ '': Failed to bind'') else
     and_then (connect_to_server clnt_id port addr) (\<lambda>peer_sd.
     and_then (client_to_master master_sd CLNT_READY) (\<lambda>_.
     loop (client_turn peer_sd master_sd clnt_id) buf)))))))"


section \<open>Choosing the server's address\<close>

text \<open>
  The loop that shifts the mask until two addresses agree under it: by 1, then by 2 more, then by
  3 more. It ends because a mask that has been shifted often enough is 0.
\<close>

lemma push_bit_zero_mono: "push_bit k (m :: u32) = 0 \<Longrightarrow> push_bit (k + j) m = 0"
  by (simp add: push_bit_push_bit [symmetric] add.commute)

lemma push_bit_eq_0_32: "32 \<le> k \<Longrightarrow> push_bit k (m :: u32) = 0"
  by (rule bit_word_eqI) (auto simp: bit_simps)

definition mask_room :: "u32 \<Rightarrow> nat" where
  "mask_room m = card {k. k < 32 \<and> push_bit k m \<noteq> 0}"

lemma mask_room_less:
  assumes "m \<noteq> 0" and "0 < j"
  shows "mask_room (push_bit j m) < mask_room m"
proof -
  let ?S = "\<lambda>m. {k. k < 32 \<and> push_bit k (m :: u32) \<noteq> 0}"
  have fin: "finite (?S m)" and ne: "?S m \<noteq> {}" using assms(1) by (auto intro: exI [of _ 0])
  have sub: "?S (push_bit j m) \<subseteq> ?S m" using push_bit_zero_mono by auto
  have "Max (?S m) \<notin> ?S (push_bit j m)"
  proof
    assume "Max (?S m) \<in> ?S (push_bit j m)"
    then have nz: "push_bit (Max (?S m) + j) m \<noteq> 0" by simp
    then have "Max (?S m) + j < 32"
      using push_bit_eq_0_32 [of "Max (?S m) + j" m] by (meson not_le)
    with nz have "Max (?S m) + j \<in> ?S m" by simp
    with fin have "Max (?S m) + j \<le> Max (?S m)" by (rule Max_ge)
    with assms(2) show False by simp
  qed
  moreover have "Max (?S m) \<in> ?S m" using fin ne by (rule Max_in)
  ultimately have "?S (push_bit j m) \<subset> ?S m" using sub by blast
  with fin show ?thesis unfolding mask_room_def by (rule psubset_card_mono)
qed

function prefix_shift :: "u32 \<Rightarrow> u32 \<Rightarrow> u32 \<Rightarrow> nat \<Rightarrow> nat" where
  "prefix_shift c s m shift =
     (if c AND m \<noteq> s AND m then prefix_shift c s (push_bit (shift + 1) m) (shift + 1) else shift)"
  by pat_completeness auto
termination
  by (relation "measure (\<lambda>(c, s, m, shift). mask_room m)") (auto intro!: mask_room_less simp del: push_bit_Suc)

declare prefix_shift.simps [simp del]


text \<open>
  The addresses of a list that the loops visit, in host order; an index beyond the array of 16 is
  an access outside it. The best address so far comes with its shift; \<open>Inr\<close> is the early return.
\<close>

definition listed_ips :: "srv_info \<Rightarrow> u32 option list" where
  "listed_ips sinfo =
     map (\<lambda>i. if i < 16 then Some (ntohl (ips sinfo ! i)) else None) [0..<unat (ntohs (num_ips sinfo))]"

fun select_client :: "u32 \<Rightarrow> u32 option list \<Rightarrow> nat \<times> u32 \<Rightarrow> ((nat \<times> u32) + u32) prog" where
  "select_client s_ip [] best = ret (Inl best)"
| "select_client s_ip (None # cs) best = fault Out_of_bounds"
| "select_client s_ip (Some c_ip # cs) best =
     (if c_ip = s_ip then ret (Inr 0x7f000001) else
      let shift = prefix_shift c_ip s_ip (NOT 0) 0 in
      select_client s_ip cs (if shift \<le> fst best then (shift, s_ip) else best))"

fun select_server :: "u32 option list \<Rightarrow> u32 option list \<Rightarrow> nat \<times> u32 \<Rightarrow> u32 prog" where
  "select_server [] cs best = ret (snd best)"
| "select_server (None # ss) cs best = fault Out_of_bounds"
| "select_server (Some s_ip # ss) cs best =
     and_then (select_client s_ip cs best) (\<lambda>r.
     case r of Inl best \<Rightarrow> select_server ss cs best | Inr ip \<Rightarrow> ret ip)"

definition select_ip :: "srv_info \<Rightarrow> string \<Rightarrow> u32 prog" where
  "select_ip sinfo ifname =
     and_then (uninit_bytes 68) (\<lambda>c.
     and_then (get_ip_list (bytes_srv_info c) (Some ifname)) (\<lambda>cinfo.
     select_server (listed_ips sinfo) (listed_ips cinfo) (32, 0)))"

section \<open>The master\<close>

record bench_conf =
  latency_transf :: u32
  thruput_transf :: u32
  req_clients :: u32
  first_msglen :: u32
  last_msglen :: u32
  conn_typ :: u32
  ifname :: string

definition bench_default :: bench_conf where
  "bench_default = \<lparr>latency_transf = 80000, thruput_transf = 640000, req_clients = 1, first_msglen = 64,
     last_msglen = 66000, conn_typ = TIPC_CONN, ifname = []\<rparr>"

text \<open>An option with its argument, if it has one; the interface name is copied to 16 characters.\<close>

fun bench_options :: "(char \<times> string option) list \<Rightarrow> bench_conf \<Rightarrow> bench_conf prog" where
  "bench_options [] c = ret c"
| "bench_options ((opt, arg) # opts) c =
     (let num = of_int (atoi (the arg)) in
      if opt = CHR ''l'' then
        bench_options opts (c\<lparr>latency_transf := (if arg = None then latency_transf c else num), thruput_transf := 0\<rparr>)
      else if opt = CHR ''t'' then
        bench_options opts (c\<lparr>thruput_transf := (if arg = None then thruput_transf c else num), latency_transf := 0\<rparr>)
      else if opt = CHR ''m'' then bench_options opts (c\<lparr>first_msglen := num, last_msglen := num\<rparr>)
      else if opt = CHR ''c'' then
        (if num = 0 then bench_die ''We need at least one connection'' else bench_options opts (c\<lparr>req_clients := num\<rparr>))
      else if opt = CHR ''p'' then
        (if arg = Some ''tcp'' then bench_options opts (c\<lparr>conn_typ := TCP_CONN\<rparr>)
         else if arg \<noteq> Some ''tipc'' then bench_die ''Invalid protocol''
         else bench_options opts c)
      else if opt = CHR ''i'' then
        (if length (the arg) \<ge> 16 then fault Out_of_bounds
         else if the arg = [] then bench_die ''Missing interface name after option -i''
         else bench_options opts (c\<lparr>ifname := the arg, conn_typ := TCP_CONN\<rparr>))
      else bench_usage)"

definition show_u64 :: "64 word \<Rightarrow> string" where
  "show_u64 x = show_int (uint x)"

text \<open>
  One message size of the latency test; the state is the size and the number of the turn. The
  counts are 64-bit, and cut to 32 bits when they are sent.
\<close>

definition latency_turn ::
  "bench_conf \<Rightarrow> int \<Rightarrow> int \<Rightarrow> 64 word \<times> 64 word \<Rightarrow> ((64 word \<times> 64 word) + unit) prog" where
  "latency_turn c master_clnt_sd master_srv_sd = (\<lambda>(msglen, iter).
     if \<not> msglen \<le> ucast (last_msglen c) then ret (Inr ()) else
     and_then (u64_div (ucast (latency_transf c)) iter) (\<lambda>msgcnt.
     and_then (emit (C_print (''| '' @ show_u64 msglen @ '' | '' @ show_u64 msgcnt @ '' |''))) (\<lambda>_.
     and_then (master_to_srv master_srv_sd RCV_MSG_LEN (ucast msglen) (ucast msgcnt) 1) (\<lambda>_.
     and_then (master_from_srv master_srv_sd) (\<lambda>_.
     and_then (sys C_gettimeofday) (\<lambda>r.
     and_then (master_to_client master_clnt_sd CLNT_EXEC (ucast msglen) (ucast msgcnt) 1) (\<lambda>_.
     and_then (master_from_client master_clnt_sd) (\<lambda>_.
     and_then (master_from_srv master_srv_sd) (\<lambda>_.
     and_then (elapsedusec (time_of r)) (\<lambda>elapsed.
     and_then (u64_div elapsed msgcnt) (\<lambda>latency.
     and_then (emit (C_print ('' '' @ show_u64 (elapsed div 1000) @ '' | '' @ show_u64 latency @ ''.'' @
       show_u64 (latency mod 100) @ '' |''))) (\<lambda>_.
     ret (Inl (msglen * 4, iter + 1))))))))))))))"

text \<open>
  One message size of the throughput test. The divisor is an int shifted by the number of the
  turn; a shift by 31 or more has no value.
\<close>

definition thruput_turn ::
  "bench_conf \<Rightarrow> int \<Rightarrow> int \<Rightarrow> 64 word \<Rightarrow> 64 word \<times> 64 word \<Rightarrow> ((64 word \<times> 64 word) + unit) prog" where
  "thruput_turn c master_clnt_sd master_srv_sd num_clients = (\<lambda>(msglen, iter).
     if \<not> msglen \<le> ucast (last_msglen c) then ret (Inr ()) else
     and_then (if iter - 1 \<ge> 31 then fault Out_of_bounds
               else u64_div (ucast (thruput_transf c)) (push_bit (unat (iter - 1)) 1)) (\<lambda>msgcnt.
     and_then (emit (C_print (''| '' @ show_u64 msglen @ '' | '' @ show_u64 num_clients @ '' | '' @ show_u64 msgcnt))) (\<lambda>_.
     and_then (sys C_gettimeofday) (\<lambda>r.
     and_then (master_to_srv master_srv_sd RCV_MSG_LEN (ucast msglen) (ucast msgcnt) 0) (\<lambda>_.
     and_then (for_each [0..<unat num_clients] (\<lambda>_. and_then (master_from_srv master_srv_sd) (\<lambda>_. ret ()))) (\<lambda>_.
     and_then (master_to_client master_clnt_sd CLNT_EXEC (ucast msglen) (ucast msgcnt) 0) (\<lambda>_.
     and_then (for_each [0..<unat num_clients] (\<lambda>_. and_then (master_from_client master_clnt_sd) (\<lambda>_.
       and_then (master_from_srv master_srv_sd) (\<lambda>_. ret ())))) (\<lambda>_.
     and_then (elapsedusec (time_of r)) (\<lambda>elapsed.
     and_then (u64_div (msgcnt * num_clients * 1000000) elapsed) (\<lambda>msg_per_sec.
     let thruput = msg_per_sec * msglen * 8 div 1000000 in
     and_then (u64_div thruput num_clients) (\<lambda>per_conn.
     and_then (emit (C_print (''| '' @ show_u64 (elapsed div 1000) @ '' | '' @ show_u64 msg_per_sec @ '' | '' @
       show_u64 thruput @ '' | '' @ show_u64 per_conn @ '' |''))) (\<lambda>_.
     ret (Inl (msglen * 4, iter + 1))))))))))))))"

text \<open>Creating the clients that are still missing, each with its number; it is ready when it says so.\<close>

fun create_clients :: "int \<Rightarrow> u32 list \<Rightarrow> u16 \<Rightarrow> u32 \<Rightarrow> bytes \<Rightarrow> unit prog" where
  "create_clients master_clnt_sd [] port addr buf = ret ()"
| "create_clients master_clnt_sd (clnt_id # ids) port addr buf =
     and_then (client_create master_clnt_sd clnt_id port addr buf) (\<lambda>_.
     and_then (master_from_client master_clnt_sd) (\<lambda>_.
     create_clients master_clnt_sd ids port addr buf))"

definition latency_test :: "bench_conf \<Rightarrow> int \<Rightarrow> int \<Rightarrow> u16 \<Rightarrow> u32 \<Rightarrow> bytes \<Rightarrow> 64 word prog" where
  "latency_test c master_clnt_sd master_srv_sd port addr buf =
     (if latency_transf c = 0 then ret 0 else
      and_then (emit (C_print (''Transferring '' @ show_u32 (latency_transf c) @ '' messages in '' @
        (if port \<noteq> 0 then ''TCP'' else ''TIPC'') @ '' Latency Benchmark''))) (\<lambda>_.
      and_then (create_clients master_clnt_sd [1] port addr buf) (\<lambda>_.
      and_then (emit (C_sleep 1)) (\<lambda>_.
      and_then (loop (latency_turn c master_clnt_sd master_srv_sd) (ucast (first_msglen c), 1)) (\<lambda>_.
      and_then (emit (C_print ''Completed Latency Benchmark'')) (\<lambda>_. ret 1))))))"

definition thruput_test :: "bench_conf \<Rightarrow> int \<Rightarrow> int \<Rightarrow> u16 \<Rightarrow> u32 \<Rightarrow> bytes \<Rightarrow> 64 word \<Rightarrow> 64 word prog" where
  "thruput_test c master_clnt_sd master_srv_sd port addr buf num_clients =
     (if thruput_transf c = 0 then ret num_clients else
      let wanted = max num_clients (ucast (req_clients c)) in
      and_then (emit (C_print (''Transferring '' @ show_u32 (thruput_transf c) @ '' messages in '' @
        (if port \<noteq> 0 then ''TCP'' else ''TIPC'') @ '' Throughput Benchmark''))) (\<lambda>_.
      and_then (create_clients master_clnt_sd (map of_nat [unat num_clients + 1..<unat wanted + 1]) port addr buf) (\<lambda>_.
      and_then (emit (C_sleep 2)) (\<lambda>_.
      and_then (loop (thruput_turn c master_clnt_sd master_srv_sd wanted) (ucast (first_msglen c), 1)) (\<lambda>_.
      and_then (emit (C_print ''Completed Throughput Benchmark'')) (\<lambda>_. ret wanted))))))"

text \<open>A control socket of the master: creating and binding it, with the two messages for failures.\<close>

definition control_socket :: "sockaddr_tipc \<Rightarrow> string \<Rightarrow> string \<Rightarrow> int prog" where
  "control_socket addr no_socket no_bind =
     and_then (sys (C_socket AF_TIPC SOCK_RDM 0)) (\<lambda>r.
     let sd = r_ret r in
     if sd < 0 then bench_die no_socket else
     and_then (sys (C_bind sd addr)) (\<lambda>r.
     if r_ret r \<noteq> 0 then bench_die no_bind else ret sd))"

definition master_finish :: "int \<Rightarrow> int \<Rightarrow> 64 word \<Rightarrow> unit prog" where
  "master_finish master_clnt_sd master_srv_sd num_clients =
     and_then (master_to_client master_clnt_sd CLNT_TERM 0 0 0) (\<lambda>_.
     and_then (sys (C_signal 14)) (\<lambda>r.
     if r_ret r = -1 then bench_die ''Master: Can't catch alarm signals'' else
     and_then (emit (C_alarm MAX_DELAY)) (\<lambda>_.
     and_then (for_each [0..<unat num_clients] (\<lambda>_. and_then (sys C_wait) (\<lambda>r.
       if r_ret r \<le> 0 then bench_die ''Master: error during termination'' else ret ()))) (\<lambda>_.
     and_then (emit (C_print ''****** TIPC Benchmark Client Finished ******'')) (\<lambda>_.
     and_then (sys (C_shutdown master_clnt_sd)) (\<lambda>_.
     and_then (sys (C_close master_clnt_sd)) (\<lambda>_.
     and_then (sys (C_shutdown master_srv_sd)) (\<lambda>_.
     and_then (sys (C_close master_srv_sd)) (\<lambda>_.
     exit_prog 0)))))))))"

definition bench_client_main :: "(char \<times> string option) list \<Rightarrow> unit prog" where
  "bench_client_main opts =
     and_then (bench_options opts bench_default) (\<lambda>c.
     and_then (malloc (uint (last_msglen c))) (\<lambda>buf.
     case buf of None \<Rightarrow> bench_die ''Unable to allocate buffer'' | Some buf \<Rightarrow>
     and_then (control_socket master_clnt_addr ''Master: Can't create client ctrl socket''
       ''Master: Failed to bind to clientcontrol address'') (\<lambda>master_clnt_sd.
     and_then (control_socket master_srv_addr ''Master: Can't create server ctrl socket''
       ''Master: Failed to bind to server control address'') (\<lambda>master_srv_sd.
     and_then (wait_for_name SRV_CTRL_NAME 0 MAX_DELAY) (\<lambda>_.
     and_then (master_to_srv master_srv_sd RESTART 0 0 0) (\<lambda>_.
     and_then (emit (C_sleep 1)) (\<lambda>_.
     and_then (master_to_srv master_srv_sd (conn_typ c) (last_msglen c) 0 0) (\<lambda>_.
     and_then (wait_for_name SRV_LSTN_NAME 0 MAX_DELAY) (\<lambda>_.
     and_then (master_from_srv master_srv_sd) (\<lambda>(cmd, peer_tipc_addr, sinfo).
     and_then bench_own_node (\<lambda>own.
     let c = (if peer_tipc_addr \<noteq> own
              then c\<lparr>latency_transf := (if latency_transf c = 80000 then 8000 else latency_transf c),
                     thruput_transf := (if thruput_transf c = 640000 then 64000 else thruput_transf c)\<rparr>
              else c);
         port = ntohs (tcp_port sinfo) in
     and_then (select_ip sinfo (ifname c)) (\<lambda>addr.
     and_then (emit (C_print ''****** TIPC Benchmark Client Started ******'')) (\<lambda>_.
     and_then (only_if (conn_typ c = TCP_CONN) (emit (C_print ''Using server address''))) (\<lambda>_.
     and_then (latency_test c master_clnt_sd master_srv_sd port addr buf) (\<lambda>num_clients.
     and_then (thruput_test c master_clnt_sd master_srv_sd port addr buf num_clients) (\<lambda>num_clients.
     master_finish master_clnt_sd master_srv_sd num_clients))))))))))))))))"

end
