(* ===== verification/Bench_Server.thy ===== *)
theory Bench_Server
  imports Bench
begin

text \<open>
  The server program of the benchmark, \<^verbatim>\<open>src/demos/benchmark/server_tipc.c\<close>. The jump back to the
  label \<^verbatim>\<open>reset\<close> is the outer loop of the main program; the variables that survive it are its state.
\<close>

definition srv_to_master :: "int \<Rightarrow> u32 \<Rightarrow> u32 \<Rightarrow> srv_info option \<Rightarrow> unit prog" where
  "srv_to_master master_sd own_node_addr cmd sinfo =
     and_then (wait_for_name MASTER_NAME 0 MAX_DELAY) (\<lambda>_.
     send_cmd master_sd (cmd_bytes [cmd, own_node_addr] @
         (case sinfo of None \<Rightarrow> replicate 68 0 | Some s \<Rightarrow> srv_info_bytes s)) master_srv_addr
       ''Server: unable to send info to master'')"

definition srv_from_master :: "int \<Rightarrow> (u32 \<times> u32 \<times> u32 \<times> u32) prog" where
  "srv_from_master master_sd =
     and_then (recv_cmd master_sd 16 ''No command from master'' ''Server: Invalid info msg from master'') (\<lambda>c.
     ret (cmd_word c 0, cmd_word c 1, cmd_word c 2, cmd_word c 3))"

definition wait_for_connection :: "int \<Rightarrow> int prog" where
  "wait_for_connection lstn_sd =
     and_then (sys (C_select [lstn_sd])) (\<lambda>r.
     if r_ret r > 0 \<and> lstn_sd \<in> set (r_ready r) then
       and_then (sys (C_accept lstn_sd)) (\<lambda>a.
       if r_ret a \<le> 0 then bench_die ''Server master: accept failed'' else ret (r_ret a))
     else ret 0)"

section \<open>A server for one connection\<close>

text \<open>Receiving, and with \<^verbatim>\<open>echo\<close> sending back, the \<open>n\<close> messages still expected.\<close>

fun echo_turns :: "int \<Rightarrow> int \<Rightarrow> int \<Rightarrow> bool \<Rightarrow> nat \<Rightarrow> bytes \<Rightarrow> bytes prog" where
  "echo_turns peer_sd srv_id msglen echo 0 buf = ret buf"
| "echo_turns peer_sd srv_id msglen echo (Suc n) buf =
     and_then (wait_for_msg peer_sd) (\<lambda>res.
     if res \<noteq> 0 then bench_die ''poll() from client failed'' else
     and_then (recv_len peer_sd buf msglen (''Server '' @ show_int srv_id @ '': echo_messages recv() error'')) (\<lambda>buf.
     if \<not> echo then echo_turns peer_sd srv_id msglen echo n buf else
     with_bytes buf msglen (\<lambda>d.
     and_then (sys (C_send peer_sd d 0)) (\<lambda>r.
     if msglen \<noteq> r_ret r then bench_die ''echo_msg: send failed''
     else echo_turns peer_sd srv_id msglen echo n buf))))"

definition echo_round :: "int \<Rightarrow> int \<Rightarrow> u32 \<Rightarrow> int \<Rightarrow> bytes \<Rightarrow> (bytes + unit) prog" where
  "echo_round peer_sd master_sd own_node_addr srv_id buf =
     and_then (srv_from_master master_sd) (\<lambda>(cmd, msglen, msgcnt, echo).
     if cmd \<noteq> RCV_MSG_LEN then ret (Inr ()) else
     and_then (srv_to_master master_sd own_node_addr SRV_MSGLEN_ACK None) (\<lambda>_.
     and_then (echo_turns peer_sd srv_id (uint msglen) (echo \<noteq> 0) (unat msgcnt) buf) (\<lambda>buf.
     and_then (srv_to_master master_sd own_node_addr SRV_FINISHED None) (\<lambda>_.
     ret (Inl buf)))))"

definition echo_messages :: "int \<Rightarrow> int \<Rightarrow> u32 \<Rightarrow> int \<Rightarrow> bytes \<Rightarrow> 'a prog" where
  "echo_messages peer_sd master_sd own_node_addr srv_id buf =
     and_then (loop (echo_round peer_sd master_sd own_node_addr srv_id) buf) (\<lambda>_.
     and_then (sys (C_shutdown peer_sd)) (\<lambda>_.
     and_then (sys (C_close peer_sd)) (\<lambda>_.
     and_then (sys (C_close master_sd)) (\<lambda>_.
     exit_prog 0))))"

section \<open>The main program\<close>

text \<open>The search for a free port; the port number wraps around.\<close>

definition port_turn :: "int \<Rightarrow> u16 \<Rightarrow> (u16 + u16) prog" where
  "port_turn lstn_sd port =
     and_then (sys (C_bind_in lstn_sd 0 (htons port))) (\<lambda>r.
     ret (if 0 > r_ret r then Inl (port + 1) else Inr port))"

record server_state =
  sv_port :: u16
  sv_info :: srv_info
  sv_id :: int
  sv_cnt :: int

text \<open>
  From the label to the listening socket: \<open>None\<close> if the command was neither of the two that ask
  for a connection, with which the program starts over.
\<close>

definition server_setup :: "u32 \<Rightarrow> server_state \<Rightarrow> ((int \<times> bytes) option \<times> server_state) prog" where
  "server_setup own_node_addr st =
     and_then (control_socket srv_ctrl_addr ''Server: Can't create socket to master''
       ''Server: Failed to bind to master socket'') (\<lambda>master_sd.
     and_then (srv_from_master master_sd) (\<lambda>(cmd, max_msglen, _, _).
     and_then (malloc (uint max_msglen)) (\<lambda>buf.
     case buf of None \<Rightarrow> bench_die (''Failed to create buffer of size '' @ show_u32 (ntohl max_msglen)) | Some buf \<Rightarrow>
     if cmd = TIPC_CONN then
       and_then (sys (C_socket AF_TIPC SOCK_STREAM 0)) (\<lambda>r.
       let lstn_sd = r_ret r in
       if lstn_sd < 0 then bench_die ''Server master: can't create listening socket'' else
       and_then (sys (C_bind lstn_sd srv_lstn_addr)) (\<lambda>r.
       if r_ret r < 0 then bench_die ''TIPC Server master: failed to bind port name'' else
       and_then (emit (C_print ''******   TIPC Listener Socket Created    ******'')) (\<lambda>_.
       and_then (srv_to_master master_sd own_node_addr SRV_INFO None) (\<lambda>_.
       and_then (sys (C_close master_sd)) (\<lambda>_.
       ret (Some (lstn_sd, buf), st))))))
     else if cmd = TCP_CONN then
       and_then (sys (C_socket 2 SOCK_STREAM 6)) (\<lambda>r.
       let lstn_sd = r_ret r in
       if lstn_sd < 0 then bench_die ''TCP Server: failed to create listener socket'' else
       and_then (loop (port_turn lstn_sd) (sv_port st)) (\<lambda>port.
       and_then (get_ip_list (sv_info st) None) (\<lambda>sinfo.
       let sinfo = sinfo\<lparr>tcp_port := htons port\<rparr> in
       and_then (emit (C_print ''******    TCP Listener Socket Created    ******'')) (\<lambda>_.
       and_then (srv_to_master master_sd own_node_addr SRV_INFO (Some sinfo)) (\<lambda>_.
       and_then (sys (C_close master_sd)) (\<lambda>_.
       ret (Some (lstn_sd, buf), st\<lparr>sv_port := port, sv_info := sinfo\<rparr>)))))))
     else and_then (sys (C_close master_sd)) (\<lambda>_. ret (None, st)))))"

text \<open>
  A turn of the inner loop: a server that has ended is counted off, and with the last one the
  program starts over; a new connection gets a process of its own.
\<close>

definition server_turn :: "u32 \<Rightarrow> int \<Rightarrow> bytes \<Rightarrow> server_state \<Rightarrow> (server_state + server_state) prog" where
  "server_turn own_node_addr lstn_sd buf st =
     and_then (sys C_waitpid) (\<lambda>r.
     if r_ret r > 0 then
       let st = st\<lparr>sv_cnt := sv_cnt st - 1\<rparr> in
       if sv_cnt st \<noteq> 0 then ret (Inl st) else
       and_then (sys (C_close lstn_sd)) (\<lambda>_.
       and_then (emit (C_print ''******      Listener Socket Deleted      ******'')) (\<lambda>_.
       ret (Inr st)))
     else
     and_then (wait_for_connection lstn_sd) (\<lambda>peer_sd.
     if peer_sd = 0 then ret (Inl st) else
     let st = st\<lparr>sv_id := sv_id st + 1, sv_cnt := sv_cnt st + 1\<rparr> in
     and_then (sys C_fork) (\<lambda>f.
     if r_ret f \<noteq> 0 then and_then (sys (C_close peer_sd)) (\<lambda>_. ret (Inl st)) else
     and_then (sys (C_close lstn_sd)) (\<lambda>_.
     and_then (control_socket srv_ctrl_addr ''Server: Can't create socket to master''
       ''Server: Failed to bind to master socket'') (\<lambda>master_sd.
     echo_messages peer_sd master_sd own_node_addr (sv_id st) buf)))))"

definition server_cycle :: "u32 \<Rightarrow> server_state \<Rightarrow> (server_state + unit) prog" where
  "server_cycle own_node_addr st =
     and_then (server_setup own_node_addr st) (\<lambda>(lstn, st).
     case lstn of
       None \<Rightarrow> ret (Inl st)
     | Some (lstn_sd, buf) \<Rightarrow>
         and_then (sys (C_listen lstn_sd 32)) (\<lambda>r.
         if r_ret r < 0 then bench_die ''Server: listen() failed'' else
         and_then (loop (server_turn own_node_addr lstn_sd buf) st) (\<lambda>st. ret (Inl st))))"

definition bench_server_main :: "unit prog" where
  "bench_server_main =
     and_then bench_own_node (\<lambda>own_node_addr.
     and_then (sys (C_signal 14)) (\<lambda>r.
     if r_ret r = -1 then bench_die ''Server master: can't catch alarm signals'' else
     and_then (emit (C_print ''******   TIPC Benchmark Server Started   ******'')) (\<lambda>_.
     loop (server_cycle own_node_addr)
       \<lparr>sv_port = 4711, sv_info = \<lparr>tcp_port = 0, num_ips = 0, ips = replicate 16 0\<rparr>, sv_id = 0, sv_cnt = 0\<rparr>)))"

end
