(* ===== verification/Bench_Props.thy ===== *)
theory Bench_Props
  imports Bench_Server
begin

text \<open>
  The choice of the server's address in the benchmark, and the transfer between a client and its
  server: both sides send and receive the same messages.
\<close>

section \<open>The nearest address\<close>

text \<open>
  After \<open>k\<close> turns of the shifting loop the lowest \<open>k * (k + 1) div 2\<close> bits are masked out. The distance
  of two addresses is the number of turns until the rest of them agrees.
\<close>

definition masked :: "nat \<Rightarrow> nat" where
  "masked k = k * (k + 1) div 2"

definition agrees :: "u32 \<Rightarrow> u32 \<Rightarrow> nat \<Rightarrow> bool" where
  "agrees c s k \<longleftrightarrow> drop_bit (masked k) c = drop_bit (masked k) s"

definition ip_distance :: "u32 \<Rightarrow> u32 \<Rightarrow> nat" where
  "ip_distance c s = (LEAST k. agrees c s k)"

lemma masked_Suc: "masked (Suc k) = masked k + Suc k"
  by (simp add: masked_def algebra_simps)

lemma and_push_bit_eq_iff:
  "c AND push_bit k (NOT 0) = s AND push_bit k (NOT 0) \<longleftrightarrow> drop_bit k c = drop_bit k (s :: u32)"
proof
  assume "c AND push_bit k (NOT 0) = s AND push_bit k (NOT 0)"
  then have "drop_bit k (c AND push_bit k (NOT 0)) = drop_bit k (s AND push_bit k (NOT 0))" by simp
  moreover have "drop_bit k (x AND push_bit k (NOT 0)) = drop_bit k x" for x :: u32
    by (rule bit_word_eqI) (auto simp: bit_simps dest: bit_imp_le_length)
  ultimately show "drop_bit k c = drop_bit k s" by simp
next
  assume eq: "drop_bit k c = drop_bit k s"
  have "x AND push_bit k (NOT 0) = push_bit k (drop_bit k x)" for x :: u32
    by (rule bit_word_eqI) (auto simp: bit_simps)
  with eq show "c AND push_bit k (NOT 0) = s AND push_bit k (NOT 0)" by simp
qed

lemma agrees_8: "agrees c s 8"
proof -
  have "drop_bit 36 (x :: u32) = 0" for x by (rule bit_word_eqI) (auto simp: bit_simps dest: bit_imp_le_length)
  then show ?thesis by (simp add: agrees_def masked_def)
qed

lemma ip_distance_le: "ip_distance c s \<le> 8"
  unfolding ip_distance_def by (rule Least_le) (rule agrees_8)

lemma prefix_shift_step:
  "prefix_shift c s (push_bit (masked j) (NOT 0)) j =
     (if agrees c s j then j else prefix_shift c s (push_bit (masked (Suc j)) (NOT 0)) (Suc j))"
proof -
  have next_mask: "push_bit (j + 1) (push_bit (masked j) (NOT 0)) = push_bit (masked (Suc j)) (NOT 0 :: u32)"
    by (simp only: push_bit_push_bit masked_Suc) (simp add: add.commute)
  show ?thesis
    unfolding prefix_shift.simps [of c s "push_bit (masked j) (NOT 0)" j] and_push_bit_eq_iff next_mask
    by (simp only: agrees_def Suc_eq_plus1 if_not_P if_P split: if_splits) simp
qed

lemma prefix_shift_from:
  assumes "j \<le> 8" and "\<And>i. i < j \<Longrightarrow> \<not> agrees c s i"
  shows "prefix_shift c s (push_bit (masked j) (NOT 0)) j = ip_distance c s"
  using assms
proof (induction "8 - j" arbitrary: j)
  case 0
  then have "ip_distance c s = 8" unfolding ip_distance_def
    by (intro Least_equality agrees_8) (metis diff_is_0_eq le_antisym not_less)
  with 0 agrees_8 [of c s] show ?case by (simp only: prefix_shift_step [of c s j]) simp
next
  case (Suc d)
  show ?case
  proof (cases "agrees c s j")
    case True
    with Suc.prems(2) have "ip_distance c s = j" unfolding ip_distance_def
      by (intro Least_equality) (auto simp: not_less [symmetric])
    with True show ?thesis by (simp only: prefix_shift_step [of c s j]) simp
  next
    case False
    have "prefix_shift c s (push_bit (masked (Suc j)) (NOT 0)) (Suc j) = ip_distance c s"
      using Suc.hyps(2) Suc.prems False by (intro Suc.hyps(1)) (auto simp: less_Suc_eq)
    with False show ?thesis by (simp only: prefix_shift_step [of c s j]) simp
  qed
qed

lemma prefix_shift_eq: "prefix_shift c s (- 1) 0 = ip_distance c s"
  using prefix_shift_from [of 0 c s] by (simp add: masked_def)

text \<open>The best address so far, after the pairs in \<open>S\<close> have been compared.\<close>

definition best_of :: "(u32 \<times> u32) set \<Rightarrow> nat \<times> u32 \<Rightarrow> bool" where
  "best_of S b \<longleftrightarrow> (if S = {} then b = (32, 0)
     else (\<exists>(s, c) \<in> S. b = (ip_distance c s, s)) \<and> (\<forall>(s, c) \<in> S. fst b \<le> ip_distance c s))"

lemma best_of_insert:
  assumes "best_of S b"
  shows "best_of (insert (s, c) S) (if ip_distance c s \<le> fst b then (ip_distance c s, s) else b)"
  using assms ip_distance_le [of c s] by (auto simp: best_of_def split: if_splits)

lemma select_client_best:
  "s \<notin> set cs \<Longrightarrow> best_of S b \<Longrightarrow>
   \<exists>b'. select_client s (map Some cs) b = ret (Inl b') \<and> best_of (S \<union> {s} \<times> set cs) b'"
proof (induction cs arbitrary: S b)
  case (Cons c cs)
  from Cons.IH [OF _ best_of_insert [OF Cons.prems(2), of s c]] Cons.prems(1) obtain b' where
    "select_client s (map Some cs) (if ip_distance c s \<le> fst b then (ip_distance c s, s) else b) = ret (Inl b')"
    "best_of (insert (s, c) S \<union> {s} \<times> set cs) b'" by auto
  moreover have "insert (s, c) S \<union> {s} \<times> set cs = S \<union> {s} \<times> set (c # cs)" by auto
  ultimately show ?case using Cons.prems(1) by (intro exI [of _ b']) (auto simp: prefix_shift_eq Let_def)
qed auto

lemma select_client_own: "s \<in> set cs \<Longrightarrow> select_client s (map Some cs) b = ret (Inr 0x7f000001)"
  by (induction cs arbitrary: b) (auto simp: Let_def)

lemma select_server_best:
  "(\<forall>s \<in> set ss. s \<notin> set cs) \<Longrightarrow> best_of S b \<Longrightarrow>
   \<exists>b'. select_server (map Some ss) (map Some cs) b = ret (snd b') \<and> best_of (S \<union> set ss \<times> set cs) b'"
proof (induction ss arbitrary: S b)
  case (Cons s ss)
  from select_client_best [OF _ Cons.prems(2), of s cs] Cons.prems(1) obtain b' where
    b': "select_client s (map Some cs) b = ret (Inl b')" "best_of (S \<union> {s} \<times> set cs) b'" by auto
  from Cons.IH [OF _ b'(2)] Cons.prems(1) obtain b'' where
    "select_server (map Some ss) (map Some cs) b' = ret (snd b'')"
    "best_of (S \<union> {s} \<times> set cs \<union> set ss \<times> set cs) b''" by auto
  moreover have "S \<union> {s} \<times> set cs \<union> set ss \<times> set cs = S \<union> set (s # ss) \<times> set cs" by auto
  ultimately show ?case using b'(1) by (intro exI [of _ b'']) simp
qed (auto simp del: split_paired_Ex)

lemma select_server_own:
  "\<exists>s \<in> set ss. s \<in> set cs \<Longrightarrow> select_server (map Some ss) (map Some cs) b = ret 0x7f000001"
proof (induction ss arbitrary: b)
  case (Cons s ss)
  show ?case
  proof (cases "s \<in> set cs")
    case True
    then show ?thesis by (simp add: select_client_own)
  next
    case False
    then have "\<exists>b'. select_client s (map Some cs) b = ret (Inl b')"
      by (induction cs arbitrary: b) (auto simp: Let_def simp del: split_paired_Ex)
    then obtain b' where "select_client s (map Some cs) b = ret (Inl b')" ..
    with Cons False show ?thesis by simp
  qed
qed simp

definition host_ips :: "srv_info \<Rightarrow> u32 list" where
  "host_ips i = map ntohl (take (unat (ntohs (num_ips i))) (ips i))"

lemma listed_ips_Some:
  assumes "length (ips i) = 16" and "unat (ntohs (num_ips i)) \<le> 16"
  shows "listed_ips i = map Some (host_ips i)"
  using assms by (auto simp: listed_ips_def host_ips_def intro!: nth_equalityI)

text \<open>
  C36. Which address of the server the benchmark's clients connect to: the loopback address if
  the two machines have an address in common, and otherwise an address of the server that is
  nearest to one of the client's, where the distance is the number of times the mask is
  shifted, at most 8; with no address on either side the result is 0.
\<close>

theorem select_ip_nearest:
  assumes "length (ips srv) = 16" and "unat (ntohs (num_ips srv)) \<le> 16"
    and "length (ips clnt) = 16" and "unat (ntohs (num_ips clnt)) \<le> 16"
  shows "\<exists>ip. select_server (listed_ips srv) (listed_ips clnt) (32, 0) = ret ip \<and>
    (if \<exists>s \<in> set (host_ips srv). s \<in> set (host_ips clnt) then ip = 0x7f000001
     else if host_ips srv = [] \<or> host_ips clnt = [] then ip = 0
     else ip \<in> set (host_ips srv) \<and> (\<exists>c \<in> set (host_ips clnt). \<forall>s' \<in> set (host_ips srv). \<forall>c' \<in> set (host_ips clnt).
            ip_distance c ip \<le> ip_distance c' s' \<and> ip_distance c ip \<le> 8))"
proof (cases "\<exists>s \<in> set (host_ips srv). s \<in> set (host_ips clnt)")
  case True
  with assms show ?thesis by (simp add: listed_ips_Some select_server_own)
next
  case False
  have "best_of {} (32, 0)" by (simp add: best_of_def)
  with False obtain b where b:
    "select_server (map Some (host_ips srv)) (map Some (host_ips clnt)) (32, 0) = ret (snd b)"
    "best_of (set (host_ips srv) \<times> set (host_ips clnt)) b"
    using select_server_best [of "host_ips srv" "host_ips clnt" "{}" "(32, 0)"] by auto
  show ?thesis
  proof (cases "host_ips srv = [] \<or> host_ips clnt = []")
    case True
    with b False assms show ?thesis by (auto simp: listed_ips_Some best_of_def)
  next
    case ne: False
    with b(2) obtain s c where "s \<in> set (host_ips srv)" "c \<in> set (host_ips clnt)" "b = (ip_distance c s, s)"
      "\<forall>s' \<in> set (host_ips srv). \<forall>c' \<in> set (host_ips clnt). ip_distance c s \<le> ip_distance c' s'"
      by (auto simp: best_of_def split: if_splits)
    with b(1) False ne assms ip_distance_le show ?thesis
      by (intro exI [of _ s]) (auto simp: listed_ips_Some)
  qed
qed

theorem select_ip_nearest_witness:
  "let srv = \<lparr>tcp_port = htons 4711, num_ips = htons 2, ips = [htonl 0x0A000005, htonl 0xC0A80107] @ replicate 14 0\<rparr>;
       clnt = \<lparr>tcp_port = 0, num_ips = htons 1, ips = htonl 0xC0A80109 # replicate 15 0\<rparr> in
   \<exists>ip. select_server (listed_ips srv) (listed_ips clnt) (32, 0) = ret ip \<and>
     ip \<in> {0x0A000005, 0xC0A80107} \<and> ip_distance 0xC0A80109 ip \<le> ip_distance 0xC0A80109 0xC0A80107"
  using select_ip_nearest
    [of "\<lparr>tcp_port = htons 4711, num_ips = htons 2, ips = [htonl 0x0A000005, htonl 0xC0A80107] @ replicate 14 0\<rparr>"
        "\<lparr>tcp_port = 0, num_ips = htons 1, ips = htonl 0xC0A80109 # replicate 15 0\<rparr>"]
  by (auto simp: host_ips_def Let_def)

section \<open>The transfer\<close>

text \<open>What a process sends and receives over the connection to its peer.\<close>

datatype transfer = Sent int | Got int

fun counterpart :: "transfer \<Rightarrow> transfer" where
  "counterpart (Sent n) = Got n"
| "counterpart (Got n) = Sent n"

fun obs_peer :: "int \<Rightarrow> call \<Rightarrow> transfer list" where
  "obs_peer sd (C_send s d f) = (if s = sd then [Sent (int (length d))] else [])"
| "obs_peer sd (C_recv s n f) = (if s = sd then [Got n] else [])"
| "obs_peer sd _ = []"

definition exchanged :: "bool \<Rightarrow> nat \<Rightarrow> int \<Rightarrow> transfer list" where
  "exchanged bounce n len = concat (replicate n (if bounce then [Sent len, Got len] else [Sent len]))"

lemma exchanged_Suc: "exchanged b (Suc n) len = (if b then [Sent len, Got len] else [Sent len]) @ exchanged b n len"
  by (simp add: exchanged_def)

lemma emits_bench_die: "emits obs (bench_die msg) es"
  by (simp add: emits_def bench_die_def and_then_def emit_def exit_prog_def)

lemma emits_wait_for_msg: "emits (obs_peer sd) (wait_for_msg s) []"
  unfolding wait_for_msg_def by (rule quiet_structure | (simp; fail))+

lemma emits_recv_len: "emits (obs_peer sd) (recv_len sd buf len msg) [Got len]"
  unfolding recv_len_def
  by (rule emits_if emits_halt emits_then_quiet emits_receive emits_bench_die emits_ret | (simp; fail))+

lemma emits_with_bytes:
  "(\<And>d. int (length d) = len \<Longrightarrow> emits obs (f d) es) \<Longrightarrow> emits obs (with_bytes buf len f) es"
  by (auto simp: with_bytes_def emits_halt)

lemma emits_sys_then: "emits obs (sys c) es \<Longrightarrow> (\<And>r. emits obs (f r) fs) \<Longrightarrow> gs = es @ fs \<Longrightarrow>
   emits obs (and_then (sys c) f) gs"
  by (simp add: emits_and_then)

lemma emits_unless:
  "emits obs m fs \<Longrightarrow> emits obs k es \<Longrightarrow> emits obs (if \<not> b then m else k) (if b then es else fs)"
  by simp

lemma emits_stream_turns:
  "emits (obs_peer sd) (stream_turns sd who len bounce n y buf) (exchanged bounce n len)"
proof (induction n arbitrary: y buf)
  case (Suc n)
  have yields: "emits (obs_peer sd) (if y - 1 = 0 then and_then (emit C_sched_yield) (\<lambda>_. c_div 4194304 len)
       else ret (y - 1)) []"
    unfolding c_div_def by (rule quiet_structure | (simp; fail))+
  have answer: "emits (obs_peer sd) (and_then (wait_for_msg sd) (\<lambda>res.
     if res \<noteq> 0 then bench_die msg else and_then (recv_len sd buf len msg') (stream_turns sd who len bounce n y')))
     (Got len # exchanged bounce n len)" for msg msg' buf y'
    by (rule emits_quiet_then [OF emits_wait_for_msg], rule emits_if [OF emits_bench_die],
        rule emits_by [OF emits_and_then [OF emits_recv_len Suc.IH]]) simp
  show ?case
    unfolding stream_turns.simps
  proof (rule emits_quiet_then [OF yields], rule emits_with_bytes)
    fix y' and d :: bytes
    assume d: "int (length d) = len"
    let ?rest = "if bounce then Got len # exchanged bounce n len else exchanged bounce n len"
    have cont: "emits (obs_peer sd) (if \<not> bounce then stream_turns sd who len bounce n y' buf else
       and_then (wait_for_msg sd) (\<lambda>res. if res \<noteq> 0 then bench_die msg else
         and_then (recv_len sd buf len msg') (stream_turns sd who len bounce n y'))) ?rest" for msg msg'
      by (rule emits_unless [OF Suc.IH answer])
    show "emits (obs_peer sd) (and_then (sys (C_send sd d 0)) (\<lambda>r.
       if len \<noteq> r_ret r then bench_die (''Client '' @ show_u32 who @ '': send failed'') else
       if \<not> bounce then stream_turns sd who len bounce n y' buf else
       and_then (wait_for_msg sd) (\<lambda>res.
       if res \<noteq> 0 then bench_die (''Client '' @ show_u32 who @ '': no resp from srv'') else
       and_then (recv_len sd buf len (''Client '' @ show_u32 who @ '': invalid msg from server''))
         (stream_turns sd who len bounce n y')))) (exchanged bounce (Suc n) len)"
      by (rule emits_by [OF emits_and_then [OF emits_sys [OF refl] emits_if [OF emits_bench_die cont]]])
        (simp add: exchanged_Suc d)
  qed
qed (simp add: exchanged_def emits_ret)

lemma emits_echo_turns:
  "emits (obs_peer sd) (echo_turns sd who len bounce n buf) (map counterpart (exchanged bounce n len))"
proof (induction n arbitrary: buf)
  case (Suc n)
  have resend: "emits (obs_peer sd) (with_bytes buf len (\<lambda>d. and_then (sys (C_send sd d 0)) (\<lambda>r.
       if len \<noteq> r_ret r then bench_die msg else echo_turns sd who len bounce n buf)))
       (Sent len # map counterpart (exchanged bounce n len))" for buf msg
    by (rule emits_with_bytes,
        rule emits_by [OF emits_and_then [OF emits_sys [OF refl] emits_if [OF emits_bench_die Suc.IH]]]) simp
  have cont: "emits (obs_peer sd) (if \<not> bounce then echo_turns sd who len bounce n buf
      else with_bytes buf len (\<lambda>d. and_then (sys (C_send sd d 0)) (\<lambda>r.
       if len \<noteq> r_ret r then bench_die msg else echo_turns sd who len bounce n buf)))
      (if bounce then Sent len # map counterpart (exchanged bounce n len)
       else map counterpart (exchanged bounce n len))" for buf msg
    by (rule emits_unless [OF Suc.IH resend])
  show ?case
    unfolding echo_turns.simps
    by (rule emits_quiet_then [OF emits_wait_for_msg], rule emits_if [OF emits_bench_die],
        rule emits_by [OF emits_and_then [OF emits_recv_len cont]]) (simp add: exchanged_Suc)
qed (simp add: exchanged_def emits_ret)

text \<open>The replies of a connection that works.\<close>

definition good_turn :: "bool \<Rightarrow> bool \<Rightarrow> int \<Rightarrow> nat \<Rightarrow> reply list" where
  "good_turn client bounce sd len =
     (let s = ok (int len); r = [(ok 1)\<lparr>r_ready := [sd]\<rparr>, msg_reply (replicate len 0)] in
      if client then s # (if bounce then r else []) else r @ (if bounce then [s] else []))"

lemma run_wait_for_msg [run]:
  "replies w = (ok 1)\<lparr>r_ready := [sd]\<rparr> # rs \<Longrightarrow> and_then (wait_for_msg sd) f w =
     f 0 (w\<lparr>replies := rs, calls := calls w @ [C_poll [sd] MAX_DELAY]\<rparr>)"
  by (simp add: wait_for_msg_def run)

lemma run_recv_len [run]:
  "replies w = msg_reply d # rs \<Longrightarrow> length d \<le> length buf \<Longrightarrow> len = int (length d) \<Longrightarrow>
   and_then (recv_len sd buf len msg) f w =
     f (recv_into buf (msg_reply d)) (w\<lparr>replies := rs, calls := calls w @ [C_recv sd len MSG_WAITALL]\<rparr>)"
  by (simp add: recv_len_def run)

lemma run_c_div [run]:
  "b \<noteq> 0 \<Longrightarrow> and_then (c_div a b) f w = f (sgn a * sgn b * (\<bar>a\<bar> div \<bar>b\<bar>)) w"
  by (simp add: c_div_def)

lemma stream_turns_return:
  "0 < len \<Longrightarrow> len \<le> length buf \<Longrightarrow> replies w = concat (replicate n (good_turn True bounce sd len)) @ rest \<Longrightarrow>
   \<exists>x w'. stream_turns sd who (int len) bounce n y buf w = (Ret x, w') \<and> replies w' = rest"
proof (induction n arbitrary: y buf w)
  case (Suc n)
  then show ?case
    by (cases bounce; cases "y = 1") (simp_all add: good_turn_def with_bytes_def run Let_def)
qed (simp add: run)

lemma echo_turns_return:
  "len \<le> length buf \<Longrightarrow> replies w = concat (replicate n (good_turn False bounce sd len)) @ rest \<Longrightarrow>
   \<exists>x w'. echo_turns sd who (int len) bounce n buf w = (Ret x, w') \<and> replies w' = rest"
proof (induction n arbitrary: buf w)
  case (Suc n)
  then show ?case
    by (cases bounce) (simp_all add: good_turn_def with_bytes_def run Let_def)
qed (simp add: run)

text \<open>
  C37. Told by the same command, a client and its server transfer the same messages: on every run
  that returns, whatever the kernel replied, the client sends as many messages of the length
  asked for as the command says, and receives each back if asked to; the server receives and
  sends the counterparts in the same order. And over a connection that works both return,
  having used up exactly the replies of the transfer.
\<close>

theorem transfer_matches:
  fixes msglen msgcnt bounce :: u32
  assumes "0 < msglen" and "uint msglen < 2 ^ 31" and "uint msgcnt < 2 ^ 31"
    and "unat msglen \<le> length buf" and "unat msglen \<le> length buf'"
  defines "es \<equiv> exchanged (bounce \<noteq> 0) (unat msgcnt) (uint msglen)"
    and "good \<equiv> (\<lambda>client sd. concat (replicate (unat msgcnt) (good_turn client (bounce \<noteq> 0) sd (unat msglen))))"
  shows "emits (obs_peer sd) (stream_messages sd who (sint msgcnt) (sint msglen) (sint bounce) buf) es \<and>
    emits (obs_peer sd') (echo_turns sd' who' (uint msglen) (bounce \<noteq> 0) (unat msgcnt) buf') (map counterpart es) \<and>
    (replies w = good True sd @ rest \<longrightarrow> (\<exists>x w'.
       stream_messages sd who (sint msgcnt) (sint msglen) (sint bounce) buf w = (Ret x, w') \<and> replies w' = rest)) \<and>
    (replies w = good False sd' @ rest \<longrightarrow> (\<exists>x w'.
       echo_turns sd' who' (uint msglen) (bounce \<noteq> 0) (unat msgcnt) buf' w = (Ret x, w') \<and> replies w' = rest))"
proof -
  have sints: "sint msglen = uint msglen" "sint msgcnt = uint msgcnt"
    using assms(2,3) sint_of_int_u32 [of "uint msglen"] sint_of_int_u32 [of "uint msgcnt"]
    by (simp_all add: order_trans [OF _ uint_ge_0])
  have ints: "int (unat msglen) = uint msglen" "nat (uint msgcnt) = unat msgcnt" by simp_all
  have len: "0 < unat msglen" using assms(1) by (simp add: unat_gt_0)
  have sent: "stream_messages sd who (sint msgcnt) (sint msglen) (sint bounce) buf w =
      stream_turns sd who (uint msglen) (bounce \<noteq> 0) (unat msgcnt) (2097152 div uint msglen) buf w" for w
    using assms(1) unfolding stream_messages_def sints
    by (subst run_c_div) (simp_all add: sgn_if word_less_def signed_eq_0_iff)
  have "emits (obs_peer sd) (stream_messages sd who (sint msgcnt) (sint msglen) (sint bounce) buf) es"
    unfolding emits_def sent es_def using emits_stream_turns [unfolded emits_def] by blast
  then show ?thesis
    using stream_turns_return [OF len assms(4), of w "unat msgcnt" "bounce \<noteq> 0" sd rest who]
      echo_turns_return [OF assms(5), of w "unat msgcnt" "bounce \<noteq> 0" sd' rest who']
      emits_echo_turns [of sd' who' "uint msglen" "bounce \<noteq> 0" "unat msgcnt" buf']
    by (simp add: sent es_def good_def)
qed

lemma replicate_2: "replicate 2 x = [x, x]"
  by (simp add: numeral_2_eq_2)

theorem transfer_matches_witness:
  "emits (obs_peer 5) (stream_messages 5 1 (sint (2 :: u32)) (sint (4 :: u32)) (sint (1 :: u32)) [1, 2, 3, 4])
      [Sent 4, Got 4, Sent 4, Got 4] \<and>
   emits (obs_peer 6) (echo_turns 6 1 4 True 2 [0, 0, 0, 0]) [Got 4, Sent 4, Got 4, Sent 4] \<and>
   (\<exists>x w'. echo_turns 6 1 4 True 2 [0, 0, 0, 0]
      (world_of (good_turn False True 6 4 @ good_turn False True 6 4)) = (Ret x, w'))"
  using transfer_matches [of 4 2 "[1, 2, 3, 4]" "[0, 0, 0, 0]" 5 1 1 6 1 "world_of (good_turn False True 6 4 @ good_turn False True 6 4)" "[]"]
  by (auto simp: exchanged_def replicate_2 world_of_def)


section \<open>Too few messages for the latency test\<close>

text \<open>
  The number of messages per size is divided by the number of the turn. Told to transfer fewer
  messages in all than there are turns, the master never completes the turn in which the
  quotient is 0: after the transfer of no message it divides the time by 0.
\<close>

lemma latency_turn_never_returns:
  assumes "ucast (latency_transf c) < iter" and "msglen \<le> ucast (last_msglen c)"
  shows "latency_turn c master_clnt_sd master_srv_sd (msglen, iter) w \<noteq> (Ret x, w')"
proof -
  have "ucast (latency_transf c) div iter = 0" using assms(1) by (rule div_word_less)
  with assms(2) show ?thesis
    by (auto simp: latency_turn_def and_then_Ret_iff u64_div_def fault_def ret_def split: if_splits)
qed

end
