(* ===== verification/Demos.thy ===== *)
theory Demos
  imports Ts_Client Tipcc
begin

text \<open>
  The small socket demos under \<^verbatim>\<open>src/demos\<close>: hello world, connections, streams, multicast, topology
  subscriptions and scatter/gather. Each is a client and a server program. \<^verbatim>\<open>wait_for_server\<close>, which
  four of the clients have in the same words, is defined once. What \<^verbatim>\<open>perror\<close> adds to a message, and
  the quotation marks around printed messages, are left out.
\<close>

definition demo_fail :: "string \<Rightarrow> 'a prog" where
  "demo_fail msg = and_then (emit (C_print msg)) (\<lambda>_. exit_prog 1)"

text \<open>The address of the topology server in a cleared structure.\<close>

definition topsrv_addr :: sockaddr_tipc where
  "topsrv_addr = \<lparr>sa_family = AF_TIPC, sa_addrtype = TIPC_ADDR_NAME, sa_scope = 0,
     sa_w0 = TIPC_TOP_SRV, sa_w1 = TIPC_TOP_SRV, sa_w2 = 0\<rparr>"

definition wait_for_server :: "u32 \<Rightarrow> u32 \<Rightarrow> int \<Rightarrow> unit prog" where
  "wait_for_server t i wait =
     and_then (sys (C_socket AF_TIPC SOCK_SEQPACKET 0)) (\<lambda>r.
     let sd = r_ret r in
     and_then (sys (C_connect sd topsrv_addr)) (\<lambda>r.
     if 0 > r_ret r then demo_fail ''Client: failed to connect to topology server'' else
     and_then uninit_subscr (\<lambda>subscr.
     and_then (sys (C_send_subscr sd (subscr\<lparr>
        sub_seq := \<lparr>seq_type = htonl t, seq_lower = htonl i, seq_upper = htonl i\<rparr>,
        sub_timeout := htonl (of_int wait), sub_filter := htonl TIPC_SUB_SERVICE\<rparr>))) (\<lambda>r.
     if r_ret r \<noteq> sizeof_subscr then demo_fail ''Client: failed to send subscription'' else
     and_then (sys (C_recv_event sd)) (\<lambda>r.
     if r_ret r \<noteq> sizeof_event then demo_fail ''Client: failed to receive event''
     else if ev_event (r_event r) \<noteq> htonl TIPC_PUBLISHED then
       demo_fail (''Client: server {'' @ show_u32 t @ '','' @ show_u32 i @
         ''} not published within '' @ show_u32 (of_int (wait div 1000)) @ '' [s]'')
     else and_then (sys (C_close sd)) (\<lambda>_. ret ()))))))"

definition demo_name :: "sockaddr_tipc \<Rightarrow> u32 \<Rightarrow> u32 \<Rightarrow> sockaddr_tipc" where
  "demo_name a t i = name_addr a \<lparr>ta_type = t, ta_instance = i, ta_domain = 0\<rparr>"

section \<open>Hello world\<close>

definition hello_client_main :: "unit prog" where
  "hello_client_main =
     and_then (emit (C_print ''****** TIPC client hello world program started ******'')) (\<lambda>_.
     and_then (wait_for_server 18888 17 10000) (\<lambda>_.
     and_then (sys (C_socket AF_TIPC SOCK_RDM 0)) (\<lambda>r.
     let sd = r_ret r; buf = str_bytes ''Hello World'' @ replicate 28 0 in
     and_then uninit_addr (\<lambda>a.
     and_then (sys (C_sendto sd (str_bytes ''Hello World'') 0 (demo_name a 18888 17))) (\<lambda>r.
     if 0 > r_ret r then demo_fail ''Client: failed to send'' else
     and_then (receive (C_recv sd 40 0) buf) (\<lambda>r.
     if 0 \<ge> r_ret r then demo_fail ''Client: unexpected response'' else
     and_then (string_of (recv_into buf r)) (\<lambda>s.
     and_then (emit (C_print (''Client: received response: '' @ s))) (\<lambda>_.
     and_then (emit (C_print ''****** TIPC client hello program finished ******'')) (\<lambda>_.
     exit_prog 0)))))))))"

definition hello_server_main :: "unit prog" where
  "hello_server_main =
     and_then (emit (C_print ''****** TIPC server hello world program started ******'')) (\<lambda>_.
     and_then (sys (C_socket AF_TIPC SOCK_RDM 0)) (\<lambda>r.
     let sd = r_ret r in
     and_then (sys (C_bind sd (seq_addr 18888 17 17 TIPC_ZONE_SCOPE))) (\<lambda>r.
     if 0 \<noteq> r_ret r then demo_fail ''Server: failed to bind port name'' else
     and_then uninit_addr (\<lambda>a.
     and_then (uninit_bytes 40) (\<lambda>inbuf.
     and_then (receive (C_recvfrom sd 40 0) inbuf) (\<lambda>r.
     let client_addr = (if r_ret r \<ge> 0 then r_addr r else a) in
     and_then (only_if (0 \<ge> r_ret r) (emit (C_print ''Server: unexpected message''))) (\<lambda>_.
     and_then (string_of (recv_into inbuf r)) (\<lambda>s.
     and_then (emit (C_print (''Server: Message received: '' @ s @ '' !''))) (\<lambda>_.
     and_then (sys (C_sendto sd (str_bytes ''Uh ?'') 0 client_addr)) (\<lambda>r.
     and_then (only_if (0 > r_ret r) (emit (C_print ''Server: failed to send''))) (\<lambda>_.
     and_then (emit (C_print ''****** TIPC server hello program finished ******'')) (\<lambda>_.
     exit_prog 0))))))))))))"

section \<open>Connections\<close>

text \<open>Copying a text to the buffer, and the answer to a message that has been sent.\<close>

definition strcpy :: "bytes \<Rightarrow> string \<Rightarrow> bytes" where
  "strcpy buf s = overwrite buf 0 (str_bytes s)"

definition connection_reply :: "int \<Rightarrow> bytes \<Rightarrow> bytes prog" where
  "connection_reply sd buf =
     and_then (receive (C_recv sd 40 0) buf) (\<lambda>r.
     if 0 \<ge> r_ret r then demo_fail ''Client: failed to receive'' else
     and_then (string_of (recv_into buf r)) (\<lambda>s.
     and_then (emit (C_print (''Client: received response '' @ s))) (\<lambda>_. ret (recv_into buf r))))"

definition connection_client_main :: "unit prog" where
  "connection_client_main =
     and_then (emit (C_print ''****** TIPC connection demo client started ******'')) (\<lambda>_.
     and_then (wait_for_server 18888 17 10000) (\<lambda>_.
     and_then uninit_addr (\<lambda>a.
     and_then (uninit_bytes 40) (\<lambda>buf.
     let server_addr = demo_name a 18888 17 in
     and_then (emit (C_print ''Client: connection setup 1 - standard (TCP style) connect'')) (\<lambda>_.
     and_then (sys (C_socket AF_TIPC SOCK_SEQPACKET 0)) (\<lambda>r.
     let sd = r_ret r in
     and_then (sys (C_connect sd server_addr)) (\<lambda>r.
     if r_ret r \<noteq> 0 then demo_fail ''Client: connect failed'' else
     and_then (emit (C_print ''Client: connection established'')) (\<lambda>_.
     let buf = strcpy buf ''Hello World'' in
     and_then (sys (C_send sd (str_bytes ''Hello World'') 0)) (\<lambda>r.
     if 0 > r_ret r then demo_fail ''Client: failed to send'' else
     and_then (emit (C_print ''Client: Sent msg Hello World'')) (\<lambda>_.
     and_then (connection_reply sd buf) (\<lambda>buf.
     and_then (emit (C_print ''Client: shutting down connection'')) (\<lambda>_.
     and_then (sys (C_shutdown sd)) (\<lambda>_.
     and_then (sys (C_close sd)) (\<lambda>_.
     and_then (emit (C_print ''Client: connection setup 2 - optimized (TIPC style) connect'')) (\<lambda>_.
     and_then (sys (C_socket AF_TIPC SOCK_SEQPACKET 0)) (\<lambda>r.
     let sd = r_ret r; buf = strcpy buf ''Hello Again'' in
     and_then (sys (C_sendto sd (str_bytes ''Hello Again'') 0 server_addr)) (\<lambda>r.
     if 0 > r_ret r then demo_fail ''Client: failed to send'' else
     and_then (emit (C_print ''Client: sent msg Hello Again'')) (\<lambda>_.
     and_then (connection_reply sd buf) (\<lambda>_.
     and_then (emit (C_print ''Client: killing connection without shutdown'')) (\<lambda>_.
     and_then (sys (C_close sd)) (\<lambda>_.
     and_then (emit (C_print ''Client: connection setup 3 - optimized (TIPC style) connect'')) (\<lambda>_.
     and_then (sys (C_socket AF_TIPC SOCK_SEQPACKET 0)) (\<lambda>r.
     and_then (sys (C_sendto (r_ret r) (str_bytes ''Hello Again Again'') 0 server_addr)) (\<lambda>r.
     if 0 > r_ret r then demo_fail ''Client: failed to send'' else
     and_then (emit (C_print ''Client: sent msg Hello Again Again'')) (\<lambda>_.
     and_then (emit (C_print ''Client: will now exit without closing socket!!'')) (\<lambda>_.
     exit_prog 0))))))))))))))))))))))))))"

text \<open>The process that serves connection number \<open>n\<close>; its buffer is its state.\<close>

definition connection_turn :: "int \<Rightarrow> int \<Rightarrow> bytes \<Rightarrow> (bytes + unit) prog" where
  "connection_turn peer_sd n inbuf =
     (let server = ''Server '' @ show_int n; response = ''Response for test '' @ show_int n in
      and_then (receive (C_recv peer_sd 40 0) inbuf) (\<lambda>r.
      if r_ret r = 0 then
        and_then (emit (C_print (server @ '': client terminated normally''))) (\<lambda>_. exit_prog 0)
      else if r_ret r < 0 then demo_fail (server @ '' : client terminated abnormally'')
      else
      let inbuf = recv_into inbuf r in
      and_then (string_of inbuf) (\<lambda>s.
      and_then (emit (C_print (server @ '': received msg '' @ s))) (\<lambda>_.
      and_then (sys (C_send peer_sd (str_bytes response) 0)) (\<lambda>r.
      if 0 \<ge> r_ret r then demo_fail (server @ '' : failed to send response'') else
      and_then (emit (C_print (server @ '': responded with '' @ response))) (\<lambda>_.
      ret (Inl inbuf)))))))"

definition connection_server_main :: "unit prog" where
  "connection_server_main =
     and_then (emit (C_print ''****** TIPC connection demo server started ******'')) (\<lambda>_.
     and_then (sys (C_socket AF_TIPC SOCK_SEQPACKET 0)) (\<lambda>r.
     let listener_sd = r_ret r in
     and_then (sys (C_bind listener_sd (seq_addr 18888 17 17 TIPC_ZONE_SCOPE))) (\<lambda>r.
     if 0 \<noteq> r_ret r then demo_fail ''Server: failed to bind port name'' else
     and_then (sys (C_listen listener_sd 0)) (\<lambda>r.
     if 0 \<noteq> r_ret r then demo_fail ''Server: failed to listen'' else
     and_then (for_each [1, 2, 3] (\<lambda>conn_count.
       and_then (sys (C_accept listener_sd)) (\<lambda>r.
       let peer_sd = r_ret r in
       if peer_sd < 0 then demo_fail ''Server: accept failed'' else
       and_then (emit (C_print ''Server: accept() returned'')) (\<lambda>_.
       and_then (sys C_fork) (\<lambda>r.
       if r_ret r \<noteq> 0 then ret () else
       and_then (emit (C_print (''Server process '' @ show_int conn_count @ '' created''))) (\<lambda>_.
       and_then (uninit_bytes 40) (\<lambda>inbuf.
       loop (connection_turn peer_sd conn_count) inbuf))))))) (\<lambda>_.
     exit_prog 0)))))"

section \<open>Streams\<close>

text \<open>
  The records of the stream demo: the length in network order, then as many bytes with the
  length as their value. The sizes and the cutting into messages are those of the test suite's
  stream test. The line that reports each record as it is created is left out.
\<close>

definition demo_record :: "nat \<Rightarrow> bytes" where
  "demo_record rec_size = int_bytes (htonl (of_nat rec_size)) @ replicate rec_size (of_nat rec_size)"

function demo_fill :: "nat \<Rightarrow> nat \<Rightarrow> nat \<Rightarrow> bytes \<Rightarrow> nat \<times> nat \<times> bytes" where
  "demo_fill tot_size rec_size num buf =
     (if tot_size + 4 + rec_size \<le> 2000
      then demo_fill (tot_size + (4 + rec_size)) (next_rec_size rec_size) (num + 1)
             (overwrite buf tot_size (demo_record rec_size))
      else (tot_size, num, buf))"
  by pat_completeness auto
termination
  by (relation "measure (\<lambda>(tot_size, _, _, _). 2001 - tot_size)") auto

declare demo_fill.simps [simp del]

definition stream_client_main :: "unit prog" where
  "stream_client_main =
     and_then (emit (C_print ''****** TIPC stream demo client started ******'')) (\<lambda>_.
     and_then (wait_for_server 8888 17 10000) (\<lambda>_.
     and_then (sys (C_socket AF_TIPC SOCK_STREAM 0)) (\<lambda>r.
     let sd = r_ret r in
     and_then uninit_addr (\<lambda>a.
     and_then (sys (C_connect sd (demo_name a 8888 17))) (\<lambda>r.
     if r_ret r \<noteq> 0 then demo_fail ''Client: connect failed'' else
     and_then (uninit_bytes 2000) (\<lambda>buf.
     let (tot_size, num, buf) = demo_fill 0 1 0 buf in
     and_then (emit (C_print ''Client: sending records using 80 byte messages'')) (\<lambda>_.
     and_then (for_each (fragments 0 tot_size) (\<lambda>(sent_size, msg_size).
       and_then (sys (C_send sd (take msg_size (drop sent_size buf)) 0)) (\<lambda>r.
       if 0 > r_ret r then demo_fail ''Client: failed to send'' else ret ()))) (\<lambda>_.
     and_then (emit (C_print ''Client: waiting for server acknowledgements'')) (\<lambda>_.
     and_then (sys (C_recv sd (int num) MSG_WAITALL)) (\<lambda>r.
     if r_ret r \<noteq> int num then demo_fail ''Client: acknowledge error 1'' else
     and_then (sys (C_recv sd 1 MSG_DONTWAIT)) (\<lambda>r.
     if r_ret r \<ge> 0 then demo_fail ''Client: acknowledge error 2'' else
     and_then (emit (C_print (''Client: received '' @ show_int (int num) @ '' acknowledgements''))) (\<lambda>_.
     and_then (sys (C_shutdown sd)) (\<lambda>_.
     and_then (sys (C_close sd)) (\<lambda>_.
     and_then (emit (C_print ''****** TIPC stream demo client finished ******'')) (\<lambda>_.
     exit_prog 0)))))))))))))))"

text \<open>One record: it is compared from its last byte to the first, and then acknowledged.\<close>

definition stream_turn :: "int \<Rightarrow> int \<times> bytes \<Rightarrow> ((int \<times> bytes) + unit) prog" where
  "stream_turn peer_sd = (\<lambda>(num, inbuf).
     and_then (receive (C_recv peer_sd 4 MSG_WAITALL) inbuf) (\<lambda>r.
     let inbuf = recv_into inbuf r in
     if r_ret r = 0 then
       and_then (emit (C_print ''Server: client terminated normally'')) (\<lambda>_. exit_prog 0)
     else if r_ret r < 0 then demo_fail ''Server: client terminated abnormally''
     else
     let num = num + 1; rec_size = sint (ntohl (bytes_int inbuf)) in
     and_then (emit (C_print (''Server: receiving record '' @ show_int num @ '' of '' @
       show_u32 (of_int rec_size) @ '' bytes''))) (\<lambda>_.
     and_then (receive (C_recv peer_sd rec_size MSG_WAITALL) inbuf) (\<lambda>r.
     let inbuf = recv_into inbuf r; msg_size = r_ret r in
     if msg_size \<noteq> rec_size then
       demo_fail (''Server: receive error, got '' @ show_int msg_size @ '' bytes'')
     else if \<exists>k < nat msg_size. uint (inbuf ! k) \<noteq> rec_size then demo_fail ''Server: record content error''
     else
     and_then (emit (C_print (''Server: record '' @ show_int num @ '' received''))) (\<lambda>_.
     and_then (sys (C_send peer_sd (map of_char ''X'') 0)) (\<lambda>r.
     if 0 \<ge> r_ret r then demo_fail ''Server: failed to send response'' else
     and_then (emit (C_print (''Server: record '' @ show_int num @ '' acknowledged''))) (\<lambda>_.
     ret (Inl (num, inbuf)))))))))"

definition stream_server_main :: "unit prog" where
  "stream_server_main =
     and_then (emit (C_print ''****** TIPC stream demo server started ******'')) (\<lambda>_.
     and_then (sys (C_socket AF_TIPC SOCK_STREAM 0)) (\<lambda>r.
     let listener_sd = r_ret r in
     if listener_sd < 0 then demo_fail ''Server: unable to create socket'' else
     and_then (sys (C_bind listener_sd (seq_addr 8888 17 17 TIPC_ZONE_SCOPE))) (\<lambda>r.
     if r_ret r \<noteq> 0 then demo_fail ''Server: failed to bind port name'' else
     and_then (sys (C_listen listener_sd 0)) (\<lambda>r.
     if 0 \<noteq> r_ret r then demo_fail ''Server: failed to listen'' else
     and_then (sys (C_accept listener_sd)) (\<lambda>r.
     if r_ret r < 0 then demo_fail ''Server: failed to accept connection'' else
     and_then (uninit_bytes 256) (\<lambda>inbuf.
     loop (stream_turn (r_ret r)) (0, inbuf)))))))"

section \<open>Multicast\<close>

definition seq_text :: "int \<Rightarrow> int \<Rightarrow> string" where
  "seq_text lower upper = ''{18888,'' @ show_u32 (of_int lower) @ '','' @ show_u32 (of_int upper) @ ''}''"

text \<open>A negative descriptor asks for the message that ends the servers.\<close>

definition demo_mcast :: "int \<Rightarrow> int \<Rightarrow> int \<Rightarrow> unit prog" where
  "demo_mcast sd lower upper =
     and_then uninit_addr (\<lambda>a.
     let server_addr = a\<lparr>sa_family := AF_TIPC, sa_addrtype := TIPC_ADDR_MCAST,
                         sa_w0 := 18888, sa_w1 := of_int lower, sa_w2 := of_int upper\<rparr>;
         msg = (if sd \<ge> 0 then ''message to '' @ seq_text lower upper else []) in
     and_then (emit (C_print (if sd \<ge> 0 then ''Client: sending '' @ msg
       else ''Client: sending termination message to '' @ seq_text lower upper))) (\<lambda>_.
     and_then (sys (C_sendto \<bar>sd\<bar> (str_bytes msg) 0 server_addr)) (\<lambda>r.
     if 0 > r_ret r then demo_fail ''Client: failed to send'' else ret ())))"

text \<open>\<^verbatim>\<open>sscanf(arg, "%u%c", ..) == 1\<close>: a number and nothing after it.\<close>

definition scan_only :: "string \<Rightarrow> int option" where
  "scan_only s = (case scan_int s of Some (n, []) \<Rightarrow> Some n | _ \<Rightarrow> None)"

definition mcast_range :: "string \<Rightarrow> string list \<Rightarrow> (int \<times> int) prog" where
  "mcast_range who args =
     (case scan_only (args ! 0) of
        None \<Rightarrow> demo_fail (who @ '': invalid lower bound'')
      | Some lower \<Rightarrow>
          if length args > 1 then
            (case scan_only (args ! 1) of
               None \<Rightarrow> demo_fail (who @ '': invalid upper bound'')
             | Some upper \<Rightarrow> ret (lower, upper))
          else ret (lower, lower))"

definition mcast_client_main :: "string list \<Rightarrow> unit prog" where
  "mcast_client_main args =
     and_then (sys (C_socket AF_TIPC SOCK_RDM 0)) (\<lambda>r.
     let sd = r_ret r in
     if sd < 0 then demo_fail ''TIPC not active on this node''
     else if args = [] then
       and_then (emit (C_print ''****** TIPC client multicast demo started ******'')) (\<lambda>_.
       and_then (wait_for_server 18888 399 10000) (\<lambda>_.
       and_then (demo_mcast sd 99 100) (\<lambda>_.
       and_then (demo_mcast sd 150 250) (\<lambda>_.
       and_then (demo_mcast sd 200 399) (\<lambda>_.
       and_then (demo_mcast sd 0 399) (\<lambda>_.
       and_then (demo_mcast (- sd) 0 399) (\<lambda>_.
       and_then (emit (C_print ''****** TIPC client multicast demo finished ******'')) (\<lambda>_.
       exit_prog 0))))))))
     else
       and_then (mcast_range ''Client'' args) (\<lambda>(lower, upper).
       and_then (demo_mcast (if length args > 2 then - sd else sd) lower upper) (\<lambda>_.
       exit_prog 0)))"

definition mcast_server_turn :: "int \<Rightarrow> int \<Rightarrow> int \<Rightarrow> bytes \<Rightarrow> (bytes + unit) prog" where
  "mcast_server_turn sd lower upper buf =
     and_then (receive (C_recvfrom sd 100 0) buf) (\<lambda>r.
     let buf = recv_into buf r; port = ''Server: port '' @ seq_text lower upper in
     and_then (only_if (0 > r_ret r) (emit (C_print ''Server: port receive failed''))) (\<lambda>_.
     if buf ! 0 = 0 then and_then (emit (C_print (port @ '' terminated''))) (\<lambda>_. exit_prog 0) else
     and_then (string_of buf) (\<lambda>s.
     and_then (emit (C_print (port @ '' received: '' @ s))) (\<lambda>_.
     ret (Inl buf)))))"

definition demo_mcast_server :: "int \<Rightarrow> int \<Rightarrow> unit prog" where
  "demo_mcast_server lower upper =
     and_then (sys (C_socket AF_TIPC SOCK_RDM 0)) (\<lambda>r.
     let sd = r_ret r; port = ''Server: port '' @ seq_text lower upper in
     and_then (sys (C_bind sd (seq_addr 18888 (of_int lower) (of_int upper) TIPC_CLUSTER_SCOPE))) (\<lambda>r.
     if r_ret r \<noteq> 0 then demo_fail (port @ '' could not be created'') else
     and_then (emit (C_print (port @ '' created''))) (\<lambda>_.
     and_then (uninit_bytes 100) (\<lambda>buf.
     loop (mcast_server_turn sd lower upper) buf))))"

definition mcast_server_main :: "string list \<Rightarrow> unit prog" where
  "mcast_server_main args =
     (if args = [] then
        and_then (sys (C_signal 17)) (\<lambda>r.
        if r_ret r = -1 then demo_fail ''Server: can't catch child termination signals'' else
        and_then (for_each [(0, 99), (100, 199), (200, 299), (300, 399)] (\<lambda>(lower, upper).
          and_then (sys C_fork) (\<lambda>r.
          if r_ret r = 0 then demo_mcast_server lower upper else ret ()))) (\<lambda>_.
        exit_prog 0))
      else
        and_then (mcast_range ''Server'' args) (\<lambda>(lower, upper).
        and_then (demo_mcast_server lower upper) (\<lambda>_. exit_prog 0)))"

section \<open>Topology subscriptions\<close>

text \<open>The first byte of the user handle is a signed char.\<close>

definition sub_text :: "string \<Rightarrow> tipc_subscr \<Rightarrow> string" where
  "sub_text str s = str @ '' {'' @ show_u32 (ntohl (seq_type (sub_seq s))) @ '','' @
     show_u32 (ntohl (seq_lower (sub_seq s))) @ '','' @ show_u32 (ntohl (seq_upper (sub_seq s))) @
     ''}, timeout '' @ show_u32 (ntohl (sub_timeout s)) @ '', user ref: '' @
     show_u32 (scast (sub_handle s ! 0))"

definition print_evt :: "string \<Rightarrow> tipc_event \<Rightarrow> unit prog" where
  "print_evt str evt =
     (let e = ev_event evt in
      and_then (emit (C_print (str @ '' ''))) (\<lambda>_.
      if e \<notin> {htonl TIPC_PUBLISHED, htonl TIPC_WITHDRAWN, htonl TIPC_SUBSCR_TIMEOUT}
      then emit (C_print (''unknown event type ('' @ show_u32 (ntohl e) @ '')''))
      else
      and_then (emit (C_print (if e = htonl TIPC_PUBLISHED then ''published ''
        else if e = htonl TIPC_WITHDRAWN then ''withdrawn '' else ''timeout ''))) (\<lambda>_.
      and_then (emit (C_print (''{'' @ show_u32 (ntohl (seq_type (sub_seq (ev_s evt)))) @ '','' @
        show_u32 (ntohl (ev_found_lower evt)) @ '','' @ show_u32 (ntohl (ev_found_upper evt)) @
        ''} port id <'' @ show_hex (unat (ntohl (port_node (ev_port evt)))) @ '':'' @
        show_u32 (ntohl (port_ref (ev_port evt))) @ ''>''))) (\<lambda>_.
      and_then (only_if (seq_type (sub_seq (ev_s evt)) \<noteq> htonl 0)
        (emit (C_print (''associated with network node '' @ show_hex (unat (ntohl (port_node (ev_port evt)))))))) (\<lambda>_.
      emit (C_print (sub_text ''generated by subscription to'' (ev_s evt))))))))"

definition topo_turn :: "int \<Rightarrow> unit \<Rightarrow> (unit + unit) prog" where
  "topo_turn sd _ =
     and_then (sys (C_recv_event sd)) (\<lambda>r.
     if r_ret r = sizeof_event
     then and_then (print_evt ''Client: received event for'' (r_event r)) (\<lambda>_. ret (Inl ()))
     else ret (Inr ()))"

definition topo_client_main :: "string list \<Rightarrow> unit prog" where
  "topo_client_main args =
     and_then (emit (C_print ''TIPC Topology subscriber started'')) (\<lambda>_.
     and_then (sys (C_socket AF_TIPC SOCK_SEQPACKET 0)) (\<lambda>r.
     let sd = r_ret r in
     and_then (sys (C_connect sd topsrv_addr)) (\<lambda>r.
     if 0 > r_ret r then demo_fail ''Client: failed to connect to topology server'' else
     and_then (emit (C_print ''Client: connected to topology server'')) (\<lambda>_.
     and_then uninit_subscr (\<lambda>s.
     let num = (\<lambda>i. of_int (atoi (args ! i)));
         subscr = \<lparr>sub_seq = \<lparr>seq_type = htonl (if length args > 0 then num 0 else 18888), seq_lower = htonl 0,
                              seq_upper = htonl 100\<rparr>,
                   sub_timeout = htonl (if length args > 1 then num 1 else 500000),
                   sub_filter = htonl TIPC_SUB_SERVICE,
                   sub_handle = (sub_handle s)[0 := (if length args > 2 then of_int (atoi (args ! 2)) else 2)]\<rparr> in
     and_then (sys (C_send_subscr sd subscr)) (\<lambda>r.
     if r_ret r \<noteq> sizeof_subscr then demo_fail ''Client: failed to subscribe to subscription server name'' else
     and_then (emit (C_print (sub_text ''Client: issued subscription to'' subscr))) (\<lambda>_.
     let subscr = \<lparr>sub_seq = \<lparr>seq_type = htonl 0, seq_lower = htonl 0, seq_upper = htonl (NOT 0)\<rparr>,
                   sub_timeout = htonl TIPC_WAIT_FOREVER, sub_filter = htonl TIPC_SUB_PORTS,
                   sub_handle = (sub_handle subscr)[0 := 3]\<rparr> in
     and_then (sys (C_send_subscr sd subscr)) (\<lambda>r.
     if r_ret r \<noteq> sizeof_subscr then demo_fail ''Client: failed to subscribe to network node names'' else
     and_then (emit (C_print (sub_text ''Client: issued subscription to'' subscr))) (\<lambda>_.
     and_then (emit (C_print ''Client: subscriptions remain active until client is killed'')) (\<lambda>_.
     and_then (loop (topo_turn sd) ()) (\<lambda>_.
     demo_fail ''Client: failed to receive event'')))))))))))"

definition topo_bind :: "int \<Rightarrow> u32 \<Rightarrow> u32 \<Rightarrow> string \<Rightarrow> unit prog" where
  "topo_bind sd lower upper msg =
     and_then (sys (C_bind sd (seq_addr 18888 lower upper TIPC_ZONE_SCOPE))) (\<lambda>r.
     if 0 \<noteq> r_ret r then demo_fail ''Server: failed to bind port name''
     else emit (C_print (msg @ '' {18888,'' @ show_u32 lower @ '','' @ show_u32 upper @ ''} scope 1'')))"

definition topo_server_main :: "unit prog" where
  "topo_server_main =
     and_then (sys (C_socket AF_TIPC SOCK_RDM 0)) (\<lambda>r.
     and_then (topo_bind (r_ret r) 6 53 ''Server: bound port A to'') (\<lambda>_.
     and_then (topo_bind (r_ret r) 6 53 ''Server: bound port A to name sequence'') (\<lambda>_.
     and_then (topo_bind (r_ret r) 54 55 ''Server: bound port A to name sequence'') (\<lambda>_.
     and_then (sys (C_socket AF_TIPC SOCK_RDM 0)) (\<lambda>r.
     and_then (topo_bind (r_ret r) 54 55 ''Server: bound port B to name sequence'') (\<lambda>_.
     and_then (emit (C_print ''Server: port names remain published until server is killed'')) (\<lambda>_.
     spin)))))))"

section \<open>Scatter and gather\<close>

definition iov_die :: "'a prog" where
  "iov_die = and_then (emit (C_print [])) (\<lambda>_. exit_prog (-1))"

definition iov_client :: "unit prog" where
  "iov_client =
     and_then (sys C_rand) (\<lambda>r.
     let inst = of_int (r_ret r);
         sa = \<lparr>sa_family = AF_TIPC, sa_addrtype = TIPC_ADDR_NAME, sa_scope = 0, sa_w0 = 666, sa_w1 = inst, sa_w2 = 0\<rparr> in
     and_then (sys (C_socket AF_TIPC SOCK_RDM 0)) (\<lambda>r.
     let sd = r_ret r in
     if sd = 0 then iov_die else
     and_then (emit (C_sleep 1)) (\<lambda>_.
     and_then (emit (C_print (''Client: Send packet to {666, '' @ show_u32 inst @ ''}''))) (\<lambda>_.
     and_then (sys (C_sendto sd (map of_char ''HDDDDDDD'') 0 sa)) (\<lambda>_. ret ())))))"

text \<open>
  The message is scattered to one byte of header and seven bytes of data. The test of the
  level of the ancillary data is an assignment, and so always true; the last object of the
  type sought is taken.
\<close>

definition iov_server :: "unit prog" where
  "iov_server =
     and_then (sys (C_socket AF_TIPC SOCK_RDM 0)) (\<lambda>r.
     let sd = r_ret r in
     if sd = 0 then iov_die else
     and_then (sys (C_bind sd (seq_addr 666 0 (NOT 0) TIPC_ZONE_SCOPE))) (\<lambda>r.
     if 0 \<noteq> r_ret r then iov_die else
     and_then (uninit_bytes 8) (\<lambda>buf.
     and_then (receive (C_recvmsg sd 8) buf) (\<lambda>r.
     if r_ret r \<le> 0 then iov_die else
     let buf = recv_into buf r; header = buf ! 0; data = drop 1 buf in
     and_then (emit (C_print (''Server received '' @ show_int (r_ret r) @ '' bytes''))) (\<lambda>_.
     case filter (\<lambda>c. cmsg_type c = TIPC_DESTNAME) (r_anc r) of
       [] \<Rightarrow> emit (C_print ''Fail'')
     | c # cs \<Rightarrow>
         let name = last (c # cs) in
         and_then (cmsg_word name 0) (\<lambda>type.
         and_then (cmsg_word name 1) (\<lambda>lower.
         and_then (cmsg_word name 2) (\<lambda>upper.
         and_then (emit (C_print (''Message was sent to {'' @ show_u32 (of_int type) @ '', '' @
           show_u32 (of_int lower) @ '', '' @ show_u32 (of_int upper) @ ''}''))) (\<lambda>_.
         and_then (string_of data) (\<lambda>s.
         emit (C_print (''Header: '' @ [char_of (unat header)] @ '' Data:'' @ s))))))))))))"

definition iov_main :: "unit prog" where
  "iov_main =
     and_then (sys C_fork) (\<lambda>r.
     and_then (if r_ret r = 0 then iov_client else iov_server) (\<lambda>_. exit_prog 0))"

end
