(* ===== verification/Demo_Props.thy ===== *)
theory Demo_Props
  imports Demos Ts_Data
begin

text \<open>
  The stream demo from the client's buffer to the server's last acknowledgement. The two
  programs do what the stream test of the test suite does, whose lemmas carry the proofs.
\<close>

lemma demo_record_eq: "demo_record = stream_record"
  by (rule ext) (simp add: demo_record_def stream_record_header)

lemma demo_fill_eq: "demo_fill tot r n buf = stream_fill tot r n buf"
proof (induction tot r n buf rule: demo_fill.induct)
  case (1 tot r n buf)
  then show ?case by (subst demo_fill.simps, subst stream_fill.simps) (simp add: demo_record_eq)
qed

section \<open>The server\<close>

lemma turns_stream: "turns (stream_turn fd s)"
  by (cases s) (auto simp: stream_turn_def demo_fail_def and_then_assoc Let_def intro!: waits_intros intro: turns_waits)

interpretation demo: record_server stream_turn "\<lambda>_. Exit 0"
proof
  show "turns (stream_turn fd s)" for fd s by (rule turns_stream)
next
  fix inbuf bs :: bytes and k rs fd n and w :: world
  assume a: "length inbuf = 256" "0 < k" "k \<le> 255"
    "replies w = [msg_reply (int_bytes (htonl (of_nat k))), msg_reply (replicate k (of_nat k)), ok 1] @ rs"
  let ?say = "\<lambda>s. C_print (''Server: record '' @ show_int (n + 1) @ s)"
  let ?cs = "[C_recv fd 4 MSG_WAITALL, C_print (''Server: receiving record '' @ show_int (n + 1) @ '' of '' @
      show_u32 (of_int (int k)) @ '' bytes''), C_recv fd (int k) MSG_WAITALL, ?say '' received'',
      C_send fd (map of_char ''X'') 0, ?say '' acknowledged'']"
  let ?w = "w\<lparr>replies := rs, calls := calls w @ ?cs\<rparr>"
  have "\<exists>inbuf'. stream_turn fd (n, inbuf) w = (Ret (Inl (n + 1, inbuf')), ?w) \<and> length inbuf' = 256"
    using a record_received [OF a(1-3)] by (auto simp: stream_turn_def run Let_def)
  moreover have "streams fd (stream_record k @ bs) bs w ?w"
    using a(4) by (intro streamsI [where cs = ?cs]) (auto simp: stream_record_header)
  ultimately show "\<exists>inbuf' w'. stream_turn fd (n, inbuf) w = (Ret (Inl (n + 1, inbuf')), w') \<and> length inbuf' = 256 \<and>
      replies w' = rs \<and> acks fd 1 w w' \<and> streams fd (stream_record k @ bs) bs w w'"
    by (auto simp: acks_def)
next
  fix w :: world and rs fd n and inbuf :: bytes
  assume "length inbuf = 256" "replies w = ok 0 # rs"
  then show "\<exists>w'. stream_turn fd (n, inbuf) w = (map_outcome Inr (Exit 0), w') \<and> replies w' = rs \<and>
      acks fd 0 w w' \<and> streams fd [] [] w w'"
    by (auto simp: stream_turn_def run Let_def acks_def ok_0 intro!: streamsI [where rs = "[msg_reply []]"])
qed

section \<open>The client\<close>

fun payload_of :: "call \<Rightarrow> bytes" where
  "payload_of (C_send sd d f) = d"
| "payload_of _ = []"

definition payload :: "call list \<Rightarrow> bytes" where
  "payload cs = concat (map payload_of cs)"

lemma payload_append [simp]: "payload (cs @ ds) = payload cs @ payload ds" "payload [] = []"
  "payload (c # cs) = payload_of c @ payload cs"
  by (simp_all add: payload_def)

lemma run_sends:
  "replies w = replicate (length fs) (ok 1) @ rs \<Longrightarrow>
   and_then (for_each fs (\<lambda>(s, m). and_then (sys (C_send sd (take m (drop s buf)) 0)) (\<lambda>r.
       if 0 > r_ret r then demo_fail msg else ret ()))) f w =
     f () (w\<lparr>replies := rs, calls := calls w @ map (\<lambda>(s, m). C_send sd (take m (drop s buf)) 0) fs\<rparr>)"
proof (induction fs arbitrary: w)
  case Nil
  then show ?case by (cases w) (simp add: run)
next
  case (Cons p fs)
  obtain s m where "p = (s, m)" by (cases p)
  with Cons show ?case by (simp add: run)
qed

text \<open>The kernel's replies to a client whose server is there.\<close>

definition client_setup :: "reply list" where
  "client_setup = [ok 3, ok 0, ok sizeof_subscr,
     (ok sizeof_event)\<lparr>r_event := (r_event (ok 0))\<lparr>ev_event := htonl TIPC_PUBLISHED\<rparr>\<rparr>, ok 0]"

lemma run_wait_for_server [run]:
  "replies w = client_setup @ rs \<Longrightarrow> and_then (wait_for_server t i n) f w =
     f () (w\<lparr>replies := rs, calls := calls w @ [C_socket AF_TIPC SOCK_SEQPACKET 0, C_connect 3 topsrv_addr,
       C_send_subscr 3 (stk_subscr w\<lparr>sub_seq := \<lparr>seq_type = htonl t, seq_lower = htonl i, seq_upper = htonl i\<rparr>,
         sub_timeout := htonl (of_int n), sub_filter := htonl TIPC_SUB_SERVICE\<rparr>), C_recv_event 3, C_close 3]\<rparr>)"
  by (simp add: wait_for_server_def client_setup_def run Let_def)

lemma payload_sends:
  "payload (map (\<lambda>(s, m). C_send sd (take m (drop s buf)) 0) fs) = concat (map (\<lambda>(off, n). take n (drop off buf)) fs)"
  by (induction fs) auto

lemma stream_client_runs:
  assumes "demo_fill 0 1 0 (take 2000 (stk_bytes w @ replicate 2000 0)) = (tot, num, buf)"
    and "replies w = client_setup @ [ok 4, ok 0] @ replicate (length (fragments 0 tot)) (ok 1) @
      [ok (int num), ok (-1), ok 0, ok 0]"
  shows "\<exists>w'. stream_client_main w = (Exit 0, w') \<and> payload (calls w') =
    payload (calls w) @ concat (map (\<lambda>(off, n). take n (drop off buf)) (fragments 0 tot))"
  using assms by (simp add: stream_client_main_def run run_sends payload_sends)

text \<open>
  C38. The stream demo completes. When its server is there, the client runs to its end with status
  0, whatever its buffer held before. A server that reads the bytes the client sent, in pieces
  of its own, finds every record intact, sends as many acknowledgements as the client waits
  for, and ends with status 0 when the stream ends. The replies of this run are what a stream
  socket that holds the bytes the client sent gives to the calls that the server makes.
\<close>

theorem stream_demo_completes:
  assumes "demo_fill 0 1 0 (take 2000 (stk_bytes w @ replicate 2000 0)) = (tot, num, buf)"
    and "replies w = client_setup @ [ok 4, ok 0] @ replicate (length (fragments 0 tot)) (ok 1) @
      [ok (int num), ok (-1), ok 0, ok 0]" and "calls w = []" and "length inbuf = 256"
  shows "fst (stream_client_main w) = Exit 0 \<and> (\<exists>ds. \<forall>v rs. replies v = ds @ rs \<longrightarrow>
    (\<exists>v' cs. loop (stream_turn fd) (0, inbuf) v = (Exit 0, v') \<and> replies v' = rs \<and> calls v' = calls v @ cs \<and>
       served fd (payload (calls (snd (stream_client_main w)))) cs ds = Some [] \<and>
       filter acknowledges cs = replicate num (C_send fd (map of_char ''X'') 0)))"
proof -
  let ?ks = "rec_sizes 0 1"
  have f: "num = length ?ks" "length buf = 2000" "tot \<le> 2000" "take tot buf = concat (map stream_record ?ks)"
    using stream_fill_spec [of "take 2000 (stk_bytes w @ replicate 2000 0)" 0 1 0] assms(1) by (auto simp: demo_fill_eq)
  obtain w' where w': "stream_client_main w = (Exit 0, w')"
    "payload (calls w') = concat (map (\<lambda>(off, n). take n (drop off buf)) (fragments 0 tot))"
    using stream_client_runs [OF assms(1,2)] assms(3) by auto
  have sent: "payload (calls w') = concat (map stream_record ?ks)"
    using w' f fragments_cover [of 0 tot buf] by simp
  have "\<forall>k \<in> set ?ks. 0 < k \<and> k \<le> 255" using rec_sizes_bounds [of 1] by auto
  from demo.serves_stream [OF assms(4) this, of fd 0, folded sent f(1)] w'(1) show ?thesis by simp
qed

theorem stream_demo_completes_witness:
  "\<exists>rs ds v'. fst (stream_client_main (world_of rs)) = Exit 0 \<and>
     loop (stream_turn 5) (0, replicate 256 0) (world_of ds) = (Exit 0, v') \<and>
     served 5 (payload (calls (snd (stream_client_main (world_of rs))))) (calls v') ds = Some []"
proof -
  obtain tot num buf where fill: "demo_fill 0 1 0 (take 2000 (stk_bytes (world_of []) @ replicate 2000 0)) = (tot, num, buf)"
    by (rule prod_cases3)
  let ?rs = "client_setup @ [ok 4, ok 0] @ replicate (length (fragments 0 tot)) (ok 1) @
      [ok (int num), ok (-1), ok 0, ok 0]"
  let ?stream = "payload (calls (snd (stream_client_main (world_of ?rs))))"
  have w: "demo_fill 0 1 0 (take 2000 (stk_bytes (world_of ?rs) @ replicate 2000 0)) = (tot, num, buf)"
    "replies (world_of ?rs) = ?rs" "calls (world_of ?rs) = []" "length (replicate 256 0) = 256"
    using fill by (simp_all add: world_of_def)
  from stream_demo_completes [OF w, of 5] obtain ds where ds: "fst (stream_client_main (world_of ?rs)) = Exit 0"
    "\<forall>v rs. replies v = ds @ rs \<longrightarrow> (\<exists>v' cs. loop (stream_turn 5) (0, replicate 256 0) v = (Exit 0, v') \<and>
       calls v' = calls v @ cs \<and> served 5 ?stream cs ds = Some [])" by blast
  from ds(2) have "replies (world_of ds) = ds @ [] \<longrightarrow> (\<exists>v' cs. loop (stream_turn 5) (0, replicate 256 0) (world_of ds) =
     (Exit 0, v') \<and> calls v' = calls (world_of ds) @ cs \<and> served 5 ?stream cs ds = Some [])" by blast
  then have "\<exists>v'. loop (stream_turn 5) (0, replicate 256 0) (world_of ds) = (Exit 0, v') \<and>
     served 5 ?stream (calls v') ds = Some []" by (auto simp: world_of_def)
  with ds(1) show ?thesis by blast
qed

section \<open>Scatter and gather\<close>

text \<open>
  The server of the scatter/gather demo prints its seven bytes of data as a string. The message
  that its client sends fills them, so that there is no terminator in the array.
\<close>

lemma iov_server_overruns:
  assumes "replies w = [ok 3, ok 0, (msg_reply (map of_char ''HDDDDDDD''))\<lparr>r_anc :=
    [\<lparr>cmsg_type = TIPC_DESTNAME, cmsg_words = [t, l, u], cmsg_bytes = []\<rparr>]\<rparr>]"
  shows "fst (iov_server w) = Fault Out_of_bounds"
  using assms
  by (simp add: iov_server_def run Let_def cmsg_word_def string_of_def c_string_def recv_into_def msg_reply_def)

end
