(* ===== verification/Demo_Talks.thy ===== *)
theory Demo_Talks
  imports Demo_Props Tipcc_Props
begin

text \<open>
  Conversations of the small demos: what the clients send is given to the servers as the kernel
  would deliver it, and the other way round. The multicast demo is followed through all of its
  messages, the hello world and connection demos through a message and its answer.
\<close>

section \<open>Lines and strings\<close>

fun line_of :: "call \<Rightarrow> string list" where
  "line_of (C_print s) = [s]"
| "line_of _ = []"

definition text_lines :: "world \<Rightarrow> string list" where
  "text_lines w = concat (map line_of (calls w))"

lemma text_lines_simps [simp]:
  "text_lines (w\<lparr>calls := calls w @ cs\<rparr>) = text_lines w @ concat (map line_of cs)"
  "text_lines (w\<lparr>replies := rs\<rparr>) = text_lines w"
  by (simp_all add: text_lines_def)

text \<open>A text that a program sends with its terminator is the string the receiver finds.\<close>

definition wire_text :: "string \<Rightarrow> nat \<Rightarrow> bool" where
  "wire_text s n \<longleftrightarrow> CHR 0x00 \<notin> set s \<and> length s < n"

lemma received_text:
  assumes "wire_text s (length buf)"
  shows "recv_into buf (msg_reply (str_bytes s)) = str_bytes s @ drop (Suc (length s)) buf"
    and "c_string (recv_into buf (msg_reply (str_bytes s))) = Some s"
proof -
  show r: "recv_into buf (msg_reply (str_bytes s)) = str_bytes s @ drop (Suc (length s)) buf"
    using assms by (auto simp: wire_text_def recv_into_def str_bytes_def)
  show "c_string (recv_into buf (msg_reply (str_bytes s))) = Some s"
    using assms unfolding r by (simp add: wire_text_def c_string_str_bytes)
qed

lemma text_head:
  assumes "wire_text s n" and "s \<noteq> []"
  shows "(str_bytes s @ rest) ! 0 \<noteq> 0"
proof
  assume "(str_bytes s @ rest) ! 0 = 0"
  then have "c_string (str_bytes s @ rest) = Some []"
    by (cases s) (simp_all add: c_string_def str_bytes_def)
  with assms c_string_str_bytes [of s rest] show False by (simp add: wire_text_def)
qed

text \<open>
  A server that takes texts: one at a time in a turn of its loop, into its buffer, until
  something tells it to end.
\<close>

locale text_server =
  fixes turn :: "bytes \<Rightarrow> (bytes + unit) prog" and room :: nat and takes :: "string \<Rightarrow> bool"
    and gets :: "string \<Rightarrow> reply list" and says :: "string \<Rightarrow> call list"
    and fin :: "reply \<Rightarrow> (int \<times> call list) option"
  assumes waits: "turns (turn buf)"
    and takes_text: "wire_text s room \<Longrightarrow> takes s \<Longrightarrow> length buf = room \<Longrightarrow> replies w = gets s @ rs \<Longrightarrow>
      turn buf w = (Ret (Inl (recv_into buf (msg_reply (str_bytes s)))), w\<lparr>replies := rs, calls := calls w @ says s\<rparr>)"
    and ends: "fin r = Some (status, bye) \<Longrightarrow> length buf = room \<Longrightarrow> replies w = r # rs \<Longrightarrow>
      turn buf w = (Exit status, w\<lparr>replies := rs, calls := calls w @ bye\<rparr>)"
begin

lemma all_texts:
  assumes "\<forall>s \<in> set ss. wire_text s room \<and> takes s" and "length buf = room"
    and "replies w = concat (map gets ss) @ r # rs" and "fin r = Some (status, bye)"
  shows "loop turn buf w = (Exit status, w\<lparr>replies := rs, calls := calls w @ concat (map says ss) @ bye\<rparr>)"
  using assms
proof (induction ss arbitrary: buf w)
  case Nil
  then show ?case by (subst loop_unfold [OF waits]) (simp add: and_then_def ends)
next
  case (Cons s ss)
  then have turn: "turn buf w = (Ret (Inl (recv_into buf (msg_reply (str_bytes s)))),
      w\<lparr>replies := concat (map gets ss) @ r # rs, calls := calls w @ says s\<rparr>)"
    by (intro takes_text) simp_all
  with Cons.IH Cons.prems show ?case by (subst loop_unfold [OF waits]) (simp add: and_then_def)
qed

end

section \<open>The multicast demo\<close>

text \<open>
  A multicast to a range of instances is delivered to every port whose range meets it, in the
  order of the sends.
\<close>

definition meets :: "int \<Rightarrow> int \<Rightarrow> int \<times> int \<Rightarrow> bool" where
  "meets lo hi = (\<lambda>(l, u). l \<le> hi \<and> lo \<le> u)"

fun mcast_to :: "int \<Rightarrow> int \<Rightarrow> call \<Rightarrow> bytes list" where
  "mcast_to lo hi (C_sendto sd d f a) =
     (if sa_addrtype a = TIPC_ADDR_MCAST \<and> sa_w0 a = 18888 \<and> meets lo hi (uint (sa_w1 a), uint (sa_w2 a)) then [d] else [])"
| "mcast_to lo hi _ = []"

definition mcasts_to :: "int \<Rightarrow> int \<Rightarrow> world \<Rightarrow> bytes list" where
  "mcasts_to lo hi w = concat (map (mcast_to lo hi) (calls w))"

definition demo_text :: "int \<times> int \<Rightarrow> string" where
  "demo_text = (\<lambda>(l, u). ''message to '' @ seq_text l u)"

definition demo_ranges :: "(int \<times> int) list" where
  "demo_ranges = [(99, 100), (150, 250), (200, 399), (0, 399)]"

text \<open>The two calls of a multicast, and to whom it goes.\<close>

definition mcast_calls :: "int \<Rightarrow> int \<Rightarrow> int \<Rightarrow> sockaddr_tipc \<Rightarrow> call list" where
  "mcast_calls sd l u a =
     [C_print (if 0 \<le> sd then ''Client: sending '' @ demo_text (l, u)
        else ''Client: sending termination message to '' @ seq_text l u),
      C_sendto \<bar>sd\<bar> (str_bytes (if 0 \<le> sd then demo_text (l, u) else [])) 0
        (a\<lparr>sa_family := AF_TIPC, sa_addrtype := TIPC_ADDR_MCAST, sa_w0 := 18888, sa_w1 := of_int l, sa_w2 := of_int u\<rparr>)]"

lemma run_demo_mcast [run]:
  "replies w = r # rs \<Longrightarrow> 0 \<le> r_ret r \<Longrightarrow> and_then (demo_mcast sd l u) f w =
     f () (w\<lparr>replies := rs, calls := calls w @ mcast_calls sd l u (stk_addr w)\<rparr>)"
  by (simp add: demo_mcast_def mcast_calls_def demo_text_def run Let_def)

lemma mcast_calls_delivered:
  assumes "0 \<le> l" and "l \<le> u" and "u \<le> 399"
  shows "concat (map (mcast_to lo hi) (mcast_calls sd l u a)) =
    (if meets lo hi (l, u) then [str_bytes (if 0 \<le> sd then demo_text (l, u) else [])] else [])"
proof -
  have "uint (of_int x :: u32) = x" if "0 \<le> x" "x \<le> 399" for x
    using that by (simp add: uint_word_of_int)
  with assms show ?thesis by (simp add: mcast_calls_def)
qed

lemma mcast_client_sends:
  assumes "replies w = ok sd # client_setup @ replicate 5 (ok 1)" and "0 < sd" and "calls w = []"
  shows "\<exists>w'. mcast_client_main [] w = (Exit 0, w') \<and>
    mcasts_to lo hi w' = map (\<lambda>r. str_bytes (demo_text r)) (filter (meets lo hi) demo_ranges) @
      (if meets lo hi (0, 399) then [str_bytes []] else [])"
  using assms by (simp add: mcast_client_main_def run mcasts_to_def mcast_calls_delivered demo_ranges_def eval_nat_numeral)

text \<open>What the server of a range does with a message and at the end.\<close>

definition mcast_port :: "int \<Rightarrow> int \<Rightarrow> string" where
  "mcast_port lo hi = ''Server: port '' @ seq_text lo hi"

interpretation mcast: text_server "mcast_server_turn sd lo hi" 100 "\<lambda>s. s \<noteq> []" "\<lambda>s. [msg_reply (str_bytes s)]"
    "\<lambda>s. [C_recvfrom sd 100 0, C_print (mcast_port lo hi @ '' received: '' @ s)]"
    "\<lambda>r. if r = msg_reply (str_bytes []) then Some (0, [C_recvfrom sd 100 0, C_print (mcast_port lo hi @ '' terminated'')])
      else None" for sd lo hi
proof
  show "turns (mcast_server_turn sd lo hi buf)" for buf
    by (auto simp: mcast_server_turn_def string_of_def Let_def split: option.splits intro!: waits_intros intro: turns_waits)
next
  fix s and buf :: bytes and w :: world and rs
  assume s: "wire_text s 100" "s \<noteq> []" and buf: "length buf = 100" and w: "replies w = [msg_reply (str_bytes s)] @ rs"
  with text_head [of s] received_text [of s buf]
  show "mcast_server_turn sd lo hi buf w = (Ret (Inl (recv_into buf (msg_reply (str_bytes s)))), w\<lparr>replies := rs,
      calls := calls w @ [C_recvfrom sd 100 0, C_print (mcast_port lo hi @ '' received: '' @ s)]\<rparr>)"
    by (simp add: mcast_server_turn_def mcast_port_def string_of_def run Let_def)
next
  fix r bye rs and status :: int and buf :: bytes and w :: world
  assume "(if r = msg_reply (str_bytes []) then Some (0, [C_recvfrom sd 100 0, C_print (mcast_port lo hi @ '' terminated'')])
      else None) = Some (status, bye)" "length buf = 100" "replies w = r # rs"
  with received_text(1) [of "[]" buf]
  show "mcast_server_turn sd lo hi buf w = (Exit status, w\<lparr>replies := rs, calls := calls w @ bye\<rparr>)"
    by (auto split: if_splits simp: mcast_server_turn_def mcast_port_def wire_text_def str_bytes_def run Let_def)
qed

lemma demo_text_fits: "wire_text (demo_text r) 100 \<and> demo_text r \<noteq> []"
proof -
  have "length (show_u32 x) \<le> 10" for x :: u32 using length_show_u32 [OF uint_u32_bound] by simp
  from this [of "of_int (fst r)"] this [of "of_int (snd r)"] show ?thesis
    by (auto simp: demo_text_def seq_text_def wire_text_def show_u32_no_nul split: prod.splits)
qed

lemma lines_of_texts:
  "concat (map line_of (concat (map (\<lambda>x. [C_recvfrom sd n f, C_print (g x)]) xs))) = map g xs"
  by (induction xs) simp_all

text \<open>
  C39. The multicast demo. When its servers are there the client runs to its end. The server of any
  range of instances between 0 and 399 that is given, as TIPC delivers them, the multicasts whose
  range meets its own prints exactly these messages in the order in which they were sent, and
  then ends with status 0, because the message that ends the servers goes to all of them.
\<close>

theorem mcast_demo_delivers:
  assumes "replies w = ok sd # client_setup @ replicate 5 (ok 1)" and "0 < sd" and "calls w = []"
    and "0 \<le> lo" and "lo \<le> hi" and "hi \<le> 399"
    and "replies v = [ok sd', ok 0] @ map msg_reply (mcasts_to lo hi (snd (mcast_client_main [] w)))" and "calls v = []"
  shows "fst (mcast_client_main [] w) = Exit 0 \<and> fst (demo_mcast_server lo hi v) = Exit 0 \<and>
    text_lines (snd (demo_mcast_server lo hi v)) = [mcast_port lo hi @ '' created''] @
      map (\<lambda>r. mcast_port lo hi @ '' received: '' @ demo_text r) (filter (meets lo hi) demo_ranges) @
      [mcast_port lo hi @ '' terminated'']"
proof -
  let ?ss = "map demo_text (filter (meets lo hi) demo_ranges)"
  let ?v = "v\<lparr>replies := map (\<lambda>s. msg_reply (str_bytes s)) ?ss @ [msg_reply (str_bytes [])],
     calls := [C_socket AF_TIPC SOCK_RDM 0, C_bind sd' (seq_addr 18888 (of_int lo) (of_int hi) TIPC_CLUSTER_SCOPE),
       C_print (mcast_port lo hi @ '' created'')]\<rparr>"
  let ?buf = "take 100 (stk_bytes v @ replicate 100 0)"
  have "meets lo hi (0, 399)" using assms(4-6) by (simp add: meets_def)
  with mcast_client_sends [OF assms(1-3), of lo hi]
  have client: "fst (mcast_client_main [] w) = Exit 0"
    "replies v = [ok sd', ok 0] @ replies ?v"
    using assms(7) by auto
  then have "demo_mcast_server lo hi v = loop (mcast_server_turn sd' lo hi) ?buf ?v"
    using assms(8) by (simp add: demo_mcast_server_def mcast_port_def run Let_def)
  also have "\<dots> = (Exit 0, ?v\<lparr>replies := [], calls := calls ?v @ concat (map (\<lambda>s. [C_recvfrom sd' 100 0,
      C_print (mcast_port lo hi @ '' received: '' @ s)]) ?ss) @
      [C_recvfrom sd' 100 0, C_print (mcast_port lo hi @ '' terminated'')]\<rparr>)"
    by (rule mcast.all_texts) (use demo_text_fits in \<open>auto simp: concat_map_singleton comp_def\<close>)
  finally show ?thesis
    using client(1) lines_of_texts [of sd' 100 0 "\<lambda>s. mcast_port lo hi @ '' received: '' @ s" ?ss]
    by (simp add: text_lines_def comp_def)
qed

theorem mcast_demo_delivers_witness:
  "\<exists>rs. fst (demo_mcast_server 100 199 (world_of rs)) = Exit 0 \<and>
     text_lines (snd (demo_mcast_server 100 199 (world_of rs))) = [mcast_port 100 199 @ '' created'',
       mcast_port 100 199 @ '' received: '' @ demo_text (99, 100), mcast_port 100 199 @ '' received: '' @ demo_text (150, 250),
       mcast_port 100 199 @ '' received: '' @ demo_text (0, 399), mcast_port 100 199 @ '' terminated'']"
  using mcast_demo_delivers [of "world_of (ok 3 # client_setup @ replicate 5 (ok 1))" 3 100 199
      "world_of ([ok 4, ok 0] @ map msg_reply (mcasts_to 100 199 (snd (mcast_client_main []
        (world_of (ok 3 # client_setup @ replicate 5 (ok 1)))))))" 4]
  by (intro exI [of _ "[ok 4, ok 0] @ map msg_reply (mcasts_to 100 199 (snd (mcast_client_main []
        (world_of (ok 3 # client_setup @ replicate 5 (ok 1))))))"])
    (simp add: demo_ranges_def meets_def world_of_def)

section \<open>The connection demo\<close>

definition conn_server :: "int \<Rightarrow> string" where
  "conn_server n = ''Server '' @ show_int n"

definition conn_response :: "int \<Rightarrow> string" where
  "conn_response n = ''Response for test '' @ show_int n"

definition conn_says :: "int \<Rightarrow> int \<Rightarrow> string \<Rightarrow> call list" where
  "conn_says sd n s = [C_recv sd 40 0, C_print (conn_server n @ '': received msg '' @ s),
     C_send sd (str_bytes (conn_response n)) 0, C_print (conn_server n @ '': responded with '' @ conn_response n)]"

definition conn_fin :: "int \<Rightarrow> int \<Rightarrow> reply \<Rightarrow> (int \<times> call list) option" where
  "conn_fin sd n r =
     (if r_ret r = 0 then Some (0, [C_recv sd 40 0, C_print (conn_server n @ '': client terminated normally'')])
      else if r_ret r < 0 then Some (1, [C_recv sd 40 0, C_print (conn_server n @ '' : client terminated abnormally'')])
      else None)"

interpretation conn: text_server "connection_turn sd n" 40 "\<lambda>_. True" "\<lambda>s. [msg_reply (str_bytes s), ok 1]"
    "conn_says sd n" "conn_fin sd n" for sd n
proof
  show "turns (connection_turn sd n buf)" for buf
    by (auto simp: connection_turn_def string_of_def demo_fail_def Let_def split: option.splits
        intro!: waits_intros intro: turns_waits)
next
  fix s and buf :: bytes and w :: world and rs
  assume "wire_text s 40" "length buf = 40" "replies w = [msg_reply (str_bytes s), ok 1] @ rs"
  with received_text(2) [of s buf]
  show "connection_turn sd n buf w = (Ret (Inl (recv_into buf (msg_reply (str_bytes s)))), w\<lparr>replies := rs,
      calls := calls w @ conn_says sd n s\<rparr>)"
    by (simp add: connection_turn_def conn_says_def conn_server_def conn_response_def string_of_def str_bytes_def run Let_def)
next
  fix r bye rs and status :: int and buf :: bytes and w :: world
  assume "conn_fin sd n r = Some (status, bye)" "length buf = 40" "replies w = r # rs"
  then show "connection_turn sd n buf w = (Exit status, w\<lparr>replies := rs, calls := calls w @ bye\<rparr>)"
    by (auto simp: connection_turn_def conn_fin_def conn_server_def demo_fail_def run Let_def split: if_splits)
qed

text \<open>What the client gives to the kernel, with the socket it uses.\<close>

fun message_on :: "call \<Rightarrow> (int \<times> bytes) list" where
  "message_on (C_send sd d f) = [(sd, d)]"
| "message_on (C_sendto sd d f a) = [(sd, d)]"
| "message_on _ = []"

definition messages_on :: "world \<Rightarrow> (int \<times> bytes) list" where
  "messages_on w = concat (map message_on (calls w))"

lemma run_connection_reply [run]:
  assumes "replies w = msg_reply (str_bytes s) # rs" and "wire_text s (length buf)" and "length buf = 40"
  shows "and_then (connection_reply sd buf) f w = f (recv_into buf (msg_reply (str_bytes s)))
    (w\<lparr>replies := rs, calls := calls w @ [C_recv sd 40 0, C_print (''Client: received response '' @ s)]\<rparr>)"
proof -
  have "connection_reply sd buf w = (Ret (recv_into buf (msg_reply (str_bytes s))),
      w\<lparr>replies := rs, calls := calls w @ [C_recv sd 40 0, C_print (''Client: received response '' @ s)]\<rparr>)"
    using assms received_text(2) [OF assms(2)]
    by (simp add: connection_reply_def string_of_def run) (simp add: str_bytes_def)
  then show ?thesis by (simp add: and_then_def)
qed

lemma conn_response_fits: "wire_text (conn_response 1) 40" "wire_text (conn_response 2) 40"
proof -
  have "CHR 0x00 \<notin> set (show_int i)" for i using show_int_chars [of "CHR 0x00" i] by (auto simp: is_digit_def)
  then show "wire_text (conn_response 1) 40" "wire_text (conn_response 2) 40"
    by (auto simp: wire_text_def conn_response_def) (simp_all add: show_int_def show_nat.simps)
qed

lemma length_strcpy: "length s < length buf \<Longrightarrow> length (strcpy buf s) = length buf"
  by (simp add: strcpy_def str_bytes_def)

lemma filled: "min (length buf) n + (n - length buf) = n" "min n (length buf) + (n - length buf) = n"
  by simp_all

lemma connection_client_runs:
  assumes "replies w = client_setup @ [ok c1, ok 0, ok 1, msg_reply (str_bytes (conn_response 1)), ok 0, ok 0,
    ok c2, ok 1, msg_reply (str_bytes (conn_response 2)), ok 0, ok c3, ok 1]"
  shows "\<exists>w'. connection_client_main w = (Exit 0, w') \<and> messages_on w' = messages_on w @
      [(c1, str_bytes ''Hello World''), (c2, str_bytes ''Hello Again''), (c3, str_bytes ''Hello Again Again'')] \<and>
    {''Client: received response '' @ conn_response 1, ''Client: received response '' @ conn_response 2} \<subseteq> set (text_lines w')"
  using assms
  by (simp add: connection_client_main_def conn_response_fits length_strcpy filled messages_on_def text_lines_def run Let_def)

lemma messages_answers:
  "concat (map message_on (concat (map (conn_says sd n) ss))) = replicate (length ss) (sd, str_bytes (conn_response n))"
  by (induction ss) (simp_all add: conn_says_def)

text \<open>
  C40. The connection demo. Given the responses of the server processes, the client runs to its end
  with status 0; it sends its three texts on its three sockets and prints both responses that
  it waits for. The server process of connection \<open>n\<close> answers every text that fits its buffer with the
  response of its number, and ends with status 0 when the client has shut the connection down and
  with status 1 when it broke it off.
\<close>

theorem connection_demo_answers:
  assumes "replies w = client_setup @ [ok c1, ok 0, ok 1, msg_reply (str_bytes (conn_response 1)), ok 0, ok 0,
      ok c2, ok 1, msg_reply (str_bytes (conn_response 2)), ok 0, ok c3, ok 1]"
    and "\<forall>s \<in> set ss. wire_text s 40" and "length inbuf = 40" and "r_ret r \<le> 0"
    and "replies v = concat (map (\<lambda>s. [msg_reply (str_bytes s), ok 1]) ss) @ [r]"
  shows "(\<exists>w'. connection_client_main w = (Exit 0, w') \<and> messages_on w' = messages_on w @
      [(c1, str_bytes ''Hello World''), (c2, str_bytes ''Hello Again''), (c3, str_bytes ''Hello Again Again'')] \<and>
    {''Client: received response '' @ conn_response 1, ''Client: received response '' @ conn_response 2} \<subseteq> set (text_lines w')) \<and>
    (\<exists>v'. loop (connection_turn sd n) inbuf v = (Exit (if r_ret r = 0 then 0 else 1), v') \<and>
      messages_on v' = messages_on v @ replicate (length ss) (sd, str_bytes (conn_response n)))"
proof -
  obtain bye where "conn_fin sd n r = Some (if r_ret r = 0 then 0 else 1, bye)" "concat (map message_on bye) = []"
    using assms(4) by (cases "r_ret r = 0") (auto simp: conn_fin_def)
  with conn.all_texts [of ss inbuf v r "[]" sd n "if r_ret r = 0 then 0 else 1" bye] assms(2,3,5)
  have "\<exists>v'. loop (connection_turn sd n) inbuf v = (Exit (if r_ret r = 0 then 0 else 1), v') \<and>
      messages_on v' = messages_on v @ replicate (length ss) (sd, str_bytes (conn_response n))"
    by (simp add: messages_on_def messages_answers)
  with connection_client_runs [OF assms(1)] show ?thesis by blast
qed

theorem connection_demo_answers_witness:
  "\<exists>rs v'. fst (connection_client_main (world_of rs)) = Exit 0 \<and>
     loop (connection_turn 5 1) (replicate 40 0) (world_of [msg_reply (str_bytes ''Hello World''), ok 1, ok 0]) = (Exit 0, v') \<and>
     messages_on v' = [(5, str_bytes (conn_response 1))]"
proof -
  let ?rs = "client_setup @ [ok 4, ok 0, ok 1, msg_reply (str_bytes (conn_response 1)), ok 0, ok 0,
      ok 5, ok 1, msg_reply (str_bytes (conn_response 2)), ok 0, ok 6, ok 1]"
  show ?thesis
    using connection_demo_answers [of "world_of ?rs" 4 5 6 "[''Hello World'']" "replicate 40 0" "ok 0"
        "world_of [msg_reply (str_bytes ''Hello World''), ok 1, ok 0]" 5 1]
    by (intro exI [of _ ?rs]) (auto simp: world_of_def wire_text_def messages_on_def)
qed

section \<open>Hello world\<close>

text \<open>
  C29. The hello world demo talks. When its server is there, the client sends one message, to the
  name that the server has bound, waits for one answer of at most 40 bytes, prints it and ends
  with status 0. The server that gets this message prints it, sends its answer to the port that
  the message came from, and ends with status 0. These are the only messages, and what each of
  the two sends is what the other one is given.
\<close>

theorem hello_world_answered:
  assumes "hello = str_bytes ''Hello World''" and "answer = str_bytes ''Uh ?''"
    and "replies w = client_setup @ [ok c, ok (int (length hello)), msg_reply answer]"
    and "replies v = [ok s, ok 0, (msg_reply hello)\<lparr>r_addr := a\<rparr>, ok (int (length answer))]"
  shows "(\<exists>w'. hello_client_main w = (Exit 0, w') \<and>
      filter traffic (calls w') = filter traffic (calls w) @
        [C_sendto c hello 0 (name_addr (stk_addr w) \<lparr>ta_type = 18888, ta_instance = 17, ta_domain = 0\<rparr>), C_recv c 40 0] \<and>
      ''Client: received response: Uh ?'' \<in> set (text_lines w')) \<and>
    hello_server_main v = (Exit 0, v\<lparr>replies := [], calls := calls v @
      [C_print ''****** TIPC server hello world program started ******'', C_socket AF_TIPC SOCK_RDM 0,
       C_bind s (seq_addr 18888 17 17 TIPC_ZONE_SCOPE), C_recvfrom s 40 0,
       C_print ''Server: Message received: Hello World !'', C_sendto s answer 0 a,
       C_print ''****** TIPC server hello program finished ******'']\<rparr>)"
proof
  have addr: "recv_into buf (r\<lparr>r_addr := a\<rparr>) = recv_into buf r" for buf r by (simp add: recv_into_def)
  have hello: "c_string (recv_into buf (msg_reply (str_bytes ''Hello World''))) = Some ''Hello World''"
    if "length buf = 40" for buf using that by (intro received_text) (simp add: wire_text_def)
  have uh: "c_string (recv_into buf (msg_reply (str_bytes ''Uh ?''))) = Some ''Uh ?''"
    if "length buf = 40" for buf using that by (intro received_text) (simp add: wire_text_def)
  have lengths: "length (str_bytes s) = Suc (length s)" for s by (simp add: str_bytes_def)
  show "\<exists>w'. hello_client_main w = (Exit 0, w') \<and>
      filter traffic (calls w') = filter traffic (calls w) @
        [C_sendto c hello 0 (name_addr (stk_addr w) \<lparr>ta_type = 18888, ta_instance = 17, ta_domain = 0\<rparr>), C_recv c 40 0] \<and>
      ''Client: received response: Uh ?'' \<in> set (text_lines w')"
    using assms(1-3) uh
    by (simp add: hello_client_main_def demo_name_def string_of_def text_lines_def lengths run Let_def)
  show "hello_server_main v = (Exit 0, v\<lparr>replies := [], calls := calls v @
      [C_print ''****** TIPC server hello world program started ******'', C_socket AF_TIPC SOCK_RDM 0,
       C_bind s (seq_addr 18888 17 17 TIPC_ZONE_SCOPE), C_recvfrom s 40 0,
       C_print ''Server: Message received: Hello World !'', C_sendto s answer 0 a,
       C_print ''****** TIPC server hello program finished ******'']\<rparr>)"
    using assms(1,2,4) hello
    by (simp add: hello_server_main_def string_of_def lengths addr filled run Let_def)
qed

theorem hello_world_answered_witness:
  "\<exists>rs. fst (hello_client_main (world_of rs)) = Exit 0 \<and>
     fst (hello_server_main (world_of [ok 3, ok 0, msg_reply (str_bytes ''Hello World''), ok 5])) = Exit 0"
proof -
  let ?rs = "client_setup @ [ok 4, ok 12, msg_reply (str_bytes ''Uh ?'')]"
  let ?vs = "[ok 3, ok 0, (msg_reply (str_bytes ''Hello World''))\<lparr>r_addr := r_addr (ok 0)\<rparr>, ok 5]"
  have "(msg_reply (str_bytes ''Hello World''))\<lparr>r_addr := r_addr (ok 0)\<rparr> = msg_reply (str_bytes ''Hello World'')"
    by (simp add: msg_reply_def ok_def)
  with hello_world_answered [OF refl refl, of "world_of ?rs" 4 "world_of ?vs" 3 "r_addr (ok 0)"] show ?thesis
    by (intro exI [of _ ?rs]) (auto simp: world_of_def str_bytes_def)
qed

end
