(* ===== verification/Counting.thy ===== *)
theory Counting
  imports Safe
begin

text \<open>
  A small logic that relates what a program returns to how many calls of a kind it has made.
  \<open>counts P Q m\<close>: on every run of \<open>m\<close> that returns, whatever the kernel replied, the result \<open>x\<close>
  and the number \<open>n\<close> of calls that satisfy \<open>P\<close> satisfy \<open>Q x n\<close>. The rules follow the structure of
  a program; the invariant of a loop relates its variables to the number of calls so far.
\<close>

definition made :: "(call \<Rightarrow> bool) \<Rightarrow> world \<Rightarrow> nat" where
  "made P w = length (filter P (calls w))"

definition counts :: "(call \<Rightarrow> bool) \<Rightarrow> ('a \<Rightarrow> nat \<Rightarrow> bool) \<Rightarrow> 'a prog \<Rightarrow> bool" where
  "counts P Q m \<longleftrightarrow> (\<forall>w x w'. m w = (Ret x, w') \<longrightarrow> (\<exists>n. made P w' = made P w + n \<and> Q x n))"

named_theorems counts_intros \<open>how many calls programs make\<close>

lemma countsD: "counts P Q m \<Longrightarrow> m w = (Ret x, w') \<Longrightarrow> \<exists>n. made P w' = made P w + n \<and> Q x n"
  by (simp add: counts_def)

lemma counts_weaken: "counts P Q m \<Longrightarrow> (\<And>x n. Q x n \<Longrightarrow> R x n) \<Longrightarrow> counts P R m"
  unfolding counts_def by blast

section \<open>The statements\<close>

lemma counts_ret [counts_intros]: "Q x 0 \<Longrightarrow> counts P Q (ret x)"
  by (simp add: counts_def ret_def)

lemma counts_stop [counts_intros]: "counts P Q (exit_prog k)" "counts P Q (fault e)" "counts P Q spin"
  by (simp_all add: counts_def exit_prog_def fault_def spin_def)

lemma counts_bind:
  assumes "counts P Q m" and "\<And>x n. Q x n \<Longrightarrow> counts P (\<lambda>y k. R y (n + k)) (f x)"
  shows "counts P R (and_then m f)"
  unfolding counts_def and_then_Ret_iff
proof (intro allI impI, elim exE conjE)
  fix w y w'' x w'
  assume m: "m w = (Ret x, w')" and f: "f x w' = (Ret y, w'')"
  from countsD [OF assms(1) m] obtain n where n: "made P w' = made P w + n" "Q x n" by blast
  from countsD [OF assms(2) [OF n(2)] f] n(1)
  show "\<exists>n. made P w'' = made P w + n \<and> R y n" by (auto simp: add.assoc)
qed

lemma counts_sys:
  "\<not> P c \<Longrightarrow> counts P (\<lambda>_ n. n = 0) (sys c)" "P c \<Longrightarrow> counts P (\<lambda>_ n. n = 1) (sys c)"
  by (auto simp: counts_def sys_def made_def split: list.splits)

lemma counts_call_then [counts_intros]:
  "(\<And>r. counts P (\<lambda>y k. R y ((if P c then 1 else 0) + k)) (f r)) \<Longrightarrow> counts P R (and_then (sys c) f)"
  using counts_bind [OF counts_sys(1) [of P c], of R f] counts_bind [OF counts_sys(2) [of P c], of R f]
  by (cases "P c") simp_all

lemma counts_receive_then [counts_intros]:
  assumes "\<And>r. counts P (\<lambda>y k. R y ((if P c then 1 else 0) + k)) (f r)"
  shows "counts P R (and_then (receive c buf) f)"
  unfolding receive_def using counts_call_then [of P R c f] assms by (auto intro: counts_stop)

text \<open>Statements that make none of the calls of interest.\<close>

lemma counts_avoids: "avoids P m \<Longrightarrow> counts P (\<lambda>_ n. n = 0) m"
  unfolding counts_def made_def by (metis avoidsD add_0_right snd_conv)

lemma counts_quiet_then: "avoids P m \<Longrightarrow> (\<And>x. counts P R (f x)) \<Longrightarrow> counts P R (and_then m f)"
  by (rule counts_bind [OF counts_avoids]) simp_all

text \<open>What such a statement returns is a matter of the logic of safety.\<close>

lemma safe_any: "harmless (\<lambda>_. True) UNIV m"
  by (simp add: safe_def split: prod.splits outcome.splits)

lemma counts_quiet:
  assumes "avoids P m" and "safe (\<lambda>_. True) UNIV Q m"
  shows "counts P (\<lambda>x n. Q x \<and> n = 0) m"
  using countsD [OF counts_avoids [OF assms(1)]] safe_Ret [OF assms(2)] unfolding counts_def by fastforce

lemma counts_if [counts_intros]:
  "(b \<Longrightarrow> counts P Q m) \<Longrightarrow> (\<not> b \<Longrightarrow> counts P Q n) \<Longrightarrow> counts P Q (if b then m else n)"
  by simp

lemma counts_case [counts_intros]:
  "(v = None \<Longrightarrow> counts P Q m) \<Longrightarrow> (\<And>x. v = Some x \<Longrightarrow> counts P Q (f x)) \<Longrightarrow>
     counts P Q (case v of None \<Rightarrow> m | Some x \<Rightarrow> f x)"
  "(\<And>a b. u = (a, b) \<Longrightarrow> counts P Q (g a b)) \<Longrightarrow> counts P Q (case u of (a, b) \<Rightarrow> g a b)"
  by (cases v; simp) (cases u; simp)

section \<open>Loops\<close>

text \<open>The invariant relates the variables to the calls of the turns that are done.\<close>

fun counted :: "('s \<Rightarrow> nat \<Rightarrow> bool) \<Rightarrow> ('r \<Rightarrow> nat \<Rightarrow> bool) \<Rightarrow> nat \<Rightarrow> 's + 'r \<Rightarrow> nat \<Rightarrow> bool" where
  "counted I Q n (Inl s) k = I s (n + k)"
| "counted I Q n (Inr x) k = Q x (n + k)"

lemma counts_loop_fuel:
  assumes "\<And>s n. I s n \<Longrightarrow> counts P (counted I Q n) (body s)"
  shows "I s n \<Longrightarrow> counts P (\<lambda>x k. Q x (n + k)) (loop_fuel t body s)"
proof (induction t arbitrary: s n)
  case (Suc t)
  have "counts P (\<lambda>x k. Q x (n + k))
    (and_then (body s) (\<lambda>r. case r of Inl s' \<Rightarrow> loop_fuel t body s' | Inr x \<Rightarrow> ret x))"
  proof (rule counts_bind [OF assms [OF Suc.prems]])
    fix r k
    assume "counted I Q n r k"
    then show "counts P (\<lambda>x j. Q x (n + (k + j))) (case r of Inl s' \<Rightarrow> loop_fuel t body s' | Inr x \<Rightarrow> ret x)"
      using Suc.IH [of _ "n + k"] by (cases r) (simp_all add: counts_ret add.assoc)
  qed
  then show ?case by (simp add: counts_def)
qed (simp add: counts_def)

lemma counts_loop:
  assumes "\<And>s n. I s n \<Longrightarrow> counts P (counted I Q n) (body s)" and "I s 0"
  shows "counts P Q (loop body s)"
proof -
  have "counts P Q (loop_fuel t body s)" for t
    using counts_loop_fuel [of I P Q body, OF assms] by simp
  then show ?thesis by (simp add: counts_def loop_def del: loop_fuel.simps)
qed

text \<open>The states and worlds in which an endless loop begins a turn.\<close>

inductive visits :: "('s \<Rightarrow> ('s + 'r) prog) \<Rightarrow> 's \<Rightarrow> world \<Rightarrow> 's \<Rightarrow> world \<Rightarrow> bool"
  for body s w where
  begins: "visits body s w s w"
| goes_on: "visits body s w s' w' \<Longrightarrow> body s' w' = (Ret (Inl s''), w'') \<Longrightarrow> visits body s w s'' w''"

lemma counts_visits:
  assumes "visits body s w s' w'" and "\<And>s n. I s n \<Longrightarrow> counts P (counted I Q n) (body s)" and "I s 0"
  shows "\<exists>n. made P w' = made P w + n \<and> I s' n"
  using assms(1)
proof induction
  case begins
  with assms(3) show ?case by auto
next
  case (goes_on s' w' s'' w'')
  then obtain n where n: "made P w' = made P w + n" "I s' n" by blast
  from countsD [OF assms(2) [OF n(2)] goes_on.hyps(2)] n(1) show ?case by (auto simp: add.assoc)
qed

end
