(* ===== verification/Group_Props.thy ===== *)
theory Group_Props
  imports Mcast_Props Counting
begin

text \<open>
  What the members of a group do to each other. The counters of the group blaster are exact:
  whatever the kernel replies, each grows by the number of messages of its kind that were handed
  to the kernel. A message that asks for an answer is answered once, by a unicast that asks for
  none, so two members never answer each other for ever. The results are about the main loop and
  its parts; that the program overruns the array for its own name on the way to the loop is shown
  with the other programs of the C binding.
\<close>

section \<open>Calls that are no messages\<close>

fun hands_over :: "call \<Rightarrow> bool" where
  "hands_over (C_send sd d f) \<longleftrightarrow> True"
| "hands_over (C_sendto sd d f a) \<longleftrightarrow> True"
| "hands_over _ \<longleftrightarrow> False"

text \<open>The calls that hand over a message with the header of a kind.\<close>

fun carries :: "mtyp \<Rightarrow> call \<Rightarrow> bool" where
  "carries k (C_send sd d f) \<longleftrightarrow> take 1 d = [mtyp_code k]"
| "carries k (C_sendto sd d f a) \<longleftrightarrow> take 1 d = [mtyp_code k]"
| "carries k _ \<longleftrightarrow> False"

fun sent :: "mtyp \<Rightarrow> group_state \<Rightarrow> u32" where
  "sent NONE st = 0"
| "sent BCAST st = snt_bc st"
| "sent MCAST st = snt_mc st"
| "sent UCAST st = snt_uc st"
| "sent ACAST st = snt_ac st"

lemma carries_none: "avoids hands_over m \<Longrightarrow> avoids (carries k) m"
proof -
  have "filter (carries k) (filter hands_over cs) = filter (carries k) cs" for cs
    by (induction cs) (auto elim!: carries.elims)
  then show "avoids hands_over m \<Longrightarrow> avoids (carries k) m" unfolding avoids_def by metis
qed

lemma avoids_set_var [avoids_intros]: "(\<And>w. calls (u w) = calls w) \<Longrightarrow> avoids P (set_var u)"
  by (simp add: avoids_def set_var_def)

lemma avoids_tipcc [avoids_intros]:
  "avoids hands_over (tipc_sockid sd a)" "avoids hands_over uninit_ta" "avoids hands_over (tipc_ntoa ad b n)"
  "avoids hands_over (string_of b)" "avoids hands_over (tipc_srv_evt sd x1 x2 x3 x4)"
  unfolding tipc_sockid_def uninit_ta_def tipc_ntoa_def snprintf_def put_byte_def string_of_def
    tipc_srv_evt_def Let_def
  by (rule avoids_intros | (simp; fail))+

lemma avoids_case_list:
  "avoids P m \<Longrightarrow> (\<And>x xs. avoids P (f x xs)) \<Longrightarrow> avoids P (case v of [] \<Rightarrow> m | x # xs \<Rightarrow> f x xs)"
  by (cases v) simp_all

lemma avoids_own [avoids_intros]:
  "avoids hands_over tipc_own_node" "avoids hands_over (domain2scope d)"
  unfolding domain2scope_def tipc_own_cluster_def tipc_own_zone_def tipc_own_node_def tipc_socket_def
  by (rule avoids_intros | (simp; fail))+

lemma mtyp_code_inject [simp]: "mtyp_code a = mtyp_code b \<longleftrightarrow> a = b"
  by (cases a; cases b) simp_all

section \<open>The counters\<close>

definition books :: "mtyp \<Rightarrow> group_state \<Rightarrow> group_state \<Rightarrow> nat \<Rightarrow> bool" where
  "books k st st' n \<longleftrightarrow> sent k st' = sent k st + of_nat n \<and> length (gbuf st') = BUF_LEN"

lemma avoids_group_receive [avoids_intros]: "avoids hands_over (tipc_recvfrom sd buf src dst err)"
  unfolding tipc_recvfrom_def returned_msg_def cmsg_word_def Let_def
  by (rule avoids_intros avoids_case_list | (simp; fail))+

lemma safe_case_list:
  "safe K E Q m \<Longrightarrow> (\<And>x xs. safe K E Q (f x xs)) \<Longrightarrow> safe K E Q (case v of [] \<Rightarrow> m | x # xs \<Rightarrow> f x xs)"
  by (cases v) simp_all

lemma safe_returned: "safe K UNIV (\<lambda>(e, rc, b, ancs). length b = length buf) (returned_msg buf ancs)"
  unfolding returned_msg_def cmsg_word_def Let_def
  by (rule safe_intros safe_case_list harmless_bind | (auto; fail))+

lemma safe_group_receive: "safe K UNIV (\<lambda>v. length (rv_buf v) = length buf) (tipc_recvfrom sd buf src dst err)"
proof -
  have parts: "safe K UNIV (\<lambda>(e, rc, b, ancs). length b = length buf)
      (if bad r then returned_msg (recv_into buf r) (r_anc r) else ret (0, r_ret r, recv_into buf r, r_anc r))"
    for bad :: "reply \<Rightarrow> bool" and r
    using safe_returned [of K "recv_into buf r"] by (auto intro: safe_ret)
  show ?thesis
    unfolding tipc_recvfrom_def tipc_sockid_def cmsg_word_def Let_def
    by (rule safe_bind [OF parts] safe_intros harmless_bind | (auto; fail))+
qed

lemma counts_receive:
  "counts (carries k) (\<lambda>v n. length (rv_buf v) = length buf \<and> n = 0) (tipc_recvfrom sd buf src dst err)"
  by (rule counts_quiet [OF carries_none [OF avoids_group_receive] safe_group_receive])

lemma discover_counters:
  "safe (\<lambda>_. True) UNIV (\<lambda>st'. sent k st' = sent k st \<and> gbuf st' = gbuf st) (discover_member sd st)"
  unfolding discover_member_def group_die_def Let_def
  by (rule harmless_bind [OF safe_any] safe_intros | (cases k; simp; fail))+

lemma counts_discover:
  "counts (carries k) (\<lambda>st' n. (sent k st' = sent k st \<and> gbuf st' = gbuf st) \<and> n = 0) (discover_member sd st)"
proof (rule counts_quiet [OF carries_none discover_counters])
  show "avoids hands_over (discover_member sd st)"
    unfolding discover_member_def group_die_def Let_def by (rule avoids_intros | (simp; fail))+
qed

text \<open>Handing over a message: the header decides which counter has to grow.\<close>

lemma take_header: "0 < len \<Longrightarrow> length (gbuf st) = BUF_LEN \<Longrightarrow>
   take 1 (take (nat len) (gbuf (set_hdr t reply st))) = [mtyp_code t]"
  by (cases "gbuf st") (auto simp: set_hdr_def min_def)

lemma counts_hand_over:
  assumes "0 < len" and "length (gbuf st) = BUF_LEN"
  shows "counts (carries k) (\<lambda>_ n. n = (if k = t then 1 else 0)) (tipc_send sd (gbuf (set_hdr t r st)) len)"
    and "counts (carries k) (\<lambda>_ n. n = (if k = t then 1 else 0)) (tipc_mcast sd (gbuf (set_hdr t r st)) len (Some dst))"
    and "counts (carries k) (\<lambda>rc n. 0 < rc \<longrightarrow> n = (if k = t then 1 else 0)) (tipc_sendto sd (gbuf (set_hdr t r st)) len a)"
  unfolding tipc_send_def tipc_mcast_def tipc_sendto_def with_bytes_def Let_def
  using take_header [OF assms]
  by (auto intro!: counts_intros counts_quiet_then [OF carries_none] avoids_intros)

lemma counts_die [counts_intros]: "counts P Q (group_die s)"
  by (simp add: counts_def group_die_def and_then_def emit_def exit_prog_def)

lemma sent_simps [simp]:
  "sent k (set_hdr t r st) = sent k st" "sent k (st\<lparr>gbuf := b\<rparr>) = sent k st"
  "length (gbuf (set_hdr t r st)) = length (gbuf st)"
  "snt_bc (set_hdr t r st) = snt_bc st" "snt_mc (set_hdr t r st) = snt_mc st"
  "snt_ac (set_hdr t r st) = snt_ac st" "snt_uc (set_hdr t r st) = snt_uc st"
  "sent k (st\<lparr>snt_bc := x + 1\<rparr>) = (if k = BCAST then x + 1 else sent k st)"
  "sent k (st\<lparr>snt_mc := x + 1\<rparr>) = (if k = MCAST then x + 1 else sent k st)"
  "sent k (st\<lparr>snt_ac := x + 1\<rparr>) = (if k = ACAST then x + 1 else sent k st)"
  "sent k (st\<lparr>snt_uc := x + 1\<rparr>) = (if k = UCAST then x + 1 else sent k st)"
  by (cases k; simp add: set_hdr_def)+

lemma counts_count_message:
  "counts (carries k) (\<lambda>st' n. (sent k st' = sent k st \<and> gbuf st' = gbuf st) \<and> n = 0) (count_message st)"
proof (rule counts_quiet [OF carries_none])
  show "avoids hands_over (count_message st)"
    unfolding count_message_def pr_stats_def only_if_def by (rule avoids_intros | (simp; fail))+
  show "safe (\<lambda>_. True) UNIV (\<lambda>st'. sent k st' = sent k st \<and> gbuf st' = gbuf st) (count_message st)"
    by (cases k) (auto simp: count_message_def count_received_def intro!: harmless_bind [OF safe_any] safe_ret)
qed

lemma counts_answer:
  assumes "0 < len" and "length (gbuf st) = BUF_LEN"
  shows "counts (carries k) (books k st) (answer_message sd len src st)"
  unfolding answer_message_def Let_def
  by (rule counts_intros counts_bind [OF counts_hand_over(3) [OF assms]])+
    (auto simp: books_def assms intro: counts_ret)

lemma books_trans: "books k st st1 n \<Longrightarrow> books k st1 st2 m \<Longrightarrow> books k st st2 (n + m)"
  by (simp add: books_def)

lemma counts_group_receive:
  assumes "0 < len" and "length (gbuf st) = BUF_LEN"
  shows "counts (carries k) (books k st) (group_receive sd len st)"
  unfolding group_receive_def
proof (rule counts_quiet_then [OF carries_none [OF avoids_tipcc(2)]], rule counts_bind [OF counts_receive], rule counts_if)
  fix a v and n :: nat
  assume v: "length (rv_buf v) = length (gbuf st) \<and> n = 0"
  show "counts (carries k) (\<lambda>y m. books k st y (n + m)) (group_die ''unexpected message on transceiver socket'')"
    by (rule counts_die)
  show "counts (carries k) (\<lambda>y m. books k st y (n + m))
      (and_then (count_message (st\<lparr>gbuf := rv_buf v\<rparr>)) (answer_message sd len (rv_src v)))"
    by (rule counts_bind [OF counts_count_message], rule counts_weaken [OF counts_answer [OF assms(1)]])
      (use v assms(2) in \<open>auto simp: books_def\<close>)
qed

text \<open>One turn of the main loop.\<close>

lemma counts_receive_turn:
  assumes "0 < len" and "length (gbuf st) = BUF_LEN"
  shows "counts (carries k) (counted (books k st) (books k st) 0) (group_receive_turn sd0 sd1 t len st)"
proof -
  have member: "counts (carries k) (books k st) (if b then discover_member sd0 st else ret st)" for b
    using counts_weaken [OF counts_discover [of k st sd0], of "books k st"] assms(2)
    by (auto simp: books_def intro: counts_ret)
  have message: "counts (carries k) (books k s) (if b then group_receive sd1 len s else ret s)"
    if "length (gbuf s) = BUF_LEN" for b s
    using counts_group_receive [OF assms(1) that] that by (auto simp: books_def intro: counts_ret)
  show ?thesis
    unfolding group_receive_turn_def
  proof (rule counts_call_then, rule counts_if)
    fix r
    show "counts (carries k) (\<lambda>y n. counted (books k st) (books k st) 0 y ((if carries k (C_poll [sd0, sd1] (group_timeout t st)) then 1 else 0) + n))
        (ret (Inr st))"
      using assms(2) by (auto simp: books_def intro: counts_ret)
    show "counts (carries k) (\<lambda>y n. counted (books k st) (books k st) 0 y ((if carries k (C_poll [sd0, sd1] (group_timeout t st)) then 1 else 0) + n))
        (and_then (if sd0 \<in> set (r_ready r) then discover_member sd0 st else ret st) (\<lambda>st.
         and_then (if sd1 \<in> set (r_ready r) then group_receive sd1 len st else ret st) (\<lambda>st. ret (Inl st))))"
      by (rule counts_bind [OF member], rule counts_bind [OF message])
        (auto simp: books_def intro: counts_ret)
  qed
qed

lemma counts_receive_loop:
  assumes "0 < len" and "length (gbuf st) = BUF_LEN"
  shows "counts (carries k) (books k st) (loop (group_receive_turn sd0 sd1 t len) st)"
proof (rule counts_loop [where I = "books k st"])
  fix s n
  assume s: "books k st s n"
  then have "length (gbuf s) = BUF_LEN" by (simp add: books_def)
  from counts_receive_turn [OF assms(1) this]
  show "counts (carries k) (counted (books k st) (books k st) n) (group_receive_turn sd0 sd1 t len s)"
  proof (rule counts_weaken)
    fix r m
    assume "counted (books k s) (books k s) 0 r m"
    with s show "counted (books k st) (books k st) n r m" by (cases r) (auto intro: books_trans)
  qed
qed (use assms in \<open>simp add: books_def\<close>)

lemma counts_send:
  assumes "0 < len" and "length (gbuf st) = BUF_LEN"
  shows "counts (carries k) (books k st) (group_send sd t reply len dst st)"
  unfolding group_send_def Let_def
  by (rule counts_intros counts_bind [OF counts_hand_over(1) [OF assms]] counts_bind [OF counts_hand_over(2) [OF assms]]
      counts_bind [OF counts_hand_over(3) [OF assms]] | (use assms in \<open>auto simp: books_def; fail\<close>))+

text \<open>The books of a program that starts from books that are right.\<close>

lemma counts_from:
  assumes "books k st s n" and "\<And>s. length (gbuf s) = BUF_LEN \<Longrightarrow> counts P (books k s) (m s)"
  shows "counts P (\<lambda>y j. books k st y (n + j)) (m s)"
proof -
  have "length (gbuf s) = BUF_LEN" using assms(1) by (simp add: books_def)
  from assms(2) [OF this] books_trans [OF assms(1)] show ?thesis by (rule counts_weaken)
qed

lemma counts_transceive:
  assumes "0 < len" and "length (gbuf st) = BUF_LEN"
  shows "counts (carries k) (books k st) (group_transceive sd0 sd1 t reply len dst st)"
  unfolding group_transceive_def
  by (rule counts_bind [OF counts_receive_loop [OF assms]], erule counts_from, rule counts_send [OF assms(1)])

lemma avoids_elapsed [avoids_intros]: "avoids P (elapsedmsec t1 t2)"
  by (cases t1; cases t2) (simp add: elapsedmsec_def c_div_def avoids_basic)

lemma avoids_report: "avoids hands_over (group_report t1 t2 now st)"
  unfolding group_report_def u64_div_def Let_def by (rule avoids_intros | (simp; fail))+

lemma counts_main_turn:
  assumes "0 < gc_len c" and "books k st (snd s) n"
  shows "counts (carries k) (counted (\<lambda>s. books k st (snd s)) Q n) (group_main_turn sd0 sd1 c start_time s)"
proof -
  obtain intv s1 where s: "s = (intv, s1)" by (cases s)
  with assms(2) have "books k st s1 n" by simp
  note transceive = counts_from [OF this counts_transceive [OF assms(1)]]
  show ?thesis
    unfolding s group_main_turn_def split
    by (rule counts_bind [OF transceive] counts_intros counts_quiet_then [OF carries_none [OF avoids_report]] | (simp; fail))+
qed

text \<open>When there is nothing to receive, a turn sends at once.\<close>

lemma transceive_idle:
  assumes "replies w = r # rs" and "r_ret r \<le> 0"
  shows "and_then (group_transceive sd0 sd1 t reply len dst st) f w = and_then (group_send sd1 t reply len dst st) f
    (w\<lparr>replies := rs, calls := calls w @ [C_poll [sd0, sd1] (group_timeout t st)]\<rparr>)"
proof -
  have "loop (group_receive_turn sd0 sd1 t len) st w =
      (Ret st, w\<lparr>replies := rs, calls := calls w @ [C_poll [sd0, sd1] (group_timeout t st)]\<rparr>)"
    using assms by (simp add: loop_def group_receive_turn_def run)
  then show ?thesis by (simp add: group_transceive_def and_then_def)
qed

text \<open>
  C26. The counters of the group blaster are exact. Whenever its main loop begins a turn, whatever
  the kernel has replied so far, the counter of each kind of message has grown by the number of
  messages with that header which were handed to the kernel, modulo \<open>2 ^ 32\<close>, the answers among
  them included; and the message buffer still has its size.
\<close>

theorem group_counters_exact:
  assumes "0 < gc_len c" and "length (gbuf st) = BUF_LEN"
    and "visits (group_main_turn sd0 sd1 c start_time) (intv, st) w (intv', st') w'"
  shows "made (carries k) w \<le> made (carries k) w' \<and>
    sent k st' = sent k st + of_nat (made (carries k) w' - made (carries k) w) \<and> length (gbuf st') = BUF_LEN"
proof -
  obtain n where "made (carries k) w' = made (carries k) w + n" "books k st st' n"
    using counts_visits [OF assms(3), of "\<lambda>s. books k st (snd s)", OF counts_main_turn [OF assms(1)]] assms(2)
    by (auto simp: books_def)
  then show ?thesis by (simp add: books_def)
qed

theorem group_counters_exact_witness:
  "\<exists>st' w'. group_main_turn 3 4 \<lparr>gc_len = 1, gc_mtyp = BCAST, gc_reply = False, gc_inst = 0,
        gc_dst = \<lparr>ta_type = 4711, ta_instance = 0, ta_domain = 0\<rparr>\<rparr> (0, 0) ((0, 0), new_group_state) (world_of [ok 0, ok 1]) =
      (Ret (Inl ((0, 0), st')), w') \<and> made (carries BCAST) w' = 1 \<and> sent BCAST st' = 1"
proof -
  let ?c = "\<lparr>gc_len = 1, gc_mtyp = BCAST, gc_reply = False, gc_inst = 0,
        gc_dst = \<lparr>ta_type = 4711, ta_instance = 0, ta_domain = 0\<rparr>\<rparr>"
  let ?st = "new_group_state" and ?w = "world_of [ok 0, ok 1]"
  have len: "length (gbuf ?st) = BUF_LEN" by (simp add: new_group_state_def)
  obtain st' w' where turn: "group_main_turn 3 4 ?c (0, 0) ((0, 0), ?st) ?w = (Ret (Inl ((0, 0), st')), w')"
    "calls w' = [C_poll [3, 4] (group_timeout BCAST ?st), C_send 4 (take 1 (gbuf (set_hdr BCAST False ?st))) 0]"
    using len by (simp add: group_main_turn_def transceive_idle group_send_def tipc_send_def with_bytes_def
        world_of_def run Let_def) (simp add: new_group_state_def run)
  have "made (carries BCAST) w' = 1" "made (carries BCAST) ?w = 0"
    using take_header [of 1 ?st BCAST False] len turn(2) by (simp_all add: made_def world_of_def)
  moreover have "sent BCAST ?st = 0" by (simp add: new_group_state_def)
  moreover from begins turn(1) have "visits (group_main_turn 3 4 ?c (0, 0)) ((0, 0), ?st) ?w ((0, 0), st') w'"
    by (rule goes_on)
  ultimately show ?thesis
    using group_counters_exact [of ?c ?st 3 4 "(0, 0)" "(0, 0)" ?w "(0, 0)" st' w' BCAST] len turn(1) by auto
qed

section \<open>Answers\<close>

fun rcvd :: "mtyp \<Rightarrow> group_state \<Rightarrow> u32" where
  "rcvd NONE st = 0"
| "rcvd BCAST st = rcv_bc st"
| "rcvd MCAST st = rcv_mc st"
| "rcvd UCAST st = rcv_uc st"
| "rcvd ACAST st = rcv_ac st"

text \<open>What the kernel gives a member for a message from the port \<open>a\<close>.\<close>

definition arrives :: "bytes \<Rightarrow> sockaddr_tipc \<Rightarrow> reply" where
  "arrives m a = (msg_reply m)\<lparr>r_addr := a\<rparr>"

lemma recv_arrives [simp]: "recv_into buf (arrives m a) = recv_into buf (msg_reply m)"
  by (simp add: arrives_def recv_into_def)

lemma header_arrived:
  assumes "length (gbuf st) = BUF_LEN" and "2 \<le> length m" and "length m \<le> BUF_LEN"
  shows "hdr_type (st\<lparr>gbuf := recv_into (gbuf st) (msg_reply m)\<rparr>) = m ! 0"
    and "hdr_reply (st\<lparr>gbuf := recv_into (gbuf st) (msg_reply m)\<rparr>) \<longleftrightarrow> m ! 1 \<noteq> 0"
  using assms by (auto simp: hdr_type_def hdr_reply_def recv_into_def nth_append)

lemma count_received_by_kind:
  assumes "hdr_type st = mtyp_code k"
  shows "if k = NONE then count_received st = None
    else \<exists>old st'. count_received st = Some (old, st') \<and> gbuf st' = gbuf st \<and> (\<forall>j. sent j st' = sent j st) \<and>
      (\<forall>j. rcvd j st' = rcvd j st + (if j = k then 1 else 0))"
  using assms by (cases k) (simp_all add: count_received_def all_mtyp)

lemma run_stats:
  "\<exists>cs. and_then (pr_stats c s) g w = g () (w\<lparr>calls := calls w @ cs\<rparr>) \<and> filter hands_over cs = []"
  by (cases "sint c mod 2000 = 0") (auto simp: pr_stats_def run intro: exI [of _ "[]"])

lemma run_count_message:
  assumes "hdr_type st = mtyp_code k"
  shows "\<exists>st' cs. and_then (count_message st) f w = f st' (w\<lparr>calls := calls w @ cs\<rparr>) \<and> filter hands_over cs = [] \<and>
    gbuf st' = gbuf st \<and> (\<forall>j. sent j st' = sent j st) \<and>
    (\<forall>j. rcvd j st' = rcvd j st + (if j = k \<and> k \<noteq> NONE then 1 else 0))"
proof (cases "k = NONE")
  case True
  with count_received_by_kind [OF assms] show ?thesis
    by (auto simp: count_message_def run intro!: exI [of _ "[]"] exI [of _ st])
next
  case False
  with count_received_by_kind [OF assms] obtain old st' where st': "count_received st = Some (old, st')"
    "gbuf st' = gbuf st" "\<forall>j. sent j st' = sent j st" "\<forall>j. rcvd j st' = rcvd j st + (if j = k then 1 else 0)"
    by auto
  from run_stats [of old st' "\<lambda>_. f st'" w] obtain cs
    where "and_then (pr_stats old st') (\<lambda>_. f st') w = f st' (w\<lparr>calls := calls w @ cs\<rparr>)" "filter hands_over cs = []" by blast
  with st' False show ?thesis
    by (intro exI [of _ st'] exI [of _ cs]) (simp add: count_message_def run)
qed

lemma run_receive:
  assumes "replies w = arrives m a # rs" and "0 < length m" and "length (gbuf st) = BUF_LEN"
  shows "group_receive sd len st w =
    and_then (count_message (st\<lparr>gbuf := recv_into (gbuf st) (msg_reply m)\<rparr>)) (answer_message sd len (Some (port_of a)))
      (w\<lparr>replies := rs, calls := calls w @ [C_recvmsg sd (int BUF_LEN)]\<rparr>)"
proof -
  have "r_ret (arrives m a) = int (length m)" "r_anc (arrives m a) = []" "r_addr (arrives m a) = a"
    by (simp_all add: arrives_def msg_reply_def)
  with assms show ?thesis by (simp add: group_receive_def uninit_ta_def tipc_recvfrom_def run Let_def)
qed

lemma run_answer:
  assumes "replies w = (if hdr_reply st then [r] else []) @ rs" and "0 < r_ret r"
    and "0 \<le> len" and "len \<le> int (length (gbuf st))"
  shows "answer_message sd len (Some (port_of a)) st w = (if hdr_reply st
    then (Ret ((set_hdr UCAST False st)\<lparr>snt_uc := snt_uc st + 1\<rparr>), w\<lparr>replies := rs, calls := calls w @
      [C_sendto sd (take (nat len) (gbuf (set_hdr UCAST False st))) 0 (dest_addr (stk_addr w) (port_of a))]\<rparr>)
    else (Ret st, w))"
  using assms by (simp add: answer_message_def tipc_sendto_def with_bytes_def run Let_def)

text \<open>The answer to a message and how it is addressed.\<close>

definition answer_to :: "bytes \<Rightarrow> int \<Rightarrow> group_state \<Rightarrow> bytes" where
  "answer_to m len st = take (nat len) (gbuf (set_hdr UCAST False (st\<lparr>gbuf := recv_into (gbuf st) (msg_reply m)\<rparr>)))"

definition reaches_port :: "sockaddr_tipc \<Rightarrow> sockaddr_tipc \<Rightarrow> bool" where
  "reaches_port ad a \<longleftrightarrow> sa_addrtype ad = TIPC_ADDR_ID \<and> id_ref ad = id_ref a \<and> id_node ad = id_node a"

lemma rcvd_simps [simp]:
  "rcvd k (set_hdr t r st) = rcvd k st" "rcvd k (st\<lparr>gbuf := b\<rparr>) = rcvd k st" "rcvd k (st\<lparr>snt_uc := x\<rparr>) = rcvd k st"
  "rcvd k (st\<lparr>snt_bc := x\<rparr>) = rcvd k st" "rcvd k (st\<lparr>snt_mc := x\<rparr>) = rcvd k st" "rcvd k (st\<lparr>snt_ac := x\<rparr>) = rcvd k st"
  by (cases k; simp add: set_hdr_def)+

lemma gbuf_set_hdr: "gbuf s = gbuf s' \<Longrightarrow> gbuf (set_hdr t r s) = gbuf (set_hdr t r s')"
  by (simp add: set_hdr_def)

lemma message_received:
  assumes "length (gbuf st) = BUF_LEN" and "2 \<le> length m" and "length m \<le> BUF_LEN" and "m ! 0 = mtyp_code k"
    and "0 \<le> len" and "len \<le> int BUF_LEN"
    and "replies w = arrives m a # (if m ! 1 \<noteq> 0 then [r] else []) @ rs" and "0 < r_ret r"
  shows "\<exists>st' w' ad. group_receive sd len st w = (Ret st', w') \<and> replies w' = rs \<and> reaches_port ad a \<and>
    filter hands_over (calls w') = filter hands_over (calls w) @
      (if m ! 1 \<noteq> 0 then [C_sendto sd (answer_to m len st) 0 ad] else []) \<and>
    (\<forall>j. rcvd j st' = rcvd j st + (if j = k \<and> k \<noteq> NONE then 1 else 0)) \<and>
    (\<forall>j. sent j st' = sent j st + (if j = UCAST \<and> m ! 1 \<noteq> 0 then 1 else 0))"
proof -
  let ?st = "st\<lparr>gbuf := recv_into (gbuf st) (msg_reply m)\<rparr>" and ?ad = "dest_addr (stk_addr w) (port_of a)"
  define q where "q = (if m ! 1 \<noteq> 0 then [r] else []) @ rs"
  let ?w = "w\<lparr>replies := q, calls := calls w @ [C_recvmsg sd (int BUF_LEN)]\<rparr>"
  note hdr = header_arrived [OF assms(1-3)]
  obtain st2 cs where st2: "and_then (count_message ?st) (answer_message sd len (Some (port_of a))) ?w =
      answer_message sd len (Some (port_of a)) st2 (?w\<lparr>calls := calls ?w @ cs\<rparr>)" "filter hands_over cs = []"
    "gbuf st2 = gbuf ?st" "\<forall>j. sent j st2 = sent j ?st" "\<forall>j. rcvd j st2 = rcvd j ?st + (if j = k \<and> k \<noteq> NONE then 1 else 0)"
    using run_count_message [of ?st k "answer_message sd len (Some (port_of a))" ?w] hdr(1) assms(4) by auto
  have reply: "hdr_reply st2 \<longleftrightarrow> m ! 1 \<noteq> 0" using hdr(2) st2(3) by (simp add: hdr_reply_def)
  have uc: "snt_uc st2 = snt_uc st" using st2(4) [rule_format, of UCAST] by simp
  have ad: "reaches_port ?ad a" by (simp add: reaches_port_def dest_addr_def port_of_def)
  have run: "group_receive sd len st w = answer_message sd len (Some (port_of a)) st2 (?w\<lparr>calls := calls ?w @ cs\<rparr>)"
    using run_receive [OF assms(7) [folded q_def] _ assms(1), of sd len] assms(2) st2(1) by fastforce
  have "answer_to m len st = take (nat len) (gbuf (set_hdr UCAST False st2))"
    using gbuf_set_hdr [OF st2(3)] by (simp add: answer_to_def)
  with run run_answer [of "?w\<lparr>calls := calls ?w @ cs\<rparr>" st2 r rs len sd a] reply uc ad st2(2-5) assms(1,5,6,8)
  show ?thesis
    by (cases "m ! 1 = 0") (auto simp: q_def)
qed

text \<open>The messages of a member.\<close>

fun datagram :: "call \<Rightarrow> bytes" where
  "datagram (C_send sd d f) = d"
| "datagram (C_sendto sd d f a) = d"
| "datagram _ = []"

definition message_of :: "int \<Rightarrow> mtyp \<Rightarrow> bool \<Rightarrow> group_state \<Rightarrow> bytes" where
  "message_of len t reply st = take (nat len) (gbuf (set_hdr t reply st))"

lemma message_of_header:
  assumes "length (gbuf st) = BUF_LEN" and "2 \<le> len" and "len \<le> int BUF_LEN"
  shows "message_of len t reply st ! 0 = mtyp_code t" "message_of len t reply st ! 1 \<noteq> 0 \<longleftrightarrow> reply"
    "2 \<le> length (message_of len t reply st)" "length (message_of len t reply st) \<le> BUF_LEN"
  using assms by (auto simp: message_of_def set_hdr_def nth_list_update)

lemma answer_to_message: "answer_to m len st = message_of len UCAST False (st\<lparr>gbuf := recv_into (gbuf st) (msg_reply m)\<rparr>)"
  by (simp add: answer_to_def message_of_def)

lemma message_sent:
  assumes "length (gbuf st) = BUF_LEN" and "t \<in> {BCAST, MCAST, ACAST}" and "2 \<le> len" and "len \<le> int BUF_LEN"
    and "replies w = r # rs" and "0 < r_ret r"
  shows "\<exists>st' w' c. group_send sd t reply len dst st w = (Ret st', w') \<and> calls w' = calls w @ [c] \<and>
    datagram c = message_of len t reply st \<and> length (gbuf st') = BUF_LEN \<and>
    (\<forall>j. sent j st' = sent j st + (if j = t then 1 else 0)) \<and> (\<forall>j. rcvd j st' = rcvd j st)"
  using assms
  by (auto simp: group_send_def message_of_def tipc_send_def tipc_sendto_def with_bytes_def run Let_def)

text \<open>
  C27. A group message is answered once. A member sends one message of the kind it was told to; the
  member that receives it counts it under that kind and, if it asks for an answer, sends one
  unicast to the port it came from, otherwise nothing. The first member counts that answer as a
  unicast and sends nothing in return.
\<close>

theorem group_answered_once:
  assumes "length (gbuf A) = BUF_LEN" and "length (gbuf B) = BUF_LEN" and "t \<in> {BCAST, MCAST, ACAST}"
    and "2 \<le> la" and "la \<le> int BUF_LEN" and "2 \<le> lb" and "lb \<le> int BUF_LEN" and "0 < r_ret r" and "0 < r_ret s"
    and "replies w = r # rs"
    and "replies v = arrives (message_of la t reply A) a # (if reply then [s] else []) @ qs"
    and "replies u = arrives (answer_to (message_of la t reply A) lb B) b # ps"
  shows "\<exists>A' w' c B' v' ad A'' u'.
    group_send sa t reply la dst A w = (Ret A', w') \<and> calls w' = calls w @ [c] \<and> datagram c = message_of la t reply A \<and>
    group_receive sb lb B v = (Ret B', v') \<and> (\<forall>j. rcvd j B' = rcvd j B + (if j = t then 1 else 0)) \<and>
    filter hands_over (calls v') = filter hands_over (calls v) @
      (if reply then [C_sendto sb (answer_to (message_of la t reply A) lb B) 0 ad] else []) \<and> reaches_port ad a \<and>
    group_receive sa la A' u = (Ret A'', u') \<and> (\<forall>j. rcvd j A'' = rcvd j A + (if j = UCAST then 1 else 0)) \<and>
    filter hands_over (calls u') = filter hands_over (calls u)"
proof -
  let ?m = "message_of la t reply A" and ?ans = "answer_to (message_of la t reply A) lb B"
  obtain A' w' c where A': "group_send sa t reply la dst A w = (Ret A', w')" "calls w' = calls w @ [c]"
    "datagram c = ?m" "length (gbuf A') = BUF_LEN" "\<forall>j. rcvd j A' = rcvd j A"
    using message_sent [OF assms(1,3-5,10,8), of sa reply dst] by blast
  note m = message_of_header [OF assms(1,4,5), of t reply]
  have t: "t \<noteq> NONE" using assms(3) by auto
  from message_received [OF assms(2) m(3,4,1) _ assms(7) _ assms(9), of v a qs sb, unfolded m(2)] assms(6,11) t
  obtain B' v' ad where B': "group_receive sb lb B v = (Ret B', v')" "reaches_port ad a"
    "filter hands_over (calls v') = filter hands_over (calls v) @ (if reply then [C_sendto sb ?ans 0 ad] else [])"
    "\<forall>j. rcvd j B' = rcvd j B + (if j = t then 1 else 0)"
    by auto
  have "length (gbuf (B\<lparr>gbuf := recv_into (gbuf B) (msg_reply ?m)\<rparr>)) = BUF_LEN" using assms(2) by simp
  note ans = message_of_header [OF this assms(6,7), of UCAST False, folded answer_to_message]
  from message_received [OF A'(4) ans(3,4,1) _ assms(5) _ assms(8), of u b ps sa, unfolded ans(2)] assms(4,12) A'(5)
  obtain A'' u' where "group_receive sa la A' u = (Ret A'', u')"
    "filter hands_over (calls u') = filter hands_over (calls u)" "\<forall>j. rcvd j A'' = rcvd j A + (if j = UCAST then 1 else 0)"
    by auto
  with A' B' show ?thesis by blast
qed

theorem group_answered_once_witness:
  "\<exists>A' w' A'' u'. group_send 4 BCAST True 2 \<lparr>ta_type = 4711, ta_instance = 0, ta_domain = 0\<rparr> new_group_state (world_of [ok 2]) =
      (Ret A', w') \<and> length (calls w') = 1 \<and>
    group_receive 4 2 A' (world_of [arrives (answer_to (message_of 2 BCAST True new_group_state) 2 new_group_state)
      (r_addr (ok 0))]) = (Ret A'', u') \<and> rcvd UCAST A'' = 1 \<and> filter hands_over (calls u') = []"
proof -
  have new: "length (gbuf new_group_state) = BUF_LEN" "rcvd UCAST new_group_state = 0" by (simp_all add: new_group_state_def)
  let ?m = "message_of 2 BCAST True new_group_state"
  show ?thesis
    using group_answered_once [of new_group_state new_group_state BCAST 2 2 "ok 2" "ok 2" "world_of [ok 2]" "[]"
        "world_of [arrives ?m (r_addr (ok 0)), ok 2]" True "r_addr (ok 0)" "[]"
        "world_of [arrives (answer_to ?m 2 new_group_state) (r_addr (ok 0))]" "r_addr (ok 0)" "[]" 4
        "\<lparr>ta_type = 4711, ta_instance = 0, ta_domain = 0\<rparr>" 5] new
    by (auto simp: world_of_def dest!: spec [where x = UCAST])
qed

end
