(* ===== verification/Spec2Isabelle.thy ===== *)
theory Spec2Isabelle
  imports Ts_Driver Ts_Data Inv_Props Capi_Demo_Props Pipe_Props Tipclog_Props Bench_Props
  Demo_Talks Group_Props
begin

text \<open>
  A verification library for the TIPC utilities in \<^verbatim>\<open>src/\<close>: C programs that test, demonstrate and
  use TIPC sockets on Linux.

  \<^bold>\<open>How programs are modelled.\<close> \<open>Sys\<close> defines the type of programs that all components share. A
  program is a function on a world, which holds the replies that the kernel (with all peers
  behind it) is going to give and the calls made so far; its outcome is a value, the end of the
  process with a status, undefined behaviour (\<open>Fault\<close>) or waiting for ever (\<open>Blocked\<close>). A property that
  quantifies over the world holds for every behaviour of the kernel and of the peers. Buffers are
  lists of bytes of the size the source gives them, and an access outside one is a \<open>Fault\<close>, as is a
  receiving call that asks for more bytes than its buffer holds (\<open>receive\<close>); machine integers are words where they can wrap. Uninitialised variables have the arbitrary content of
  the world's stack. Loops that may run for ever are \<open>loop\<close>, with one turn more of fuel than there
  are replies left: \<open>loop_unfold\<close> shows that this is the unbounded loop, because every turn of such a
  loop uses up a reply (\<open>turns\<close>). Loops over a known range are structural recursion.

  \<open>Sys\<close> also holds the program logic: \<open>emits\<close> (the observed calls on every run that returns), \<open>answers\<close>
  (a program returns on given replies), \<open>avoids\<close> (calls that no run makes), and the collection
  \<open>run\<close> of equations that execute a program on known replies. \<open>Safe\<close> adds a logic of memory safety
  (\<open>safe\<close>: the faults and the results that are possible when the kernel keeps a given law), \<open>Doomed\<close>
  one for programs that cannot get anywhere, \<open>Counting\<close> one that relates the variables of a program to
  the number of calls it has made (\<open>counts\<close>, and \<open>visits\<close> for loops that never end). \<open>C_Prelude\<close> has the C library functions
  that the sources use (byte order, numbers in text, scanning) with their round trips, and
  \<open>Tipc_Types\<close> the address arithmetic and structures of \<^verbatim>\<open>src/tipclog/tipc.h\<close> (C1).

  \<^bold>\<open>The parts of the repository and their theories.\<close>

  \<^item> The test suite, \<^verbatim>\<open>src/ptts\<close>. A client program asks a server program to run a test by its number,
    and both run their half of it, kept in step by signals. \<open>Ts_Vector\<close>: the test vectors of
    \<^verbatim>\<open>tipc_ts_common.c\<close> (C2, C3). \<open>Ts_Common\<close>: the other common routines, and the locales \<open>ts_observer\<close> and
    \<open>signal_observer\<close>, which state what an observer must see of these routines and are
    interpreted on the observers of transfers and of signals (C4). \<open>Ts_Client\<close>, \<open>Ts_Server\<close>: the test
    routines and tables of \<^verbatim>\<open>tipc_ts_client.c\<close> and \<^verbatim>\<open>tipc_ts_server.c\<close>. \<open>Ts_Protocol\<close>: client and server as a
    transition system of two processes; the two halves of each test fit together (C5, C6).
    \<open>Ts_Driver\<close>: dispatch of the tests (C7, C8) and the agreement of the tables (\<open>tables_in_sync\<close>). \<open>Ts_Data\<close>: what single tests do with their data
    (C9 to C13), with the locale \<open>record_server\<close> for servers that take records from a stream, which is
    interpreted here and on the server of the stream demo.
  \<^item> The inventory simulation, \<^verbatim>\<open>src/demos/inventory_sim\<close>. \<open>Inv_Store\<close>: the store that the logging task
    keeps, as a transition system with its invariant (C14 to C17). \<open>Inv_Tasks\<close>: the tasks. \<open>Inv_Props\<close>:
    the logging task refines the store, and the messages between the tasks (C18 to C20).
  \<^item> The C binding, \<^verbatim>\<open>src/multicast_blast/tipcc.c\<close>: \<open>Tipcc\<close> and \<open>Tipcc_Props\<close> (C21 to C24), with the
    locale \<open>address_printer\<close> for the functions that write the text of an address to a buffer; its older
    copy in \<^verbatim>\<open>src/demos/c_api_demo/tipcc.c\<close>: \<open>Capi\<close> defines the functions that differ and compares the
    two (C31). The locale is interpreted on the text functions of both.
  \<^item> The multicast and the group blaster, \<^verbatim>\<open>src/multicast_blast/mcast_tipc.c\<close> and \<^verbatim>\<open>group_cast.c\<close>, on top of the
    C binding: \<open>Mcast\<close>, \<open>Group_Cast\<close>, \<open>Mcast_Props\<close> (C25), \<open>Group_Props\<close> (C26, C27).
  \<^item> The demonstrations of the C binding, \<^verbatim>\<open>tipc_c_api_client.c\<close>, \<^verbatim>\<open>tipc_c_api_server.c\<close> and
    \<^verbatim>\<open>tipc_c_api_top_subscr.c\<close> in \<^verbatim>\<open>src/demos/c_api_demo\<close>: \<open>Capi_Demos\<close>, \<open>Capi_Demo_Props\<close> (C28).
  \<^item> The pipe, \<^verbatim>\<open>src/tipc-pipe/tipc-pipe.c\<close>: \<open>Pipe\<close>, \<open>Pipe_Props\<close> (C32 to C34).
  \<^item> The network event logger, \<^verbatim>\<open>src/tipclog/tipclog.c\<close>: \<open>Tipclog\<close>, \<open>Tipclog_Props\<close> (C35). The calls of
    \<^verbatim>\<open>libdaemon\<close> have arbitrary replies.
  \<^item> The benchmark, \<^verbatim>\<open>src/demos/benchmark\<close>: \<open>Bench\<close> (\<^verbatim>\<open>common_tipc.h\<close> and the client program), \<open>Bench_Server\<close>,
    \<open>Bench_Props\<close> (C36, C37).
  \<^item> The small socket demos, \<^verbatim>\<open>src/demos\<close> (\<^verbatim>\<open>hello_world\<close>, \<^verbatim>\<open>connection_demo\<close>, \<^verbatim>\<open>stream_demo\<close>,
    \<^verbatim>\<open>multicast_demo\<close>, \<^verbatim>\<open>topology_subscr_demo\<close>, \<^verbatim>\<open>iov_control\<close>): \<open>Demos\<close>, \<open>Demo_Props\<close> (C38), which uses the
    lemmas of \<open>Ts_Data\<close>, and \<open>Demo_Talks\<close> (C29, C39, C40) with the locale \<open>text_server\<close>, interpreted on the servers of
    the multicast and of the connection demo.

  This theory holds what spans the components: where the clients of the topology server fault, and
  where they do not (C30).

  \<^bold>\<open>What the properties show.\<close> Round trips: addresses, test vectors, test numbers, transaction texts,
  the stream test, numbered messages of the pipe, the hello world demo. What a stream or a queue of messages
  gives to a receiving call is defined once (\<open>served\<close>, \<open>queued\<close> in \<open>Ts_Data\<close>), and the properties about them (C10,
  C12, C38) state that the replies of the run are just these for the calls that were made. Protocols: the sanity tests never deadlock and
  pass together, the logging task refines the store, the clients and servers of the benchmark
  transfer the same messages, the stream demo completes, every server of the multicast demo gets its
  messages and ends, the members of a group answer each other once. Invariants: the books of the store balance, the
  counters of the group blaster are exact. Verdicts: the receivers of the test suite and of the multicast blaster judge what
  arrived correctly. Memory safety: the event logger faults only for descriptors that its set cannot hold, and the
  pipe never leaves its buffer, which keeps its size through every operation. Where the code does not do what it means to, a theorem states what it does
  instead: a null pointer called for test number 0 (C8), rates that wrap around (C13), a second
  kill that closes the store again (C17), a buffer that a reply overruns (C20), a closed
  descriptor returned as a success (C22), returned messages without data (C23), a byte written
  behind a buffer (C24) with the consequence that no program built on the C binding gets to its
  messages without leaving an array (C28), a null pointer printed (C30), a table left by its index (C32), input written to a stray descriptor (C34), and an event logger
  that stops listening to signals (C35).

  \<^bold>\<open>Simplifications.\<close> Integers of type \<^verbatim>\<open>int\<close> are unbounded where the source's values cannot reach
  the bounds. Verbose output and traces are left out; printed tables are modelled by their values
  without padding and frames. The set of descriptors given to \<^verbatim>\<open>select\<close> is a list, and that a descriptor
  must have a bit in it is modelled for the event logger only. A buffer that could not be allocated is an empty
  one: a receiving call with it is a \<open>Fault\<close>, where the kernel would refuse it. Command lines are given as the options that \<^verbatim>\<open>getopt\<close> finds.

  \<^bold>\<open>Not modelled.\<close> The functions of the benchmark under \<^verbatim>\<open>DEBUG\<close>, which is 0, and
  \<^verbatim>\<open>acceptPeerSocketTIPC\<close> of the test suite, which is under \<^verbatim>\<open>#if 0\<close>; \<^verbatim>\<open>tipc_printaddr\<close> and \<^verbatim>\<open>timestamp\<close>, which only
  trace; the scripts, manual pages and build files, which are not C.
\<close>

section \<open>The clients of the topology server\<close>

text \<open>
  C30. Where the two programs that live on what the topology server tells them go wrong, and
  where not. The event logger, once it is connected and has subscribed, faults if and only if its
  topology socket or its signal descriptor has no bit in the set that it gives to select, because
  it is negative or not below 1024; this is if the kernel terminates the link names that it hands
  out, and whatever calls fail and in whatever order events and signals arrive. The topology client
  of the pipe, when it waits for ever, prints a line for each of the three kinds of events. As
  soon as the connection ends or fails it prints the name of an event 0, a null pointer.
\<close>

theorem topology_clients_memory:
  assumes "logger_set_up w s g rs" and "topsrv_sd st = 0" and "\<forall>r \<in> set rs. terminated_name r"
    and "replies v = [sk, co, su] @ es @ rest" and "\<forall>r \<in> set es. known_event r"
    and "rest = [] \<or> r_ret (hd rest) \<le> 0"
    and "subscr = \<lparr>sub_seq = \<lparr>seq_type = htonl (of_int (server_type c)), seq_lower = htonl (of_int lower),
                        seq_upper = htonl (of_int upper)\<rparr>,
           sub_timeout = htonl TIPC_WAIT_FOREVER, sub_filter = htonl TIPC_SUB_SERVICE, sub_handle = replicate 8 0\<rparr>"
  shows "((\<exists>e. fst (tipc_event_logger st w) = Fault e) \<longleftrightarrow>
      \<not> (0 \<le> r_ret s \<and> r_ret s < 1024 \<and> 0 \<le> r_ret g \<and> r_ret g < 1024)) \<and>
    run_topology_client c lower upper TIPC_WAIT_FOREVER v =
      (if rest = [] then Blocked else Fault Null_string,
       v\<lparr>replies := tl rest, calls := calls v @
         [C_socket AF_TIPC SOCK_SEQPACKET 0,
          C_connect (r_ret sk) (tipc_addr_set TIPC_ADDR_NAME TIPC_TOP_SRV TIPC_TOP_SRV 0),
          C_send_subscr (r_ret sk) subscr] @
         concat (map (\<lambda>r. [C_recv_event (r_ret sk), C_print (event_line r)]) es) @ [C_recv_event (r_ret sk)]\<rparr>)"
proof
  show "(\<exists>e. fst (tipc_event_logger st w) = Fault e) \<longleftrightarrow>
      \<not> (0 \<le> r_ret s \<and> r_ret s < 1024 \<and> 0 \<le> r_ret g \<and> r_ret g < 1024)"
    using logger_faults [OF assms(1-3)] by blast
  let ?v = "v\<lparr>replies := es @ rest, calls := calls v @ [C_socket AF_TIPC SOCK_SEQPACKET 0,
      C_connect (r_ret sk) (tipc_addr_set TIPC_ADDR_NAME TIPC_TOP_SRV TIPC_TOP_SRV 0), C_send_subscr (r_ret sk) subscr]\<rparr>"
  have "loop (topology_turn (r_ret sk) TIPC_WAIT_FOREVER) () ?v = (if rest = [] then Blocked else Fault Null_string,
      ?v\<lparr>replies := tl rest, calls := calls ?v @
        concat (map (\<lambda>r. [C_recv_event (r_ret sk), C_print (event_line r)]) es) @ [C_recv_event (r_ret sk)]\<rparr>)"
    using assms(5,6) by (intro topology_loop) simp_all
  moreover have "run_topology_client c lower upper TIPC_WAIT_FOREVER v =
      and_then (loop (topology_turn (r_ret sk) TIPC_WAIT_FOREVER) ()) (\<lambda>retval. and_then (sys (C_close (r_ret sk))) (\<lambda>_. ret retval)) ?v"
    using assms(4,7) by (simp add: run_topology_client_def run Let_def)
  ultimately show "run_topology_client c lower upper TIPC_WAIT_FOREVER v =
      (if rest = [] then Blocked else Fault Null_string,
       v\<lparr>replies := tl rest, calls := calls v @
         [C_socket AF_TIPC SOCK_SEQPACKET 0,
          C_connect (r_ret sk) (tipc_addr_set TIPC_ADDR_NAME TIPC_TOP_SRV TIPC_TOP_SRV 0),
          C_send_subscr (r_ret sk) subscr] @
         concat (map (\<lambda>r. [C_recv_event (r_ret sk), C_print (event_line r)]) es) @ [C_recv_event (r_ret sk)]\<rparr>)"
    by (auto simp: and_then_def)
qed

theorem topology_clients_memory_witness:
  "let st = \<lparr>topsrv_sd = 0, log_own_node = 0\<rparr>;
       up = (ok sizeof_event)\<lparr>r_event := (r_event (ok 0))\<lparr>ev_event := htonl TIPC_PUBLISHED\<rparr>\<rparr> in
   \<not> (\<exists>e. fst (tipc_event_logger st (world_of [ok 3, ok 0, ok 0, ok sizeof_subscr, ok sizeof_subscr, ok 0, ok 4])) = Fault e) \<and>
   (\<exists>e. fst (tipc_event_logger st (world_of [ok 1024, ok 0, ok 0, ok sizeof_subscr, ok sizeof_subscr, ok 0, ok 4])) = Fault e) \<and>
   fst (run_topology_client default_conf 0 9 TIPC_WAIT_FOREVER (world_of [ok 3, ok 0, ok 28, up, ok 0])) = Fault Null_string"
proof -
  define up where "up = (ok sizeof_event)\<lparr>r_event := (r_event (ok 0))\<lparr>ev_event := htonl TIPC_PUBLISHED\<rparr>\<rparr>"
  let ?w = "\<lambda>n. world_of [ok n, ok 0, ok 0, ok sizeof_subscr, ok sizeof_subscr, ok 0, ok 4]"
  let ?v = "world_of [ok 3, ok 0, ok 28, up, ok 0]" and ?st = "\<lparr>topsrv_sd = 0, log_own_node = 0\<rparr>"
  have w: "logger_set_up (?w n) (ok n) (ok 4) []" if "n \<noteq> 0" for n
    using that by (simp add: logger_set_up_def world_of_def)
  have v: "topsrv_sd ?st = 0" "\<forall>r \<in> set []. terminated_name r" "replies ?v = [ok 3, ok 0, ok 28] @ [up] @ [ok 0]"
    "\<forall>r \<in> set [up]. known_event r" "[ok 0] = [] \<or> r_ret (hd [ok 0]) \<le> 0"
    by (simp_all add: world_of_def known_event_def up_def)
  note clients = topology_clients_memory [OF w v refl, of _ default_conf 0 9]
  show ?thesis
    unfolding Let_def up_def [symmetric] using clients [of 3] clients [of 1024] by simp
qed

end
